(* ===== verification/Lru_Cache.thy ===== *)
theory Lru_Cache
  imports Svm_Prelude
begin

text \<open>
  The interface of the \<open>lru\<close> crate's \<open>LruCache\<close>, which the transaction history, the
  resident program store and the RPC fork source are built on. The crate is not part of the
  repository: its operations are a record of functions, and the locale \<open>lru\<close> states its
  documented behaviour through two views, the entries from most to least recently used and
  the capacity. \<open>list_lru\<close> is an executable implementation of that interface.
\<close>

section \<open>Interface\<close>

record ('c, 'k, 'v) lru_ops =
  lru_new :: "nat \<Rightarrow> 'c"
  lru_get :: "'c \<Rightarrow> 'k \<Rightarrow> 'v option \<times> 'c"
  lru_peek :: "'c \<Rightarrow> 'k \<Rightarrow> 'v option"
  lru_put :: "'c \<Rightarrow> 'k \<Rightarrow> 'v \<Rightarrow> 'c"
  lru_pop :: "'c \<Rightarrow> 'k \<Rightarrow> 'c"
  lru_len :: "'c \<Rightarrow> nat"
  lru_clear :: "'c \<Rightarrow> 'c"
  lru_resize :: "'c \<Rightarrow> nat \<Rightarrow> 'c"

definition del_key :: "'k \<Rightarrow> ('k \<times> 'v) list \<Rightarrow> ('k \<times> 'v) list" where
  "del_key k kvs = filter (\<lambda>p. fst p \<noteq> k) kvs"

lemma map_of_del_key: "map_of (del_key k kvs) k' = (if k' = k then None else map_of kvs k')"
  by (induction kvs) (auto simp: del_key_def)

lemma keys_del_key: "map fst (del_key k kvs) = filter (\<lambda>x. x \<noteq> k) (map fst kvs)"
  by (induction kvs) (auto simp: del_key_def)

lemma distinct_del_key: "distinct (map fst kvs) \<Longrightarrow> distinct (map fst (del_key k kvs))"
  by (simp add: keys_del_key)

lemma length_del_key_le: "length (del_key k kvs) \<le> length kvs"
  by (simp add: del_key_def)

lemma length_del_key_less: "map_of kvs k = Some v \<Longrightarrow> length (del_key k kvs) < length kvs"
  unfolding del_key_def by (rule length_filter_less [of "(k, v)"]) (auto dest: map_of_SomeD)

locale lru =
  fixes ops :: "('c, 'k, 'v) lru_ops"
    and ents :: "'c \<Rightarrow> ('k \<times> 'v) list"
    and cap :: "'c \<Rightarrow> nat"
  assumes new_ents: "0 < n \<Longrightarrow> ents (lru_new ops n) = []"
    and new_cap: "0 < n \<Longrightarrow> cap (lru_new ops n) = n"
    and peek: "lru_peek ops c k = map_of (ents c) k"
    and get_val: "fst (lru_get ops c k) = map_of (ents c) k"
    and get_ents: "ents (snd (lru_get ops c k)) =
          (case map_of (ents c) k of None \<Rightarrow> ents c | Some v \<Rightarrow> (k, v) # del_key k (ents c))"
    and get_cap: "cap (snd (lru_get ops c k)) = cap c"
    and put_ents: "ents (lru_put ops c k v) = take (cap c) ((k, v) # del_key k (ents c))"
    and put_cap: "cap (lru_put ops c k v) = cap c"
    and pop_ents: "ents (lru_pop ops c k) = del_key k (ents c)"
    and pop_cap: "cap (lru_pop ops c k) = cap c"
    and len: "lru_len ops c = length (ents c)"
    and clear_ents: "ents (lru_clear ops c) = []"
    and clear_cap: "cap (lru_clear ops c) = cap c"
    and resize_ents: "0 < n \<Longrightarrow> ents (lru_resize ops c n) = take n (ents c)"
    and resize_cap: "0 < n \<Longrightarrow> cap (lru_resize ops c n) = n"
begin

lemmas views = new_ents new_cap peek get_val get_ents get_cap put_ents put_cap pop_ents
  pop_cap len clear_ents clear_cap resize_ents resize_cap

definition invar :: "'c \<Rightarrow> bool" where
  "invar c \<longleftrightarrow> distinct (map fst (ents c)) \<and> length (ents c) \<le> cap c \<and> 0 < cap c"

lemma invar_new: "0 < n \<Longrightarrow> invar (lru_new ops n)"
  by (simp add: invar_def views)

lemma invar_put: "invar c \<Longrightarrow> invar (lru_put ops c k v)"
proof -
  assume "invar c"
  then have "distinct (map fst ((k, v) # del_key k (ents c)))" and "0 < cap c"
    by (auto simp: invar_def keys_del_key)
  then show ?thesis
    by (simp add: invar_def views take_map [symmetric] del: take_map)
qed

lemma invar_get: "invar c \<Longrightarrow> invar (snd (lru_get ops c k))"
proof (cases "map_of (ents c) k")
  case (Some v)
  assume "invar c"
  moreover from Some have "length (del_key k (ents c)) < length (ents c)"
    by (rule length_del_key_less)
  ultimately show ?thesis
    using Some by (simp add: invar_def views keys_del_key)
qed (simp add: invar_def views)

lemma invar_pop: "invar c \<Longrightarrow> invar (lru_pop ops c k)"
  by (auto simp: invar_def views keys_del_key intro: le_trans [OF length_del_key_le])

lemma invar_clear: "invar c \<Longrightarrow> invar (lru_clear ops c)"
  by (simp add: invar_def views)

lemma invar_resize: "invar c \<Longrightarrow> 0 < n \<Longrightarrow> invar (lru_resize ops c n)"
  by (simp add: invar_def views take_map [symmetric] del: take_map)

lemmas invar_intros = invar_new invar_put invar_get invar_pop invar_clear invar_resize

lemma put_then_peek: "invar c \<Longrightarrow> lru_peek ops (lru_put ops c k v) k = Some v"
  by (cases "cap c") (simp_all add: invar_def views)

lemma put_keys: "map fst (ents (lru_put ops c k v)) =
    take (cap c) (k # filter (\<lambda>x. x \<noteq> k) (map fst (ents c)))"
  by (cases "cap c") (simp_all add: views keys_del_key take_map [symmetric] del: take_map)

end

section \<open>A list implementation\<close>

record ('k, 'v) list_lru =
  l_cap :: nat
  l_ents :: "('k \<times> 'v) list"

definition list_lru_ops :: "(('k, 'v) list_lru, 'k, 'v) lru_ops" where
  "list_lru_ops =
     \<lparr>lru_new = (\<lambda>n. \<lparr>l_cap = n, l_ents = []\<rparr>),
      lru_get = (\<lambda>c k. case map_of (l_ents c) k of
          None \<Rightarrow> (None, c)
        | Some v \<Rightarrow> (Some v, c\<lparr>l_ents := (k, v) # del_key k (l_ents c)\<rparr>)),
      lru_peek = (\<lambda>c k. map_of (l_ents c) k),
      lru_put = (\<lambda>c k v. c\<lparr>l_ents := take (l_cap c) ((k, v) # del_key k (l_ents c))\<rparr>),
      lru_pop = (\<lambda>c k. c\<lparr>l_ents := del_key k (l_ents c)\<rparr>),
      lru_len = (\<lambda>c. length (l_ents c)),
      lru_clear = (\<lambda>c. c\<lparr>l_ents := []\<rparr>),
      lru_resize = (\<lambda>c n. c\<lparr>l_cap := n, l_ents := take n (l_ents c)\<rparr>)\<rparr>"

interpretation list_lru: lru list_lru_ops l_ents l_cap
  by unfold_locales (simp_all add: list_lru_ops_def split: option.splits)

end
