(* ===== verification/Svm_Base.thy ===== *)
theory Svm_Base
  imports Svm_Prelude
begin

text \<open>
  Data shared by every component: account addresses, accounts, the error values of the
  Solana crates that the sources construct or match, and the account source trait of
  \<^verbatim>\<open>account_source.rs\<close>. Addresses are compared and never computed with, so an address is a
  datatype with one constructor per well-known id the sources name and \<open>Pubkey\<close> for all
  others. \<open>SystemProgram\<close> is also \<open>Address::default()\<close>, the all-zero key.
\<close>

section \<open>Addresses and accounts\<close>

datatype address =
    SystemProgram | NativeLoader | BpfLoader | BpfLoaderDeprecated | BpfLoaderUpgradeable
  | LoaderV4 | AddressLookupTableProgram | Incinerator | SysvarOwner | InstructionsSysvar
  | ClockSysvar | EpochRewardsSysvar | EpochScheduleSysvar | FeesSysvar
  | LastRestartSlotSysvar | RecentBlockhashesSysvar | RentSysvar | SlotHashesSysvar
  | SlotHistorySysvar | StakeHistorySysvar
  | Ed25519Program | Secp256k1Program | Secp256r1Program | ComputeBudgetProgram
  | VoteProgram | StakeProgram | ConfigProgram | TokenProgram | Token2022Program
  | Pubkey nat

abbreviation default_address :: address where
  "default_address \<equiv> SystemProgram"

text \<open>
  A total order on addresses, through an injective numbering; it makes the library's
  sorted enumerations of finite sets available for address sets.
\<close>

definition well_known :: "address list" where
  "well_known =
     [SystemProgram, NativeLoader, BpfLoader, BpfLoaderDeprecated, BpfLoaderUpgradeable,
      LoaderV4, AddressLookupTableProgram, Incinerator, SysvarOwner, InstructionsSysvar,
      ClockSysvar, EpochRewardsSysvar, EpochScheduleSysvar, FeesSysvar,
      LastRestartSlotSysvar, RecentBlockhashesSysvar, RentSysvar, SlotHashesSysvar,
      SlotHistorySysvar, StakeHistorySysvar,
      Ed25519Program, Secp256k1Program, Secp256r1Program, ComputeBudgetProgram,
      VoteProgram, StakeProgram, ConfigProgram, TokenProgram, Token2022Program]"

fun address_index :: "address \<Rightarrow> nat" where
  "address_index SystemProgram = 0" | "address_index NativeLoader = 1"
| "address_index BpfLoader = 2" | "address_index BpfLoaderDeprecated = 3"
| "address_index BpfLoaderUpgradeable = 4" | "address_index LoaderV4 = 5"
| "address_index AddressLookupTableProgram = 6" | "address_index Incinerator = 7"
| "address_index SysvarOwner = 8" | "address_index InstructionsSysvar = 9"
| "address_index ClockSysvar = 10" | "address_index EpochRewardsSysvar = 11"
| "address_index EpochScheduleSysvar = 12" | "address_index FeesSysvar = 13"
| "address_index LastRestartSlotSysvar = 14" | "address_index RecentBlockhashesSysvar = 15"
| "address_index RentSysvar = 16" | "address_index SlotHashesSysvar = 17"
| "address_index SlotHistorySysvar = 18" | "address_index StakeHistorySysvar = 19"
| "address_index Ed25519Program = 20" | "address_index Secp256k1Program = 21"
| "address_index Secp256r1Program = 22" | "address_index ComputeBudgetProgram = 23"
| "address_index VoteProgram = 24" | "address_index StakeProgram = 25"
| "address_index ConfigProgram = 26" | "address_index TokenProgram = 27"
| "address_index Token2022Program = 28" | "address_index (Pubkey n) = 29 + n"

lemma address_index_inverse:
  "(if address_index a < 29 then well_known ! address_index a else Pubkey (address_index a - 29)) = a"
  by (cases a) (simp_all add: well_known_def)

lemma address_index_inject: "address_index a = address_index b \<longleftrightarrow> a = b"
  by (metis address_index_inverse)

instantiation address :: linorder
begin

definition less_eq_address :: "address \<Rightarrow> address \<Rightarrow> bool" where
  "a \<le> b \<longleftrightarrow> address_index a \<le> address_index b"

definition less_address :: "address \<Rightarrow> address \<Rightarrow> bool" where
  "a < b \<longleftrightarrow> address_index a < address_index b"

instance
  by intro_classes (auto simp: less_eq_address_def less_address_def address_index_inject)

end

record account =
  lamports :: u64
  data :: bytes
  owner :: address
  executable :: bool
  rent_epoch :: u64

definition default_account :: account where
  "default_account =
     \<lparr>lamports = 0, data = [], owner = default_address, executable = False, rent_epoch = 0\<rparr>"

type_synonym overlay = "address \<rightharpoonup> account"

section \<open>Errors of the Solana crates\<close>

text \<open>Constructors the sources name; every other value of the crates' enums is \<open>Other\<close>.\<close>

datatype instruction_error =
    InvalidAccountData | IncorrectProgramId | MissingAccount | InvalidArgument
  | UnsupportedProgramId | AccountDataTooSmall | Custom u32 | OtherInstructionError nat

datatype transaction_error =
    AccountNotFound | ProgramAccountNotFound | InvalidAccountForFee
  | InsufficientFundsForFee | InsufficientFundsForRent u8 | InvalidProgramForExecution
  | SanitizeFailure | AlreadyProcessed | BlockhashNotFound | UnsupportedVersion
  | AccountLoadedTwice | TooManyAccountLocks | AddressLookupTableNotFound
  | InvalidAddressLookupTableOwner | InvalidAddressLookupTableData
  | InvalidAddressLookupTableIndex | SignatureFailure | UnbalancedTransaction
  | MaxLoadedAccountsDataSizeExceeded
  | InstructionError u8 instruction_error | OtherTransactionError nat

section \<open>Account sources\<close>

datatype account_source_error_kind = Unavailable | InvalidResponse | OtherKind

record account_source_error =
  kind :: account_source_error_kind
  message :: string

definition source_error_new :: "string \<Rightarrow> account_source_error" where
  "source_error_new msg = \<lparr>kind = Unavailable, message = msg\<rparr>"

definition source_error_with_kind ::
    "account_source_error_kind \<Rightarrow> string \<Rightarrow> account_source_error" where
  "source_error_with_kind k msg = \<lparr>kind = k, message = msg\<rparr>"

record account_source =
  source_get_account :: "address \<Rightarrow> account_source_error + account option"
  source_get_accounts :: "address list \<Rightarrow> account_source_error + account option list"

text \<open>The trait's provided method.\<close>

definition default_get_accounts ::
    "(address \<Rightarrow> account_source_error + account option) \<Rightarrow>
     address list \<Rightarrow> account_source_error + account option list" where
  "default_get_accounts get pubkeys = collect_results (map get pubkeys)"

definition empty_account_source :: account_source where
  "empty_account_source =
     (let get = (\<lambda>_. Inr None)
      in \<lparr>source_get_account = get, source_get_accounts = default_get_accounts get\<rparr>)"

text \<open>
  The contract of the trait: the batched read agrees with the single reads. Sources that
  do not override the provided method satisfy it by construction.
\<close>

locale batched_source =
  fixes src :: account_source
  assumes batched:
    "source_get_accounts src ks = collect_results (map (source_get_account src) ks)"
begin

lemma batch_hit:
  assumes "source_get_accounts src ks = Inr vs" and "i < length ks"
  shows "length vs = length ks" and "source_get_account src (ks ! i) = Inr (vs ! i)"
proof -
  from assms(1) have eq: "map (source_get_account src) ks = map Inr vs"
    by (simp add: batched collect_results_Inr_iff)
  then show "length vs = length ks" by (metis length_map)
  with eq assms(2) show "source_get_account src (ks ! i) = Inr (vs ! i)"
    by (metis nth_map)
qed

lemma batch_Inr_zip:
  assumes "source_get_accounts src ks = Inr vs" and "(k, v) \<in> set (zip ks vs)"
  shows "source_get_account src k = Inr v"
  using assms batch_hit by (metis in_set_zip prod.sel)

end

lemma default_source_batched:
  "source_get_accounts src = default_get_accounts (source_get_account src) \<Longrightarrow>
   batched_source src"
  by unfold_locales (simp add: default_get_accounts_def)

interpretation empty_src: batched_source empty_account_source
  by (rule default_source_batched) (simp add: empty_account_source_def Let_def)

end
