(* ===== verification/Fork_Source.thy ===== *)
theory Fork_Source
  imports Lru_Cache Svm_Base
begin

text \<open>
  The read-through account source of \<^verbatim>\<open>fork.rs\<close>: an LRU cache of fetched accounts with a
  time-to-live in front of an RPC endpoint. The clock reading (\<open>Instant::now\<close>) and the
  endpoint are parameters; the endpoint may answer differently at different times.
\<close>

section \<open>Definitions\<close>

record cached_account =
  fetched_at :: nat
  cached :: account

record 'c rpc_fork_source =
  fork_slot :: u64
  fork_cache :: 'c
  fork_ttl :: nat
  cache_hits :: u64
  cache_misses :: u64

type_synonym rpc_client = "nat \<Rightarrow> address \<Rightarrow> string + account option"

record fork_builder =
  b_slot :: "u64 option"
  b_max_capacity :: "nat option"
  b_ttl :: "nat option"

definition default_max_capacity :: nat where
  "default_max_capacity = 10000"

definition default_ttl :: nat where
  "default_ttl = 3600 * 1000000000"

definition fork_build ::
    "('c, address, cached_account) lru_ops \<Rightarrow> fork_builder \<Rightarrow> 'c rpc_fork_source" where
  "fork_build ops b =
     (let requested = unwrap_or default_max_capacity (b_max_capacity b);
          max_capacity = (if requested = 0 then 1 else requested)
      in \<lparr>fork_slot = unwrap_or 0 (b_slot b),
          fork_cache = lru_new ops max_capacity,
          fork_ttl = unwrap_or default_ttl (b_ttl b),
          cache_hits = 0, cache_misses = 0\<rparr>)"

definition account_cache_get ::
    "('c, address, cached_account) lru_ops \<Rightarrow> nat \<Rightarrow> nat \<Rightarrow> 'c \<Rightarrow> address
      \<Rightarrow> account option \<times> 'c" where
  "account_cache_get ops ttl now c pubkey =
     (case lru_get ops c pubkey of
        (None, c') \<Rightarrow> (None, c')
      | (Some entry, c') \<Rightarrow>
          (if ttl \<le> now - fetched_at entry then (None, lru_pop ops c' pubkey)
           else (Some (cached entry), c')))"

definition account_cache_insert ::
    "('c, address, cached_account) lru_ops \<Rightarrow> nat \<Rightarrow> 'c \<Rightarrow> address \<Rightarrow> account \<Rightarrow> 'c" where
  "account_cache_insert ops now c pubkey acc =
     lru_put ops c pubkey \<lparr>fetched_at = now, cached = acc\<rparr>"

definition fetch_account ::
    "rpc_client \<Rightarrow> nat \<Rightarrow> address \<Rightarrow> account_source_error + account option" where
  "fetch_account client now pubkey = map_err source_error_new (client now pubkey)"

definition fork_get_account ::
    "('c, address, cached_account) lru_ops \<Rightarrow> rpc_client \<Rightarrow> nat \<Rightarrow> 'c rpc_fork_source \<Rightarrow> address
      \<Rightarrow> (account_source_error + account option) \<times> 'c rpc_fork_source" where
  "fork_get_account ops client now src pubkey =
     (case account_cache_get ops (fork_ttl src) now (fork_cache src) pubkey of
        (Some acc, c) \<Rightarrow>
          (Inr (Some acc), src\<lparr>fork_cache := c, cache_hits := cache_hits src + 1\<rparr>)
      | (None, c) \<Rightarrow>
          let src' = src\<lparr>fork_cache := c, cache_misses := cache_misses src + 1\<rparr>
          in (case fetch_account client now pubkey of
                Inl e \<Rightarrow> (Inl e, src')
              | Inr None \<Rightarrow> (Inr None, src')
              | Inr (Some acc) \<Rightarrow>
                  (Inr (Some acc),
                   src'\<lparr>fork_cache := account_cache_insert ops now c pubkey acc\<rparr>)))"

text \<open>A run: reads at successive clock readings.\<close>

fun fork_reads ::
    "('c, address, cached_account) lru_ops \<Rightarrow> rpc_client \<Rightarrow> (nat \<times> address) list
      \<Rightarrow> 'c rpc_fork_source \<Rightarrow> 'c rpc_fork_source" where
  "fork_reads ops client [] src = src"
| "fork_reads ops client ((now, k) # rs) src =
     fork_reads ops client rs (snd (fork_get_account ops client now src k))"

section \<open>Staleness\<close>

text \<open>
  Every cached account was answered by the endpoint when it was fetched, by one of the
  reads of \<open>R\<close> (pairs of clock reading and address).
\<close>

definition genuine ::
    "rpc_client \<Rightarrow> (nat \<times> address) set \<Rightarrow> (address \<times> cached_account) list \<Rightarrow> bool" where
  "genuine client R es \<longleftrightarrow>
     (\<forall>k ca. (k, ca) \<in> set es \<longrightarrow>
        (fetched_at ca, k) \<in> R \<and> client (fetched_at ca) k = Inr (Some (cached ca)))"

lemma genuine_del_key: "genuine client R es \<Longrightarrow> genuine client R (del_key k es)"
  by (auto simp: genuine_def del_key_def)

lemma genuine_take: "genuine client R es \<Longrightarrow> genuine client R (take n es)"
  by (auto simp: genuine_def dest: in_set_takeD)

lemma genuine_Cons:
  "genuine client R ((k, ca) # es) \<longleftrightarrow>
     (fetched_at ca, k) \<in> R \<and> client (fetched_at ca) k = Inr (Some (cached ca)) \<and>
     genuine client R es"
  by (auto simp: genuine_def)

lemma genuine_map_of: "genuine client R es \<Longrightarrow> map_of es k = Some ca \<Longrightarrow>
    (fetched_at ca, k) \<in> R \<and> client (fetched_at ca) k = Inr (Some (cached ca))"
  by (auto simp: genuine_def dest: map_of_SomeD)

lemma genuine_mono: "genuine client R es \<Longrightarrow> R \<subseteq> R' \<Longrightarrow> genuine client R' es"
  by (auto simp: genuine_def)

locale fork_client = lru ops ents cap
  for ops :: "('c, address, cached_account) lru_ops" and ents cap +
  fixes client :: rpc_client
begin

lemma genuine_get:
  "genuine client R (ents c) \<Longrightarrow> genuine client R (ents (snd (lru_get ops c k)))"
  by (auto simp: get_ents genuine_Cons genuine_del_key genuine_map_of split: option.splits)

lemma genuine_cache_get:
  "genuine client R (ents c) \<Longrightarrow>
     genuine client R (ents (snd (account_cache_get ops ttl now c k)))"
  using genuine_get [of R c k]
  by (auto simp: account_cache_get_def pop_ents genuine_del_key split: prod.splits option.splits)

lemma genuine_insert:
  "genuine client R (ents c) \<Longrightarrow> client now k = Inr (Some acc) \<Longrightarrow> (now, k) \<in> R \<Longrightarrow>
     genuine client R (ents (account_cache_insert ops now c k acc))"
  unfolding account_cache_insert_def put_ents
  by (rule genuine_take) (simp add: genuine_Cons genuine_del_key)

lemma genuine_read:
  "genuine client R (ents (fork_cache src)) \<Longrightarrow> (now, k) \<in> R \<Longrightarrow>
     genuine client R (ents (fork_cache (snd (fork_get_account ops client now src k))))"
  using genuine_cache_get [of R "fork_cache src" "fork_ttl src" now k]
  by (auto simp: fork_get_account_def fetch_account_def Let_def genuine_insert
      split: prod.splits option.splits sum.splits)

lemma genuine_reads:
  "genuine client R (ents (fork_cache src)) \<Longrightarrow> set rs \<subseteq> R \<Longrightarrow>
     genuine client R (ents (fork_cache (fork_reads ops client rs src)))"
  by (induction rs arbitrary: src) (auto simp: genuine_read)

lemma cache_get_Some:
  assumes "fst (account_cache_get ops ttl now c k) = Some acc"
  shows "\<exists>ca. map_of (ents c) k = Some ca \<and> now - fetched_at ca < ttl \<and> cached ca = acc"
  using assms get_val [of c k]
  by (auto simp: account_cache_get_def split: prod.splits option.splits if_splits)

lemma ttl_reads: "fork_ttl (fork_reads ops client rs src) = fork_ttl src"
proof (induction rs arbitrary: src)
  case (Cons r rs)
  have "fork_ttl (snd (fork_get_account ops client now src k)) = fork_ttl src" for now k
    by (auto simp: fork_get_account_def Let_def split: prod.splits option.splits sum.splits)
  with Cons show ?case by (cases r) simp
qed simp

end

interpretation list_fork: fork_client list_lru_ops l_ents l_cap client for client
  by unfold_locales

lemma fork_clientI: "lru ops ents cap \<Longrightarrow> fork_client ops ents cap"
  by (simp add: fork_client_def)

text \<open>
  Bounded staleness of the fork source: after any sequence of reads, a read that
  answers with an account answers either with what the endpoint says now or with what it
  said to an earlier read of the same address less than one time-to-live ago; "absent" and errors always come from the endpoint now
  and are never served from the cache.
\<close>

theorem fork_read_staleness:
  assumes "lru ops ents cap"
    and "src = fork_reads ops client reads (fork_build ops b)"
  shows "case fst (fork_get_account ops client now src k) of
      Inr (Some acc) \<Rightarrow> client now k = Inr (Some acc) \<or>
        (\<exists>t. (t, k) \<in> set reads \<and> now - t < unwrap_or default_ttl (b_ttl b) \<and>
          client t k = Inr (Some acc))
    | Inr None \<Rightarrow> client now k = Inr None
    | Inl e \<Rightarrow> (\<exists>msg. client now k = Inl msg \<and> e = source_error_new msg)"
proof -
  note fc = fork_clientI [OF assms(1)]
  have ttl: "fork_ttl src = unwrap_or default_ttl (b_ttl b)"
    by (simp add: assms(2) fork_client.ttl_reads [OF fc] fork_build_def Let_def)
  have "ents (fork_cache (fork_build ops b)) = []"
    by (simp add: fork_build_def Let_def lru.new_ents [OF assms(1)])
  then have g: "genuine client (set reads) (ents (fork_cache src))"
    unfolding assms(2) by (intro fork_client.genuine_reads [OF fc]) (simp_all add: genuine_def)
  show ?thesis
  proof (cases "account_cache_get ops (fork_ttl src) now (fork_cache src) k")
    case (Pair r c)
    show ?thesis
    proof (cases r)
      case None
      with Pair show ?thesis
        by (cases "client now k")
          (auto simp: fork_get_account_def fetch_account_def Let_def split: option.splits)
    next
      case (Some acc)
      with Pair have "fst (account_cache_get ops (fork_ttl src) now (fork_cache src) k) = Some acc"
        by simp
      from fork_client.cache_get_Some [OF fc this] genuine_map_of [OF g] ttl Pair Some
      show ?thesis
        by (auto simp: fork_get_account_def)
    qed
  qed
qed

theorem fork_read_staleness_witness:
  "let acc = default_account\<lparr>lamports := 1\<rparr>;
       client = (\<lambda>t k. if t = 0 then Inr (Some acc) else Inl ''down'');
       b = \<lparr>b_slot = None, b_max_capacity = Some 0, b_ttl = Some 10\<rparr>;
       src = fork_reads list_lru_ops client [(0, Pubkey 1)] (fork_build list_lru_ops b)
   in fst (fork_get_account list_lru_ops client 9 src (Pubkey 1)) = Inr (Some acc) \<and>
      client 9 (Pubkey 1) \<noteq> Inr (Some acc) \<and>
      (\<exists>t. (t, Pubkey 1) \<in> {(0, Pubkey 1)} \<and> 9 - t < 10 \<and> client t (Pubkey 1) = Inr (Some acc))"
proof -
  let ?acc = "default_account\<lparr>lamports := 1\<rparr>"
  let ?client = "(\<lambda>t k. if t = 0 then Inr (Some ?acc) else Inl ''down'') :: rpc_client"
  let ?b = "\<lparr>b_slot = None, b_max_capacity = Some 0, b_ttl = Some 10\<rparr>"
  let ?src = "fork_reads list_lru_ops ?client [(0, Pubkey 1)] (fork_build list_lru_ops ?b)"
  have "fst (fork_get_account list_lru_ops ?client 9 ?src (Pubkey 1)) = Inr (Some ?acc)"
    by (simp add: fork_get_account_def account_cache_get_def account_cache_insert_def
        fetch_account_def fork_build_def list_lru_ops_def)
  with fork_read_staleness [OF list_lru.lru_axioms refl, where client = ?client and reads = "[(0, Pubkey 1)]" and b = ?b and now = 9 and k = "Pubkey 1"]
  show ?thesis by (auto simp: Let_def)
qed

end
