(* ===== verification/Svm_Errors.thy ===== *)
theory Svm_Errors
  imports Svm_Base
begin

text \<open>
  The layered error taxonomy of \<^verbatim>\<open>error.rs\<close> and the transaction tags of \<^verbatim>\<open>tx_registry.rs\<close>
  it mentions. \<open>AnyError\<close> holds an \<open>Arc<dyn Error>\<close>: the model is a sum over the concrete
  types the sources erase, with \<open>AnyOther\<close> for a type of the embedding application, and
  \<open>downcast_ref\<close> is the matching projection. Messages (\<open>Display\<close>) are not modelled.
\<close>

section \<open>Data\<close>

datatype tx_tag = TagLegacy | TagV0 | TagV1 | TagCustom u8

datatype invalid_sysvar_data_error =
    InvalidClock | InvalidEpochRewards | InvalidEpochSchedule | InvalidFees
  | InvalidLastRestartSlot | InvalidRecentBlockhashes | InvalidRent | InvalidSlotHashes
  | InvalidStakeHistory

datatype tx_validation_error = InvalidTx transaction_error

datatype halt_reason = HaltAlreadyProcessed | HaltTransaction transaction_error

datatype hpsvm_error =
    InvalidSysvarData invalid_sysvar_data_error
  | SysvarSerialization string string
  | Instruction instruction_error
  | InvalidPath string
  | RuntimeEnvironment string string
  | CustomSyscallRegistration string string string
  | InvalidLoader address address
  | MissingRuntimeComponent string
  | AccountSource address account_source_error
  | ProgramLoad string
  | UnknownTransactionTag tx_tag
  | Database db_error
  | Load load_error
  | Transaction tx_error
  | Execution execution_error
  | Host host_error
  | Handler any_error
and any_error =
    AnyHpsvm hpsvm_error
  | AnyAccountSource account_source_error
  | AnyDb db_error
  | AnyIo string
  | AnySysvar invalid_sysvar_data_error
  | AnyInstruction instruction_error
  | AnyPrewarmProgram address instruction_error
  | AnyOther nat
and db_error = DbError (db_inner: any_error) (db_fatal: bool)
and load_error =
    LoadAccount db_error
  | LoadProgram db_error
  | LoadSysvar db_error
and execution_error =
    ExecDatabase db_error
  | ExecAccountSource address account_source_error
  | ExecFatal any_error
  | ExecHalt halt_reason
and tx_error =
    TxValidation tx_validation_error
  | TxExecution execution_error
  | TxDatabase db_error
  | TxUnknownTag tx_tag
and host_error =
    HostHalt halt_reason
  | HostExecution execution_error

section \<open>Classification\<close>

definition db_error_is_fatal :: "db_error \<Rightarrow> bool" where
  "db_error_is_fatal e = db_fatal e"

definition db_error_from_source :: "account_source_error \<Rightarrow> db_error" where
  "db_error_from_source e = DbError (AnyAccountSource e) (kind e = Unavailable)"

definition db_error_from_io :: "string \<Rightarrow> db_error" where
  "db_error_from_io e = DbError (AnyIo e) False"

definition db_error_from_sysvar :: "invalid_sysvar_data_error \<Rightarrow> db_error" where
  "db_error_from_sysvar e = DbError (AnySysvar e) False"

definition db_error_from_instruction :: "instruction_error \<Rightarrow> db_error" where
  "db_error_from_instruction e = DbError (AnyInstruction e) False"

fun load_error_db_error :: "load_error \<Rightarrow> db_error" where
  "load_error_db_error (LoadAccount e) = e"
| "load_error_db_error (LoadProgram e) = e"
| "load_error_db_error (LoadSysvar e) = e"

definition load_error_is_fatal :: "load_error \<Rightarrow> bool" where
  "load_error_is_fatal e = db_error_is_fatal (load_error_db_error e)"

fun validation_transaction_error :: "tx_validation_error \<Rightarrow> transaction_error" where
  "validation_transaction_error (InvalidTx e) = e"

fun halt_transaction_error :: "halt_reason \<Rightarrow> transaction_error" where
  "halt_transaction_error HaltAlreadyProcessed = AlreadyProcessed"
| "halt_transaction_error (HaltTransaction e) = e"

definition halt_from_transaction_error :: "transaction_error \<Rightarrow> halt_reason" where
  "halt_from_transaction_error e =
     (case e of AlreadyProcessed \<Rightarrow> HaltAlreadyProcessed | other \<Rightarrow> HaltTransaction other)"

fun execution_error_is_fatal :: "execution_error \<Rightarrow> bool" where
  "execution_error_is_fatal (ExecDatabase e) = db_error_is_fatal e"
| "execution_error_is_fatal (ExecAccountSource pubkey src) = (kind src = Unavailable)"
| "execution_error_is_fatal (ExecFatal e) = True"
| "execution_error_is_fatal (ExecHalt r) = True"

fun execution_error_db_error :: "execution_error \<Rightarrow> db_error option" where
  "execution_error_db_error (ExecDatabase e) = Some e"
| "execution_error_db_error _ = None"

fun tx_error_is_fatal :: "tx_error \<Rightarrow> bool" where
  "tx_error_is_fatal (TxValidation e) = False"
| "tx_error_is_fatal (TxExecution e) = execution_error_is_fatal e"
| "tx_error_is_fatal (TxDatabase e) = db_error_is_fatal e"
| "tx_error_is_fatal (TxUnknownTag t) = False"

fun tx_error_transaction_error :: "tx_error \<Rightarrow> transaction_error" where
  "tx_error_transaction_error (TxUnknownTag t) = UnsupportedVersion"
| "tx_error_transaction_error (TxValidation e) = SanitizeFailure"
| "tx_error_transaction_error (TxExecution e) = SanitizeFailure"
| "tx_error_transaction_error (TxDatabase e) = SanitizeFailure"

fun host_error_is_fatal :: "host_error \<Rightarrow> bool" where
  "host_error_is_fatal (HostHalt r) = True"
| "host_error_is_fatal (HostExecution e) = execution_error_is_fatal e"

section \<open>Conversions between the layers\<close>

fun hpsvm_from_execution :: "execution_error \<Rightarrow> hpsvm_error" where
  "hpsvm_from_execution (ExecAccountSource pubkey src) = AccountSource pubkey src"
| "hpsvm_from_execution other = Execution other"

fun hpsvm_from_tx :: "tx_error \<Rightarrow> hpsvm_error" where
  "hpsvm_from_tx (TxUnknownTag tag) = UnknownTransactionTag tag"
| "hpsvm_from_tx other = Transaction other"

fun execution_from_hpsvm :: "hpsvm_error \<Rightarrow> execution_error" where
  "execution_from_hpsvm (Execution e) = e"
| "execution_from_hpsvm (Database e) = ExecDatabase e"
| "execution_from_hpsvm (AccountSource pubkey src) = ExecAccountSource pubkey src"
| "execution_from_hpsvm other = ExecFatal (AnyHpsvm other)"

section \<open>Recovery by downcast\<close>

fun downcast_hpsvm :: "any_error \<Rightarrow> hpsvm_error option" where
  "downcast_hpsvm (AnyHpsvm e) = Some e"
| "downcast_hpsvm _ = None"

fun downcast_source :: "any_error \<Rightarrow> account_source_error option" where
  "downcast_source (AnyAccountSource e) = Some e"
| "downcast_source _ = None"

fun downcast_prewarm :: "any_error \<Rightarrow> (address \<times> instruction_error) option" where
  "downcast_prewarm (AnyPrewarmProgram a e) = Some (a, e)"
| "downcast_prewarm _ = None"

section \<open>Properties\<close>

lemma halt_round_trip: "halt_transaction_error (halt_from_transaction_error e) = e"
  by (cases e) (simp_all add: halt_from_transaction_error_def)

lemma execution_from_hpsvm_other:
  assumes "\<And>x. e \<noteq> Execution x" "\<And>x. e \<noteq> Database x" "\<And>p s. e \<noteq> AccountSource p s"
  shows "execution_from_hpsvm e = ExecFatal (AnyHpsvm e)"
  using assms by (cases e) auto

text \<open>
  An execution failure survives the trip through the crate's outer error: projecting it
  onto the outer error and back returns exactly the same execution error, so neither the
  fatal classification nor the concrete cause is lost. An outer error that no execution
  variant represents is erased and recovered unchanged by downcast.
\<close>

theorem execution_error_round_trip:
  "execution_from_hpsvm (hpsvm_from_execution e) = e \<and>
   (case execution_from_hpsvm h of
      ExecFatal a \<Rightarrow> downcast_hpsvm a = Some h \<or> h = Execution (ExecFatal a)
    | ExecDatabase d \<Rightarrow> h = Database d \<or> h = Execution (ExecDatabase d)
    | ExecAccountSource p s \<Rightarrow> h = AccountSource p s \<or> h = Execution (ExecAccountSource p s)
    | ExecHalt r \<Rightarrow> h = Execution (ExecHalt r))"
proof -
  have "execution_from_hpsvm (hpsvm_from_execution e) = e"
    by (cases e) simp_all
  moreover have "case execution_from_hpsvm h of
      ExecFatal a \<Rightarrow> downcast_hpsvm a = Some h \<or> h = Execution (ExecFatal a)
    | ExecDatabase d \<Rightarrow> h = Database d \<or> h = Execution (ExecDatabase d)
    | ExecAccountSource p s \<Rightarrow> h = AccountSource p s \<or> h = Execution (ExecAccountSource p s)
    | ExecHalt r \<Rightarrow> h = Execution (ExecHalt r)"
    by (cases h) (auto split: execution_error.splits)
  ultimately show ?thesis by blast
qed

text \<open>
  The conversion of a load failure into an execution error does not keep its fatal
  classification: a load error that is not fatal (bad data, a missing file) becomes an
  erased fatal one, although the same database failure wrapped directly stays non-fatal.
\<close>

theorem load_error_becomes_fatal:
  "execution_error_is_fatal (execution_from_hpsvm (Load l)) \<and>
   (load_error_is_fatal l \<longleftrightarrow>
      execution_error_is_fatal (execution_from_hpsvm (Database (load_error_db_error l)))) \<and>
   \<not> load_error_is_fatal (LoadProgram (db_error_from_instruction InvalidAccountData))"
  by (simp add: load_error_is_fatal_def db_error_is_fatal_def db_error_from_instruction_def)

end
