(* ===== verification/Rent_State.thy ===== *)
theory Rent_State
  imports Svm_Base
begin

text \<open>
  Rent states and fee payment: \<^verbatim>\<open>utils/rent.rs\<close> and \<open>validate_fee_payer\<close> of \<^verbatim>\<open>helpers.rs\<close>.
  The Rent sysvar value of the solana-rent crate is the record of the two methods the
  sources call on it; the crate documents \<open>is_exempt\<close> as a comparison with
  \<open>minimum_balance\<close> (\<open>rent_law\<close>). The classification of a payer as a system or nonce
  account and the size of the nonce state belong to other crates and are parameters.
\<close>

section \<open>Rent states\<close>

record rent =
  minimum_balance :: "nat \<Rightarrow> u64"
  is_exempt :: "u64 \<Rightarrow> nat \<Rightarrow> bool"

definition rent_law :: "rent \<Rightarrow> bool" where
  "rent_law r \<longleftrightarrow> (\<forall>l n. is_exempt r l n = (minimum_balance r n \<le> l))"

datatype rent_state =
    Uninitialized
  | RentPaying (rp_lamports: u64) (rp_data_size: nat)
  | RentExempt

fun transition_allowed :: "rent_state \<Rightarrow> rent_state \<Rightarrow> bool" where
  "transition_allowed pre Uninitialized = True"
| "transition_allowed pre RentExempt = True"
| "transition_allowed Uninitialized (RentPaying post_lamports post_data_size) = False"
| "transition_allowed RentExempt (RentPaying post_lamports post_data_size) = False"
| "transition_allowed (RentPaying pre_lamports pre_data_size)
     (RentPaying post_lamports post_data_size) =
     (post_data_size = pre_data_size \<and> post_lamports \<le> pre_lamports)"

definition get_account_rent_state :: "rent \<Rightarrow> u64 \<Rightarrow> nat \<Rightarrow> rent_state" where
  "get_account_rent_state r account_lamports account_size =
     (if account_lamports = 0 then Uninitialized
      else if is_exempt r account_lamports account_size then RentExempt
      else RentPaying account_lamports account_size)"

definition check_rent_state_with_account ::
    "rent_state \<Rightarrow> rent_state \<Rightarrow> address \<Rightarrow> u16 \<Rightarrow> transaction_error + unit" where
  "check_rent_state_with_account pre post addr account_index =
     (if addr \<noteq> Incinerator \<and> \<not> transition_allowed pre post
      then Inl (InsufficientFundsForRent (ucast account_index))
      else Inr ())"

section \<open>Fee payment\<close>

datatype system_account_kind = SystemKind | NonceKind

definition payer_min_balance :: "nat \<Rightarrow> rent \<Rightarrow> system_account_kind \<Rightarrow> u64" where
  "payer_min_balance nonce_size r k =
     (case k of SystemKind \<Rightarrow> 0 | NonceKind \<Rightarrow> minimum_balance r nonce_size)"

text \<open>
  \<open>validate_fee_payer\<close> updates the payer in place, so the model returns it beside the
  result. The value \<open>None\<close> is the panic of the \<open>expect\<close> on the debit.
\<close>

definition validate_fee_payer ::
    "(account \<Rightarrow> system_account_kind option) \<Rightarrow> nat \<Rightarrow> address \<Rightarrow> account \<Rightarrow> u16 \<Rightarrow> rent
      \<Rightarrow> u64 \<Rightarrow> (account \<times> (transaction_error + unit)) option" where
  "validate_fee_payer kind_of nonce_size payer_address payer_account payer_index r fee =
     (if lamports payer_account = 0 then Some (payer_account, Inl AccountNotFound)
      else case kind_of payer_account of
        None \<Rightarrow> Some (payer_account, Inl InvalidAccountForFee)
      | Some k \<Rightarrow>
          (case Option.bind (checked_sub (lamports payer_account) (payer_min_balance nonce_size r k))
                  (\<lambda>v. checked_sub v fee) of
             None \<Rightarrow> Some (payer_account, Inl InsufficientFundsForFee)
           | Some _ \<Rightarrow>
               let payer_len = length (data payer_account);
                   pre = get_account_rent_state r (lamports payer_account) payer_len
               in (case checked_sub (lamports payer_account) fee of
                     None \<Rightarrow> None
                   | Some l \<Rightarrow>
                       let payer' = payer_account\<lparr>lamports := l\<rparr>;
                           post = get_account_rent_state r (lamports payer') payer_len
                       in Some (payer',
                            check_rent_state_with_account pre post payer_address payer_index))))"

section \<open>Properties\<close>

lemma transition_allowed_refl [simp]: "transition_allowed s s"
  by (cases s) auto

lemma transition_allowed_trans:
  "transition_allowed a b \<Longrightarrow> transition_allowed b c \<Longrightarrow> transition_allowed a c"
  by (cases a; cases b; cases c) auto

lemma rent_state_eq_iff:
  "get_account_rent_state r l n = Uninitialized \<longleftrightarrow> l = 0"
  "get_account_rent_state r l n = RentExempt \<longleftrightarrow> l \<noteq> 0 \<and> is_exempt r l n"
  "get_account_rent_state r l n = RentPaying l' n' \<longleftrightarrow>
     l \<noteq> 0 \<and> \<not> is_exempt r l n \<and> l' = l \<and> n' = n"
  by (auto simp: get_account_rent_state_def)

lemma check_rent_ok_iff:
  "check_rent_state_with_account pre post a i = Inr () \<longleftrightarrow>
     a = Incinerator \<or> transition_allowed pre post"
  by (auto simp: check_rent_state_with_account_def)

lemma debit_sufficient:
  "Option.bind (checked_sub l m) (\<lambda>v. checked_sub v fee) \<noteq> None \<longleftrightarrow>
     unat m + unat fee \<le> unat l"
  by (auto simp: checked_sub_def word_le_nat_alt unat_sub_if' split: if_splits)

lemma debit_never_underflows:
  assumes "unat m + unat fee \<le> unat l"
  shows "checked_sub l fee = Some (l - fee)"
  using assms by (auto simp: checked_sub_def word_le_nat_alt)

text \<open>Each branch of the function, in the order the code takes them.\<close>

lemma validate_fee_payer_cases:
  "validate_fee_payer kind_of ns addr acc i r fee =
     Some (if lamports acc = 0 then (acc, Inl AccountNotFound)
       else case kind_of acc of
         None \<Rightarrow> (acc, Inl InvalidAccountForFee)
       | Some k \<Rightarrow>
           (if unat (payer_min_balance ns r k) + unat fee \<le> unat (lamports acc)
            then (acc\<lparr>lamports := lamports acc - fee\<rparr>,
                  check_rent_state_with_account
                    (get_account_rent_state r (lamports acc) (length (data acc)))
                    (get_account_rent_state r (lamports acc - fee) (length (data acc))) addr i)
            else (acc, Inl InsufficientFundsForFee)))"
proof (cases "kind_of acc")
  case None
  then show ?thesis by (simp add: validate_fee_payer_def)
next
  case (Some k)
  let ?d = "Option.bind (checked_sub (lamports acc) (payer_min_balance ns r k))
              (\<lambda>v. checked_sub v fee)"
  show ?thesis
  proof (cases "unat (payer_min_balance ns r k) + unat fee \<le> unat (lamports acc)")
    case True
    then obtain v where "?d = Some v"
      using debit_sufficient by (metis not_None_eq)
    with True Some show ?thesis
      by (auto simp: validate_fee_payer_def Let_def debit_never_underflows [OF True])
  next
    case False
    then have "?d = None"
      using debit_sufficient by blast
    with False Some show ?thesis
      by (auto simp: validate_fee_payer_def)
  qed
qed


text \<open>
  A rent-exempt payer that is charged successfully stays rent-exempt or is emptied: the
  fee never leaves it with a balance strictly between zero and the rent minimum. Only the
  incinerator is excluded.
\<close>

theorem fee_payer_stays_rent_exempt:
  assumes "rent_law r" and "addr \<noteq> Incinerator"
    and "minimum_balance r (length (data acc)) \<le> lamports acc"
    and "validate_fee_payer kind_of ns addr acc i r fee = Some (acc', Inr ())"
  shows "lamports acc' = 0 \<or> minimum_balance r (length (data acc')) \<le> lamports acc'"
proof -
  let ?n = "length (data acc)"
  from assms(4) have post: "acc' = acc\<lparr>lamports := lamports acc - fee\<rparr>"
    and ok: "transition_allowed (get_account_rent_state r (lamports acc) ?n)
               (get_account_rent_state r (lamports acc - fee) ?n)"
    and nz: "lamports acc \<noteq> 0"
    using assms(2)
    by (auto simp: validate_fee_payer_cases check_rent_ok_iff split: option.splits if_splits)
  from assms(1,3) nz have "get_account_rent_state r (lamports acc) ?n = RentExempt"
    by (simp add: rent_law_def get_account_rent_state_def)
  with ok have "lamports acc - fee = 0 \<or> is_exempt r (lamports acc - fee) ?n"
    by (auto simp: get_account_rent_state_def split: if_splits)
  with assms(1) post show ?thesis
    by (auto simp: rent_law_def)
qed

definition example_rent :: rent where
  "example_rent =
     \<lparr>minimum_balance = (\<lambda>n. 10), is_exempt = (\<lambda>l n. 10 \<le> l)\<rparr>"

theorem fee_payer_stays_rent_exempt_witness:
  "let acc = default_account\<lparr>lamports := 50\<rparr>;
       acc' = default_account\<lparr>lamports := 45\<rparr>
   in validate_fee_payer (\<lambda>_. Some SystemKind) 80 (Pubkey 1) acc 0 example_rent 5
        = Some (acc', Inr ()) \<and>
      (lamports acc' = 0 \<or> minimum_balance example_rent (length (data acc')) \<le> lamports acc')"
proof -
  have v: "validate_fee_payer (\<lambda>_. Some SystemKind) 80 (Pubkey 1)
             (default_account\<lparr>lamports := 50\<rparr>) 0 example_rent 5
           = Some (default_account\<lparr>lamports := 45\<rparr>, Inr ())"
    by (simp add: validate_fee_payer_def checked_sub_def payer_min_balance_def default_account_def
        example_rent_def get_account_rent_state_def check_rent_state_with_account_def)
  have "rent_law example_rent"
    by (simp add: rent_law_def example_rent_def)
  then show ?thesis
    using fee_payer_stays_rent_exempt [OF _ _ _ v] v
    by (simp add: example_rent_def default_account_def)
qed

end
