(* ===== verification/Entry_Store.thy ===== *)
theory Entry_Store
  imports Lru_Cache Svm_Base
begin

text \<open>
  The process-wide resident program store of \<^verbatim>\<open>programs/entry_store.rs\<close>, keyed by the
  environment's pointer identity, the hash of the ELF bytes, the loader and the slot bucket.
  The hash function of \<open>solana-sha256-hasher\<close> is a parameter.
\<close>

section \<open>Definitions\<close>

definition program_entry_capacity :: nat where
  "program_entry_capacity = 256"

record program_entry_key =
  key_env :: nat
  key_hash :: bytes
  key_loader :: address
  key_slot_bucket :: u64

definition content_key ::
    "(bytes \<Rightarrow> bytes) \<Rightarrow> nat \<Rightarrow> bytes \<Rightarrow> address \<Rightarrow> u64 \<Rightarrow> program_entry_key" where
  "content_key sha256 env_ptr elf_bytes loader slot_bucket =
     \<lparr>key_env = env_ptr, key_hash = sha256 elf_bytes, key_loader = loader,
      key_slot_bucket = slot_bucket\<rparr>"

definition store_new :: "('st, program_entry_key, 'e) lru_ops \<Rightarrow> 'st" where
  "store_new ops = lru_new ops program_entry_capacity"

definition store_get ::
    "('st, program_entry_key, 'e) lru_ops \<Rightarrow> 'st \<Rightarrow> program_entry_key \<Rightarrow> 'e option \<times> 'st" where
  "store_get ops st key = lru_get ops st key"

definition store_insert ::
    "('st, program_entry_key, 'e) lru_ops \<Rightarrow> 'st \<Rightarrow> program_entry_key \<Rightarrow> 'e \<Rightarrow> 'e \<times> 'st" where
  "store_insert ops st key entry =
     (case lru_get ops st key of
        (Some existing, st') \<Rightarrow> (existing, st')
      | (None, st') \<Rightarrow> (entry, lru_put ops st' key entry))"

definition store_len :: "('st, program_entry_key, 'e) lru_ops \<Rightarrow> 'st \<Rightarrow> nat" where
  "store_len ops st = lru_len ops st"

inductive store_reachable :: "('st, program_entry_key, 'e) lru_ops \<Rightarrow> 'st \<Rightarrow> bool" for ops where
  created: "store_reachable ops (store_new ops)"
| looked_up: "store_reachable ops st \<Longrightarrow> store_reachable ops (snd (store_get ops st k))"
| inserted: "store_reachable ops st \<Longrightarrow> store_reachable ops (snd (store_insert ops st k e))"

section \<open>Properties\<close>

locale program_store = lru ops ents cap
  for ops :: "('st, program_entry_key, 'e) lru_ops" and ents cap
begin

lemma insert_result:
  "fst (store_insert ops st key e) = (case map_of (ents st) key of None \<Rightarrow> e | Some x \<Rightarrow> x)"
  using get_val [of st key] by (cases "lru_get ops st key") (auto simp: store_insert_def split: option.splits)

lemma invar_insert: "invar st \<Longrightarrow> invar (snd (store_insert ops st key e))"
  using invar_get [of st key]
  by (auto simp: store_insert_def split: prod.splits option.splits intro: invar_put)

lemma insert_resident:
  assumes "invar st"
  shows "map_of (ents (snd (store_insert ops st key e))) key = Some (fst (store_insert ops st key e))"
proof (cases "map_of (ents st) key")
  case None
  then obtain st' where g: "lru_get ops st key = (None, st')"
    using get_val [of st key] by (cases "lru_get ops st key") simp
  with invar_get [OF assms, of key] have "invar st'" by simp
  then have "lru_peek ops (lru_put ops st' key e) key = Some e" by (rule put_then_peek)
  with g show ?thesis by (simp add: store_insert_def peek)
next
  case (Some x)
  then obtain st' where "lru_get ops st key = (Some x, st')"
    using get_val [of st key] by (cases "lru_get ops st key") simp
  with Some get_ents [of st key] show ?thesis by (simp add: store_insert_def)
qed

lemma reachable_store: "store_reachable ops st \<Longrightarrow> invar st \<and> cap st = program_entry_capacity"
proof (induction rule: store_reachable.induct)
  case created
  then show ?case by (simp add: store_new_def program_entry_capacity_def invar_new new_cap)
next
  case (looked_up st k)
  then show ?case by (simp add: store_get_def invar_get get_cap)
next
  case (inserted st k e)
  then have "cap (snd (store_insert ops st k e)) = program_entry_capacity"
    using get_cap [of st k] by (auto simp: store_insert_def put_cap split: prod.splits option.splits)
  with inserted show ?case by (simp add: invar_insert)
qed

end

interpretation list_store: program_store list_lru_ops l_ents l_cap
  by unfold_locales

lemma program_storeI: "lru ops ents cap \<Longrightarrow> program_store ops ents cap"
  by (simp add: program_store_def)

text \<open>
  The resident store keeps the first writer: inserting an entry returns what later reads
  of the same key return, a second insertion for that key returns the resident entry and
  never replaces it, and no sequence of reads and insertions makes the store exceed its
  capacity of 256 programs.
\<close>

theorem store_first_writer_wins:
  assumes "lru ops ents cap" and "store_reachable ops st"
  shows "fst (store_get ops (snd (store_insert ops st k e)) k) = Some (fst (store_insert ops st k e)) \<and>
     fst (store_insert ops (snd (store_insert ops st k e)) k e') = fst (store_insert ops st k e) \<and>
     store_len ops (snd (store_insert ops st k e)) \<le> 256"
proof -
  let ?st = "snd (store_insert ops st k e)"
  note ps = program_storeI [OF assms(1)]
  have inv: "lru.invar ents cap st"
    using program_store.reachable_store [OF ps assms(2)] by blast
  have r: "map_of (ents ?st) k = Some (fst (store_insert ops st k e))"
    by (rule program_store.insert_resident [OF ps inv])
  have "lru.invar ents cap ?st \<and> cap ?st = program_entry_capacity"
    using program_store.reachable_store [OF ps store_reachable.inserted [OF assms(2)]] .
  then have "store_len ops ?st \<le> 256"
    by (simp add: store_len_def lru.len [OF assms(1)] lru.invar_def [OF assms(1)]
        program_entry_capacity_def)
  with r show ?thesis
    by (simp add: store_get_def lru.get_val [OF assms(1)] program_store.insert_result [OF ps])
qed

theorem store_first_writer_wins_witness:
  "let st = store_new list_lru_ops; k = content_key id 1 [5] BpfLoader 0 in
   fst (store_insert list_lru_ops (snd (store_insert list_lru_ops st k (10::nat))) k 20) = 10"
proof -
  let ?k = "content_key id 1 [5] BpfLoader 0"
  have "fst (store_insert list_lru_ops (store_new list_lru_ops) ?k (10::nat)) = 10"
    by (simp add: store_insert_def store_new_def list_lru_ops_def)
  then show ?thesis
    using store_first_writer_wins [OF list_lru.lru_axioms store_reachable.created,
        where k = ?k and e = "10::nat" and e' = 20]
    by (simp add: Let_def)
qed

end
