(* ===== verification/Accounts_Types.thy ===== *)
theory Accounts_Types
  imports Svm_Errors Rent_State Entry_Store
begin

text \<open>
  Data of the account database (\<^verbatim>\<open>accounts_db.rs\<close>) and of the program entries it caches
  (\<^verbatim>\<open>programs/jit_policy.rs\<close>, \<^verbatim>\<open>programs/tiering.rs\<close>). The code of the Solana crates that the
  database calls is collected in the record \<open>db_ext\<close>; \<open>'pc\<close> is the crate's
  \<open>ProgramCacheForTxBatch\<close>, \<open>'x\<close> its \<open>Executable\<close> and \<open>'st\<close> the LRU cache behind the
  resident store.

  The database holds its program cache behind \<open>Arc<RwLock<_>>\<close>, and clones share it. The
  model keeps all program caches in a \<open>world\<close> indexed by handle; a database holds the
  handle. The world also holds the process-wide resident store.
\<close>

section \<open>Tiering policy\<close>

datatype jit_policy = Eager | Lazy nat | Off

definition default_jit_policy :: jit_policy where
  "default_jit_policy = Eager"

definition requires_uncompiled_load :: "jit_policy \<Rightarrow> bool" where
  "requires_uncompiled_load p = (case p of Eager \<Rightarrow> False | _ \<Rightarrow> True)"

definition jit_effective :: "bool \<Rightarrow> jit_policy \<Rightarrow> jit_policy" where
  "jit_effective x86_64 p = (if x86_64 then p else Off)"

definition jit_is_lazy :: "bool \<Rightarrow> jit_policy \<Rightarrow> bool" where
  "jit_is_lazy x86_64 p = (case jit_effective x86_64 p of Lazy _ \<Rightarrow> True | _ \<Rightarrow> False)"

definition jit_hot_threshold :: "bool \<Rightarrow> jit_policy \<Rightarrow> nat option" where
  "jit_hot_threshold x86_64 p =
     (case jit_effective x86_64 p of Lazy t \<Rightarrow> Some t | Eager \<Rightarrow> None | Off \<Rightarrow> None)"

section \<open>Program cache entries\<close>

datatype entry_owner = OwnerNativeLoader | OwnerLoaderV1 | OwnerLoaderV2 | OwnerLoaderV3 | OwnerLoaderV4

datatype 'x entry_type = Loaded 'x | Closed | BuiltinEntry nat | OtherEntry nat

record program_statistics =
  compilations :: u64
  total_compilation_time_us :: u64
  interpreted_invocations :: u64
  jit_invocations :: u64

definition default_statistics :: program_statistics where
  "default_statistics =
     \<lparr>compilations = 0, total_compilation_time_us = 0, interpreted_invocations = 0,
      jit_invocations = 0\<rparr>"

record 'x program_cache_entry =
  program :: "'x entry_type"
  account_owner :: entry_owner
  deployment_slot :: u64
  stats :: program_statistics
  latest_access_slot :: u64

definition immediate_deployment_slot :: u64 where
  "immediate_deployment_slot = u64_max"

record builtin =
  builtin_id :: address
  register_fn :: nat

section \<open>Sysvars\<close>

record clock =
  slot :: u64
  epoch_start_timestamp :: u64
  epoch :: u64
  leader_schedule_epoch :: u64
  unix_timestamp :: u64

definition default_clock :: clock where
  "default_clock =
     \<lparr>slot = 0, epoch_start_timestamp = 0, epoch = 0, leader_schedule_epoch = 0,
      unix_timestamp = 0\<rparr>"

type_synonym slot_hashes = "(u64 \<times> bytes) list"

record sysvar_cache =
  get_clock :: "clock option"
  get_rent :: "rent option"
  get_slot_hashes :: "slot_hashes option"

definition default_sysvar_cache :: sysvar_cache where
  "default_sysvar_cache = \<lparr>get_clock = None, get_rent = None, get_slot_hashes = None\<rparr>"

section \<open>Code of other crates\<close>

datatype upgradeable_loader_state =
  UninitializedLoaderState | Buffer | Program address | ProgramData

datatype address_lookup_error =
  LookupTableAccountNotFound | InvalidAccountOwner | InvalidTableData | InvalidLookupIndex

record ('pc, 'x, 'st) db_ext =
  pc_new :: "u64 \<Rightarrow> 'pc"
  pc_replenish :: "'pc \<Rightarrow> address \<Rightarrow> 'x program_cache_entry \<Rightarrow> 'pc"
  pc_find :: "'pc \<Rightarrow> address \<Rightarrow> 'x program_cache_entry option"
  pc_remove_entry :: "'pc \<Rightarrow> address \<Rightarrow> 'pc"
  pc_slot :: "'pc \<Rightarrow> u64"
  pc_set_slot :: "'pc \<Rightarrow> u64 \<Rightarrow> 'pc"
  store_ops :: "('st, program_entry_key, 'x program_cache_entry) lru_ops"
  sha256 :: "bytes \<Rightarrow> bytes"
  sysvar_decodes :: "address \<Rightarrow> bytes \<Rightarrow> bool"
  sysvar_fill :: "(address \<Rightarrow> bytes option) \<Rightarrow> sysvar_cache"
  rent_default :: rent
  upgradeable_state :: "bytes \<Rightarrow> upgradeable_loader_state option"
  size_of_programdata_metadata :: nat
  loader_v4_program_data_offset :: nat
  lookup_table_deserialize ::
    "bytes \<Rightarrow> (u64 \<Rightarrow> u8 list \<Rightarrow> slot_hashes \<Rightarrow> address_lookup_error + address list) option"
  builtins :: "builtin list"
  entry_load :: "nat \<Rightarrow> address \<Rightarrow> u64 \<Rightarrow> bytes \<Rightarrow> 'x program_cache_entry option"
  executable_load :: "nat \<Rightarrow> bytes \<Rightarrow> 'x option"
  executable_verify :: "'x \<Rightarrow> bool"
  entry_owner_try_from :: "address \<Rightarrow> entry_owner option"
  new_builtin :: "nat \<Rightarrow> 'x program_cache_entry"
  new_closed_tombstone :: "u64 \<Rightarrow> entry_owner \<Rightarrow> 'x program_cache_entry"
  hash_order :: "overlay \<Rightarrow> address list"
  x86_64 :: bool

text \<open>
  What the database relies on: the program cache is a map from addresses to entries with a
  slot (\<open>pc_entries\<close> is that map; a lookup may transform the entry it returns), and iterating
  a hash map visits each key once.
\<close>

locale db_crates =
  fixes X :: "('pc, 'x, 'st) db_ext"
    and pc_entries :: "'pc \<Rightarrow> address \<rightharpoonup> 'x program_cache_entry"
  assumes pc_new_entries: "pc_entries (pc_new X s) = Map.empty"
    and pc_new_slot: "pc_slot X (pc_new X s) = s"
    and pc_replenish_entries: "pc_entries (pc_replenish X c k e) = (pc_entries c)(k \<mapsto> e)"
    and pc_replenish_slot: "pc_slot X (pc_replenish X c k e) = pc_slot X c"
    and pc_remove_entries: "pc_entries (pc_remove_entry X c k) = (pc_entries c)(k := None)"
    and pc_remove_slot: "pc_slot X (pc_remove_entry X c k) = pc_slot X c"
    and pc_set_slot_entries: "pc_entries (pc_set_slot X c s) = pc_entries c"
    and pc_set_slot_slot: "pc_slot X (pc_set_slot X c s) = s"
    and pc_find_None: "pc_find X c k = None \<longleftrightarrow> pc_entries c k = None"
    and hash_order_set: "finite (dom m) \<Longrightarrow> set (hash_order X m) = dom m"
    and hash_order_distinct: "finite (dom m) \<Longrightarrow> distinct (hash_order X m)"
begin

lemmas pc_views = pc_new_entries pc_new_slot pc_replenish_entries pc_replenish_slot
  pc_remove_entries pc_remove_slot pc_set_slot_entries pc_set_slot_slot

lemma pc_replenish_dom: "dom (pc_entries (pc_replenish X c k e)) = insert k (dom (pc_entries c))"
  unfolding pc_replenish_entries dom_def by auto

lemma pc_new_dom: "dom (pc_entries (pc_new X s)) = {}"
  unfolding pc_new_entries by simp

end

section \<open>State\<close>

record ('pc, 'st) world =
  caches :: "nat \<Rightarrow> 'pc"
  next_cache :: nat
  entry_store :: 'st
  default_env :: "nat option"
  next_env :: nat

record cache_db =
  inner :: overlay
  removed :: "address set"

record journal_entry =
  je_address :: address
  previous :: "account option"
  was_removed :: bool

record accounts =
  source :: account_source
  cache :: cache_db
  programs_cache :: nat
  sysvar_cache :: sysvar_cache
  environments :: nat
  jit_policy :: jit_policy
  journal :: "journal_entry list"

record account_source_load_failure =
  fail_pubkey :: address
  fail_source :: account_source_error

datatype lookup_table_load_error =
  AddressLookup address_lookup_error | LookupAccountSource account_source_load_failure

definition write_cache :: "nat \<Rightarrow> 'pc \<Rightarrow> ('pc, 'st) world \<Rightarrow> ('pc, 'st) world" where
  "write_cache h c w = w\<lparr>caches := (caches w)(h := c)\<rparr>"

lemma write_cache_simps [simp]:
  "caches (write_cache h c w) = (caches w)(h := c)"
  "next_cache (write_cache h c w) = next_cache w"
  "entry_store (write_cache h c w) = entry_store w"
  by (simp_all add: write_cache_def)

lemma requires_uncompiled_load_iff: "requires_uncompiled_load p \<longleftrightarrow> p \<noteq> Eager"
  by (cases p) (simp_all add: requires_uncompiled_load_def)

end
