(* ===== verification/Accounts_Db.thy ===== *)
theory Accounts_Db
  imports Accounts_Types
begin

text \<open>
  The operations of the account database (\<^verbatim>\<open>accounts_db.rs\<close>): reads with source fall-through,
  the journaled overlay mutations, checkpoint and rollback, the derived program and sysvar
  caches, program loading and lookup-table resolution. An operation that can reach the
  shared program cache or the resident store takes and returns the \<open>world\<close>.
\<close>

section \<open>Account classification\<close>

definition is_cached_program_account :: "address \<Rightarrow> account \<Rightarrow> bool" where
  "is_cached_program_account pubkey acc =
     (executable acc \<and> pubkey \<noteq> default_address \<and> owner acc \<noteq> NativeLoader)"

definition is_managed_sysvar_account :: "address \<Rightarrow> bool" where
  "is_managed_sysvar_account pubkey =
     (pubkey \<in> {ClockSysvar, EpochRewardsSysvar, EpochScheduleSysvar, FeesSysvar,
        LastRestartSlotSysvar, RecentBlockhashesSysvar, RentSysvar, SlotHashesSysvar,
        StakeHistorySysvar})"

definition sysvar_error :: "address \<Rightarrow> invalid_sysvar_data_error option" where
  "sysvar_error pubkey =
     (case pubkey of
        ClockSysvar \<Rightarrow> Some InvalidClock
      | EpochRewardsSysvar \<Rightarrow> Some InvalidEpochRewards
      | EpochScheduleSysvar \<Rightarrow> Some InvalidEpochSchedule
      | FeesSysvar \<Rightarrow> Some InvalidFees
      | LastRestartSlotSysvar \<Rightarrow> Some InvalidLastRestartSlot
      | RecentBlockhashesSysvar \<Rightarrow> Some InvalidRecentBlockhashes
      | RentSysvar \<Rightarrow> Some InvalidRent
      | SlotHashesSysvar \<Rightarrow> Some InvalidSlotHashes
      | StakeHistorySysvar \<Rightarrow> Some InvalidStakeHistory
      | _ \<Rightarrow> None)"

definition validate_sysvar_account ::
    "('pc, 'x, 'st) db_ext \<Rightarrow> address \<Rightarrow> account \<Rightarrow> invalid_sysvar_data_error + unit" where
  "validate_sysvar_account X pubkey acc =
     (case sysvar_error pubkey of
        None \<Rightarrow> Inr ()
      | Some e \<Rightarrow> if sysvar_decodes X pubkey (data acc) then Inr () else Inl e)"

section \<open>Reads\<close>

definition get_account_ref :: "accounts \<Rightarrow> address \<Rightarrow> account option" where
  "get_account_ref a pubkey = inner (cache a) pubkey"

definition try_get_account :: "accounts \<Rightarrow> address \<Rightarrow> account_source_error + account option" where
  "try_get_account a pubkey =
     (case get_account_ref a pubkey of
        Some acc \<Rightarrow> Inr (Some acc)
      | None \<Rightarrow>
          if pubkey \<in> removed (cache a) then Inr None
          else source_get_account (source a) pubkey)"

definition get_account :: "accounts \<Rightarrow> address \<Rightarrow> account option" where
  "get_account a pubkey = (case try_get_account a pubkey of Inl _ \<Rightarrow> None | Inr r \<Rightarrow> r)"

definition get_accounts_batch ::
    "accounts \<Rightarrow> address list \<Rightarrow> account_source_error + account option list" where
  "get_accounts_batch a pubkeys = source_get_accounts (source a) pubkeys"

definition set_account_source :: "account_source \<Rightarrow> accounts \<Rightarrow> accounts" where
  "set_account_source src a = a\<lparr>source := src\<rparr>"

definition replace_account_source :: "account_source \<Rightarrow> accounts \<Rightarrow> account_source \<times> accounts" where
  "replace_account_source src a = (source a, a\<lparr>source := src\<rparr>)"

definition set_runtime_environments :: "nat \<Rightarrow> accounts \<Rightarrow> accounts" where
  "set_runtime_environments envs a = a\<lparr>environments := envs\<rparr>"

definition sync_jit_policy :: "jit_policy \<Rightarrow> accounts \<Rightarrow> accounts" where
  "sync_jit_policy policy a = a\<lparr>jit_policy := policy\<rparr>"

section \<open>Journal, checkpoint and rollback\<close>

definition record_journal :: "address \<Rightarrow> accounts \<Rightarrow> accounts" where
  "record_journal pubkey a =
     a\<lparr>journal := journal a @
        [\<lparr>je_address = pubkey, previous = inner (cache a) pubkey,
          was_removed = (pubkey \<in> removed (cache a))\<rparr>]\<rparr>"

definition overlay_insert :: "address \<Rightarrow> account \<Rightarrow> accounts \<Rightarrow> accounts" where
  "overlay_insert pubkey acc a =
     a\<lparr>cache := \<lparr>inner = (inner (cache a))(pubkey \<mapsto> acc),
                 removed = removed (cache a) - {pubkey}\<rparr>\<rparr>"

definition overlay_remove :: "address \<Rightarrow> accounts \<Rightarrow> accounts" where
  "overlay_remove pubkey a =
     a\<lparr>cache := \<lparr>inner = (inner (cache a))(pubkey := None),
                 removed = insert pubkey (removed (cache a))\<rparr>\<rparr>"

definition checkpoint :: "accounts \<Rightarrow> nat" where
  "checkpoint a = length (journal a)"

definition undo_entry :: "journal_entry \<Rightarrow> cache_db \<Rightarrow> cache_db" where
  "undo_entry e c =
     \<lparr>inner = (case previous e of
          Some acc \<Rightarrow> (inner c)(je_address e \<mapsto> acc)
        | None \<Rightarrow> (inner c)(je_address e := None)),
      removed = (if was_removed e then insert (je_address e) (removed c)
                 else removed c - {je_address e})\<rparr>"

function rollback :: "accounts \<Rightarrow> nat \<Rightarrow> accounts" where
  "rollback a cp =
     (if cp < length (journal a)
      then rollback
        (a\<lparr>journal := butlast (journal a),
           cache := undo_entry (last (journal a)) (cache a)\<rparr>) cp
      else a)"
  by pat_completeness auto
termination
  by (relation "measure (\<lambda>(a, cp). length (journal a))") auto

declare rollback.simps [simp del]

section \<open>Derived caches\<close>

definition minimum_balance_for_rent_exemption ::
    "('pc, 'x, 'st) db_ext \<Rightarrow> accounts \<Rightarrow> nat \<Rightarrow> u64" where
  "minimum_balance_for_rent_exemption X a data_len =
     max 1 (minimum_balance (unwrap_or (rent_default X) (get_rent (sysvar_cache a))) data_len)"

definition current_slot :: "accounts \<Rightarrow> u64" where
  "current_slot a = slot (unwrap_or default_clock (get_clock (sysvar_cache a)))"

definition replenish_program_cache ::
    "('pc, 'x, 'st) db_ext \<Rightarrow> address \<Rightarrow> 'x program_cache_entry \<Rightarrow> accounts
      \<Rightarrow> ('pc, 'st) world \<Rightarrow> ('pc, 'st) world" where
  "replenish_program_cache X program_id prog a w =
     write_cache (programs_cache a)
       (pc_replenish X (caches w (programs_cache a)) program_id prog) w"

definition has_program_cache_entry ::
    "('pc, 'x, 'st) db_ext \<Rightarrow> accounts \<Rightarrow> ('pc, 'st) world \<Rightarrow> address \<Rightarrow> bool" where
  "has_program_cache_entry X a w program_id =
     (pc_find X (caches w (programs_cache a)) program_id \<noteq> None)"

definition program_accounts :: "('pc, 'x, 'st) db_ext \<Rightarrow> accounts \<Rightarrow> (address \<times> account) list" where
  "program_accounts X a =
     List.map_filter
       (\<lambda>pubkey. case inner (cache a) pubkey of
          None \<Rightarrow> None
        | Some acc \<Rightarrow>
            if is_cached_program_account pubkey acc then Some (pubkey, acc) else None)
       (hash_order X (inner (cache a)))"

definition program_entries_snapshot ::
    "('pc, 'x, 'st) db_ext \<Rightarrow> accounts \<Rightarrow> ('pc, 'st) world \<Rightarrow> 'x program_cache_entry list" where
  "program_entries_snapshot X a w =
     List.map_filter (\<lambda>(program_id, acc). pc_find X (caches w (programs_cache a)) program_id)
       (program_accounts X a)"

definition rebuild_sysvar_cache ::
    "('pc, 'x, 'st) db_ext \<Rightarrow> ('pc, 'st) world \<times> accounts \<Rightarrow> ('pc, 'st) world \<times> accounts" where
  "rebuild_sysvar_cache X wa =
     (let (w, a) = wa;
          fallback_slot = pc_slot X (caches w (programs_cache a));
          sc = sysvar_fill X (\<lambda>pubkey. map_option data (inner (cache a) pubkey));
          s = unwrap_or fallback_slot (map_option slot (get_clock sc))
      in (write_cache (programs_cache a) (pc_set_slot X (caches w (programs_cache a)) s) w,
          a\<lparr>sysvar_cache := sc\<rparr>))"

section \<open>Program loading\<close>

definition load_program_uncompiled ::
    "('pc, 'x, 'st) db_ext \<Rightarrow> address \<Rightarrow> nat \<Rightarrow> bytes
      \<Rightarrow> instruction_error + 'x program_cache_entry" where
  "load_program_uncompiled X loader_key env elf_bytes =
     and_then (ok_or InvalidAccountData (executable_load X env elf_bytes))
       (\<lambda>exe. if \<not> executable_verify X exe then Inl InvalidAccountData
         else and_then (ok_or IncorrectProgramId (entry_owner_try_from X loader_key))
           (\<lambda>own. Inr \<lparr>program = Loaded exe, account_owner = own,
               deployment_slot = immediate_deployment_slot, stats = default_statistics,
               latest_access_slot = 0\<rparr>))"

datatype 'x resolved_program =
    Tombstone "'x program_cache_entry"
  | ElfBytes bytes address

definition resolve_program ::
    "('pc, 'x, 'st) db_ext \<Rightarrow> accounts \<Rightarrow> u64 \<Rightarrow> account
      \<Rightarrow> instruction_error + 'x resolved_program" where
  "resolve_program X a sl program_account =
     (if owner program_account = BpfLoader \<or> owner program_account = BpfLoaderDeprecated
      then Inr (ElfBytes (data program_account) (owner program_account))
      else if owner program_account = BpfLoaderUpgradeable then
        (case upgradeable_state X (data program_account) of
           Some (Program programdata_address) \<Rightarrow>
             (case get_account a programdata_address of
                None \<Rightarrow> Inr (Tombstone (new_closed_tombstone X sl OwnerLoaderV3))
              | Some pd \<Rightarrow>
                  (case get_from (data pd) (size_of_programdata_metadata X) of
                     None \<Rightarrow> Inl InvalidAccountData
                   | Some elf \<Rightarrow> Inr (ElfBytes elf (owner program_account))))
         | _ \<Rightarrow> Inl InvalidAccountData)
      else if owner program_account = LoaderV4 then
        (case get_from (data program_account) (loader_v4_program_data_offset X) of
           None \<Rightarrow> Inl InvalidAccountData
         | Some elf \<Rightarrow> Inr (ElfBytes elf LoaderV4))
      else Inl IncorrectProgramId)"

definition load_elf ::
    "('pc, 'x, 'st) db_ext \<Rightarrow> accounts \<Rightarrow> bytes \<Rightarrow> address
      \<Rightarrow> instruction_error + 'x program_cache_entry" where
  "load_elf X a elf loader_key =
     (if requires_uncompiled_load (jit_policy a) \<and> x86_64 X
      then load_program_uncompiled X loader_key (environments a) elf
      else ok_or InvalidAccountData
             (entry_load X (environments a) loader_key immediate_deployment_slot elf))"

definition load_program ::
    "('pc, 'x, 'st) db_ext \<Rightarrow> accounts \<Rightarrow> account \<Rightarrow> ('pc, 'st) world
      \<Rightarrow> ('pc, 'st) world \<times> (instruction_error + 'x program_cache_entry)" where
  "load_program X a program_account w =
     (case get_clock (sysvar_cache a) of
        None \<Rightarrow> (w, Inl InvalidAccountData)
      | Some ck \<Rightarrow>
          (case resolve_program X a (slot ck) program_account of
             Inl e \<Rightarrow> (w, Inl e)
           | Inr (Tombstone t) \<Rightarrow> (w, Inr t)
           | Inr (ElfBytes elf loader_key) \<Rightarrow>
               let key = content_key (sha256 X) (environments a) elf loader_key
                           immediate_deployment_slot;
                   (hit, st) = store_get (store_ops X) (entry_store w) key;
                   w' = w\<lparr>entry_store := st\<rparr>
               in (case hit of
                     Some resident \<Rightarrow> (w', Inr resident)
                   | None \<Rightarrow>
                       (case load_elf X a elf loader_key of
                          Inl e \<Rightarrow> (w', Inl e)
                        | Inr entry \<Rightarrow>
                            let (res, st') = store_insert (store_ops X) st key entry
                            in (w'\<lparr>entry_store := st'\<rparr>, Inr res)))))"

fun load_programs ::
    "('pc, 'x, 'st) db_ext \<Rightarrow> accounts \<Rightarrow> (address \<times> account) list \<Rightarrow> 'pc \<Rightarrow> ('pc, 'st) world
      \<Rightarrow> ('pc, 'st) world \<times> (instruction_error + 'pc)" where
  "load_programs X a [] c w = (w, Inr c)"
| "load_programs X a ((pubkey, acc) # rest) c w =
     (case load_program X a acc w of
        (w', Inl e) \<Rightarrow> (w', Inl e)
      | (w', Inr entry) \<Rightarrow> load_programs X a rest (pc_replenish X c pubkey entry) w')"

definition add_builtin_entries :: "('pc, 'x, 'st) db_ext \<Rightarrow> accounts \<Rightarrow> 'pc \<Rightarrow> 'pc" where
  "add_builtin_entries X a c =
     fold (\<lambda>b c. if inner (cache a) (builtin_id b) \<noteq> None
                 then pc_replenish X c (builtin_id b) (new_builtin X (register_fn b)) else c)
       (builtins X) c"

definition rebuild_program_cache ::
    "('pc, 'x, 'st) db_ext \<Rightarrow> accounts \<Rightarrow> ('pc, 'st) world
      \<Rightarrow> ('pc, 'st) world \<times> (instruction_error + unit)" where
  "rebuild_program_cache X a w =
     (case load_programs X a (program_accounts X a)
             (add_builtin_entries X a (pc_new X (current_slot a))) w of
        (w', Inl e) \<Rightarrow> (w', Inl e)
      | (w', Inr c) \<Rightarrow> (write_cache (programs_cache a) c w', Inr ()))"

section \<open>Mutations\<close>

definition add_account_no_checks :: "address \<Rightarrow> account \<Rightarrow> accounts \<Rightarrow> accounts" where
  "add_account_no_checks pubkey acc a = overlay_insert pubkey acc (record_journal pubkey a)"

definition add_builtin_account :: "address \<Rightarrow> account \<Rightarrow> accounts \<Rightarrow> accounts" where
  "add_builtin_account pubkey acc a = overlay_insert pubkey acc (record_journal pubkey a)"

definition remove_account ::
    "('pc, 'x, 'st) db_ext \<Rightarrow> address \<Rightarrow> ('pc, 'st) world \<times> accounts
      \<Rightarrow> ('pc, 'st) world \<times> accounts" where
  "remove_account X pubkey wa =
     (let (w, a) = wa;
          a' = overlay_remove pubkey (record_journal pubkey a);
          w' = write_cache (programs_cache a)
                 (pc_remove_entry X (caches w (programs_cache a)) pubkey) w
      in if is_managed_sysvar_account pubkey then rebuild_sysvar_cache X (w', a') else (w', a'))"

text \<open>
  \<open>add_account\<close> in the order of the code: validation and program load, which may fail and
  come before any mutation; the journaled overlay update; the refresh of the derived caches.
\<close>

definition prepare_account ::
    "('pc, 'x, 'st) db_ext \<Rightarrow> address \<Rightarrow> account \<Rightarrow> accounts \<Rightarrow> ('pc, 'st) world
      \<Rightarrow> ('pc, 'st) world \<times> (hpsvm_error + 'x program_cache_entry option)" where
  "prepare_account X pubkey acc a w =
     (let has_cached_program = (lamports acc \<noteq> 0 \<and> is_cached_program_account pubkey acc);
          valid = (if is_managed_sysvar_account pubkey \<and> lamports acc \<noteq> 0
                   then validate_sysvar_account X pubkey acc else Inr ())
      in case valid of
           Inl e \<Rightarrow> (w, Inl (InvalidSysvarData e))
         | Inr _ \<Rightarrow>
             if has_cached_program
             then (case load_program X a acc w of
                     (w', r) \<Rightarrow> (w', map_err Instruction (map_ok Some r)))
             else (w, Inr None))"

definition overlay_put :: "address \<Rightarrow> account \<Rightarrow> accounts \<Rightarrow> accounts" where
  "overlay_put pubkey acc a =
     (if lamports acc = 0 then overlay_remove pubkey (record_journal pubkey a)
      else overlay_insert pubkey acc (record_journal pubkey a))"

definition refresh_program_cache ::
    "('pc, 'x, 'st) db_ext \<Rightarrow> address \<Rightarrow> 'x program_cache_entry option \<Rightarrow> bool \<Rightarrow> accounts
      \<Rightarrow> ('pc, 'st) world \<Rightarrow> ('pc, 'st) world \<times> (hpsvm_error + unit)" where
  "refresh_program_cache X pubkey program_entry had_cached_program a w =
     (case program_entry of
        Some loaded_program \<Rightarrow> (replenish_program_cache X pubkey loaded_program a w, Inr ())
      | None \<Rightarrow>
          if had_cached_program
          then (case rebuild_program_cache X a w of (w', r) \<Rightarrow> (w', map_err Instruction r))
          else (w, Inr ()))"

definition add_account ::
    "('pc, 'x, 'st) db_ext \<Rightarrow> address \<Rightarrow> account \<Rightarrow> ('pc, 'st) world \<times> accounts
      \<Rightarrow> (('pc, 'st) world \<times> accounts) \<times> (hpsvm_error + unit)" where
  "add_account X pubkey acc wa =
     (let (w, a) = wa;
          had_cached_program =
            is_some_and (is_cached_program_account pubkey) (inner (cache a) pubkey)
      in case prepare_account X pubkey acc a w of
           (w1, Inl e) \<Rightarrow> ((w1, a), Inl e)
         | (w1, Inr program_entry) \<Rightarrow>
             let a2 = overlay_put pubkey acc a;
                 (w3, a3) = (if is_managed_sysvar_account pubkey
                             then rebuild_sysvar_cache X (w1, a2) else (w1, a2));
                 (w4, r) = refresh_program_cache X pubkey program_entry had_cached_program a3 w3
             in ((w4, a3), r))"

section \<open>Bulk operations\<close>

fun prewarm_missing :: "cache_db \<Rightarrow> address set \<Rightarrow> address list \<Rightarrow> address list" where
  "prewarm_missing c seen [] = []"
| "prewarm_missing c seen (addr # addrs) =
     (if inner c addr \<noteq> None \<or> addr \<in> removed c then prewarm_missing c seen addrs
      else if addr \<in> seen then prewarm_missing c seen addrs
      else addr # prewarm_missing c (insert addr seen) addrs)"

definition insert_hits :: "(address \<times> account option) list \<Rightarrow> accounts \<Rightarrow> accounts" where
  "insert_hits hits a =
     fold (\<lambda>(addr, maybe_account) a. case maybe_account of
             None \<Rightarrow> a | Some acc \<Rightarrow> add_account_no_checks addr acc a) hits a"

definition prewarm :: "address list \<Rightarrow> accounts \<Rightarrow> accounts \<times> (db_error + unit)" where
  "prewarm addrs a =
     (let missing = prewarm_missing (cache a) {} addrs
      in if missing = [] then (a, Inr ())
         else case source_get_accounts (source a) missing of
                Inl e \<Rightarrow> (a, Inl (db_error_from_source e))
              | Inr loaded \<Rightarrow> (insert_hits (zip missing loaded) a, Inr ()))"

definition is_programdata :: "account \<Rightarrow> bool" where
  "is_programdata acc =
     (owner acc = BpfLoaderUpgradeable \<and> is_some_and (\<lambda>b. b = 3) (list_first (data acc)))"

definition partition_step :: "nat \<Rightarrow> nat \<times> (address \<times> account) list \<Rightarrow> nat \<times> (address \<times> account) list"
  where
  "partition_step read st =
     (let (write, accs) = st
      in if is_programdata (snd (accs ! read))
         then (write + 1, if write \<noteq> read then list_swap accs write read else accs)
         else (write, accs))"

definition partition_programdata :: "(address \<times> account) list \<Rightarrow> (address \<times> account) list" where
  "partition_programdata accs = snd (fold partition_step [0..<length accs] (0, accs))"

fun add_accounts ::
    "('pc, 'x, 'st) db_ext \<Rightarrow> (address \<times> account) list \<Rightarrow> ('pc, 'st) world \<times> accounts
      \<Rightarrow> (('pc, 'st) world \<times> accounts) \<times> (hpsvm_error + unit)" where
  "add_accounts X [] wa = (wa, Inr ())"
| "add_accounts X ((addr, acc) # rest) wa =
     (case add_account X addr acc wa of
        (wa', Inl e) \<Rightarrow> (wa', Inl e)
      | (wa', Inr _) \<Rightarrow> add_accounts X rest wa')"

definition sync_accounts ::
    "('pc, 'x, 'st) db_ext \<Rightarrow> (address \<times> account) list \<Rightarrow> ('pc, 'st) world \<times> accounts
      \<Rightarrow> (('pc, 'st) world \<times> accounts) \<times> (hpsvm_error + unit)" where
  "sync_accounts X accs wa = add_accounts X (partition_programdata accs) wa"

definition programs_to_resolve ::
    "('pc, 'x, 'st) db_ext \<Rightarrow> address list \<Rightarrow> ('pc, 'st) world \<Rightarrow> accounts
      \<Rightarrow> (address \<times> account) list" where
  "programs_to_resolve X program_ids w a =
     List.map_filter
       (\<lambda>program_id.
          if pc_find X (caches w (programs_cache a)) program_id \<noteq> None then None
          else case inner (cache a) program_id of
                 None \<Rightarrow> None
               | Some acc \<Rightarrow>
                   if \<not> is_cached_program_account program_id acc then None
                   else Some (program_id, acc))
       program_ids"

fun resolve_programs ::
    "('pc, 'x, 'st) db_ext \<Rightarrow> accounts \<Rightarrow> (address \<times> account) list \<Rightarrow> ('pc, 'st) world
      \<Rightarrow> ('pc, 'st) world \<times> (db_error + unit)" where
  "resolve_programs X a [] w = (w, Inr ())"
| "resolve_programs X a ((program_id, acc) # rest) w =
     (case load_program X a acc w of
        (w', Inl e) \<Rightarrow> (w', Inl (DbError (AnyPrewarmProgram program_id e) False))
      | (w', Inr entry) \<Rightarrow>
          resolve_programs X a rest (replenish_program_cache X program_id entry a w'))"

definition prewarm_programs ::
    "('pc, 'x, 'st) db_ext \<Rightarrow> address list \<Rightarrow> accounts \<Rightarrow> ('pc, 'st) world
      \<Rightarrow> ('pc, 'st) world \<times> (db_error + unit)" where
  "prewarm_programs X program_ids a w =
     resolve_programs X a (programs_to_resolve X program_ids w a) w"

section \<open>Clones\<close>

definition accounts_clone :: "accounts \<Rightarrow> accounts" where
  "accounts_clone a =
     \<lparr>source = source a, cache = cache a, programs_cache = programs_cache a,
      sysvar_cache = sysvar_cache a, environments = environments a,
      jit_policy = jit_policy a, journal = journal a\<rparr>"

definition clone_for_worker ::
    "('pc, 'st) world \<times> accounts \<Rightarrow> ('pc, 'st) world \<times> accounts" where
  "clone_for_worker wa =
     (let (w, a) = wa;
          snapshot = caches w (programs_cache a);
          h = next_cache w
      in ((write_cache h snapshot w)\<lparr>next_cache := h + 1\<rparr>,
          (accounts_clone a)\<lparr>programs_cache := h\<rparr>))"

section \<open>Lookup tables and ELF bytes\<close>

record address_table_lookup =
  lookup_key :: address
  writable_indexes :: "u8 list"
  readonly_indexes :: "u8 list"

record loaded_addresses =
  loaded_writable :: "address list"
  loaded_readonly :: "address list"

definition try_load_lookup_table_addresses ::
    "('pc, 'x, 'st) db_ext \<Rightarrow> accounts \<Rightarrow> address_table_lookup
      \<Rightarrow> lookup_table_load_error + loaded_addresses" where
  "try_load_lookup_table_addresses X a l =
     (case try_get_account a (lookup_key l) of
        Inl e \<Rightarrow> Inl (LookupAccountSource \<lparr>fail_pubkey = lookup_key l, fail_source = e\<rparr>)
      | Inr None \<Rightarrow> Inl (AddressLookup LookupTableAccountNotFound)
      | Inr (Some table_account) \<Rightarrow>
          if owner table_account = AddressLookupTableProgram then
            (case get_slot_hashes (sysvar_cache a) of
               None \<Rightarrow> Inl (AddressLookup InvalidTableData)
             | Some hashes \<Rightarrow>
                 (case get_clock (sysvar_cache a) of
                    None \<Rightarrow> Inl (AddressLookup InvalidTableData)
                  | Some ck \<Rightarrow>
                      (case lookup_table_deserialize X (data table_account) of
                         None \<Rightarrow> Inl (AddressLookup InvalidTableData)
                       | Some lookup_table \<Rightarrow>
                           map_err AddressLookup
                             (and_then (lookup_table (slot ck) (writable_indexes l) hashes)
                               (\<lambda>wr. map_ok (\<lambda>ro. \<lparr>loaded_writable = wr, loaded_readonly = ro\<rparr>)
                                  (lookup_table (slot ck) (readonly_indexes l) hashes))))))
          else Inl (AddressLookup InvalidAccountOwner))"

definition load_lookup_table_addresses ::
    "('pc, 'x, 'st) db_ext \<Rightarrow> accounts \<Rightarrow> address_table_lookup
      \<Rightarrow> address_lookup_error + loaded_addresses" where
  "load_lookup_table_addresses X a l =
     map_err (\<lambda>e. case e of AddressLookup err \<Rightarrow> err
                   | LookupAccountSource _ \<Rightarrow> LookupTableAccountNotFound)
       (try_load_lookup_table_addresses X a l)"

text \<open>
  \<open>AccountSourceTrackingAddressLoader\<close>: the interior-mutable failure slot is threaded
  through the lookups; \<open>collect\<close> stops at the first error.
\<close>

definition record_failure ::
    "account_source_load_failure \<Rightarrow> account_source_load_failure option
      \<Rightarrow> account_source_load_failure option" where
  "record_failure f current = (if current = None then Some f else current)"

fun tracking_load_addresses ::
    "('pc, 'x, 'st) db_ext \<Rightarrow> accounts \<Rightarrow> address_table_lookup list
      \<Rightarrow> account_source_load_failure option
      \<Rightarrow> (address_lookup_error + loaded_addresses list) \<times> account_source_load_failure option" where
  "tracking_load_addresses X a [] failure = (Inr [], failure)"
| "tracking_load_addresses X a (l # ls) failure =
     (case try_load_lookup_table_addresses X a l of
        Inl (LookupAccountSource f) \<Rightarrow> (Inl LookupTableAccountNotFound, record_failure f failure)
      | Inl (AddressLookup e) \<Rightarrow> (Inl e, failure)
      | Inr la \<Rightarrow>
          (case tracking_load_addresses X a ls failure of
             (r, failure') \<Rightarrow> (map_ok ((#) la) r, failure')))"

definition load_addresses ::
    "('pc, 'x, 'st) db_ext \<Rightarrow> accounts \<Rightarrow> address_table_lookup list
      \<Rightarrow> address_lookup_error + loaded_addresses list" where
  "load_addresses X a ls = collect_results (map (load_lookup_table_addresses X a) ls)"

definition try_program_elf_bytes ::
    "('pc, 'x, 'st) db_ext \<Rightarrow> accounts \<Rightarrow> address \<Rightarrow> instruction_error + bytes" where
  "try_program_elf_bytes X a program_key =
     and_then (ok_or MissingAccount (get_account_ref a program_key)) (\<lambda>program_account.
       if owner program_account = BpfLoader \<or> owner program_account = BpfLoaderDeprecated
       then Inr (data program_account)
       else if owner program_account = BpfLoaderUpgradeable then
         (case upgradeable_state X (data program_account) of
            Some (Program programdata_address) \<Rightarrow>
              and_then (ok_or MissingAccount (get_account_ref a programdata_address)) (\<lambda>pd.
                ok_or InvalidAccountData (get_from (data pd) (size_of_programdata_metadata X)))
          | _ \<Rightarrow> Inl InvalidAccountData)
       else if owner program_account = LoaderV4 then
         ok_or InvalidAccountData
           (get_from (data program_account) (loader_v4_program_data_offset X))
       else Inl IncorrectProgramId)"

end
