(* ===== verification/Tx_History.thy ===== *)
theory Tx_History
  imports Lru_Cache
begin

text \<open>
  The bounded transaction history of \<^verbatim>\<open>history.rs\<close>: an LRU cache from signatures to results
  and the configured capacity, where capacity zero disables recording.
\<close>

section \<open>Definitions\<close>

record 'c transaction_history =
  hist_entries :: 'c
  max_entries :: nat

definition history_with_capacity :: "('c, 'k, 'v) lru_ops \<Rightarrow> nat \<Rightarrow> 'c transaction_history" where
  "history_with_capacity ops capacity =
     \<lparr>hist_entries = lru_new ops (max capacity 1), max_entries = capacity\<rparr>"

definition history_new :: "('c, 'k, 'v) lru_ops \<Rightarrow> 'c transaction_history" where
  "history_new ops = history_with_capacity ops 32"

definition set_capacity ::
    "('c, 'k, 'v) lru_ops \<Rightarrow> 'c transaction_history \<Rightarrow> nat \<Rightarrow> 'c transaction_history" where
  "set_capacity ops h new_cap =
     (if new_cap = 0
      then h\<lparr>hist_entries := lru_clear ops (hist_entries h), max_entries := 0\<rparr>
      else h\<lparr>hist_entries := lru_resize ops (hist_entries h) new_cap, max_entries := new_cap\<rparr>)"

definition get_transaction ::
    "('c, 'k, 'v) lru_ops \<Rightarrow> 'c transaction_history \<Rightarrow> 'k \<Rightarrow> 'v option" where
  "get_transaction ops h sig =
     (if max_entries h = 0 then None else lru_peek ops (hist_entries h) sig)"

definition add_new_transaction ::
    "('c, 'k, 'v) lru_ops \<Rightarrow> 'c transaction_history \<Rightarrow> 'k \<Rightarrow> 'v \<Rightarrow> 'c transaction_history" where
  "add_new_transaction ops h sig res =
     (if max_entries h = 0 then h
      else h\<lparr>hist_entries := lru_put ops (hist_entries h) sig res\<rparr>)"

definition check_transaction ::
    "('c, 'k, 'v) lru_ops \<Rightarrow> 'c transaction_history \<Rightarrow> 'k \<Rightarrow> bool" where
  "check_transaction ops h sig =
     (if max_entries h = 0 then False else lru_peek ops (hist_entries h) sig \<noteq> None)"

definition history_is_enabled :: "'c transaction_history \<Rightarrow> bool" where
  "history_is_enabled h = (max_entries h \<noteq> 0)"

text \<open>The histories a VM can hold: built with a capacity, resized, appended to.\<close>

inductive history_reachable ::
    "('c, 'k, 'v) lru_ops \<Rightarrow> 'c transaction_history \<Rightarrow> bool" for ops where
  created: "history_reachable ops (history_new ops)"
| resized: "history_reachable ops h \<Longrightarrow> history_reachable ops (set_capacity ops h n)"
| recorded: "history_reachable ops h \<Longrightarrow>
     history_reachable ops (add_new_transaction ops h sig res)"

definition record_all ::
    "('c, 'k, 'v) lru_ops \<Rightarrow> ('k \<times> 'v) list \<Rightarrow> 'c transaction_history \<Rightarrow> 'c transaction_history"
  where
  "record_all ops txs h = fold (\<lambda>(sig, res) h. add_new_transaction ops h sig res) txs h"

section \<open>Invariant and replay window\<close>

context lru
begin

definition history_inv :: "'c transaction_history \<Rightarrow> bool" where
  "history_inv h \<longleftrightarrow> invar (hist_entries h) \<and>
     (if max_entries h = 0 then ents (hist_entries h) = []
      else cap (hist_entries h) = max_entries h)"

lemma history_inv_new: "history_inv (history_with_capacity ops n)"
  by (auto simp: history_inv_def history_with_capacity_def invar_new views)

lemma history_inv_set_capacity: "history_inv h \<Longrightarrow> history_inv (set_capacity ops h n)"
  by (auto simp: history_inv_def set_capacity_def views intro: invar_clear invar_resize)

lemma history_inv_add: "history_inv h \<Longrightarrow> history_inv (add_new_transaction ops h s r)"
  by (auto simp: history_inv_def add_new_transaction_def views(8) intro: invar_put)

lemma reachable_history_inv: "history_reachable ops h \<Longrightarrow> history_inv h"
proof (induction rule: history_reachable.induct)
  case created
  then show ?case by (simp add: history_new_def history_inv_new)
qed (simp_all add: history_inv_set_capacity history_inv_add)

lemma history_bound: "history_inv h \<Longrightarrow> lru_len ops (hist_entries h) \<le> max_entries h"
  by (auto simp: history_inv_def invar_def views split: if_splits)

lemma add_keys:
  assumes "max_entries h \<noteq> 0" and "history_inv h"
  shows "map fst (ents (hist_entries (add_new_transaction ops h s r))) =
     take (max_entries h) (s # filter (\<lambda>x. x \<noteq> s) (map fst (ents (hist_entries h))))"
  using assms by (simp add: add_new_transaction_def put_keys history_inv_def)

end

lemma remdups_snoc: "remdups (xs @ [x]) = filter (\<lambda>y. y \<noteq> x) (remdups xs) @ [x]"
  by (induction xs) auto

lemma filter_take_distinct:
  assumes "distinct xs"
  shows "take n (s # filter (\<lambda>x. x \<noteq> s) (take n xs)) = take n (s # filter (\<lambda>x. x \<noteq> s) xs)"
proof (cases n)
  case (Suc m)
  have "take m (filter (\<lambda>x. x \<noteq> s) (take (Suc m) xs)) = take m (filter (\<lambda>x. x \<noteq> s) xs)"
    using assms
  proof (induction xs arbitrary: m)
    case (Cons x xs)
    show ?case
    proof (cases "x = s")
      case True
      with Cons.prems have "filter (\<lambda>x. x \<noteq> s) xs = xs"
        by (auto simp: filter_id_conv)
      moreover from True Cons.prems have "filter (\<lambda>x. x \<noteq> s) (take m xs) = take m xs"
        by (auto simp: filter_id_conv dest: in_set_takeD)
      ultimately show ?thesis using True by simp
    next
      case False
      with Cons show ?thesis by (cases m) simp_all
    qed
  qed simp
  with Suc show ?thesis by simp
qed simp

context lru
begin

lemma max_entries_record_all: "max_entries (record_all ops txs h) = max_entries h"
  unfolding record_all_def
  by (rule fold_invariant [where P = "\<lambda>h'. max_entries h' = max_entries h"])
    (auto simp: add_new_transaction_def)

lemma history_inv_record_all: "history_inv h \<Longrightarrow> history_inv (record_all ops txs h)"
  unfolding record_all_def
  by (rule fold_invariant) (auto intro: history_inv_add)

lemma record_all_keys:
  assumes "0 < n"
  shows "map fst (ents (hist_entries (record_all ops txs (history_with_capacity ops n)))) =
           take n (rev (remdups (map fst txs)))"
proof (induction txs rule: rev_induct)
  case Nil
  then show ?case
    using assms by (simp add: record_all_def history_with_capacity_def views)
next
  case (snoc tx txs)
  let ?h = "record_all ops txs (history_with_capacity ops n)"
  obtain s r where tx: "tx = (s, r)" by (cases tx)
  have m: "max_entries ?h = n"
    by (simp add: max_entries_record_all) (simp add: history_with_capacity_def)
  have "map fst (ents (hist_entries (add_new_transaction ops ?h s r))) =
          take n (s # filter (\<lambda>x. x \<noteq> s) (take n (rev (remdups (map fst txs)))))"
    using assms m snoc.IH
    by (subst add_keys) (simp_all add: history_inv_record_all history_inv_new)
  also have "\<dots> = take n (s # filter (\<lambda>x. x \<noteq> s) (rev (remdups (map fst txs))))"
    by (rule filter_take_distinct) simp
  also have "\<dots> = take n (rev (remdups (map fst (txs @ [tx]))))"
    by (simp add: tx remdups_snoc rev_filter)
  finally show ?case
    by (simp add: record_all_def tx)
qed

lemma check_iff_key:
  "max_entries h \<noteq> 0 \<Longrightarrow>
     check_transaction ops h s \<longleftrightarrow> s \<in> set (map fst (ents (hist_entries h)))"
  by (auto simp: check_transaction_def peek map_of_eq_None_iff)

end

section \<open>Properties\<close>

text \<open>
  In every history a VM can reach, the number of retained transactions is at most the
  configured capacity; with capacity zero nothing is retained and every signature is
  reported as unknown.
\<close>

theorem history_bounded:
  assumes "lru ops ents cap" and "history_reachable ops h"
  shows "lru_len ops (hist_entries h) \<le> max_entries h \<and>
     (\<not> history_is_enabled h \<longrightarrow>
        \<not> check_transaction ops h s \<and> get_transaction ops h s = None)"
  using lru.history_bound [OF assms(1) lru.reachable_history_inv [OF assms]]
  by (simp add: history_is_enabled_def check_transaction_def get_transaction_def)

theorem history_bounded_witness:
  "let h = add_new_transaction list_lru_ops
             (set_capacity list_lru_ops (history_new list_lru_ops) 1) (7::nat) True
   in lru_len list_lru_ops (hist_entries h) \<le> max_entries h \<and>
      check_transaction list_lru_ops h 7"
proof -
  let ?h = "add_new_transaction list_lru_ops
             (set_capacity list_lru_ops (history_new list_lru_ops) 1) (7::nat) True"
  have "history_reachable list_lru_ops ?h"
    by (intro history_reachable.intros)
  then have "lru_len list_lru_ops (hist_entries ?h) \<le> max_entries ?h"
    by (rule conjunct1 [OF history_bounded [OF list_lru.lru_axioms]])
  moreover have "check_transaction list_lru_ops ?h 7"
    by (simp add: check_transaction_def add_new_transaction_def set_capacity_def history_new_def
        history_with_capacity_def list_lru_ops_def)
  ultimately show ?thesis by (simp add: Let_def)
qed

text \<open>
  Replay window: after recording any sequence of transactions in an enabled history of
  capacity \<open>n\<close>, a signature is reported as already processed exactly when it is among the
  \<open>n\<close> most recently recorded distinct signatures, no matter how often each was looked up.
\<close>

theorem replay_window:
  assumes "lru ops ents cap" and "0 < n"
  shows "check_transaction ops (record_all ops txs (history_with_capacity ops n)) s \<longleftrightarrow>
     s \<in> set (take n (rev (remdups (map fst txs))))"
proof -
  have "max_entries (record_all ops txs (history_with_capacity ops n)) \<noteq> 0"
    using assms(2) by (simp add: lru.max_entries_record_all [OF assms(1)] history_with_capacity_def)
  then show ?thesis
    using lru.check_iff_key [OF assms(1)] lru.record_all_keys [OF assms] by metis
qed

theorem replay_window_witness:
  "(0::nat) < 2 \<and>
   (let h = record_all list_lru_ops [(1::nat, True), (2, True), (1, False), (3, True)]
              (history_with_capacity list_lru_ops 2)
    in check_transaction list_lru_ops h 1 \<and> check_transaction list_lru_ops h 3 \<and>
       \<not> check_transaction list_lru_ops h 2)"
  using replay_window [OF list_lru.lru_axioms, of 2 "[(1::nat, True), (2, True), (1, False), (3, True)]"]
  by (simp add: Let_def)

end
