(* ===== verification/Exec_Types.thy ===== *)
theory Exec_Types
  imports Accounts_Db Tx_History
begin

text \<open>
  Values that execution produces: instructions and traces, transaction metadata and
  diagnostics (\<^verbatim>\<open>types.rs\<close>), the readonly outcome \<open>ExecutionResult\<close>, the detached outcome
  (\<^verbatim>\<open>executed.rs\<close>), and the extraction of inner instructions from the transaction context's
  trace (\<^verbatim>\<open>utils/inner_instructions.rs\<close>). Signatures and hashes are opaque numbers.
\<close>

section \<open>Instructions\<close>

type_synonym signature = nat
type_synonym hash = nat

record account_meta =
  meta_pubkey :: address
  is_signer :: bool
  is_writable_meta :: bool

record instruction =
  ix_program_id :: address
  ix_accounts :: "account_meta list"
  ix_data :: bytes

record compiled_instruction =
  program_id_index :: u8
  ci_accounts :: "u8 list"
  ci_data :: bytes

record inner_instruction =
  inner_ix :: compiled_instruction
  inner_stack_height :: u8

type_synonym inner_instructions_list = "inner_instruction list list"

record executed_instruction =
  stack_height :: u8
  exec_program_id :: address
  exec_accounts :: "account_meta list"
  exec_data :: bytes

definition executed_to_instruction :: "executed_instruction \<Rightarrow> instruction" where
  "executed_to_instruction e =
     \<lparr>ix_program_id = exec_program_id e, ix_accounts = exec_accounts e, ix_data = exec_data e\<rparr>"

section \<open>Metadata\<close>

definition source_error_to_string :: "account_source_error \<Rightarrow> string" where
  "source_error_to_string e =
     (case kind e of Unavailable \<Rightarrow> ''Unavailable'' | InvalidResponse \<Rightarrow> ''InvalidResponse''
      | OtherKind \<Rightarrow> ''Other'') @ '': '' @ message e"

record account_source_failure =
  asf_pubkey :: address
  asf_error :: string

record account_diff =
  diff_address :: address
  diff_pre :: "account option"
  diff_post :: "account option"

record token_balance =
  account_index :: nat
  tb_address :: address
  mint :: address
  tb_owner :: address
  amount :: u64
  decimals :: "u8 option"

record execution_diagnostics =
  pre_balances :: "u64 list"
  post_balances :: "u64 list"
  account_diffs :: "account_diff list"
  diag_source_failures :: "account_source_failure list"
  pre_token_balances :: "token_balance list"
  post_token_balances :: "token_balance list"
  diag_trace :: "executed_instruction list"

definition default_diagnostics :: execution_diagnostics where
  "default_diagnostics =
     \<lparr>pre_balances = [], post_balances = [], account_diffs = [], diag_source_failures = [],
      pre_token_balances = [], post_token_balances = [], diag_trace = []\<rparr>"

type_synonym return_data = "address \<times> bytes"

record transaction_metadata =
  meta_signature :: signature
  logs :: "string list"
  inner_instructions :: inner_instructions_list
  compute_units_consumed :: u64
  meta_return_data :: return_data
  meta_fee :: u64
  diagnostics :: execution_diagnostics

definition default_metadata :: transaction_metadata where
  "default_metadata =
     \<lparr>meta_signature = 0, logs = [], inner_instructions = [], compute_units_consumed = 0,
      meta_return_data = (default_address, []), meta_fee = 0, diagnostics = default_diagnostics\<rparr>"

record failed_transaction_metadata =
  failed_err :: transaction_error
  failed_meta :: transaction_metadata

type_synonym transaction_result = "failed_transaction_metadata + transaction_metadata"

type_synonym post_accounts = "(address \<times> account) list"

section \<open>Readonly and detached outcomes\<close>

record execution_result =
  er_post_accounts :: post_accounts
  tx_result :: "transaction_error + unit"
  er_signature :: signature
  er_units :: u64
  er_inner :: inner_instructions_list
  er_return_data :: return_data
  er_trace :: "executed_instruction list"
  er_included :: bool
  er_fee :: u64
  er_fee_payer :: "address option"
  er_source_failures :: "account_source_failure list"
  er_fatal :: "execution_error option"
  er_inspector_live :: bool

definition default_execution_result :: execution_result where
  "default_execution_result =
     \<lparr>er_post_accounts = [], tx_result = Inl UnsupportedVersion, er_signature = 0, er_units = 0,
      er_inner = [], er_return_data = (default_address, []), er_trace = [], er_included = False,
      er_fee = 0, er_fee_payer = None, er_source_failures = [], er_fatal = None,
      er_inspector_live = False\<rparr>"

record detached_tx =
  meta :: transaction_metadata
  det_post_accounts :: post_accounts
  status :: "transaction_error + unit"
  included :: bool
  fee_payer :: "address option"
  fatal_error :: "execution_error option"
  inspector_live :: bool

definition take_fatal :: "detached_tx \<Rightarrow> execution_error option \<times> detached_tx" where
  "take_fatal d = (fatal_error d, d\<lparr>fatal_error := None\<rparr>)"

definition for_dispatch_failure :: "tx_error \<Rightarrow> signature \<Rightarrow> detached_tx" where
  "for_dispatch_failure err sig =
     \<lparr>meta = default_metadata\<lparr>meta_signature := sig\<rparr>, det_post_accounts = [],
      status = Inl (tx_error_transaction_error err), included = False, fee_payer = None,
      fatal_error = None, inspector_live = False\<rparr>"

section \<open>Inner instructions\<close>

text \<open>
  The trace the transaction context hands over: one frame per executed instruction, with the
  caller's index (\<open>u16::MAX\<close> for a top-level one), the instruction accounts and the data.
\<close>

record instruction_account =
  index_in_transaction :: u16
  ia_signer :: bool
  ia_writable :: bool

record trace_frame =
  index_of_caller_instruction :: u16
  nesting_level :: u16
  program_account_index_in_tx :: u16
  frame_accounts :: "instruction_account list"
  frame_data :: bytes

definition is_top_level :: "trace_frame \<Rightarrow> bool" where
  "is_top_level f = (index_of_caller_instruction f = - 1)"

definition num_top_level :: "trace_frame list \<Rightarrow> nat" where
  "num_top_level frames = length (takeWhile is_top_level frames)"

text \<open>
  The ancestor loop \<open>while ancestor >= num_top_level\<close>. Nothing in the loop bounds it, so not
  returning (and reading past the trace) is the value \<open>None\<close>.
\<close>

partial_function (option) find_ancestor :: "trace_frame list \<Rightarrow> nat \<Rightarrow> nat \<Rightarrow> nat option" where
  "find_ancestor frames ntl ancestor =
     (if ntl \<le> ancestor then
        (if ancestor < length frames
         then find_ancestor frames ntl
                (unat (index_of_caller_instruction (frames ! ancestor)))
         else None)
      else Some ancestor)"

definition traced_instruction :: "address list \<Rightarrow> trace_frame \<Rightarrow> executed_instruction" where
  "traced_instruction account_keys f =
     \<lparr>stack_height = ucast (saturating_add (nesting_level f) 1),
      exec_program_id =
        unwrap_or default_address
          (list_get account_keys (unat (program_account_index_in_tx f))),
      exec_accounts =
        List.map_filter
          (\<lambda>acc. map_option
             (\<lambda>pk. \<lparr>meta_pubkey = pk, is_signer = ia_signer acc, is_writable_meta = ia_writable acc\<rparr>)
             (list_get account_keys (unat (index_in_transaction acc))))
          (frame_accounts f),
      exec_data = frame_data f\<rparr>"

definition inner_of_frame :: "trace_frame \<Rightarrow> inner_instruction" where
  "inner_of_frame f =
     \<lparr>inner_ix =
        \<lparr>program_id_index = ucast (program_account_index_in_tx f),
         ci_accounts = map (\<lambda>acc. ucast (index_in_transaction acc)) (frame_accounts f),
         ci_data = frame_data f\<rparr>,
      inner_stack_height = ucast (saturating_add (nesting_level f) 1)\<rparr>"

fun collect_inner ::
    "trace_frame list \<Rightarrow> nat \<Rightarrow> (nat \<times> trace_frame) list \<Rightarrow> inner_instructions_list
      \<Rightarrow> inner_instructions_list option" where
  "collect_inner frames ntl [] acc = Some acc"
| "collect_inner frames ntl ((i, f) # rest) acc =
     (if ntl \<le> i then
        (case find_ancestor frames ntl i of
           None \<Rightarrow> None
         | Some anc \<Rightarrow>
             collect_inner frames ntl rest (acc[anc := acc ! anc @ [inner_of_frame f]]))
      else collect_inner frames ntl rest acc)"

definition extract_instruction_trace_data ::
    "address list \<Rightarrow> trace_frame list
      \<Rightarrow> (inner_instructions_list \<times> executed_instruction list) option" where
  "extract_instruction_trace_data account_keys frames =
     map_option (\<lambda>inner. (inner, map (traced_instruction account_keys) frames))
       (collect_inner frames (num_top_level frames) (enumerated frames)
          (replicate (num_top_level frames) []))"

text \<open>
  A trace is well formed when the top-level frames come first and every other frame was
  called by an earlier frame.
\<close>

definition trace_wf :: "trace_frame list \<Rightarrow> bool" where
  "trace_wf frames \<longleftrightarrow>
     (\<forall>i < length frames. num_top_level frames \<le> i \<longrightarrow>
        unat (index_of_caller_instruction (frames ! i)) < i)"

lemma find_ancestor_terminates:
  assumes "trace_wf frames" and "i < length frames"
  shows "\<exists>anc. find_ancestor frames (num_top_level frames) i = Some anc \<and>
     anc < num_top_level frames"
  using assms(2)
proof (induction i rule: less_induct)
  case (less i)
  show ?case
  proof (cases "num_top_level frames \<le> i")
    case True
    let ?c = "unat (index_of_caller_instruction (frames ! i))"
    from True less.prems assms(1) have c: "?c < i" by (simp add: trace_wf_def)
    with less.IH [OF c] less.prems True show ?thesis
      by (subst find_ancestor.simps) simp
  next
    case False
    then show ?thesis by (subst find_ancestor.simps) simp
  qed
qed

definition inner_for :: "trace_frame list \<Rightarrow> nat list \<Rightarrow> nat \<Rightarrow> inner_instruction list" where
  "inner_for frames idxs anc =
     map (\<lambda>i. inner_of_frame (frames ! i))
       (filter (\<lambda>i. num_top_level frames \<le> i \<and>
                    find_ancestor frames (num_top_level frames) i = Some anc) idxs)"

lemma collect_inner_result:
  assumes "trace_wf frames" and "\<forall>i \<in> set idxs. i < length frames"
    and "length acc = num_top_level frames"
  shows "collect_inner frames (num_top_level frames) (map (\<lambda>i. (i, frames ! i)) idxs) acc =
     Some (map (\<lambda>anc. acc ! anc @ inner_for frames idxs anc) [0..<num_top_level frames])"
  using assms(2,3)
proof (induction idxs arbitrary: acc)
  case Nil
  then have "map (\<lambda>anc. acc ! anc) [0..<num_top_level frames] = acc"
    by (metis map_nth)
  with Nil show ?case by (simp add: inner_for_def)
next
  case (Cons i idxs)
  show ?case
  proof (cases "num_top_level frames \<le> i")
    case True
    from Cons.prems(1) have "i < length frames" by simp
    then obtain anc where anc: "find_ancestor frames (num_top_level frames) i = Some anc"
      "anc < num_top_level frames"
      using find_ancestor_terminates [OF assms(1)] by blast
    let ?acc = "acc[anc := acc ! anc @ [inner_of_frame (frames ! i)]]"
    have "collect_inner frames (num_top_level frames) (map (\<lambda>i. (i, frames ! i)) (i # idxs)) acc =
        Some (map (\<lambda>a. ?acc ! a @ inner_for frames idxs a) [0..<num_top_level frames])"
      using Cons.IH [of ?acc] Cons.prems True anc by simp
    moreover have "?acc ! a @ inner_for frames idxs a = acc ! a @ inner_for frames (i # idxs) a"
      if "a < num_top_level frames" for a
      using that True anc Cons.prems(2) by (simp add: inner_for_def nth_list_update)
    ultimately show ?thesis by simp
  next
    case False
    with Cons show ?thesis by (simp add: inner_for_def)
  qed
qed

lemma extract_result:
  assumes "trace_wf frames"
  shows "extract_instruction_trace_data keys frames =
     Some (map (inner_for frames [0..<length frames]) [0..<num_top_level frames],
           map (traced_instruction keys) frames)"
proof -
  have e: "enumerated frames = map (\<lambda>i. (i, frames ! i)) [0..<length frames]"
    by (rule nth_equalityI) (simp_all add: enumerated_def nth_enumerate_eq)
  have "collect_inner frames (num_top_level frames) (enumerated frames)
      (replicate (num_top_level frames) []) =
      Some (map (\<lambda>anc. inner_for frames [0..<length frames] anc) [0..<num_top_level frames])"
    unfolding e by (subst collect_inner_result [OF assms]) simp_all
  then show ?thesis by (simp add: extract_instruction_trace_data_def)
qed

lemma extract_returns: "trace_wf frames \<Longrightarrow> \<exists>r. extract_instruction_trace_data keys frames = Some r"
  by (simp add: extract_result)


definition ex_frame :: "u16 \<Rightarrow> u8 \<Rightarrow> trace_frame" where
  "ex_frame caller d =
     \<lparr>index_of_caller_instruction = caller, nesting_level = 0, program_account_index_in_tx = 1,
      frame_accounts = [], frame_data = [d]\<rparr>"


end
