(* ===== verification/Precompiles.thy ===== *)
theory Precompiles
  imports Exec_Types
begin

text \<open>
  Precompile dispatch (\<^verbatim>\<open>precompile_registry.rs\<close>): entries, sets of entries and the providers
  a VM can install. An entry is its program id, its gate and its verifier; a provider is what
  it answers to \<open>get\<close> and \<open>program_ids\<close>. The table of native precompiles is what another crate
  ships, and is an argument.
\<close>

datatype precompile_error = InvalidPublicKey | OtherPrecompileError nat

type_synonym verify_fn = "bytes \<Rightarrow> bytes list \<Rightarrow> address set \<Rightarrow> precompile_error + unit"

record precompile =
  pre_program_id :: address
  pre_is_enabled :: "address set \<Rightarrow> bool"
  pre_verify :: verify_fn

definition always_enabled :: "address set \<Rightarrow> bool" where
  "always_enabled fs = True"

section \<open>Sets\<close>

type_synonym precompile_set = "address \<rightharpoonup> precompile"

definition precompile_set_new :: precompile_set where
  "precompile_set_new = Map.empty"

definition precompile_insert :: "precompile \<Rightarrow> precompile_set \<Rightarrow> precompile_set \<times> precompile option" where
  "precompile_insert p ps = (ps(pre_program_id p \<mapsto> p), ps (pre_program_id p))"

definition precompile_get :: "precompile_set \<Rightarrow> address \<Rightarrow> precompile option" where
  "precompile_get ps program_id = ps program_id"

definition precompile_contains :: "precompile_set \<Rightarrow> address \<Rightarrow> bool" where
  "precompile_contains ps program_id = (ps program_id \<noteq> None)"

definition precompile_len :: "precompile_set \<Rightarrow> nat" where
  "precompile_len ps = card (dom ps)"

definition precompile_is_empty :: "precompile_set \<Rightarrow> bool" where
  "precompile_is_empty ps = (dom ps = {})"

text \<open>The ids of a set come in the iteration order of its hash map, which is an argument.\<close>

definition precompile_ids :: "(precompile_set \<Rightarrow> address list) \<Rightarrow> precompile_set \<Rightarrow> address list" where
  "precompile_ids order ps = order ps"

section \<open>Providers\<close>

record precompile_provider =
  prov_get :: "address \<Rightarrow> precompile option"
  prov_program_ids :: "address list"

definition set_provider :: "(precompile_set \<Rightarrow> address list) \<Rightarrow> precompile_set \<Rightarrow> precompile_provider" where
  "set_provider order ps = \<lparr>prov_get = precompile_get ps, prov_program_ids = precompile_ids order ps\<rparr>"

definition no_precompiles :: precompile_provider where
  "no_precompiles = \<lparr>prov_get = (\<lambda>program_id. None), prov_program_ids = []\<rparr>"

text \<open>A row of the native table, and the entry it becomes.\<close>

record native_precompile =
  native_program_id :: address
  native_feature :: "address option"
  native_verify_fn :: verify_fn

definition native_enabled :: "native_precompile \<Rightarrow> address set \<Rightarrow> bool" where
  "native_enabled n fs = is_none_or (\<lambda>f. f \<in> fs) (native_feature n)"

definition native_verify :: "native_precompile \<Rightarrow> verify_fn" where
  "native_verify n bs slices fs =
     (if native_enabled n fs then native_verify_fn n bs slices fs else Inl InvalidPublicKey)"

definition native_entry :: "native_precompile \<Rightarrow> precompile" where
  "native_entry n =
     \<lparr>pre_program_id = native_program_id n, pre_is_enabled = native_enabled n,
      pre_verify = native_verify n\<rparr>"

definition native_precompiles_new :: "native_precompile list \<Rightarrow> precompile_set" where
  "native_precompiles_new table =
     fold (\<lambda>n ps. fst (precompile_insert (native_entry n) ps)) table precompile_set_new"

definition native_provider ::
    "(precompile_set \<Rightarrow> address list) \<Rightarrow> native_precompile list \<Rightarrow> precompile_provider" where
  "native_provider order table =
     (let ps = native_precompiles_new table
      in \<lparr>prov_get = precompile_get ps, prov_program_ids = precompile_ids order ps\<rparr>)"

section \<open>The contract of a provider\<close>

text \<open>It enumerates exactly the ids it answers, each with an entry for that very id.\<close>

locale provider =
  fixes p :: precompile_provider
  assumes ids: "set (prov_program_ids p) = {k. prov_get p k \<noteq> None}"
    and ids_distinct: "distinct (prov_program_ids p)"
    and own_id: "prov_get p k = Some e \<Longrightarrow> pre_program_id e = k"
begin

lemma listed: "k \<in> set (prov_program_ids p) \<longleftrightarrow> prov_get p k \<noteq> None"
  by (simp add: ids)

lemma live_listed:
  "is_some_and (\<lambda>e. pre_is_enabled e fs) (prov_get p k) \<Longrightarrow> k \<in> set (prov_program_ids p)"
  by (cases "prov_get p k") (simp_all add: listed)

end

definition keyed :: "precompile_set \<Rightarrow> bool" where
  "keyed ps \<longleftrightarrow> finite (dom ps) \<and> (\<forall>k e. ps k = Some e \<longrightarrow> pre_program_id e = k)"

definition enumerates :: "(precompile_set \<Rightarrow> address list) \<Rightarrow> bool" where
  "enumerates order \<longleftrightarrow> (\<forall>m. finite (dom m) \<longrightarrow> set (order m) = dom m \<and> distinct (order m))"

lemma keyed_new: "keyed precompile_set_new"
  by (simp add: keyed_def precompile_set_new_def)

lemma keyed_insert: "keyed ps \<Longrightarrow> keyed (fst (precompile_insert p ps))"
  by (auto simp: keyed_def precompile_insert_def)

lemma keyed_native: "keyed (native_precompiles_new table)"
proof -
  have "keyed ps \<Longrightarrow> keyed (fold (\<lambda>n ps. fst (precompile_insert (native_entry n) ps)) table ps)" for ps
    by (induction table arbitrary: ps) (simp_all add: keyed_insert)
  then show ?thesis by (simp add: native_precompiles_new_def keyed_new)
qed

lemma set_provider_law:
  assumes "enumerates order" and "keyed ps"
  shows "provider (set_provider order ps)"
proof
  have fin: "finite (dom ps)" using assms(2) by (simp add: keyed_def)
  show "set (prov_program_ids (set_provider order ps)) =
      {k. prov_get (set_provider order ps) k \<noteq> None}"
    using assms(1) fin
    by (simp add: enumerates_def set_provider_def precompile_ids_def precompile_get_def dom_def)
  show "distinct (prov_program_ids (set_provider order ps))"
    using assms(1) fin by (simp add: enumerates_def set_provider_def precompile_ids_def)
  show "pre_program_id e = k" if "prov_get (set_provider order ps) k = Some e" for k e
    using that assms(2) by (simp add: keyed_def set_provider_def precompile_get_def)
qed

lemma native_provider_eq: "native_provider order table = set_provider order (native_precompiles_new table)"
  by (simp add: native_provider_def set_provider_def Let_def)

lemma native_provider_law: "enumerates order \<Longrightarrow> provider (native_provider order table)"
  by (simp add: native_provider_eq set_provider_law keyed_native)

interpretation none: provider no_precompiles
  by unfold_locales (simp_all add: no_precompiles_def)

text \<open>The iteration order used where a concrete one is needed: ascending ids.\<close>

definition ascending :: "precompile_set \<Rightarrow> address list" where
  "ascending ps = sorted_list_of_set (dom ps)"

lemma ascending_enumerates: "enumerates ascending"
  by (simp add: enumerates_def ascending_def)

interpretation native: provider "native_provider ascending table" for table
  by (rule native_provider_law [OF ascending_enumerates])

section \<open>Properties\<close>

lemma native_get:
  "prov_get (native_provider order table) k =
     map_option native_entry (map_of (rev (map (\<lambda>n. (native_program_id n, n)) table)) k)"
proof -
  have "fold (\<lambda>n ps. fst (precompile_insert (native_entry n) ps)) table ps =
      ps ++ (\<lambda>k. map_option native_entry (map_of (rev (map (\<lambda>n. (native_program_id n, n)) table)) k))"
    for ps
  proof (induction table arbitrary: ps)
    case (Cons n table)
    show ?case
      unfolding fold_Cons comp_apply Cons.IH
      by (simp add: precompile_insert_def native_entry_def fun_eq_iff map_add_def
          split: option.splits)
  qed simp
  then show ?thesis
    by (simp add: native_provider_def native_precompiles_new_def precompile_get_def Let_def
        precompile_set_new_def)
qed

end
