(* ===== verification/Svm_State.thy ===== *)
theory Svm_State
  imports Precompiles
begin

text \<open>
  The VM value (\<open>Svm\<close> of \<^verbatim>\<open>lib.rs\<close>): its state, configuration (\<^verbatim>\<open>version.rs\<close>), block
  environment and extension points. Inspectors (\<^verbatim>\<open>inspector.rs\<close>) are modelled by which
  origins they accept; their hooks are events. Transaction handlers (\<^verbatim>\<open>tx_registry.rs\<close>) are
  named: the default handler, or a handler of the embedding application, whose behaviour is
  a parameter of the dispatcher.
\<close>

section \<open>Inspectors\<close>

datatype transaction_origin = User | InternalAirdropOrigin | Batch nat nat

definition origin_is_user :: "transaction_origin \<Rightarrow> bool" where
  "origin_is_user t = (case t of User \<Rightarrow> True | _ \<Rightarrow> False)"

datatype inspect_mode = NoInspector | DynInspector

definition is_live :: "inspect_mode \<Rightarrow> bool" where
  "is_live m = (case m of DynInspector \<Rightarrow> True | NoInspector \<Rightarrow> False)"

datatype origin_filter = UserOnly | AllOrigins | BatchStages | InternalAirdropOnly | NonUser

fun filter_allows :: "origin_filter \<Rightarrow> transaction_origin \<Rightarrow> bool" where
  "filter_allows AllOrigins org = True"
| "filter_allows UserOnly User = True"
| "filter_allows BatchStages (Batch si ti) = True"
| "filter_allows InternalAirdropOnly InternalAirdropOrigin = True"
| "filter_allows NonUser User = False"
| "filter_allows NonUser org = True"
| "filter_allows flt org = False"

text \<open>
  An inspector either keeps the trait's default \<open>accepts_origin\<close>, overrides it, or is the
  \<open>OriginFiltered\<close> decorator around another inspector.
\<close>

datatype inspector =
    DefaultOrigins
  | CustomOrigins "transaction_origin \<Rightarrow> bool"
  | OriginFiltered inspector origin_filter

primrec accepts_origin :: "inspector \<Rightarrow> transaction_origin \<Rightarrow> bool" where
  "accepts_origin DefaultOrigins org = origin_is_user org"
| "accepts_origin (CustomOrigins f) org = f org"
| "accepts_origin (OriginFiltered i flt) org = (filter_allows flt org \<and> accepts_origin i org)"

record account_change =
  change_address :: address
  change_before :: "account option"
  change_after :: "account option"

datatype hook_event =
    TransactionStart
  | InstructionStart nat address
  | InstructionEnd nat address
  | LogMessage string
  | AccountChanged account_change
  | TransactionEnd "transaction_error + unit"

section \<open>Transaction envelopes and the handler registry\<close>

datatype message_version = MessageLegacy | MessageV0 | MessageV1

record versioned_tx =
  vt_signatures :: "signature list"
  vt_version :: message_version
  static_account_keys :: "address list"
  address_table_lookups :: "address_table_lookup list option"
  vt_body :: nat  \<comment> \<open>header, instructions and blockhash\<close>

definition tag_of :: "versioned_tx \<Rightarrow> tx_tag" where
  "tag_of tx =
     (case vt_version tx of MessageLegacy \<Rightarrow> TagLegacy | MessageV0 \<Rightarrow> TagV0 | MessageV1 \<Rightarrow> TagV1)"

datatype tx_handler = DefaultExecutionHandler | CustomHandler nat

type_synonym tx_registry = "tx_tag \<rightharpoonup> tx_handler"

definition registry_new :: tx_registry where
  "registry_new = Map.empty"

definition registry_register :: "tx_tag \<Rightarrow> tx_handler \<Rightarrow> tx_registry \<Rightarrow> tx_registry" where
  "registry_register tag handle reg = reg(tag \<mapsto> handle)"

definition registry_with_defaults :: tx_registry where
  "registry_with_defaults =
     registry_register TagV1 DefaultExecutionHandler
       (registry_register TagV0 DefaultExecutionHandler
         (registry_register TagLegacy DefaultExecutionHandler registry_new))"

definition tag_key :: "tx_tag \<Rightarrow> nat \<times> nat" where
  "tag_key tag =
     (case tag of TagLegacy \<Rightarrow> (0, 0) | TagV0 \<Rightarrow> (1, 0) | TagV1 \<Rightarrow> (2, 0) | TagCustom i \<Rightarrow> (3, unat i))"

definition tag_rank :: "tx_tag \<Rightarrow> nat" where
  "tag_rank tag = fst (tag_key tag) * 256 + snd (tag_key tag)"

text \<open>The order of \<open>tags\<close>: kinds first, then the custom number; as one number below 1024.\<close>

lemma tag_rank_inject: "tag_rank a = tag_rank b \<longleftrightarrow> a = b"
proof -
  have bound: "unat i < 256" for i :: u8
    using unsigned_less [of i] by simp
  show ?thesis
  proof (cases a; cases b)
  qed (use bound in \<open>simp_all add: tag_rank_def tag_key_def word_unat_eq_iff\<close>)
qed

instantiation tx_tag :: linorder
begin

definition less_eq_tx_tag :: "tx_tag \<Rightarrow> tx_tag \<Rightarrow> bool" where
  "a \<le> b \<longleftrightarrow> tag_rank a \<le> tag_rank b"

definition less_tx_tag :: "tx_tag \<Rightarrow> tx_tag \<Rightarrow> bool" where
  "a < b \<longleftrightarrow> tag_rank a < tag_rank b"

instance
  by intro_classes (auto simp: less_eq_tx_tag_def less_tx_tag_def tag_rank_inject)

end

definition registry_tags :: "tx_tag list \<Rightarrow> tx_tag list" where
  \<comment> \<open>the argument is the iteration order of the hash map's keys\<close>
  "registry_tags keys = sort keys"

section \<open>Configuration\<close>

record compute_budget =
  compute_unit_limit :: u64
  heap_size :: u32
  budget_costs :: nat  \<comment> \<open>the remaining limits and costs, opaque to the VM\<close>

datatype cluster_spec_id = MainnetBeta | Testnet | Devnet | Next

primrec cluster_name :: "cluster_spec_id \<Rightarrow> string" where
  "cluster_name MainnetBeta = ''mainnet-beta''"
| "cluster_name Testnet = ''testnet''"
| "cluster_name Devnet = ''devnet''"
| "cluster_name Next = ''next''"

record cluster_info =
  spec_id :: cluster_spec_id
  info_name :: string

record version =
  feature_set :: "address set"
  lamports_per_signature :: u64
  v_compute_budget :: "compute_budget option"
  v_rent :: rent
  log_bytes_limit :: "nat option"
  cluster :: cluster_info
  sigverify :: bool
  blockhash_check :: bool
  compute_diagnostics :: bool
  v_jit_policy :: jit_policy

definition base_version ::
    "address set \<Rightarrow> u64 \<Rightarrow> rent \<Rightarrow> cluster_spec_id \<Rightarrow> version" where
  \<comment> \<open>the first three arguments are the defaults of the feature, fee and rent crates\<close>
  "base_version all_features fee rent sid =
     \<lparr>feature_set = all_features, lamports_per_signature = fee, v_compute_budget = None,
      v_rent = rent, log_bytes_limit = Some 10000,
      cluster = \<lparr>spec_id = sid, info_name = cluster_name sid\<rparr>,
      sigverify = True, blockhash_check = True, compute_diagnostics = True,
      v_jit_policy = default_jit_policy\<rparr>"

definition with_feature :: "address \<Rightarrow> bool \<Rightarrow> version \<Rightarrow> version" where
  "with_feature fid enabled v =
     v\<lparr>feature_set := (if enabled then insert fid (feature_set v) else feature_set v - {fid})\<rparr>"

record materialized_state =
  m_builtins :: bool
  m_default_programs :: bool
  m_spl_programs :: bool
  m_feature_accounts :: bool
  m_sysvars :: bool

definition default_materialized :: materialized_state where
  "default_materialized =
     \<lparr>m_builtins = False, m_default_programs = False, m_spl_programs = False,
      m_feature_accounts = False, m_sysvars = False\<rparr>"

section \<open>The VM\<close>

record 'c svm =
  vm_accounts :: accounts
  vm_history :: "'c transaction_history"
  vm_version :: version
  latest_blockhash :: hash
  block_slot :: u64
  inspection_origin :: transaction_origin
  vm_inspector :: "inspector option"
  registry :: tx_registry
  tier_policy :: jit_policy
  reserved_keys :: "address set"
  materialized :: materialized_state
  airdrop_pubkey :: address
  custom_syscalls :: "(string \<times> nat) list"
  standard_precompiles :: bool
  precompiles :: precompile_provider

definition inspector_accepts_origin :: "'c svm \<Rightarrow> transaction_origin \<Rightarrow> bool" where
  "inspector_accepts_origin s org = is_some_and (\<lambda>i. accepts_origin i org) (vm_inspector s)"

definition svm_inspector_live :: "'c svm \<Rightarrow> bool" where
  "svm_inspector_live s = inspector_accepts_origin s (inspection_origin s)"

definition select_mode :: "'c svm \<Rightarrow> inspect_mode" where
  "select_mode s = (if svm_inspector_live s then DynInspector else NoInspector)"

definition fire :: "inspect_mode \<Rightarrow> 'c svm \<Rightarrow> hook_event \<Rightarrow> hook_event list" where
  "fire mode s ev =
     (case mode of
        DynInspector \<Rightarrow> (case vm_inspector s of None \<Rightarrow> [] | Some _ \<Rightarrow> [ev])
      | NoInspector \<Rightarrow> [])"

definition svm_sync_jit_policy :: "'c svm \<Rightarrow> 'c svm" where
  "svm_sync_jit_policy s =
     (let policy = v_jit_policy (vm_version s)
      in if jit_policy (vm_accounts s) \<noteq> policy
         then s\<lparr>vm_accounts := sync_jit_policy policy (vm_accounts s), tier_policy := policy\<rparr>
         else s)"

definition svm_set_jit_policy :: "jit_policy \<Rightarrow> 'c svm \<Rightarrow> 'c svm" where
  "svm_set_jit_policy policy s =
     s\<lparr>vm_version := (vm_version s)\<lparr>v_jit_policy := policy\<rparr>,
       vm_accounts := sync_jit_policy policy (vm_accounts s), tier_policy := policy\<rparr>"

definition clone_with_state ::
    "'c svm \<Rightarrow> accounts \<Rightarrow> 'c transaction_history \<Rightarrow> transaction_origin \<Rightarrow> 'c svm" where
  "clone_with_state s accs hist org =
     s\<lparr>vm_accounts := accs, vm_history := hist, vm_inspector := None, inspection_origin := org\<rparr>"

definition svm_clone :: "'c svm \<Rightarrow> 'c svm" where
  "svm_clone s =
     clone_with_state s (accounts_clone (vm_accounts s)) (vm_history s) (inspection_origin s)"

section \<open>Properties\<close>

fun innermost :: "inspector \<Rightarrow> inspector" where
  "innermost (OriginFiltered i flt) = innermost i"
| "innermost i = i"

fun all_filters :: "inspector \<Rightarrow> origin_filter list" where
  "all_filters (OriginFiltered i flt) = flt # all_filters i"
| "all_filters i = []"

text \<open>
  The origin filter narrows and never widens: however filters are stacked, an inspector
  observes an execution exactly when every filter allows its origin and the innermost
  inspector itself accepts it. In particular a filter that allows all origins does not make
  an inspector with the default behaviour observe anything but user transactions.
\<close>

theorem origin_filter_narrows:
  "accepts_origin i org \<longleftrightarrow>
     accepts_origin (innermost i) org \<and> list_all (\<lambda>flt. filter_allows flt org) (all_filters i)"
  by (induction i) auto

text \<open>
  The sorted tag list of a registry depends only on the registered tags: whatever order
  the hash map is iterated in, the result is the same, strictly increasing in the documented
  order, and the default registry lists exactly the three real envelope kinds.
\<close>

theorem registry_tags_canonical:
  assumes "distinct keys" and "set keys = dom reg"
  shows "registry_tags keys = sorted_list_of_set (dom reg) \<and>
     sorted_wrt (<) (registry_tags keys) \<and> set (registry_tags keys) = dom reg"
proof -
  have "sorted_list_of_set (set keys) = sort keys"
    using assms(1) by (simp add: sorted_list_of_set_sort_remdups distinct_remdups_id)
  moreover have "sorted_wrt (<) (sort keys)"
    using assms(1) by (simp add: strict_sorted_iff)
  ultimately show ?thesis
    using assms(2) by (simp add: registry_tags_def)
qed

theorem registry_tags_canonical_witness:
  "dom registry_with_defaults = set [TagV1, TagLegacy, TagV0] \<and>
   registry_tags [TagV1, TagLegacy, TagV0] = [TagLegacy, TagV0, TagV1] \<and>
   registry_tags [TagV1, TagLegacy, TagV0] = sorted_list_of_set (dom registry_with_defaults)"
proof -
  have d: "set [TagV1, TagLegacy, TagV0] = dom registry_with_defaults"
    by (auto simp: registry_with_defaults_def registry_register_def registry_new_def)
  have "registry_tags [TagV1, TagLegacy, TagV0] = [TagLegacy, TagV0, TagV1]"
    by (simp add: registry_tags_def less_eq_tx_tag_def tag_rank_def tag_key_def)
  with registry_tags_canonical [OF _ d] d show ?thesis by simp
qed

end
