(* ===== verification/Accounts_Journal.thy ===== *)
theory Accounts_Journal
  imports Accounts_Db
begin

text \<open>
  The undo journal of the account database: what every mutation leaves in the journal, that
  a rollback restores the overlay of the checkpoint after any sequence of operations, and
  the well-formedness invariant of the overlay.
\<close>

section \<open>Effect of the mutations on overlay and journal\<close>

lemma record_journal_simps [db_simps]:
  "cache (record_journal k a) = cache a"
  "journal (record_journal k a) = journal a @
     [\<lparr>je_address = k, previous = inner (cache a) k, was_removed = (k \<in> removed (cache a))\<rparr>]"
  "source (record_journal k a) = source a"
  "programs_cache (record_journal k a) = programs_cache a"
  "sysvar_cache (record_journal k a) = sysvar_cache a"
  "environments (record_journal k a) = environments a"
  "jit_policy (record_journal k a) = jit_policy a"
  by (simp_all add: record_journal_def)

lemma overlay_insert_simps [db_simps]:
  "inner (cache (overlay_insert k acc a)) = (inner (cache a))(k \<mapsto> acc)"
  "removed (cache (overlay_insert k acc a)) = removed (cache a) - {k}"
  "journal (overlay_insert k acc a) = journal a"
  "source (overlay_insert k acc a) = source a"
  "programs_cache (overlay_insert k acc a) = programs_cache a"
  "sysvar_cache (overlay_insert k acc a) = sysvar_cache a"
  "environments (overlay_insert k acc a) = environments a"
  "jit_policy (overlay_insert k acc a) = jit_policy a"
  by (simp_all add: overlay_insert_def)

lemma overlay_remove_simps [db_simps]:
  "inner (cache (overlay_remove k a)) = (inner (cache a))(k := None)"
  "removed (cache (overlay_remove k a)) = insert k (removed (cache a))"
  "journal (overlay_remove k a) = journal a"
  "source (overlay_remove k a) = source a"
  "programs_cache (overlay_remove k a) = programs_cache a"
  "sysvar_cache (overlay_remove k a) = sysvar_cache a"
  "environments (overlay_remove k a) = environments a"
  "jit_policy (overlay_remove k a) = jit_policy a"
  by (simp_all add: overlay_remove_def)

text \<open>Rebuilding the sysvar cache touches the program cache's slot and the sysvars only.\<close>

lemma rebuild_sysvar_cache_simps [db_simps]:
  "cache (snd (rebuild_sysvar_cache X wa)) = cache (snd wa)"
  "journal (snd (rebuild_sysvar_cache X wa)) = journal (snd wa)"
  "source (snd (rebuild_sysvar_cache X wa)) = source (snd wa)"
  "programs_cache (snd (rebuild_sysvar_cache X wa)) = programs_cache (snd wa)"
  "environments (snd (rebuild_sysvar_cache X wa)) = environments (snd wa)"
  "jit_policy (snd (rebuild_sysvar_cache X wa)) = jit_policy (snd wa)"
  "next_cache (fst (rebuild_sysvar_cache X wa)) = next_cache (fst wa)"
  "entry_store (fst (rebuild_sysvar_cache X wa)) = entry_store (fst wa)"
  by (simp_all add: rebuild_sysvar_cache_def Let_def split: prod.splits)

lemma cache_db_eqI: "inner c = inner d \<Longrightarrow> removed c = removed d \<Longrightarrow> c = d"
  for c d :: cache_db
  by simp

section \<open>Rollback undoes the journal suffix\<close>

definition undo_all :: "journal_entry list \<Rightarrow> cache_db \<Rightarrow> cache_db" where
  "undo_all es c = fold undo_entry (rev es) c"

lemma undo_all_Nil [simp]: "undo_all [] c = c"
  by (simp add: undo_all_def)

lemma undo_all_append: "undo_all (xs @ ys) c = undo_all xs (undo_all ys c)"
  by (simp add: undo_all_def)

lemma rollback_stale: "length (journal a) \<le> cp \<Longrightarrow> rollback a cp = a"
  by (subst rollback.simps) simp

lemma rollback_eq:
  "rollback a cp =
     a\<lparr>journal := take cp (journal a), cache := undo_all (drop cp (journal a)) (cache a)\<rparr>"
proof (induction a cp rule: rollback.induct)
  case (1 a cp)
  show ?case
  proof (cases "cp < length (journal a)")
    case True
    then have "journal a \<noteq> []" by auto
    then have j: "journal a = butlast (journal a) @ [last (journal a)]" by simp
    from True have len: "cp \<le> length (butlast (journal a))" by simp
    have "drop cp (journal a) = drop cp (butlast (journal a)) @ [last (journal a)]"
      using len by (subst j) simp
    moreover have "take cp (journal a) = take cp (butlast (journal a))"
      using len by (subst j) simp
    moreover have "rollback a cp = rollback
        (a\<lparr>journal := butlast (journal a), cache := undo_entry (last (journal a)) (cache a)\<rparr>) cp"
      using True by (subst rollback.simps) simp
    ultimately show ?thesis
      using 1 [OF True] by (simp add: undo_all_append) (simp add: undo_all_def)
  next
    case False
    then show ?thesis by (simp add: rollback_stale)
  qed
qed

section \<open>Every operation is undoable\<close>

text \<open>\<open>extends a b\<close>: \<open>b\<close>'s journal continues \<open>a\<close>'s, and undoing the continuation gives \<open>a\<close>'s overlay.\<close>

definition extends :: "accounts \<Rightarrow> accounts \<Rightarrow> bool" where
  "extends a b \<longleftrightarrow> (\<exists>es. journal b = journal a @ es \<and> undo_all es (cache b) = cache a)"

lemma extends_refl [simp]: "extends a a"
  by (auto simp: extends_def)

lemma extends_trans [trans]: "extends a b \<Longrightarrow> extends b c \<Longrightarrow> extends a c"
  by (auto simp: extends_def undo_all_append)

lemma extends_same: "cache b = cache a \<Longrightarrow> journal b = journal a \<Longrightarrow> extends a b"
  by (simp add: extends_def)

lemma extends_cong:
  "extends a b \<Longrightarrow> cache c = cache b \<Longrightarrow> journal c = journal b \<Longrightarrow> extends a c"
  by (simp add: extends_def)

lemma undo_recorded:
  "undo_entry \<lparr>je_address = k, previous = inner c k, was_removed = (k \<in> removed c)\<rparr>
     \<lparr>inner = (inner c)(k := v), removed = r\<rparr> = c"
  if "r - {k} = removed c - {k}"
proof (rule cache_db_eqI)
  have "k \<in> removed c \<Longrightarrow> insert k r = removed c" and "k \<notin> removed c \<Longrightarrow> r - {k} = removed c"
    using that by auto
  then show "removed (undo_entry \<lparr>je_address = k, previous = inner c k, was_removed = (k \<in> removed c)\<rparr>
     \<lparr>inner = (inner c)(k := v), removed = r\<rparr>) = removed c"
    by (simp add: undo_entry_def)
qed (auto simp: undo_entry_def split: option.splits)

lemma extends_overlay_insert: "extends a (overlay_insert k acc (record_journal k a))"
  unfolding extends_def
proof (intro exI conjI)
  let ?e = "\<lparr>je_address = k, previous = inner (cache a) k, was_removed = (k \<in> removed (cache a))\<rparr>"
  show "journal (overlay_insert k acc (record_journal k a)) = journal a @ [?e]"
    by (simp add: db_simps)
  show "undo_all [?e] (cache (overlay_insert k acc (record_journal k a))) = cache a"
    by (simp add: undo_all_def overlay_insert_def record_journal_def undo_recorded)
qed

lemma extends_overlay_remove: "extends a (overlay_remove k (record_journal k a))"
  unfolding extends_def
proof (intro exI conjI)
  let ?e = "\<lparr>je_address = k, previous = inner (cache a) k, was_removed = (k \<in> removed (cache a))\<rparr>"
  show "journal (overlay_remove k (record_journal k a)) = journal a @ [?e]"
    by (simp add: db_simps)
  show "undo_all [?e] (cache (overlay_remove k (record_journal k a))) = cache a"
    by (simp add: undo_all_def overlay_remove_def record_journal_def undo_recorded)
qed

lemma overlay_put_simps [db_simps]:
  "source (overlay_put k acc a) = source a"
  "programs_cache (overlay_put k acc a) = programs_cache a"
  "sysvar_cache (overlay_put k acc a) = sysvar_cache a"
  "environments (overlay_put k acc a) = environments a"
  "jit_policy (overlay_put k acc a) = jit_policy a"
  by (simp_all add: overlay_put_def db_simps)

lemma extends_overlay_put: "extends a (overlay_put k acc a)"
  by (simp add: overlay_put_def extends_overlay_insert extends_overlay_remove)

text \<open>
  The outcome of \<open>add_account\<close>: either the preparation failed and the database is untouched,
  or the account was put into the overlay.
\<close>

lemma add_account_unfold:
  "add_account X k acc (w, a) =
     (case prepare_account X k acc a w of
        (w1, Inl e) \<Rightarrow> ((w1, a), Inl e)
      | (w1, Inr pe) \<Rightarrow>
          let wa3 = (if is_managed_sysvar_account k
                     then rebuild_sysvar_cache X (w1, overlay_put k acc a)
                     else (w1, overlay_put k acc a));
              wr = refresh_program_cache X k pe
                (is_some_and (is_cached_program_account k) (inner (cache a) k)) (snd wa3) (fst wa3)
          in ((fst wr, snd wa3), snd wr))"
  by (simp add: add_account_def Let_def split: prod.splits sum.splits)

definition put_like :: "address \<Rightarrow> account \<Rightarrow> accounts \<Rightarrow> accounts \<Rightarrow> bool" where
  "put_like k acc a a' \<longleftrightarrow>
     cache a' = cache (overlay_put k acc a) \<and> journal a' = journal (overlay_put k acc a) \<and>
     source a' = source a \<and> programs_cache a' = programs_cache a \<and>
     environments a' = environments a \<and> jit_policy a' = jit_policy a"

lemma add_account_failed:
  "prepare_account X k acc a w = (w1, Inl e) \<Longrightarrow> add_account X k acc (w, a) = ((w1, a), Inl e)"
  by (simp add: add_account_unfold)

lemma add_account_put:
  assumes "prepare_account X k acc a w = (w1, Inr pe)"
  shows "put_like k acc a (snd (fst (add_account X k acc (w, a))))"
  using assms by (simp add: add_account_unfold Let_def put_like_def db_simps)

lemma add_account_overlay:
  assumes "add_account X k acc (w, a) = ((w', a'), r)"
  shows "(a' = a \<and> \<not> is_ok r) \<or> put_like k acc a a'"
proof (cases "prepare_account X k acc a w")
  case (Pair w1 pr)
  show ?thesis
  proof (cases pr)
    case (Inl e)
    with Pair assms show ?thesis by (auto simp: add_account_failed)
  next
    case (Inr pe)
    with Pair assms add_account_put [of X k acc a w w1 pe] show ?thesis by simp
  qed
qed

lemma add_account_extends: "extends (snd wa) (snd (fst (add_account X k acc wa)))"
proof -
  obtain w a where wa: "wa = (w, a)" by (cases wa)
  obtain w' a' r where r: "add_account X k acc (w, a) = ((w', a'), r)"
    by (metis prod.exhaust)
  from add_account_overlay [OF r]
  have "a' = a \<or> (cache a' = cache (overlay_put k acc a) \<and> journal a' = journal (overlay_put k acc a))"
    by (auto simp: put_like_def)
  then show ?thesis
    using extends_cong [OF extends_overlay_put [of a k acc]] by (auto simp: wa r)
qed

lemma add_accounts_extends: "extends (snd wa) (snd (fst (add_accounts X accs wa)))"
proof (induction accs arbitrary: wa)
  case (Cons p accs)
  obtain k acc where p: "p = (k, acc)" by (cases p)
  obtain wa' r where r: "add_account X k acc wa = (wa', r)" by (cases "add_account X k acc wa")
  have "extends (snd wa) (snd wa')"
    using add_account_extends [of wa X k acc] r by simp
  then show ?case
    using extends_trans [OF _ Cons.IH [of wa']] r by (cases r) (simp_all add: p)
qed simp

lemma remove_account_extends: "extends (snd wa) (snd (remove_account X k wa))"
proof -
  obtain w a where wa: "wa = (w, a)" by (cases wa)
  show ?thesis
    by (rule extends_cong [OF extends_overlay_remove [of "snd wa" k]])
      (simp_all add: wa remove_account_def Let_def db_simps)
qed

lemma insert_hits_extends: "extends a (insert_hits hits a)"
  unfolding insert_hits_def
  by (rule fold_invariant [where P = "extends a"])
    (auto simp: add_account_no_checks_def split: option.splits
      intro: extends_trans [OF _ extends_overlay_insert])

lemma prewarm_extends: "extends a (fst (prewarm addrs a))"
  by (auto simp: prewarm_def Let_def insert_hits_extends split: sum.splits)

section \<open>Sequences of operations\<close>

text \<open>
  One operation of the database, with any arguments and any outcome; and a run of
  operations that may also roll back, but never past the checkpoint \<open>cp\<close>.
\<close>

inductive db_step ::
    "('pc, 'x, 'st) db_ext \<Rightarrow> ('pc, 'st) world \<times> accounts \<Rightarrow> ('pc, 'st) world \<times> accounts \<Rightarrow> bool"
  for X where
  step_add: "db_step X wa (fst (add_account X k acc wa))"
| step_no_checks: "db_step X (w, a) (w, add_account_no_checks k acc a)"
| step_builtin: "db_step X (w, a) (w, add_builtin_account k acc a)"
| step_remove: "db_step X wa (remove_account X k wa)"
| step_sync: "db_step X wa (fst (sync_accounts X accs wa))"
| step_prewarm: "db_step X (w, a) (w, fst (prewarm addrs a))"
| step_sysvars: "db_step X wa (rebuild_sysvar_cache X wa)"
| step_programs: "db_step X (w, a) (fst (rebuild_program_cache X a w), a)"
| step_prewarm_programs: "db_step X (w, a) (fst (prewarm_programs X ids a w), a)"
| step_replenish: "db_step X (w, a) (replenish_program_cache X k e a w, a)"
| step_source: "db_step X (w, a) (w, set_account_source src a)"
| step_environments: "db_step X (w, a) (w, set_runtime_environments env a)"
| step_jit_policy: "db_step X (w, a) (w, sync_jit_policy p a)"

inductive db_run ::
    "('pc, 'x, 'st) db_ext \<Rightarrow> nat \<Rightarrow> ('pc, 'st) world \<times> accounts
      \<Rightarrow> ('pc, 'st) world \<times> accounts \<Rightarrow> bool" for X cp where
  run_start: "db_run X cp wa wa"
| run_step: "db_run X cp wa wb \<Longrightarrow> db_step X wb wc \<Longrightarrow> db_run X cp wa wc"
| run_rollback: "db_run X cp wa (w, b) \<Longrightarrow> cp \<le> cp' \<Longrightarrow> db_run X cp wa (w, rollback b cp')"

lemma db_step_extends: "db_step X wa wb \<Longrightarrow> extends (snd wa) (snd wb)"
proof (induction rule: db_step.induct)
  case (step_no_checks w a k acc)
  then show ?case by (simp add: add_account_no_checks_def extends_overlay_insert)
next
  case (step_builtin w a k acc)
  then show ?case by (simp add: add_builtin_account_def extends_overlay_insert)
next
  case (step_sync wa accs)
  then show ?case by (simp add: sync_accounts_def add_accounts_extends)
next
  case (step_sysvars wa)
  then show ?case by (intro extends_same) (simp_all add: db_simps)
qed (simp_all add: add_account_extends remove_account_extends prewarm_extends extends_same
    set_account_source_def set_runtime_environments_def sync_jit_policy_def)

lemma extends_rollback:
  assumes "extends a b" and "length (journal a) \<le> cp"
  shows "extends a (rollback b cp)"
proof -
  from assms(1) obtain es where j: "journal b = journal a @ es"
    and u: "undo_all es (cache b) = cache a"
    by (auto simp: extends_def)
  let ?n = "cp - length (journal a)"
  have "undo_all (take ?n es) (undo_all (drop ?n es) (cache b)) = cache a"
    using u by (metis append_take_drop_id undo_all_append)
  then show ?thesis
    using assms(2) by (auto simp: extends_def rollback_eq j)
qed

lemma db_run_extends:
  "db_run X cp wa wb \<Longrightarrow> length (journal (snd wa)) \<le> cp \<Longrightarrow> extends (snd wa) (snd wb)"
proof (induction rule: db_run.induct)
  case (run_step wa wb wc)
  then show ?case by (blast intro: extends_trans db_step_extends)
next
  case (run_rollback wa w b cp')
  then show ?case by (simp add: extends_rollback)
qed simp

lemma rollback_to_extended:
  assumes "extends a b"
  shows "rollback b (checkpoint a) = b\<lparr>journal := journal a, cache := cache a\<rparr>"
  using assms by (auto simp: extends_def rollback_eq checkpoint_def)

text \<open>
  C1. Rolling back to a checkpoint restores the overlay (accounts and tombstones) and the
  journal byte for byte, whatever sequence of database operations, successful or failed, and
  of inner rollbacks ran since the checkpoint was taken; nothing else of the database is
  changed by the rollback.
\<close>

theorem rollback_restores_checkpoint:
  assumes "db_run X (checkpoint a) (w, a) (w', b)"
  shows "rollback b (checkpoint a) = b\<lparr>journal := journal a, cache := cache a\<rparr>"
proof -
  have "extends a b"
    using db_run_extends [OF assms] by (simp add: checkpoint_def)
  then show ?thesis by (rule rollback_to_extended)
qed

text \<open>
  Rollback is idempotent, nested rollbacks collapse to the earliest checkpoint, and a
  checkpoint beyond the end of the journal is a no-op rather than a failure.
\<close>

theorem rollback_compose:
  "rollback (rollback a cp1) cp2 = rollback a (min cp1 cp2) \<and>
   rollback (rollback a cp1) cp1 = rollback a cp1 \<and>
   rollback a (checkpoint a + n) = a"
proof -
  have c: "rollback (rollback a cp1) cp2 = rollback a (min cp1 cp2)" for cp1 cp2
  proof (cases "cp1 \<le> cp2")
    case True
    then show ?thesis by (simp add: rollback_eq min_def)
  next
    case False
    then have "drop cp2 (journal a) = drop cp2 (take cp1 (journal a)) @ drop cp1 (journal a)"
      by (metis append_take_drop_id drop_drop drop_take le_add_diff_inverse2 nat_le_linear)
    with False show ?thesis
      by (simp add: rollback_eq min_def undo_all_append)
  qed
  moreover have "rollback a (checkpoint a + n) = a"
    by (simp add: rollback_stale checkpoint_def)
  ultimately show ?thesis by simp
qed

section \<open>Well-formedness of the overlay\<close>

definition cache_wf :: "cache_db \<Rightarrow> bool" where
  "cache_wf c \<longleftrightarrow> dom (inner c) \<inter> removed c = {} \<and> finite (dom (inner c))"

definition entry_wf :: "journal_entry \<Rightarrow> bool" where
  "entry_wf e \<longleftrightarrow> (previous e \<noteq> None \<longrightarrow> \<not> was_removed e)"

definition overlay_wf :: "accounts \<Rightarrow> bool" where
  "overlay_wf a \<longleftrightarrow> cache_wf (cache a) \<and> (\<forall>e \<in> set (journal a). entry_wf e)"

lemma undo_entry_wf: "cache_wf c \<Longrightarrow> entry_wf e \<Longrightarrow> cache_wf (undo_entry e c)"
  by (auto simp: cache_wf_def entry_wf_def undo_entry_def split: option.splits)

lemma undo_all_wf: "cache_wf c \<Longrightarrow> (\<And>e. e \<in> set es \<Longrightarrow> entry_wf e) \<Longrightarrow> cache_wf (undo_all es c)"
  unfolding undo_all_def by (rule fold_invariant [where P = cache_wf]) (simp_all add: undo_entry_wf)

lemma overlay_wf_cong:
  "overlay_wf a \<Longrightarrow> cache b = cache a \<Longrightarrow> journal b = journal a \<Longrightarrow> overlay_wf b"
  by (simp add: overlay_wf_def)

lemma recorded_entry_wf:
  "cache_wf c \<Longrightarrow>
   entry_wf \<lparr>je_address = k, previous = inner c k, was_removed = (k \<in> removed c)\<rparr>"
  unfolding entry_wf_def cache_wf_def by (simp add: disjoint_iff dom_def)

lemma cache_wf_insert:
  "cache_wf c \<Longrightarrow> cache_wf \<lparr>inner = (inner c)(k \<mapsto> acc), removed = removed c - {k}\<rparr>"
  unfolding cache_wf_def by auto

lemma cache_wf_remove:
  "cache_wf c \<Longrightarrow> cache_wf \<lparr>inner = (inner c)(k := None), removed = insert k (removed c)\<rparr>"
  unfolding cache_wf_def by auto

lemma overlay_wf_record: "overlay_wf a \<Longrightarrow> overlay_wf (record_journal k a)"
  unfolding overlay_wf_def by (simp add: db_simps recorded_entry_wf)

lemma overlay_wf_insert: "overlay_wf a \<Longrightarrow> overlay_wf (overlay_insert k acc (record_journal k a))"
  using overlay_wf_record [of a k]
  by (simp add: overlay_wf_def overlay_insert_def cache_wf_insert db_simps)

lemma overlay_wf_remove: "overlay_wf a \<Longrightarrow> overlay_wf (overlay_remove k (record_journal k a))"
  using overlay_wf_record [of a k]
  by (simp add: overlay_wf_def overlay_remove_def cache_wf_remove db_simps)

lemma overlay_wf_put: "overlay_wf a \<Longrightarrow> overlay_wf (overlay_put k acc a)"
  by (simp add: overlay_put_def overlay_wf_insert overlay_wf_remove)

lemma overlay_wf_rollback:
  assumes "overlay_wf a"
  shows "overlay_wf (rollback a cp)"
proof -
  have "entry_wf e" if "e \<in> set (journal a)" for e
    using assms that by (simp add: overlay_wf_def)
  then have "cache_wf (undo_all (drop cp (journal a)) (cache a))"
    and "\<forall>e \<in> set (take cp (journal a)). entry_wf e"
    using assms by (auto simp: overlay_wf_def intro!: undo_all_wf dest: in_set_dropD in_set_takeD)
  then show ?thesis by (simp add: overlay_wf_def rollback_eq)
qed

lemma overlay_wf_add_account:
  "overlay_wf (snd wa) \<Longrightarrow> overlay_wf (snd (fst (add_account X k acc wa)))"
proof -
  assume wf: "overlay_wf (snd wa)"
  obtain w a where wa: "wa = (w, a)" by (cases wa)
  obtain w' a' r where r: "add_account X k acc (w, a) = ((w', a'), r)"
    by (metis prod.exhaust)
  from add_account_overlay [OF r]
  have "a' = a \<or> (cache a' = cache (overlay_put k acc a) \<and> journal a' = journal (overlay_put k acc a))"
    by (auto simp: put_like_def)
  then show ?thesis
    using wf overlay_wf_cong [OF overlay_wf_put [of a k acc]] by (auto simp: wa r)
qed

lemma overlay_wf_add_accounts:
  "overlay_wf (snd wa) \<Longrightarrow> overlay_wf (snd (fst (add_accounts X accs wa)))"
proof (induction accs arbitrary: wa)
  case (Cons p accs)
  obtain k acc where p: "p = (k, acc)" by (cases p)
  obtain wa' r where r: "add_account X k acc wa = (wa', r)" by (cases "add_account X k acc wa")
  have "overlay_wf (snd wa')"
    using overlay_wf_add_account [OF Cons.prems, of X k acc] r by simp
  then show ?case
    using Cons.IH [of wa'] r by (cases r) (simp_all add: p)
qed simp

lemma overlay_wf_remove_account:
  assumes "overlay_wf (snd wa)"
  shows "overlay_wf (snd (remove_account X k wa))"
proof -
  obtain w a where wa: "wa = (w, a)" by (cases wa)
  show ?thesis
    by (rule overlay_wf_cong [OF overlay_wf_remove [OF assms, of k]])
      (simp_all add: wa remove_account_def Let_def db_simps)
qed

lemma overlay_wf_prewarm: "overlay_wf a \<Longrightarrow> overlay_wf (fst (prewarm addrs a))"
proof -
  assume wf: "overlay_wf a"
  have "overlay_wf (insert_hits hits a)" for hits
    unfolding insert_hits_def using wf
    by (rule fold_invariant)
      (auto simp: add_account_no_checks_def overlay_wf_insert split: option.splits)
  with wf show ?thesis by (auto simp: prewarm_def Let_def split: sum.splits)
qed

lemma overlay_wf_step: "db_step X wa wb \<Longrightarrow> overlay_wf (snd wa) \<Longrightarrow> overlay_wf (snd wb)"
proof (induction rule: db_step.induct)
  case (step_sysvars wa)
  then show ?case by (rule overlay_wf_cong) (simp_all add: db_simps)
next
  case (step_source w a src)
  then show ?case by (rule overlay_wf_cong) (simp_all add: set_account_source_def)
next
  case (step_environments w a env)
  then show ?case by (rule overlay_wf_cong) (simp_all add: set_runtime_environments_def)
next
  case (step_jit_policy w a p)
  then show ?case by (rule overlay_wf_cong) (simp_all add: sync_jit_policy_def)
qed (simp_all add: add_account_no_checks_def add_builtin_account_def overlay_wf_insert
    overlay_wf_add_account overlay_wf_remove_account sync_accounts_def overlay_wf_add_accounts
    overlay_wf_prewarm)

lemma overlay_wf_run: "db_run X cp wa wb \<Longrightarrow> overlay_wf (snd wa) \<Longrightarrow> overlay_wf (snd wb)"
proof (induction rule: db_run.induct)
  case (run_step wa wb wc)
  then show ?case by (simp add: overlay_wf_step [OF run_step.hyps(2)])
qed (simp_all add: overlay_wf_rollback)

definition accounts_default :: "nat \<Rightarrow> nat \<Rightarrow> accounts" where
  "accounts_default h env =
     \<lparr>source = empty_account_source, cache = \<lparr>inner = Map.empty, removed = {}\<rparr>,
      programs_cache = h, sysvar_cache = default_sysvar_cache, environments = env,
      jit_policy = default_jit_policy, journal = []\<rparr>"


end
