(* ===== verification/Example_Crates.thy ===== *)
theory Example_Crates
  imports Accounts_Journal
begin

text \<open>
  A concrete instance of the external code the account database calls, satisfying the
  contract \<open>db_crates\<close>: the program cache as a slot and a map, executables as their bytes,
  a one-byte clock encoding and a list-based LRU store. It shows that the contract can be
  met and is the instance at which the properties are evaluated.
\<close>

record ex_cache =
  ex_slot :: u64
  ex_entries :: "address \<rightharpoonup> bytes program_cache_entry"

type_synonym ex_store = "(program_entry_key, bytes program_cache_entry) list_lru"
type_synonym ex_world = "(ex_cache, ex_store) world"

definition ex_entry :: "bytes \<Rightarrow> u64 \<Rightarrow> bytes program_cache_entry" where
  "ex_entry elf s =
     \<lparr>program = Loaded elf, account_owner = OwnerLoaderV2, deployment_slot = s,
      stats = default_statistics, latest_access_slot = 0\<rparr>"

definition ex_rent :: rent where
  "ex_rent = \<lparr>minimum_balance = (\<lambda>n. 10), is_exempt = (\<lambda>l n. 10 \<le> l)\<rparr>"

definition ex_fill :: "(address \<Rightarrow> bytes option) \<Rightarrow> sysvar_cache" where
  "ex_fill f =
     \<lparr>get_clock = (case f ClockSysvar of
          Some (b # _) \<Rightarrow> Some (default_clock\<lparr>slot := ucast b\<rparr>) | _ \<Rightarrow> None),
      get_rent = (case f RentSysvar of Some (_ # _) \<Rightarrow> Some ex_rent | _ \<Rightarrow> None),
      get_slot_hashes = (case f SlotHashesSysvar of Some (_ # _) \<Rightarrow> Some [] | _ \<Rightarrow> None)\<rparr>"

definition ex_upgradeable_state :: "bytes \<Rightarrow> upgradeable_loader_state option" where
  "ex_upgradeable_state bs =
     (case bs of
        [] \<Rightarrow> None
      | b # rest \<Rightarrow>
          if b = 2 \<and> rest \<noteq> [] then Some (Program (Pubkey (unat (hd rest))))
          else if b = 3 then Some ProgramData else None)"

definition ex_ext :: "(ex_cache, bytes, ex_store) db_ext" where
  "ex_ext =
     \<lparr>pc_new = (\<lambda>s. \<lparr>ex_slot = s, ex_entries = Map.empty\<rparr>),
      pc_replenish = (\<lambda>c k e. c\<lparr>ex_entries := (ex_entries c)(k \<mapsto> e)\<rparr>),
      pc_find = (\<lambda>c k. ex_entries c k),
      pc_remove_entry = (\<lambda>c k. c\<lparr>ex_entries := (ex_entries c)(k := None)\<rparr>),
      pc_slot = ex_slot,
      pc_set_slot = (\<lambda>c s. c\<lparr>ex_slot := s\<rparr>),
      store_ops = list_lru_ops,
      sha256 = (\<lambda>bs. bs),
      sysvar_decodes = (\<lambda>k bs. bs \<noteq> []),
      sysvar_fill = ex_fill,
      rent_default = ex_rent,
      upgradeable_state = ex_upgradeable_state,
      size_of_programdata_metadata = 1,
      loader_v4_program_data_offset = 1,
      lookup_table_deserialize = (\<lambda>bs. if bs = [] then None
        else Some (\<lambda>s ixs hs. if (\<forall>i \<in> set ixs. unat i < length bs)
               then Inr (map (\<lambda>i. Pubkey (unat (bs ! unat i))) ixs) else Inl InvalidLookupIndex)),
      builtins = [],
      entry_load = (\<lambda>env loader s elf. if elf = [] then None else Some (ex_entry elf s)),
      executable_load = (\<lambda>env elf. if elf = [] then None else Some elf),
      executable_verify = (\<lambda>exe. hd exe \<noteq> 0),
      entry_owner_try_from = (\<lambda>k. if k = BpfLoader then Some OwnerLoaderV2 else None),
      new_builtin = (\<lambda>n. (ex_entry [] 0)\<lparr>program := BuiltinEntry n\<rparr>),
      new_closed_tombstone = (\<lambda>s own. (ex_entry [] s)\<lparr>program := Closed, account_owner := own\<rparr>),
      hash_order = (\<lambda>m. sorted_list_of_set (dom m)),
      x86_64 = True\<rparr>"

interpretation ex: db_crates ex_ext ex_entries
  by unfold_locales (simp_all add: ex_ext_def)

definition ex_world0 :: ex_world where
  "ex_world0 =
     \<lparr>caches = (\<lambda>_. \<lparr>ex_slot = 0, ex_entries = Map.empty\<rparr>), next_cache = 1,
      entry_store = store_new list_lru_ops, default_env = None, next_env = 1\<rparr>"

abbreviation ex_db0 :: accounts where
  "ex_db0 \<equiv> accounts_default 0 0"

definition ex_account :: "u64 \<Rightarrow> account" where
  "ex_account l = default_account\<lparr>lamports := l\<rparr>"

definition ex_program :: "bytes \<Rightarrow> account" where
  "ex_program elf =
     \<lparr>lamports = 1, data = elf, owner = BpfLoader, executable = True, rent_epoch = 0\<rparr>"

text \<open>A database with a clock sysvar.\<close>

definition ex_clocked :: accounts where
  "ex_clocked =
     ex_db0\<lparr>sysvar_cache := default_sysvar_cache\<lparr>get_clock := Some default_clock\<rparr>\<rparr>"

lemmas ex_defs = ex_ext_def ex_world0_def accounts_default_def ex_account_def ex_program_def
  ex_clocked_def ex_entry_def default_account_def default_sysvar_cache_def default_clock_def

lemmas store_eval = store_new_def store_get_def store_insert_def list_lru_ops_def
  program_entry_capacity_def content_key_def del_key_def

end
