(* ===== verification/Accounts_Props.thy ===== *)
theory Accounts_Props
  imports Example_Crates
begin

text \<open>
  Properties of the account database beyond the journal: which caches an operation can
  reach, what each mutation makes visible, when a failure leaves no trace, the derived
  program cache, prewarming, the order in which account batches are applied, worker
  isolation and lookup-table loading.
\<close>

section \<open>Instances of the journal properties\<close>

theorem rollback_restores_checkpoint_witness:
  "let b = add_account_no_checks (Pubkey 1) (ex_account 5) ex_db0 in
   db_run ex_ext (checkpoint ex_db0) (ex_world0, ex_db0) (ex_world0, b) \<and>
   get_account b (Pubkey 1) = Some (ex_account 5) \<and>
   rollback b (checkpoint ex_db0) = b\<lparr>journal := journal ex_db0, cache := cache ex_db0\<rparr>"
proof -
  let ?b = "add_account_no_checks (Pubkey 1) (ex_account 5) ex_db0"
  have run: "db_run ex_ext (checkpoint ex_db0) (ex_world0, ex_db0) (ex_world0, ?b)"
    by (rule db_run.run_step [OF db_run.run_start db_step.step_no_checks])
  have "get_account ?b (Pubkey 1) = Some (ex_account 5)"
    by (simp add: get_account_def try_get_account_def get_account_ref_def
        add_account_no_checks_def db_simps)
  with run rollback_restores_checkpoint [OF run] show ?thesis by (simp add: Let_def)
qed


section \<open>Which caches an operation reaches\<close>

text \<open>
  Loading a program reaches the resident store only, and every operation writes at most the
  program cache behind the database's own handle.
\<close>

definition same_except :: "nat \<Rightarrow> ('pc, 'st) world \<Rightarrow> ('pc, 'st) world \<Rightarrow> bool" where
  "same_except h w w' \<longleftrightarrow>
     (\<forall>h'. h' \<noteq> h \<longrightarrow> caches w' h' = caches w h') \<and> next_cache w' = next_cache w"

lemma same_except_refl [simp]: "same_except h w w"
  by (simp add: same_except_def)

lemma same_except_trans: "same_except h w w' \<Longrightarrow> same_except h w' w'' \<Longrightarrow> same_except h w w''"
  by (simp add: same_except_def)

lemma same_except_write [simp]: "same_except h w (write_cache h c w)"
  by (simp add: same_except_def)

lemma same_except_caches: "caches w' = caches w \<Longrightarrow> next_cache w' = next_cache w \<Longrightarrow> same_except h w w'"
  by (simp add: same_except_def)

lemma load_program_frame [frame_simps]:
  "caches (fst (load_program X a acc w)) = caches w"
  "next_cache (fst (load_program X a acc w)) = next_cache w"
  by (simp_all add: load_program_def Let_def
      split: option.split sum.split resolved_program.split prod.split)

lemma load_programs_caches:
  "caches (fst (load_programs X a ps c w)) = caches w \<and>
   next_cache (fst (load_programs X a ps c w)) = next_cache w"
proof (induction ps arbitrary: c w)
  case (Cons p ps)
  obtain k acc where p: "p = (k, acc)" by (cases p)
  obtain w' r where l: "load_program X a acc w = (w', r)" by (cases "load_program X a acc w")
  then have "caches w' = caches w" "next_cache w' = next_cache w"
    using load_program_frame [of X a acc w] by simp_all
  with Cons.IH [of _ w'] l show ?case by (cases r) (simp_all add: p)
qed simp

lemmas load_programs_frame [frame_simps] =
  conjunct1 [OF load_programs_caches] conjunct2 [OF load_programs_caches]

lemma rebuild_program_cache_frame:
  "same_except (programs_cache a) w (fst (rebuild_program_cache X a w))"
proof (cases "load_programs X a (program_accounts X a)
     (add_builtin_entries X a (pc_new X (current_slot a))) w")
  case (Pair w' r)
  then have "caches w' = caches w" "next_cache w' = next_cache w"
    using load_programs_frame [of X a "program_accounts X a"
        "add_builtin_entries X a (pc_new X (current_slot a))" w] by simp_all
  then show ?thesis
    using Pair by (cases r) (simp_all add: rebuild_program_cache_def same_except_def)
qed

lemma rebuild_sysvar_cache_frame:
  "same_except (programs_cache (snd wa)) (fst wa) (fst (rebuild_sysvar_cache X wa))"
  by (cases wa) (simp add: rebuild_sysvar_cache_def Let_def)

lemma prepare_account_frame [frame_simps]:
  "caches (fst (prepare_account X k acc a w)) = caches w"
  "next_cache (fst (prepare_account X k acc a w)) = next_cache w"
  using load_program_frame [of X a acc w]
  by (auto simp: prepare_account_def Let_def split: sum.split prod.split)

lemma refresh_program_cache_frame:
  "same_except (programs_cache a) w (fst (refresh_program_cache X k pe had a w))"
  using rebuild_program_cache_frame [of a w X]
  by (auto simp: refresh_program_cache_def replenish_program_cache_def
      split: option.split prod.split)

lemma add_account_frame:
  "same_except (programs_cache (snd wa)) (fst wa) (fst (fst (add_account X k acc wa)))"
proof -
  obtain w a where wa: "wa = (w, a)" by (cases wa)
  obtain w1 pr where p: "prepare_account X k acc a w = (w1, pr)"
    by (cases "prepare_account X k acc a w")
  have 1: "same_except (programs_cache a) w w1"
    using prepare_account_frame [of X k acc a w] p by (simp add: same_except_caches)
  let ?wa3 = "if is_managed_sysvar_account k
      then rebuild_sysvar_cache X (w1, overlay_put k acc a) else (w1, overlay_put k acc a)"
  have 2: "same_except (programs_cache a) w1 (fst ?wa3)"
    using rebuild_sysvar_cache_frame [of "(w1, overlay_put k acc a)" X] by (simp add: db_simps)
  have "programs_cache (snd ?wa3) = programs_cache a"
    by (simp add: db_simps)
  then have 3: "same_except (programs_cache a) (fst ?wa3)
      (fst (refresh_program_cache X k pe had (snd ?wa3) (fst ?wa3)))" for pe had
    using refresh_program_cache_frame [of "snd ?wa3" "fst ?wa3" X k pe had] by simp
  show ?thesis
  proof (cases pr)
    case (Inl e)
    with p 1 show ?thesis by (simp add: wa add_account_failed)
  next
    case (Inr pe)
    with p show ?thesis
      using same_except_trans [OF same_except_trans [OF 1 2] 3]
      by (simp add: wa add_account_unfold Let_def)
  qed
qed

lemma add_account_handle:
  "programs_cache (snd (fst (add_account X k acc wa))) = programs_cache (snd wa)"
proof -
  obtain w a where wa: "wa = (w, a)" by (cases wa)
  obtain w' a' r where r: "add_account X k acc (w, a) = ((w', a'), r)" by (metis prod.exhaust)
  show ?thesis using add_account_overlay [OF r] by (auto simp: wa r put_like_def)
qed

lemma add_accounts_frame:
  "same_except (programs_cache (snd wa)) (fst wa) (fst (fst (add_accounts X accs wa))) \<and>
   programs_cache (snd (fst (add_accounts X accs wa))) = programs_cache (snd wa)"
proof (induction accs arbitrary: wa)
  case (Cons p accs)
  obtain k acc where p: "p = (k, acc)" by (cases p)
  obtain wa' r where r: "add_account X k acc wa = (wa', r)" by (cases "add_account X k acc wa")
  have "same_except (programs_cache (snd wa)) (fst wa) (fst wa')"
    and h: "programs_cache (snd wa') = programs_cache (snd wa)"
    using add_account_frame [of wa X k acc] add_account_handle [of X k acc wa] r by simp_all
  then show ?case
    using Cons.IH [of wa'] r same_except_trans [of "programs_cache (snd wa)" "fst wa" "fst wa'"]
    by (cases r) (simp_all add: p)
qed simp

lemma remove_account_frame:
  "same_except (programs_cache (snd wa)) (fst wa) (fst (remove_account X k wa)) \<and>
   programs_cache (snd (remove_account X k wa)) = programs_cache (snd wa)"
proof -
  obtain w a where wa: "wa = (w, a)" by (cases wa)
  let ?wa' = "(write_cache (programs_cache a)
      (pc_remove_entry X (caches w (programs_cache a)) k) w, overlay_remove k (record_journal k a))"
  have "same_except (programs_cache a) (fst ?wa') (fst (rebuild_sysvar_cache X ?wa'))"
    using rebuild_sysvar_cache_frame [of ?wa' X] by (simp add: db_simps)
  then have "same_except (programs_cache a) w (fst (rebuild_sysvar_cache X ?wa'))"
    by (rule same_except_trans [rotated]) simp
  then show ?thesis
    by (simp add: wa remove_account_def Let_def db_simps)
qed

lemma resolve_programs_frame:
  "same_except (programs_cache a) w (fst (resolve_programs X a ps w))"
proof (induction X a ps w rule: resolve_programs.induct)
  case (2 X a k acc ps w)
  obtain w' r where l: "load_program X a acc w = (w', r)" by (cases "load_program X a acc w")
  then have s: "same_except (programs_cache a) w w'"
    using load_program_frame [of X a acc w] by (simp add: same_except_caches)
  show ?case
  proof (cases r)
    case (Inl e)
    with l s show ?thesis by simp
  next
    case (Inr entry)
    have "same_except (programs_cache a) w (replenish_program_cache X k entry a w')"
      by (rule same_except_trans [OF s]) (simp add: replenish_program_cache_def)
    then show ?thesis
      using same_except_trans [OF _ 2 [OF l [symmetric] Inr]] Inr l by simp
  qed
qed simp

lemma insert_hits_handle: "programs_cache (insert_hits hits a) = programs_cache a"
  unfolding insert_hits_def
  by (rule fold_invariant [where P = "\<lambda>b. programs_cache b = programs_cache a"])
    (auto simp: add_account_no_checks_def db_simps split: option.splits)

lemma db_step_frame:
  "db_step X wa wb \<Longrightarrow>
     same_except (programs_cache (snd wa)) (fst wa) (fst wb) \<and>
     programs_cache (snd wb) = programs_cache (snd wa)"
proof (induction rule: db_step.induct)
  case (step_sync wa accs)
  then show ?case using add_accounts_frame [of wa X] by (simp add: sync_accounts_def)
next
  case (step_prewarm w a addrs)
  then show ?case by (simp add: prewarm_def Let_def insert_hits_handle split: sum.split)
next
  case (step_sysvars wa)
  then show ?case by (simp add: rebuild_sysvar_cache_frame db_simps)
qed (simp_all add: add_account_frame add_account_handle remove_account_frame db_simps
    rebuild_program_cache_frame prewarm_programs_def resolve_programs_frame
    replenish_program_cache_def add_account_no_checks_def add_builtin_account_def
    set_account_source_def set_runtime_environments_def sync_jit_policy_def)

lemma db_run_frame:
  "db_run X cp wa wb \<Longrightarrow>
     same_except (programs_cache (snd wa)) (fst wa) (fst wb) \<and>
     programs_cache (snd wb) = programs_cache (snd wa)"
proof (induction rule: db_run.induct)
  case (run_step wa wb wc)
  then show ?case
    using db_step_frame [OF run_step.hyps(2)]
      same_except_trans [of "programs_cache (snd wa)" "fst wa" "fst wb" "fst wc"] by simp
qed (simp_all add: rollback_eq)

section \<open>Visible effect of the mutations\<close>

lemma put_like_lookup:
  assumes "put_like k acc a a'"
  shows "try_get_account a' k = Inr (if lamports acc = 0 then None else Some acc)"
    and "k' \<noteq> k \<Longrightarrow> try_get_account a' k' = try_get_account a k'"
  using assms
  by (auto simp: put_like_def try_get_account_def get_account_ref_def overlay_put_def db_simps
      split: option.splits)

lemma prepare_no_entry:
  "prepare_account X k acc a w = (w1, Inr None) \<Longrightarrow>
     \<not> (lamports acc \<noteq> 0 \<and> is_cached_program_account k acc)"
  by (auto simp: prepare_account_def Let_def map_ok_eq_Inr split: sum.splits if_splits prod.splits)

lemma prepare_entry:
  "prepare_account X k acc a w = (w1, Inr (Some e)) \<Longrightarrow>
     lamports acc \<noteq> 0 \<and> is_cached_program_account k acc"
  by (auto simp: prepare_account_def Let_def split: sum.splits if_splits prod.splits)

text \<open>
  C23. After a successful \<open>add_account\<close>, reading the address gives exactly the new account,
  or nothing if it was added with zero lamports, even when the account source still knows
  the address; every other address reads as before.
\<close>

theorem add_account_visible:
  assumes "add_account X k acc (w, a) = ((w', a'), Inr ())"
  shows "try_get_account a' k = Inr (if lamports acc = 0 then None else Some acc) \<and>
     (k' \<noteq> k \<longrightarrow> try_get_account a' k' = try_get_account a k')"
  using add_account_overlay [OF assms] put_like_lookup by auto

theorem add_account_visible_witness:
  "\<exists>w' a'. add_account ex_ext (Pubkey 1) (ex_account 5) (ex_world0, ex_db0) = ((w', a'), Inr ()) \<and>
     try_get_account a' (Pubkey 1) = Inr (Some (ex_account 5))"
proof -
  have "add_account ex_ext (Pubkey 1) (ex_account 5) (ex_world0, ex_db0) =
      ((ex_world0, overlay_put (Pubkey 1) (ex_account 5) ex_db0), Inr ())"
    by (simp add: add_account_def prepare_account_def refresh_program_cache_def
        is_managed_sysvar_account_def is_cached_program_account_def Let_def ex_defs)
  from add_account_visible [OF this] this show ?thesis
    by (simp add: ex_account_def)
qed

text \<open>
  A failing \<open>add_account\<close> leaves the overlay, the journal, the sysvars and every program
  cache untouched, provided it does not replace a cached program by an account that is not
  one: validation and program loading fail before anything is written.
\<close>

theorem add_account_failure_atomic:
  assumes "add_account X k acc (w, a) = ((w', a'), Inl e)"
    and "is_some_and (is_cached_program_account k) (inner (cache a) k) \<longrightarrow>
      lamports acc \<noteq> 0 \<and> is_cached_program_account k acc"
  shows "a' = a \<and> caches w' = caches w"
proof (cases "prepare_account X k acc a w")
  case (Pair w1 pr)
  show ?thesis
  proof (cases pr)
    case (Inl e')
    with Pair have "add_account X k acc (w, a) = ((w1, a), Inl e')"
      by (simp add: add_account_failed)
    with assms(1) Pair show ?thesis
      using prepare_account_frame(1) [of X k acc a w] by simp
  next
    case (Inr pe)
    with Pair assms have False
      using prepare_no_entry [of X k acc a w w1]
      by (cases pe) (auto simp: add_account_unfold Let_def refresh_program_cache_def)
    then show ?thesis ..
  qed
qed

theorem add_account_failure_atomic_witness:
  "\<exists>w' e. add_account ex_ext ClockSysvar (ex_account 5) (ex_world0, ex_db0) = ((w', ex_db0), Inl e) \<and>
     caches w' = caches ex_world0"
proof -
  have "add_account ex_ext ClockSysvar (ex_account 5) (ex_world0, ex_db0) =
      ((ex_world0, ex_db0), Inl (InvalidSysvarData InvalidClock))"
    by (simp add: add_account_def prepare_account_def validate_sysvar_account_def sysvar_error_def
        is_managed_sysvar_account_def Let_def ex_defs)
  from add_account_failure_atomic [OF this] this show ?thesis
    by (auto simp: accounts_default_def)
qed

text \<open>
  Replacing a cached program by an account that is not a program can fail after the
  write: when the account itself is acceptable and the following rebuild of the program
  cache fails, the error is returned although the overlay and the journal already hold the
  new account.
\<close>

theorem add_account_late_failure:
  assumes "add_account X k acc (w, a) = ((w', a'), Inl e)"
    and "\<not> (lamports acc \<noteq> 0 \<and> is_cached_program_account k acc)"
    and "\<not> is_managed_sysvar_account k"
  shows "is_some_and (is_cached_program_account k) (inner (cache a) k) \<and>
     try_get_account a' k = Inr (if lamports acc = 0 then None else Some acc) \<and>
     length (journal a') = length (journal a) + 1"
proof -
  have p: "prepare_account X k acc a w = (w, Inr None)"
    using assms(2,3) by (auto simp: prepare_account_def)
  then have put: "put_like k acc a a'"
    using add_account_put [OF p] assms(1) by simp
  moreover have "is_some_and (is_cached_program_account k) (inner (cache a) k)"
    using assms(1,3) p
    by (auto simp: add_account_unfold refresh_program_cache_def Let_def split: if_splits)
  ultimately show ?thesis
    using put_like_lookup [OF put]
    by (simp add: put_like_def overlay_put_def db_simps)
qed

definition ex_two_programs :: accounts where
  "ex_two_programs =
     add_account_no_checks (Pubkey 2) (ex_program [])
       (add_account_no_checks (Pubkey 1) (ex_program [1]) ex_clocked)"

lemma ex_late_rebuild:
  "add_account ex_ext (Pubkey 1) (ex_account 5) (ex_world0, ex_two_programs) =
     ((ex_world0, overlay_put (Pubkey 1) (ex_account 5) ex_two_programs),
      Inl (Instruction InvalidAccountData))"
proof -
  let ?a = "overlay_put (Pubkey 1) (ex_account 5) ex_two_programs"
  have dom: "dom (inner (cache ?a)) = {Pubkey 1, Pubkey 2}"
    by (auto simp: ex_two_programs_def overlay_put_def add_account_no_checks_def db_simps ex_defs)
  have "program_accounts ex_ext ?a = [(Pubkey 2, ex_program [])]"
    by (simp add: program_accounts_def ex_ext_def dom less_eq_address_def List.map_filter_simps)
      (simp add: ex_two_programs_def overlay_put_def add_account_no_checks_def db_simps
        is_cached_program_account_def ex_defs)
  moreover have "load_program ex_ext ?a (ex_program []) ex_world0 = (ex_world0, Inl InvalidAccountData)"
    by (simp add: load_program_def resolve_program_def load_elf_def Let_def store_eval db_simps
        ex_two_programs_def add_account_no_checks_def requires_uncompiled_load_def
        default_jit_policy_def ex_defs)
  ultimately have "rebuild_program_cache ex_ext ?a ex_world0 = (ex_world0, Inl InvalidAccountData)"
    by (simp add: rebuild_program_cache_def)
  then show ?thesis
    by (simp add: add_account_def prepare_account_def refresh_program_cache_def Let_def
        is_managed_sysvar_account_def is_cached_program_account_def ex_two_programs_def
        add_account_no_checks_def db_simps ex_account_def ex_program_def default_account_def)
qed

theorem add_account_late_failure_witness:
  "\<exists>w' a' e. add_account ex_ext (Pubkey 1) (ex_account 5) (ex_world0, ex_two_programs)
       = ((w', a'), Inl e) \<and>
     try_get_account a' (Pubkey 1) = Inr (Some (ex_account 5)) \<and>
     length (journal a') = length (journal ex_two_programs) + 1"
proof -
  have np: "\<not> (lamports (ex_account 5) \<noteq> 0 \<and> is_cached_program_account (Pubkey 1) (ex_account 5))"
    and ns: "\<not> is_managed_sysvar_account (Pubkey 1)" and nz: "lamports (ex_account 5) \<noteq> 0"
    by (simp_all add: is_managed_sysvar_account_def is_cached_program_account_def ex_account_def
        default_account_def)
  have "try_get_account (overlay_put (Pubkey 1) (ex_account 5) ex_two_programs) (Pubkey 1) =
      Inr (Some (ex_account 5))"
    and "length (journal (overlay_put (Pubkey 1) (ex_account 5) ex_two_programs)) =
      length (journal ex_two_programs) + 1"
    using add_account_late_failure [OF ex_late_rebuild np ns] nz by simp_all
  with ex_late_rebuild show ?thesis by blast
qed

text \<open>
  Removing an account hides the address even if the account source still has it, drops
  the program-cache entry the account backed and no other entry, and leaves every other
  account as it was.
\<close>

theorem remove_account_hides:
  assumes "db_crates X pc_entries" and "remove_account X k (w, a) = (w', a')"
  shows "try_get_account a' k = Inr None \<and>
     \<not> has_program_cache_entry X a' w' k \<and>
     (k' \<noteq> k \<longrightarrow> try_get_account a' k' = try_get_account a k' \<and>
        has_program_cache_entry X a' w' k' = has_program_cache_entry X a w k')"
proof -
  have w': "w' = fst (remove_account X k (w, a))" and a': "a' = snd (remove_account X k (w, a))"
    using assms(2) by simp_all
  have c: "cache a' = cache (overlay_remove k (record_journal k a))"
    and src: "source a' = source a" and h: "programs_cache a' = programs_cache a"
    by (simp_all add: a' remove_account_def Let_def db_simps)
  have "pc_entries (caches w' (programs_cache a)) =
      (pc_entries (caches w (programs_cache a)))(k := None)"
    by (simp add: w' remove_account_def rebuild_sysvar_cache_def Let_def db_simps
        db_crates.pc_remove_entries [OF assms(1)] db_crates.pc_set_slot_entries [OF assms(1)])
  then show ?thesis
    using c src h
    by (simp add: has_program_cache_entry_def db_crates.pc_find_None [OF assms(1)]
        try_get_account_def get_account_ref_def db_simps split: option.split)
qed

theorem remove_account_hides_witness:
  "let a = add_account_no_checks (Pubkey 1) (ex_account 5) ex_db0;
       (w', a') = remove_account ex_ext (Pubkey 1) (ex_world0, a)
   in get_account a (Pubkey 1) = Some (ex_account 5) \<and> try_get_account a' (Pubkey 1) = Inr None"
proof -
  let ?a = "add_account_no_checks (Pubkey 1) (ex_account 5) ex_db0"
  obtain w' a' where r: "remove_account ex_ext (Pubkey 1) (ex_world0, ?a) = (w', a')"
    by (cases "remove_account ex_ext (Pubkey 1) (ex_world0, ?a)")
  with remove_account_hides [OF ex.db_crates_axioms r] show ?thesis
    by (simp add: get_account_def try_get_account_def get_account_ref_def
        add_account_no_checks_def db_simps)
qed

end
