(* ===== verification/Accounts_Bulk.thy ===== *)
theory Accounts_Bulk
  imports Accounts_Props
begin

text \<open>
  Properties of the bulk operations of the account database: prewarming is invisible to
  reads, account batches are reordered so that programdata accounts come first, program
  loading is stable, the rebuilt program cache is exactly the programs of the overlay,
  workers are isolated while plain clones are not, and the tracking address loader agrees
  with the plain one.
\<close>

section \<open>Prewarming\<close>

lemma prewarm_missing_set:
  "k \<in> set (prewarm_missing c seen addrs) \<longleftrightarrow>
     k \<in> set addrs \<and> inner c k = None \<and> k \<notin> removed c \<and> k \<notin> seen"
proof (induction addrs arbitrary: seen)
  case (Cons addr addrs)
  show ?case
  proof (cases "k = addr")
    case True
    then show ?thesis using Cons.IH by (cases "inner c addr") simp_all
  next
    case False
    then show ?thesis using Cons.IH by (cases "inner c addr") simp_all
  qed
qed simp

lemma prewarm_missing_distinct: "distinct (prewarm_missing c seen addrs)"
  by (induction addrs arbitrary: seen) (simp_all add: prewarm_missing_set)

lemma insert_hits_source: "source (insert_hits hits a) = source a"
  unfolding insert_hits_def
  by (rule fold_invariant [where P = "\<lambda>b. source b = source a"])
    (auto simp: add_account_no_checks_def db_simps split: option.splits)

lemma no_checks_overlay:
  "inner (cache (add_account_no_checks k acc a)) = (inner (cache a))(k \<mapsto> acc)"
  "removed (cache (add_account_no_checks k acc a)) = removed (cache a) - {k}"
  by (simp_all add: add_account_no_checks_def db_simps)

lemma insert_hits_overlay:
  "distinct (map fst hits) \<Longrightarrow>
     inner (cache (insert_hits hits a)) k =
       (case map_of hits k of Some (Some acc) \<Rightarrow> Some acc | _ \<Rightarrow> inner (cache a) k) \<and>
     (k \<in> removed (cache (insert_hits hits a)) \<longleftrightarrow>
        k \<in> removed (cache a) \<and> (\<forall>acc. map_of hits k \<noteq> Some (Some acc)))"
proof (induction hits arbitrary: a)
  case (Cons p hits)
  obtain addr v where p: "p = (addr, v)" by (cases p)
  from Cons.prems p have nk: "map_of hits addr = None" and d: "distinct (map fst hits)"
    by (simp_all add: map_of_eq_None_iff)
  show ?case
  proof (cases v)
    case None
    then have "insert_hits (p # hits) a = insert_hits hits a"
      by (simp add: insert_hits_def p)
    with Cons.IH [OF d, of a] nk None show ?thesis
      by (cases "k = addr") (simp_all add: p)
  next
    case (Some acc)
    then have "insert_hits (p # hits) a = insert_hits hits (add_account_no_checks addr acc a)"
      by (simp add: insert_hits_def p)
    with Cons.IH [OF d, of "add_account_no_checks addr acc a", unfolded no_checks_overlay] nk Some
    show ?thesis
      by (cases "k = addr") (simp_all add: p split: option.splits)
  qed
qed (simp add: insert_hits_def)

text \<open>
  C28. Prewarming is invisible: when the account source honours the trait's contract that a
  batched read agrees with single reads, a successful prewarm of any addresses changes the
  result of no later read, for any address; a failed one leaves the database as it was and
  reports the source's error with its fatal classification.
\<close>

theorem prewarm_transparent:
  assumes "batched_source (source a)"
  shows "case prewarm addrs a of
      (a', Inr _) \<Rightarrow> try_get_account a' k = try_get_account a k
    | (a', Inl e) \<Rightarrow> a' = a \<and> (\<exists>se. source_get_accounts (source a)
        (prewarm_missing (cache a) {} addrs) = Inl se \<and> e = db_error_from_source se \<and>
        (db_error_is_fatal e \<longleftrightarrow> kind se = Unavailable))"
proof -
  let ?m = "prewarm_missing (cache a) {} addrs"
  show ?thesis
  proof (cases "source_get_accounts (source a) ?m")
    case (Inl se)
    then show ?thesis
      by (auto simp: prewarm_def Let_def db_error_from_source_def db_error_is_fatal_def)
  next
    case (Inr vs)
    let ?a' = "insert_hits (zip ?m vs) a"
    have d: "distinct (map fst (zip ?m vs))"
      using prewarm_missing_distinct [of "cache a" "{}" addrs] by (simp add: map_fst_zip_take)
    have "try_get_account ?a' k = try_get_account a k"
    proof (cases "map_of (zip ?m vs) k")
      case None
      then show ?thesis
        using insert_hits_overlay [OF d, of a k]
        by (simp add: try_get_account_def get_account_ref_def insert_hits_source split: option.split)
    next
      case (Some v)
      then have mem: "(k, v) \<in> set (zip ?m vs)" by (rule map_of_SomeD)
      then have "k \<in> set ?m" by (rule set_zip_leftD)
      then have "inner (cache a) k = None" "k \<notin> removed (cache a)"
        by (simp_all add: prewarm_missing_set)
      moreover have "source_get_account (source a) k = Inr v"
        using batched_source.batch_Inr_zip [OF assms Inr mem] .
      ultimately show ?thesis
        using Some insert_hits_overlay [OF d, of a k]
        by (simp add: try_get_account_def get_account_ref_def insert_hits_source split: option.split)
    qed
    with Inr show ?thesis by (simp add: prewarm_def Let_def)
  qed
qed

theorem prewarm_transparent_witness:
  "batched_source (source ex_db0) \<and>
   (case prewarm [Pubkey 1, Pubkey 1] ex_db0 of
      (a', Inr _) \<Rightarrow> try_get_account a' (Pubkey 1) = try_get_account ex_db0 (Pubkey 1)
    | (a', Inl e) \<Rightarrow> False)"
proof -
  have b: "batched_source (source ex_db0)"
    by (simp add: accounts_default_def empty_src.batched_source_axioms)
  have "\<exists>a'. prewarm [Pubkey 1, Pubkey 1] ex_db0 = (a', Inr ())"
    by (simp add: prewarm_def Let_def accounts_default_def empty_account_source_def
        default_get_accounts_def)
  with prewarm_transparent [OF b, of "[Pubkey 1, Pubkey 1]" "Pubkey 1"] b show ?thesis
    by auto
qed

section \<open>Order of account batches\<close>

text \<open>
  After \<open>n\<close> iterations: a permutation of the input whose prefix holds the programdata
  accounts met so far in their order, then the others met so far, then the rest untouched.
\<close>

lemma swap_into_prefix:
  assumes "k \<le> n" and "n < length ys" and "xs = (if k \<noteq> n then list_swap ys k n else ys)"
  shows "length xs = length ys" "mset xs = mset ys" "take (Suc k) xs = take k ys @ [ys ! n]"
    "drop (Suc n) xs = drop (Suc n) ys"
    "k < i \<Longrightarrow> i \<le> n \<Longrightarrow> xs ! i = (if i = n then ys ! k else ys ! i)"
proof -
  show len: "length xs = length ys" and "mset xs = mset ys" using assms by auto
  have nth: "xs ! i = (if i = n then ys ! k else if i = k then ys ! n else ys ! i)" if "i < length ys" for i
    using that assms by (auto simp: nth_list_swap)
  show "take (Suc k) xs = take k ys @ [ys ! n]"
    using assms(1,2) len by (intro nth_equalityI) (auto simp: nth nth_append less_Suc_eq)
  show "drop (Suc n) xs = drop (Suc n) ys"
    using assms(1,2) len by (intro nth_equalityI) (auto simp: nth)
  show "k < i \<Longrightarrow> i \<le> n \<Longrightarrow> xs ! i = (if i = n then ys ! k else ys ! i)"
    using assms nth [of i] by auto
qed

lemma partition_invariant:
  assumes "n \<le> length accs" and "fold partition_step [0..<n] (0, accs) = (wr, xs)"
  shows "mset xs = mset accs \<and> length xs = length accs \<and> wr \<le> n \<and>
     take wr xs = filter (\<lambda>p. is_programdata (snd p)) (take n accs) \<and>
     (\<forall>i. wr \<le> i \<and> i < n \<longrightarrow> \<not> is_programdata (snd (xs ! i))) \<and>
     drop n xs = drop n accs"
  using assms
proof (induction n arbitrary: wr xs)
  case 0
  then have "wr = 0" "xs = accs" by simp_all
  then show ?case by simp
next
  case (Suc n)
  obtain wr0 ys where st: "fold partition_step [0..<n] (0, accs) = (wr0, ys)"
    by (cases "fold partition_step [0..<n] (0, accs)")
  from Suc.prems(1) have n: "n < length accs" by simp
  note IH = Suc.IH [OF _ st]
  have ms: "mset ys = mset accs" and len: "length ys = length accs" and wn: "wr0 \<le> n"
    and pre: "take wr0 ys = filter (\<lambda>p. is_programdata (snd p)) (take n accs)"
    and mid: "\<And>i. wr0 \<le> i \<Longrightarrow> i < n \<Longrightarrow> \<not> is_programdata (snd (ys ! i))"
    and rest: "drop n ys = drop n accs"
    using IH n by auto
  have cur: "ys ! n = accs ! n"
    using rest n len by (metis Cons_nth_drop_Suc list.inject)
  have rest': "drop (Suc n) ys = drop (Suc n) accs"
    using rest by (metis drop_Suc tl_drop)
  have step: "(wr, xs) = partition_step n (wr0, ys)"
    using Suc.prems(2) st by simp
  have tk: "filter (\<lambda>p. is_programdata (snd p)) (take (Suc n) accs) =
      take wr0 ys @ (if is_programdata (snd (accs ! n)) then [accs ! n] else [])"
    using n pre by (simp add: take_Suc_conv_app_nth)
  show ?case
  proof (cases "is_programdata (snd (accs ! n))")
    case False
    with step cur have eq: "wr = wr0" "xs = ys" by (simp_all add: partition_step_def)
    have "\<not> is_programdata (snd (xs ! i))" if "wr \<le> i \<and> i < Suc n" for i
      using that mid [of i] False cur eq by (cases "i = n") simp_all
    moreover have "take wr xs = filter (\<lambda>p. is_programdata (snd p)) (take (Suc n) accs)"
      using tk False eq by simp
    moreover have "wr \<le> Suc n" "mset xs = mset accs" "length xs = length accs"
      "drop (Suc n) xs = drop (Suc n) accs"
      using wn ms len rest' eq by simp_all
    ultimately show ?thesis by blast
  next
    case True
    with step cur have wr: "wr = wr0 + 1"
      and xs: "xs = (if wr0 \<noteq> n then list_swap ys wr0 n else ys)"
      by (simp_all add: partition_step_def)
    note sw = swap_into_prefix [OF wn _ xs]
    have "\<not> is_programdata (snd (xs ! i))" if "wr \<le> i" "i < Suc n" for i
      using that wr sw mid [of wr0] mid [of i] n len by (cases "i = n") auto
    moreover have "take wr xs = filter (\<lambda>p. is_programdata (snd p)) (take (Suc n) accs)"
      using tk True sw n len wr cur by simp
    moreover have "wr \<le> Suc n" "mset xs = mset accs" "length xs = length accs"
      "drop (Suc n) xs = drop (Suc n) accs"
      using wr wn sw n len ms rest' by simp_all
    ultimately show ?thesis by blast
  qed
qed

text \<open>
  Applying a batch of accounts reorders it: what is inserted is a permutation of the
  batch in which all programdata accounts come first, in their original relative order, so
  that every programdata account is present before a program account that refers to it is
  loaded.
\<close>

theorem partition_programdata_first:
  "mset (partition_programdata accs) = mset accs \<and>
   (let n = length (filter (\<lambda>p. is_programdata (snd p)) accs) in
     take n (partition_programdata accs) = filter (\<lambda>p. is_programdata (snd p)) accs \<and>
     filter (\<lambda>p. is_programdata (snd p)) (drop n (partition_programdata accs)) = [])"
proof -
  obtain wr xs where f: "fold partition_step [0..<length accs] (0, accs) = (wr, xs)"
    by (cases "fold partition_step [0..<length accs] (0, accs)")
  have xs: "partition_programdata accs = xs"
    by (simp add: partition_programdata_def f)
  have inv: "mset xs = mset accs" "length xs = length accs" "wr \<le> length accs"
    "take wr xs = filter (\<lambda>p. is_programdata (snd p)) accs"
    "\<And>i. wr \<le> i \<Longrightarrow> i < length accs \<Longrightarrow> \<not> is_programdata (snd (xs ! i))"
    using partition_invariant [OF order_refl f] by auto
  then have n: "length (filter (\<lambda>p. is_programdata (snd p)) accs) = wr"
    by (metis length_take min.absorb2)
  have "\<not> is_programdata (snd x)" if "x \<in> set (drop wr xs)" for x
  proof -
    from that obtain j where "j < length (drop wr xs)" "x = drop wr xs ! j"
      by (metis in_set_conv_nth)
    then show ?thesis using inv(2,3) inv(5) [of "wr + j"] by (simp add: add.commute)
  qed
  then have "filter (\<lambda>p. is_programdata (snd p)) (drop wr xs) = []"
    by (simp add: filter_empty_conv)
  with inv n xs show ?thesis by (simp add: Let_def)
qed

section \<open>Program loading\<close>

lemma lru_get_keeps:
  assumes "lru ops ents cap"
  shows "map_of (ents (snd (lru_get ops st k))) k = map_of (ents st) k"
  by (simp add: lru.get_ents [OF assms] split: option.split)

lemma load_program_hit:
  assumes "lru (store_ops X) ents cap"
    and "get_clock (sysvar_cache a) = Some ck"
    and "resolve_program X a (slot ck) acc = Inr (ElfBytes elf loader)"
    and "map_of (ents (entry_store w))
      (content_key (sha256 X) (environments a) elf loader immediate_deployment_slot) = Some e"
  shows "snd (load_program X a acc w) = Inr e"
proof -
  let ?k = "content_key (sha256 X) (environments a) elf loader immediate_deployment_slot"
  obtain st where "lru_get (store_ops X) (entry_store w) ?k = (Some e, st)"
    using assms(4) lru.get_val [OF assms(1), of "entry_store w" ?k]
    by (cases "lru_get (store_ops X) (entry_store w) ?k") simp
  with assms(2,3) show ?thesis
    by (simp add: load_program_def store_get_def Let_def)
qed

lemma load_program_resident:
  assumes "lru (store_ops X) ents cap" and "lru.invar ents cap (entry_store w)"
    and "get_clock (sysvar_cache a) = Some ck"
    and "resolve_program X a (slot ck) acc = Inr (ElfBytes elf loader)"
    and "load_program X a acc w = (w', Inr e)"
  shows "map_of (ents (entry_store w'))
      (content_key (sha256 X) (environments a) elf loader immediate_deployment_slot) = Some e"
proof -
  let ?k = "content_key (sha256 X) (environments a) elf loader immediate_deployment_slot"
  obtain hit st where g: "lru_get (store_ops X) (entry_store w) ?k = (hit, st)"
    by (cases "lru_get (store_ops X) (entry_store w) ?k")
  note ps = program_storeI [OF assms(1)]
  show ?thesis
  proof (cases hit)
    case (Some r)
    with g assms(3-5) have "e = r" "entry_store w' = st"
      by (auto simp: load_program_def store_get_def Let_def)
    with g Some lru_get_keeps [OF assms(1), of "entry_store w" ?k] show ?thesis
      using lru.get_val [OF assms(1), of "entry_store w" ?k] by simp
  next
    case None
    have "lru.invar ents cap st"
      using lru.invar_get [OF assms(1,2), of ?k] g by simp
    from program_store.insert_resident [OF ps this]
    have ins: "map_of (ents (snd (store_insert (store_ops X) st ?k x))) ?k =
        Some (fst (store_insert (store_ops X) st ?k x))" for x .
    from None g assms(3-5) obtain x where "load_elf X a elf loader = Inr x"
      by (cases "load_elf X a elf loader") (auto simp: load_program_def store_get_def Let_def)
    with None g assms(3-5) have "e = fst (store_insert (store_ops X) st ?k x)"
      "entry_store w' = snd (store_insert (store_ops X) st ?k x)"
      by (auto simp: load_program_def store_get_def Let_def split: prod.splits)
    with ins show ?thesis by simp
  qed
qed

text \<open>
  Loading is stable: loading the same program account again under the same database
  returns the very entry the first load returned (the resident one for ELF programs), so a
  rebuild of the program cache re-links unchanged programs instead of compiling them again.
\<close>

theorem load_program_stable:
  assumes "lru (store_ops X) ents cap" and "lru.invar ents cap (entry_store w)"
    and "load_program X a acc w = (w', Inr e)"
  shows "snd (load_program X a acc w') = Inr e"
proof -
  from assms(3) obtain ck where ck: "get_clock (sysvar_cache a) = Some ck"
    by (cases "get_clock (sysvar_cache a)") (simp_all add: load_program_def)
  show ?thesis
  proof (cases "resolve_program X a (slot ck) acc")
    case (Inl e')
    with assms(3) ck show ?thesis by (simp add: load_program_def)
  next
    case (Inr res)
    show ?thesis
    proof (cases res)
      case (Tombstone t)
      with Inr assms(3) ck show ?thesis by (simp add: load_program_def)
    next
      case (ElfBytes elf loader)
      with Inr have r: "resolve_program X a (slot ck) acc = Inr (ElfBytes elf loader)" by simp
      show ?thesis
        by (rule load_program_hit [OF assms(1) ck r load_program_resident [OF assms(1,2) ck r assms(3)]])
    qed
  qed
qed

lemma ex_store_invar: "list_lru.invar (entry_store ex_world0)"
  by (simp add: ex_world0_def conjunct1 [OF list_store.reachable_store [OF store_reachable.created]])

lemma ex_load:
  "load_program ex_ext ex_clocked (ex_program [7]) ex_world0 =
     (ex_world0\<lparr>entry_store := \<lparr>l_cap = 256, l_ents =
        [(content_key (\<lambda>bs. bs) 0 [7] BpfLoader immediate_deployment_slot,
          ex_entry [7] immediate_deployment_slot)]\<rparr>\<rparr>,
      Inr (ex_entry [7] immediate_deployment_slot))"
  by (simp add: load_program_def resolve_program_def load_elf_def Let_def store_eval ex_defs
      requires_uncompiled_load_def default_jit_policy_def)

theorem load_program_stable_witness:
  "\<exists>w' e. load_program ex_ext ex_clocked (ex_program [7]) ex_world0 = (w', Inr e) \<and>
     snd (load_program ex_ext ex_clocked (ex_program [7]) w') = Inr e"
proof -
  have "lru (store_ops ex_ext) l_ents l_cap"
    by (simp add: ex_ext_def list_lru.lru_axioms)
  from load_program_stable [OF this ex_store_invar ex_load] ex_load show ?thesis by blast
qed

section \<open>The rebuilt program cache\<close>

lemma program_accounts_set:
  assumes "db_crates X pc_entries" and "finite (dom (inner (cache a)))"
  shows "(k, acc) \<in> set (program_accounts X a) \<longleftrightarrow>
     inner (cache a) k = Some acc \<and> is_cached_program_account k acc"
proof -
  have "k \<in> set (hash_order X (inner (cache a))) \<longleftrightarrow> inner (cache a) k \<noteq> None"
    using db_crates.hash_order_set [OF assms] by (simp add: dom_def)
  then show ?thesis
    by (simp add: program_accounts_def map_filter_def image_iff)
      (auto split: option.splits if_splits)
qed

lemma load_programs_dom:
  assumes "db_crates X pc_entries" and "load_programs X a ps c w = (w', Inr c')"
  shows "dom (pc_entries c') = dom (pc_entries c) \<union> fst ` set ps \<and> pc_slot X c' = pc_slot X c"
  using assms(2)
proof (induction ps arbitrary: c w)
  case (Cons p ps)
  obtain k acc where p: "p = (k, acc)" by (cases p)
  obtain w1 r where l: "load_program X a acc w = (w1, r)" by (cases "load_program X a acc w")
  with Cons.prems p obtain e where r: "r = Inr e" by (cases r) simp_all
  from Cons.prems l r p have "load_programs X a ps (pc_replenish X c k e) w1 = (w', Inr c')"
    by simp
  from Cons.IH [OF this] show ?case
    by (simp add: p db_crates.pc_replenish_dom [OF assms(1)]
        db_crates.pc_replenish_slot [OF assms(1)])
qed simp

lemma add_builtin_entries_dom:
  assumes "db_crates X pc_entries"
  shows "dom (pc_entries (add_builtin_entries X a c)) =
      dom (pc_entries c) \<union> {builtin_id b |b. b \<in> set (builtins X) \<and> inner (cache a) (builtin_id b) \<noteq> None}
    \<and> pc_slot X (add_builtin_entries X a c) = pc_slot X c"
proof -
  let ?f = "\<lambda>b c. if inner (cache a) (builtin_id b) \<noteq> None
              then pc_replenish X c (builtin_id b) (new_builtin X (register_fn b)) else c"
  have "dom (pc_entries (fold ?f bs c)) =
      dom (pc_entries c) \<union> {builtin_id b |b. b \<in> set bs \<and> inner (cache a) (builtin_id b) \<noteq> None}
      \<and> pc_slot X (fold ?f bs c) = pc_slot X c" for bs c
  proof (induction bs arbitrary: c)
    case (Cons b bs)
    have "dom (pc_entries (?f b c)) = dom (pc_entries c) \<union>
        (if inner (cache a) (builtin_id b) \<noteq> None then {builtin_id b} else {})"
      and "pc_slot X (?f b c) = pc_slot X c"
      by (simp_all add: db_crates.pc_replenish_dom [OF assms] db_crates.pc_replenish_slot [OF assms])
    with Cons.IH [of "?f b c"] show ?case
      unfolding fold_Cons comp_apply by (auto simp del: split_paired_Ex)
  qed simp
  then show ?thesis by (simp add: add_builtin_entries_def)
qed

lemma rebuild_published:
  assumes "db_crates X pc_entries" and "finite (dom (inner (cache a)))"
    and "rebuild_program_cache X a w = (w', Inr u)"
  shows "dom (pc_entries (caches w' (programs_cache a))) =
          {k. \<exists>acc. inner (cache a) k = Some acc \<and> is_cached_program_account k acc} \<union>
          {builtin_id b |b. b \<in> set (builtins X) \<and> inner (cache a) (builtin_id b) \<noteq> None} \<and>
        pc_slot X (caches w' (programs_cache a)) = current_slot a"
proof -
  let ?c0 = "add_builtin_entries X a (pc_new X (current_slot a))"
  obtain w1 r where l: "load_programs X a (program_accounts X a) ?c0 w = (w1, r)"
    by (cases "load_programs X a (program_accounts X a) ?c0 w")
  with assms(3) obtain c where r: "r = Inr c" and w': "w' = write_cache (programs_cache a) c w1"
    by (cases r) (simp_all add: rebuild_program_cache_def)
  have progs: "fst ` set (program_accounts X a) =
      {k. \<exists>acc. inner (cache a) k = Some acc \<and> is_cached_program_account k acc}"
    using program_accounts_set [OF assms(1,2)] by force
  from load_programs_dom [OF assms(1) l [unfolded r]] show ?thesis
    using add_builtin_entries_dom [OF assms(1), of a "pc_new X (current_slot a)"]
    by (simp add: w' progs db_crates.pc_new_dom [OF assms(1)]
        db_crates.pc_new_slot [OF assms(1)] Un_commute)
qed

lemma rebuild_failed:
  assumes "rebuild_program_cache X a w = (w', Inl e)"
  shows "caches w' = caches w"
proof -
  let ?c0 = "add_builtin_entries X a (pc_new X (current_slot a))"
  obtain w1 r where l: "load_programs X a (program_accounts X a) ?c0 w = (w1, r)"
    by (cases "load_programs X a (program_accounts X a) ?c0 w")
  with assms have "w' = w1"
    by (cases r) (simp_all add: rebuild_program_cache_def)
  then show ?thesis
    using load_programs_frame(1) [of X a "program_accounts X a" ?c0 w] l by simp
qed

text \<open>
  C26. A successful rebuild publishes a program cache that is derived from the overlay
  alone: its entries are exactly the program accounts of the overlay and the builtins whose
  account is present, and its slot is the clock's. A failed rebuild publishes nothing.
\<close>

theorem rebuild_program_cache_exact:
  assumes "db_crates X pc_entries" and "finite (dom (inner (cache a)))"
  shows "case rebuild_program_cache X a w of
      (w', Inr _) \<Rightarrow>
        dom (pc_entries (caches w' (programs_cache a))) =
          {k. \<exists>acc. inner (cache a) k = Some acc \<and> is_cached_program_account k acc} \<union>
          {builtin_id b |b. b \<in> set (builtins X) \<and> inner (cache a) (builtin_id b) \<noteq> None} \<and>
        pc_slot X (caches w' (programs_cache a)) = current_slot a
    | (w', Inl _) \<Rightarrow> caches w' = caches w"
proof (cases "rebuild_program_cache X a w")
  case (Pair w' r)
  show ?thesis
  proof (cases r)
    case (Inl e)
    with Pair rebuild_failed [of X a w w' e] show ?thesis by simp
  next
    case (Inr u)
    with Pair rebuild_published [OF assms, of w w' u] show ?thesis by simp
  qed
qed

theorem rebuild_program_cache_exact_witness:
  "let a = add_account_no_checks (Pubkey 2) (ex_program [7]) ex_clocked in
   finite (dom (inner (cache a))) \<and>
   (case rebuild_program_cache ex_ext a ex_world0 of
      (w', Inr _) \<Rightarrow> dom (ex_entries (caches w' (programs_cache a))) = {Pubkey 2}
    | (w', Inl _) \<Rightarrow> False)"
proof -
  let ?a = "add_account_no_checks (Pubkey 2) (ex_program [7]) ex_clocked"
  have inner: "inner (cache ?a) = [Pubkey 2 \<mapsto> ex_program [7]]"
    by (simp add: add_account_no_checks_def db_simps ex_clocked_def accounts_default_def)
  have fin: "finite (dom (inner (cache ?a)))" by (simp add: inner)
  have pa: "program_accounts ex_ext ?a = [(Pubkey 2, ex_program [7])]"
    unfolding program_accounts_def inner
    by (simp add: is_cached_program_account_def ex_program_def ex_ext_def List.map_filter_simps)
  have "\<exists>w' e. load_program ex_ext ?a (ex_program [7]) ex_world0 = (w', Inr e)"
    by (simp add: load_program_def resolve_program_def load_elf_def Let_def store_eval ex_defs
        requires_uncompiled_load_def default_jit_policy_def add_account_no_checks_def db_simps)
  then have "\<exists>w'. rebuild_program_cache ex_ext ?a ex_world0 = (w', Inr ())"
    by (auto simp: rebuild_program_cache_def pa)
  then obtain w' where r: "rebuild_program_cache ex_ext ?a ex_world0 = (w', Inr ())" by blast
  have progs: "{k. \<exists>acc. inner (cache ?a) k = Some acc \<and> is_cached_program_account k acc} = {Pubkey 2}"
    unfolding inner by (auto simp: is_cached_program_account_def ex_program_def split: if_splits)
  have "builtins ex_ext = []" by (simp add: ex_ext_def)
  with rebuild_program_cache_exact [OF ex.db_crates_axioms fin, of ex_world0] r progs fin
  show ?thesis by (simp add: Let_def)
qed

section \<open>Workers and clones\<close>

text \<open>
  C25. A batch worker is isolated: it starts with the overlay and the program cache the live
  database has at that moment, and no sequence of database operations and rollbacks on the
  worker changes any program cache that existed before the worker was created.
\<close>

theorem worker_isolated:
  assumes "clone_for_worker (w, a) = (w1, b)" and "programs_cache a < next_cache w"
    and "db_run X cp (w1, b) (w2, b2)" and "h < next_cache w"
  shows "cache b = cache a \<and> sysvar_cache b = sysvar_cache a \<and>
     caches w1 (programs_cache b) = caches w (programs_cache a) \<and>
     caches w2 h = caches w h"
proof -
  from assms(1) have b: "programs_cache b = next_cache w" "cache b = cache a"
    "sysvar_cache b = sysvar_cache a"
    and w1: "caches w1 = (caches w)(next_cache w := caches w (programs_cache a))"
    by (auto simp: clone_for_worker_def Let_def accounts_clone_def)
  have "same_except (next_cache w) w1 w2"
    using db_run_frame [OF assms(3)] b(1) by simp
  with assms(4) have "caches w2 h = caches w1 h"
    by (simp add: same_except_def)
  with b w1 assms(4) show ?thesis by simp
qed

theorem worker_isolated_witness:
  "\<exists>w1 b w2 b2. clone_for_worker (ex_world0, ex_clocked) = (w1, b) \<and>
     db_run ex_ext 0 (w1, b) (w2, b2) \<and>
     caches w2 (programs_cache b) \<noteq> caches w1 (programs_cache b) \<and>
     caches w2 0 = caches ex_world0 0"
proof -
  obtain w1 b where c: "clone_for_worker (ex_world0, ex_clocked) = (w1, b)"
    by (cases "clone_for_worker (ex_world0, ex_clocked)")
  let ?e = "ex_entry [7] 0"
  let ?w2 = "replenish_program_cache ex_ext (Pubkey 1) ?e b w1"
  have run: "db_run ex_ext 0 (w1, b) (?w2, b)"
    by (rule db_run.run_step [OF db_run.run_start db_step.step_replenish])
  have "caches ?w2 0 = caches ex_world0 0"
    using worker_isolated [OF c _ run, of 0] by (simp add: ex_world0_def ex_clocked_def
        accounts_default_def)
  moreover have "ex_entries (caches ?w2 (programs_cache b)) (Pubkey 1) \<noteq> None"
    by (simp add: replenish_program_cache_def ex_ext_def)
  moreover have "ex_entries (caches w1 (programs_cache b)) (Pubkey 1) = None"
    using c by (auto simp: clone_for_worker_def Let_def accounts_clone_def ex_world0_def)
  ultimately have "caches ?w2 0 = caches ex_world0 0"
    "caches ?w2 (programs_cache b) \<noteq> caches w1 (programs_cache b)" by metis+
  then show ?thesis using c run by blast
qed

text \<open>
  A plain clone is not isolated: adding a program to the clone publishes the program in
  the cache the original uses, so the original resolves a program whose account it does not
  have, while its own overlay is unchanged.
\<close>

theorem clone_leaks_program:
  assumes "db_crates X pc_entries"
    and "lamports acc \<noteq> 0" and "is_cached_program_account k acc"
    and "add_account X k acc (w, accounts_clone a) = ((w', b), Inr ())"
  shows "has_program_cache_entry X a w' k \<and> get_account_ref b k = Some acc"
proof -
  let ?c = "accounts_clone a"
  have h: "programs_cache ?c = programs_cache a" by (simp add: accounts_clone_def)
  obtain w1 pr where p: "prepare_account X k acc ?c w = (w1, pr)"
    by (cases "prepare_account X k acc ?c w")
  obtain pe where pr: "pr = Inr pe"
    using p assms(4) by (cases pr) (simp_all add: add_account_failed)
  obtain e where pe: "pe = Some e"
    using p pr assms(2,3) prepare_no_entry [of X k acc ?c w w1] by (cases pe) auto
  let ?wa3 = "if is_managed_sysvar_account k
      then rebuild_sysvar_cache X (w1, overlay_put k acc ?c) else (w1, overlay_put k acc ?c)"
  have h3: "programs_cache (snd ?wa3) = programs_cache a"
    by (simp add: db_simps h)
  have "w' = replenish_program_cache X k e (snd ?wa3) (fst ?wa3)"
    using assms(4) p pr pe
    by (auto simp: add_account_unfold Let_def refresh_program_cache_def)
  then have "has_program_cache_entry X a w' k"
    by (simp add: has_program_cache_entry_def replenish_program_cache_def h3
        db_crates.pc_find_None [OF assms(1)] db_crates.pc_replenish_entries [OF assms(1)])
  moreover have "get_account_ref b k = Some acc"
    using add_account_put [of X k acc ?c w w1 pe] p pr assms(2,4)
    by (simp add: put_like_def get_account_ref_def overlay_put_def db_simps)
  ultimately show ?thesis by simp
qed

theorem clone_leaks_program_witness:
  "\<exists>w' b. add_account ex_ext (Pubkey 2) (ex_program [7]) (ex_world0, accounts_clone ex_clocked)
       = ((w', b), Inr ()) \<and>
     get_account ex_clocked (Pubkey 2) = None \<and>
     \<not> has_program_cache_entry ex_ext ex_clocked ex_world0 (Pubkey 2) \<and>
     has_program_cache_entry ex_ext ex_clocked w' (Pubkey 2)"
proof -
  have prog: "lamports (ex_program [7]) \<noteq> 0" "is_cached_program_account (Pubkey 2) (ex_program [7])"
    by (simp_all add: ex_program_def is_cached_program_account_def)
  have "accounts_clone ex_clocked = ex_clocked" by (simp add: accounts_clone_def)
  then have "\<exists>w' b. add_account ex_ext (Pubkey 2) (ex_program [7])
      (ex_world0, accounts_clone ex_clocked) = ((w', b), Inr ())"
    by (simp add: add_account_def prepare_account_def refresh_program_cache_def Let_def
        is_managed_sysvar_account_def prog ex_load)
  then obtain w' b where r: "add_account ex_ext (Pubkey 2) (ex_program [7])
      (ex_world0, accounts_clone ex_clocked) = ((w', b), Inr ())" by blast
  moreover have "get_account ex_clocked (Pubkey 2) = None"
    by (simp add: get_account_def try_get_account_def get_account_ref_def ex_clocked_def
        accounts_default_def empty_account_source_def Let_def)
  moreover have "\<not> has_program_cache_entry ex_ext ex_clocked ex_world0 (Pubkey 2)"
    by (simp add: has_program_cache_entry_def ex_ext_def ex_world0_def)
  ultimately show ?thesis
    using clone_leaks_program [OF ex.db_crates_axioms prog r] by blast
qed

section \<open>Lookup tables\<close>

lemma load_lookup_table_cases:
  "load_lookup_table_addresses X a l =
     (case try_load_lookup_table_addresses X a l of
        Inl (LookupAccountSource f) \<Rightarrow> Inl LookupTableAccountNotFound
      | Inl (AddressLookup e) \<Rightarrow> Inl e
      | Inr la \<Rightarrow> Inr la)"
  by (simp add: load_lookup_table_addresses_def map_err_def
      split: sum.split lookup_table_load_error.split)

lemma lookup_source_failure:
  "try_load_lookup_table_addresses X a l = Inl (LookupAccountSource f) \<Longrightarrow>
     try_get_account a (lookup_key l) = Inl (fail_source f) \<and> fail_pubkey f = lookup_key l"
  by (auto simp: try_load_lookup_table_addresses_def map_err_def
      split: sum.splits option.splits if_splits)

text \<open>
  The address loader that tracks source failures resolves exactly what the plain loader
  resolves and fails with the same error. When it reports a failure, that failure is the
  source's own error for one of the requested tables, the outcome is "table not found", and
  a failure recorded earlier is never replaced.
\<close>

theorem tracking_loader_equiv:
  "fst (tracking_load_addresses X a ls f0) = load_addresses X a ls \<and>
   (case f0 of
      Some f \<Rightarrow> snd (tracking_load_addresses X a ls f0) = Some f
    | None \<Rightarrow>
       (case snd (tracking_load_addresses X a ls f0) of
          None \<Rightarrow> True
        | Some f \<Rightarrow> load_addresses X a ls = Inl LookupTableAccountNotFound \<and>
            fail_pubkey f \<in> set (map lookup_key ls) \<and>
            try_get_account a (fail_pubkey f) = Inl (fail_source f)))"
proof (induction ls)
  case Nil
  then show ?case by (simp add: load_addresses_def split: option.split)
next
  case (Cons l ls)
  show ?case
  proof (cases "try_load_lookup_table_addresses X a l")
    case (Inl e)
    then show ?thesis
      using lookup_source_failure [of X a l]
      by (cases e) (auto simp: load_addresses_def load_lookup_table_cases record_failure_def
          split: option.splits)
  next
    case (Inr la)
    obtain r f where t: "tracking_load_addresses X a ls f0 = (r, f)"
      by (cases "tracking_load_addresses X a ls f0")
    with Cons.IH Inr show ?thesis
      by (auto simp: load_addresses_def load_lookup_table_cases split: option.splits)
  qed
qed

end
