(* ===== verification/Staged_Tx.thy ===== *)
theory Staged_Tx
  imports Svm_State Accounts_Bulk
begin

text \<open>
  Staging, committing and discarding a transaction: the commit deltas of \<^verbatim>\<open>commit.rs\<close> and
  \<^verbatim>\<open>state_change_set.rs\<close>, the staged transaction of \<^verbatim>\<open>executed.rs\<close>, and the staging core
  \<open>transact_core\<close> of \<^verbatim>\<open>vm.rs\<close> above the dispatch through the handler registry. A VM is the
  heap of shared caches together with the VM value. The \<open>expect\<close> of a cache rebuild is
  \<^const>\<open>None\<close>, the panic.
\<close>

section \<open>Commit deltas\<close>

type_synonym history_entry = "signature \<times> transaction_result"

record commit_delta =
  delta_post_accounts :: post_accounts
  delta_history_entry :: "history_entry option"

record state_change_set =
  set_post_accounts :: post_accounts
  set_history_entry :: "history_entry option"

definition delta_mutates_state :: "commit_delta \<Rightarrow> bool" where
  "delta_mutates_state dl = (delta_post_accounts dl \<noteq> [] \<or> delta_history_entry dl \<noteq> None)"

definition set_mutates_state :: "state_change_set \<Rightarrow> bool" where
  "set_mutates_state cs = (set_post_accounts cs \<noteq> [] \<or> set_history_entry cs \<noteq> None)"

definition into_parts :: "commit_delta \<Rightarrow> post_accounts \<times> history_entry option" where
  "into_parts dl = (delta_post_accounts dl, delta_history_entry dl)"

definition set_from_delta :: "commit_delta \<Rightarrow> state_change_set" where
  "set_from_delta dl =
     (let (post, entry) = into_parts dl in \<lparr>set_post_accounts = post, set_history_entry = entry\<rparr>)"

definition delta_from_set :: "state_change_set \<Rightarrow> commit_delta" where
  "delta_from_set cs =
     \<lparr>delta_post_accounts = set_post_accounts cs, delta_history_entry = set_history_entry cs\<rparr>"

type_synonym 'c history_ops = "('c, signature, transaction_result) lru_ops"

definition record_entry ::
    "'c history_ops \<Rightarrow> history_entry option \<Rightarrow> 'c transaction_history \<Rightarrow> 'c transaction_history" where
  "record_entry L entry h =
     (case entry of None \<Rightarrow> h | Some (sig, res) \<Rightarrow> add_new_transaction L h sig res)"

definition apply_commit_delta ::
    "('pc, 'x, 'st) db_ext \<Rightarrow> 'c history_ops \<Rightarrow> state_change_set
      \<Rightarrow> ('pc, 'st) world \<times> accounts \<Rightarrow> 'c transaction_history
      \<Rightarrow> (('pc, 'st) world \<times> accounts) \<times> 'c transaction_history \<times> (hpsvm_error + unit)" where
  "apply_commit_delta X L cs wa h =
     (case sync_accounts X (set_post_accounts cs) wa of
        (wa', Inl e) \<Rightarrow> (wa', h, Inl e)
      | (wa', Inr _) \<Rightarrow> (wa', record_entry L (set_history_entry cs) h, Inr ()))"

definition detached_into_result_and_delta ::
    "detached_tx \<Rightarrow> bool \<Rightarrow> transaction_result \<times> commit_delta" where
  "detached_into_result_and_delta d history_enabled =
     (let res = (case status d of
                   Inr _ \<Rightarrow> Inr (meta d)
                 | Inl err \<Rightarrow> Inl \<lparr>failed_err = err, failed_meta = meta d\<rparr>);
          delta = (if included d
                   then \<lparr>delta_post_accounts = det_post_accounts d,
                         delta_history_entry =
                           (if history_enabled then Some (meta_signature (meta d), res) else None)\<rparr>
                   else \<lparr>delta_post_accounts = [], delta_history_entry = None\<rparr>)
      in (res, delta))"

definition detached_into_result_and_state_change_set ::
    "detached_tx \<Rightarrow> bool \<Rightarrow> transaction_result \<times> state_change_set" where
  "detached_into_result_and_state_change_set d history_enabled =
     (let (res, delta) = detached_into_result_and_delta d history_enabled
      in (res, set_from_delta delta))"

section \<open>Staged transactions\<close>

type_synonym ('pc, 'st, 'c) vm = "('pc, 'st) world \<times> 'c svm"

record executed_tx =
  et_checkpoint :: nat
  et_result :: transaction_result
  et_history_entry :: "history_entry option"
  et_cache_dirty :: bool
  et_changes :: "account_change list"
  et_inspector_live :: bool

record staged_failure =
  sf_error :: hpsvm_error
  sf_result :: transaction_result

definition staging_touches_caches :: "post_accounts \<Rightarrow> accounts \<Rightarrow> bool" where
  "staging_touches_caches post a =
     list_ex (\<lambda>(addr, acc). executable acc \<or> is_managed_sysvar_account addr \<or>
                is_some_and executable (get_account_ref a addr)) post"

definition staged_changes :: "accounts \<Rightarrow> post_accounts \<Rightarrow> account_change list" where
  "staged_changes a post =
     map (\<lambda>(addr, after).
            \<lparr>change_address = addr, change_before = get_account a addr,
             change_after = (if lamports after = 0 then None else Some after)\<rparr>) post"

definition stage_detached ::
    "('pc, 'x, 'st) db_ext \<Rightarrow> detached_tx \<Rightarrow> ('pc, 'st, 'c) vm
      \<Rightarrow> ('pc, 'st, 'c) vm \<times> (staged_failure + executed_tx)" where
  "stage_detached X detached v =
     (let (w, s) = v; (fatal, d) = take_fatal detached
      in case fatal of
           Some err \<Rightarrow>
             ((w, s), Inl \<lparr>sf_error = hpsvm_from_execution err,
                           sf_result = fst (detached_into_result_and_delta d False)\<rparr>)
         | None \<Rightarrow>
             let a = vm_accounts s;
                 cp = checkpoint a;
                 live = inspector_live d;
                 cache_dirty = staging_touches_caches (det_post_accounts d) a;
                 (res, delta) = detached_into_result_and_delta d (history_is_enabled (vm_history s));
                 (post, entry) = into_parts delta;
                 changes = staged_changes a post
             in (case sync_accounts X post (w, a) of
                   ((w', a'), Inl err) \<Rightarrow>
                     ((w', s\<lparr>vm_accounts := rollback a' cp\<rparr>),
                      Inl \<lparr>sf_error = err, sf_result = res\<rparr>)
                 | ((w', a'), Inr _) \<Rightarrow>
                     ((w', s\<lparr>vm_accounts := a'\<rparr>),
                      Inr \<lparr>et_checkpoint = cp, et_result = res, et_history_entry = entry,
                           et_cache_dirty = cache_dirty, et_changes = changes,
                           et_inspector_live = live\<rparr>)))"

definition fire_changes :: "executed_tx \<Rightarrow> 'c svm \<Rightarrow> hook_event list" where
  "fire_changes et s =
     (if et_inspector_live et
      then concat (map (\<lambda>c. fire DynInspector s (AccountChanged c)) (et_changes et)) else [])"

definition commit ::
    "'c history_ops \<Rightarrow> executed_tx \<Rightarrow> ('pc, 'st, 'c) vm
      \<Rightarrow> ('pc, 'st, 'c) vm \<times> hook_event list \<times> transaction_result" where
  "commit L et v =
     (let (w, s) = v
      in ((w, s\<lparr>vm_history := record_entry L (et_history_entry et) (vm_history s)\<rparr>),
          fire_changes et s, et_result et))"

text \<open>Rolling back a staged transaction: the shared path of \<open>discard\<close> and a sink failure.\<close>

definition unstage ::
    "('pc, 'x, 'st) db_ext \<Rightarrow> executed_tx \<Rightarrow> ('pc, 'st, 'c) vm \<Rightarrow> ('pc, 'st, 'c) vm option" where
  "unstage X et v =
     (let (w, s) = v;
          a = rollback (vm_accounts s) (et_checkpoint et)
      in if et_cache_dirty et
         then (let (w1, a1) = rebuild_sysvar_cache X (w, a);
                   s1 = svm_sync_jit_policy (s\<lparr>vm_accounts := a1\<rparr>)
               in case rebuild_program_cache X (vm_accounts s1) w1 of
                    (w2, Inl _) \<Rightarrow> None
                  | (w2, Inr _) \<Rightarrow> Some (w2, s1))
         else Some (w, s\<lparr>vm_accounts := a\<rparr>))"

definition discard ::
    "('pc, 'x, 'st) db_ext \<Rightarrow> executed_tx \<Rightarrow> ('pc, 'st, 'c) vm
      \<Rightarrow> (('pc, 'st, 'c) vm \<times> transaction_result) option" where
  "discard X et v = map_option (\<lambda>v'. (v', et_result et)) (unstage X et v)"

fun stream_changes ::
    "('k \<Rightarrow> account_change \<Rightarrow> 'k \<times> ('e + unit)) \<Rightarrow> account_change list \<Rightarrow> 'k \<Rightarrow> 'k \<times> ('e + unit)" where
  "stream_changes on_account_change [] k = (k, Inr ())"
| "stream_changes on_account_change (c # cs) k =
     (case on_account_change k c of
        (k', Inl e) \<Rightarrow> (k', Inl e)
      | (k', Inr _) \<Rightarrow> stream_changes on_account_change cs k')"

definition commit_with ::
    "('pc, 'x, 'st) db_ext \<Rightarrow> 'c history_ops \<Rightarrow> ('k \<Rightarrow> account_change \<Rightarrow> 'k \<times> ('e + unit))
      \<Rightarrow> executed_tx \<Rightarrow> ('pc, 'st, 'c) vm \<Rightarrow> 'k
      \<Rightarrow> ('k \<times> ('pc, 'st, 'c) vm \<times> hook_event list \<times> ('e + transaction_result)) option" where
  "commit_with X L sink et v k =
     (case stream_changes sink (et_changes et) k of
        (k', Inl e) \<Rightarrow> map_option (\<lambda>v'. (k', v', [], Inl e)) (unstage X et v)
      | (k', Inr _) \<Rightarrow>
          (let (v', evs, res) = commit L et v in Some (k', v', evs, Inr res)))"

definition commit_source ::
    "('k \<Rightarrow> account_change \<Rightarrow> 'k \<times> ('e + unit)) \<Rightarrow> accounts \<Rightarrow> 'k \<Rightarrow> 'k \<times> ('e + unit)" where
  "commit_source sink a k =
     stream_changes sink
       (map (\<lambda>e. \<lparr>change_address = je_address e, change_before = previous e,
                  change_after = get_account_ref a (je_address e)\<rparr>) (journal a)) k"

section \<open>Dispatch and the staging core\<close>

text \<open>
  What a handler does: it validates an envelope against the VM and executes it, which may
  fire hooks, touch the heap or panic (\<^const>\<open>None\<close>) but leaves the VM value alone: it gets
  a shared reference.
\<close>

type_synonym ('pc, 'st, 'r) outcome = "(('pc, 'st) world \<times> hook_event list \<times> 'r) option"

record ('pc, 'st, 'c) handlers =
  handler_validate :: "tx_handler \<Rightarrow> versioned_tx \<Rightarrow> 'c svm \<Rightarrow> tx_validation_error + unit"
  handler_execute ::
    "tx_handler \<Rightarrow> versioned_tx \<Rightarrow> 'c svm \<Rightarrow> ('pc, 'st) world
      \<Rightarrow> ('pc, 'st, execution_error + detached_tx) outcome"

definition map_outcome :: "('a \<Rightarrow> 'b) \<Rightarrow> ('pc, 'st, 'a) outcome \<Rightarrow> ('pc, 'st, 'b) outcome" where
  "map_outcome f r = map_option (\<lambda>(w, evs, x). (w, evs, f x)) r"

definition registry_dispatch ::
    "('pc, 'st, 'c) handlers \<Rightarrow> tx_registry \<Rightarrow> tx_tag \<Rightarrow> versioned_tx \<Rightarrow> 'c svm \<Rightarrow> ('pc, 'st) world
      \<Rightarrow> ('pc, 'st, tx_error + detached_tx) outcome" where
  "registry_dispatch Hs reg tag tx s w =
     (case reg tag of
        None \<Rightarrow> Some (w, [], Inl (TxUnknownTag tag))
      | Some handle \<Rightarrow>
          (case handler_validate Hs handle tx s of
             Inl e \<Rightarrow> Some (w, [], Inl (TxValidation e))
           | Inr _ \<Rightarrow> map_outcome (map_err TxExecution) (handler_execute Hs handle tx s w)))"

definition dispatch_detached ::
    "('pc, 'st, 'c) handlers \<Rightarrow> versioned_tx \<Rightarrow> 'c svm \<Rightarrow> ('pc, 'st) world
      \<Rightarrow> ('pc, 'st, tx_error + detached_tx) outcome" where
  "dispatch_detached Hs tx s w = registry_dispatch Hs (registry s) (tag_of tx) tx s w"

definition first_signature :: "versioned_tx \<Rightarrow> signature" where
  "first_signature tx = unwrap_or 0 (list_first (vt_signatures tx))"

definition try_transact ::
    "('pc, 'st, 'c) handlers \<Rightarrow> versioned_tx \<Rightarrow> ('pc, 'st, 'c) vm
      \<Rightarrow> ('pc, 'st, hpsvm_error + detached_tx) outcome" where
  "try_transact Hs tx v =
     map_outcome
       (\<lambda>r. case r of
          Inl e \<Rightarrow> Inl (hpsvm_from_tx e)
        | Inr detached \<Rightarrow>
            (let (fatal, d) = take_fatal detached
             in case fatal of Some e \<Rightarrow> Inl (hpsvm_from_execution e) | None \<Rightarrow> Inr d))
       (dispatch_detached Hs tx (snd v) (fst v))"

definition transact_detached ::
    "('pc, 'st, 'c) handlers \<Rightarrow> versioned_tx \<Rightarrow> ('pc, 'st, 'c) vm
      \<Rightarrow> ('pc, 'st, detached_tx) outcome" where
  "transact_detached Hs tx v =
     map_outcome
       (\<lambda>r. case r of Inr d \<Rightarrow> d | Inl e \<Rightarrow> for_dispatch_failure e (first_signature tx))
       (dispatch_detached Hs tx (snd v) (fst v))"

definition simulate_transaction ::
    "('pc, 'st, 'c) handlers \<Rightarrow> versioned_tx \<Rightarrow> ('pc, 'st, 'c) vm
      \<Rightarrow> ('pc, 'st, failed_transaction_metadata + transaction_metadata \<times> post_accounts) outcome" where
  "simulate_transaction Hs tx v =
     map_outcome
       (\<lambda>d. case status d of
          Inl err \<Rightarrow> Inl \<lparr>failed_err = err, failed_meta = meta d\<rparr>
        | Inr _ \<Rightarrow> Inr (meta d, det_post_accounts d))
       (transact_detached Hs tx v)"

definition transact_core ::
    "('pc, 'x, 'st) db_ext \<Rightarrow> ('pc, 'st, 'c) handlers \<Rightarrow> versioned_tx \<Rightarrow> ('pc, 'st, 'c) vm
      \<Rightarrow> (('pc, 'st, 'c) vm \<times> hook_event list \<times> (staged_failure + executed_tx)) option" where
  "transact_core X Hs tx v =
     (let (w, s0) = v;
          s = svm_sync_jit_policy s0
      in case dispatch_detached Hs tx s w of
           None \<Rightarrow> None
         | Some (w', evs, Inl err) \<Rightarrow>
             Some ((w', s), evs,
               Inl \<lparr>sf_error = hpsvm_from_tx err,
                    sf_result = fst (detached_into_result_and_delta
                      (for_dispatch_failure err (first_signature tx)) False)\<rparr>)
         | Some (w', evs, Inr detached) \<Rightarrow>
             (let (v', r) = stage_detached X detached (w', s) in Some (v', evs, r)))"

definition transact ::
    "('pc, 'x, 'st) db_ext \<Rightarrow> ('pc, 'st, 'c) handlers \<Rightarrow> versioned_tx \<Rightarrow> ('pc, 'st, 'c) vm
      \<Rightarrow> (('pc, 'st, 'c) vm \<times> hook_event list \<times> (hpsvm_error + executed_tx)) option" where
  "transact X Hs tx v =
     map_option (\<lambda>(v', evs, r). (v', evs, map_err sf_error r)) (transact_core X Hs tx v)"

definition send_transaction ::
    "('pc, 'x, 'st) db_ext \<Rightarrow> 'c history_ops \<Rightarrow> ('pc, 'st, 'c) handlers \<Rightarrow> versioned_tx
      \<Rightarrow> ('pc, 'st, 'c) vm
      \<Rightarrow> (('pc, 'st, 'c) vm \<times> hook_event list \<times> transaction_result) option" where
  "send_transaction X L Hs tx v =
     (case transact_core X Hs tx v of
        None \<Rightarrow> None
      | Some (v', evs, Inr staged) \<Rightarrow>
          (let (v'', evs', res) = commit L staged v' in Some (v'', evs @ evs', res))
      | Some (v', evs, Inl failure) \<Rightarrow> Some (v', evs, sf_result failure))"

end
