(* ===== verification/Execution.thy ===== *)
theory Execution
  imports Staged_Tx
begin

text \<open>
  Readonly execution of one transaction: \<^verbatim>\<open>execution.rs\<close>, \<^verbatim>\<open>message_processor.rs\<close>, the diagnostics
  of \<^verbatim>\<open>helpers.rs\<close> and \<^verbatim>\<open>vm.rs\<close>, and the per-transaction feature flags of \<^verbatim>\<open>version.rs\<close>. What the
  runtime crates do (sanitizing, fees, the invoke context with its program cache) is the
  record \<open>exec_ext\<close>; a panic is \<^const>\<open>None\<close>. The build is the default one, without the
  invocation-inspect callback.
\<close>

section \<open>Feature flags\<close>

datatype feature_gate =
    RaiseCpiNestingLimitTo8 | DeprecateRentExemptionThreshold | IncreaseTxV1AccountLockLimit
  | ReplaceSplTokenWithPToken

record tx_feature_flags =
  raise_cpi_nesting_limit_to_8 :: bool
  deprecate_rent_exemption_threshold :: bool
  increase_tx_v1_account_lock_limit :: bool
  replace_spl_token_with_p_token :: bool

definition load_flags :: "(feature_gate \<Rightarrow> address) \<Rightarrow> address set \<Rightarrow> tx_feature_flags" where
  "load_flags gate_id fs =
     \<lparr>raise_cpi_nesting_limit_to_8 = (gate_id RaiseCpiNestingLimitTo8 \<in> fs),
      deprecate_rent_exemption_threshold = (gate_id DeprecateRentExemptionThreshold \<in> fs),
      increase_tx_v1_account_lock_limit = (gate_id IncreaseTxV1AccountLockLimit \<in> fs),
      replace_spl_token_with_p_token = (gate_id ReplaceSplTokenWithPToken \<in> fs)\<rparr>"

primrec flag_enabled :: "tx_feature_flags \<Rightarrow> feature_gate \<Rightarrow> bool" where
  "flag_enabled fl RaiseCpiNestingLimitTo8 = raise_cpi_nesting_limit_to_8 fl"
| "flag_enabled fl DeprecateRentExemptionThreshold = deprecate_rent_exemption_threshold fl"
| "flag_enabled fl IncreaseTxV1AccountLockLimit = increase_tx_v1_account_lock_limit fl"
| "flag_enabled fl ReplaceSplTokenWithPToken = replace_spl_token_with_p_token fl"

section \<open>What the runtime crates provide\<close>

text \<open>A sanitized transaction as the methods the executor calls on it.\<close>

record sanitized_tx =
  tx_signature :: signature
  account_keys :: "address list"
  tx_instructions :: "compiled_instruction list"
  program_instructions :: "(address \<times> compiled_instruction) list"
  recent_blockhash :: hash
  is_writable :: "nat \<Rightarrow> bool"
  is_invoked :: "nat \<Rightarrow> bool"
  is_instruction_account :: "nat \<Rightarrow> bool"

record compute_budget_limits =
  limits_compute_unit_limit :: u32
  updated_heap_bytes :: u32
  prioritization_fee :: u64

text \<open>
  \<open>try_create\<close> either decides at once or first asks the address loader to resolve the
  message's lookups.
\<close>

datatype sanitize_step =
    SanitizeDone "transaction_error + sanitized_tx"
  | NeedLookups "address_table_lookup list"
      "address_lookup_error + loaded_addresses list \<Rightarrow> transaction_error + sanitized_tx"

record ('pc, 'x, 'st, 'ic) exec_ext =
  db :: "('pc, 'x, 'st) db_ext"
  gate_id :: "feature_gate \<Rightarrow> address"
  try_create :: "versioned_tx \<Rightarrow> bool \<Rightarrow> address set \<Rightarrow> sanitize_step"
  tx_verify :: "sanitized_tx \<Rightarrow> transaction_error + unit"
  validate_account_locks :: "sanitized_tx \<Rightarrow> nat \<Rightarrow> transaction_error + unit"
  process_compute_budget_instructions ::
    "sanitized_tx \<Rightarrow> address set \<Rightarrow> transaction_error + compute_budget_limits"
  calculate_fee :: "sanitized_tx \<Rightarrow> u64 \<Rightarrow> u64 \<Rightarrow> u64"
  budget_new_with_defaults :: "bool \<Rightarrow> compute_budget"
  system_account_kind_of :: "account \<Rightarrow> system_account_kind option"
  nonce_state_size :: nat
  instructions_data :: "sanitized_tx \<Rightarrow> bytes option"
  durable_nonce :: "hash \<Rightarrow> hash"
  get_durable_nonce :: "sanitized_tx \<Rightarrow> address option"
  verify_nonce_account :: "account \<Rightarrow> hash \<Rightarrow> address option"
  get_ix_signers :: "sanitized_tx \<Rightarrow> nat \<Rightarrow> address list"
  ic_new :: "(address \<times> account) list \<Rightarrow> rent \<Rightarrow> compute_budget \<Rightarrow> nat \<Rightarrow> nat option
      \<Rightarrow> hash \<Rightarrow> nat \<Rightarrow> sysvar_cache \<Rightarrow> 'pc \<Rightarrow> 'ic"
  prepare_top_level :: "'ic \<Rightarrow> sanitized_tx \<Rightarrow> 'ic \<times> (u8 \<times> instruction_error + unit)"
  is_precompile :: "'ic \<Rightarrow> address \<Rightarrow> bool"
  process_precompile :: "'ic \<Rightarrow> address \<Rightarrow> bytes \<Rightarrow> bytes list \<Rightarrow> 'ic \<times> (instruction_error + unit)"
  process_instruction :: "'ic \<Rightarrow> 'ic \<times> u64 \<times> (instruction_error + unit)"
  ic_logs :: "'ic \<Rightarrow> string list"
  ic_accounts :: "'ic \<Rightarrow> (address \<times> account) list"
  ic_return_data :: "'ic \<Rightarrow> return_data"
  ic_trace :: "'ic \<Rightarrow> trace_frame list"
  ic_cache :: "'ic \<Rightarrow> 'pc"
  pc_drain :: "'pc \<Rightarrow> 'pc"
  mint_len :: nat
  mint_unpack :: "bytes \<Rightarrow> u8 option"
  token_len :: nat
  token_unpack :: "bytes \<Rightarrow> (address \<times> address \<times> u64) option"

section \<open>Early results\<close>

definition exec_failure :: "transaction_error \<Rightarrow> execution_result" where
  "exec_failure err = default_execution_result\<lparr>tx_result := Inl err\<rparr>"

definition exec_failure_fee :: "transaction_error \<Rightarrow> u64 \<Rightarrow> execution_result" where
  "exec_failure_fee err fee = (exec_failure err)\<lparr>er_fee := fee\<rparr>"

definition execution_result_with_account_source_error ::
    "address \<Rightarrow> account_source_error \<Rightarrow> transaction_error \<Rightarrow> u64 \<Rightarrow> execution_result" where
  "execution_result_with_account_source_error pubkey src err fee =
     default_execution_result
       \<lparr>tx_result := Inl err, er_fee := fee,
        er_source_failures := [\<lparr>asf_pubkey = pubkey, asf_error = source_error_to_string src\<rparr>],
        er_fatal := Some (ExecAccountSource pubkey src)\<rparr>"

definition sanitize_error_into_execution_result ::
    "account_source_load_failure option \<Rightarrow> transaction_error \<Rightarrow> execution_result" where
  "sanitize_error_into_execution_result failure err =
     (case failure of
        Some f \<Rightarrow> execution_result_with_account_source_error (fail_pubkey f) (fail_source f) err 0
      | None \<Rightarrow> exec_failure err)"

section \<open>Sanitizing\<close>

datatype message_hash_policy = HashCompute | HashSkip

definition policy_for_mode :: "inspect_mode \<Rightarrow> message_hash_policy" where
  "policy_for_mode mode = (if is_live mode then HashCompute else HashSkip)"

definition sanitize_transaction_no_verify_with_policy ::
    "('pc, 'x, 'st, 'ic) exec_ext \<Rightarrow> 'c svm \<Rightarrow> versioned_tx \<Rightarrow> message_hash_policy
      \<Rightarrow> execution_result + sanitized_tx" where
  "sanitize_transaction_no_verify_with_policy E s tx policy =
     (case try_create E tx (policy = HashCompute) (reserved_keys s) of
        SanitizeDone r \<Rightarrow> map_err (sanitize_error_into_execution_result None) r
      | NeedLookups ls cont \<Rightarrow>
          (let (loaded, failure) = tracking_load_addresses (db E) (vm_accounts s) ls None
           in map_err (sanitize_error_into_execution_result failure) (cont loaded)))"

definition get_transaction_account_lock_limit :: "tx_feature_flags \<Rightarrow> message_version \<Rightarrow> nat" where
  "get_transaction_account_lock_limit fl ver =
     (case ver of
        MessageV1 \<Rightarrow> if flag_enabled fl IncreaseTxV1AccountLockLimit then 96 else 64
      | _ \<Rightarrow> 64)"

definition sanitize_transaction_with_flags_and_policy ::
    "('pc, 'x, 'st, 'ic) exec_ext \<Rightarrow> 'c svm \<Rightarrow> versioned_tx \<Rightarrow> tx_feature_flags
      \<Rightarrow> message_hash_policy \<Rightarrow> execution_result + sanitized_tx" where
  "sanitize_transaction_with_flags_and_policy E s tx fl policy =
     (let lock_limit = get_transaction_account_lock_limit fl (vt_version tx)
      in and_then (sanitize_transaction_no_verify_with_policy E s tx policy) (\<lambda>stx.
         and_then (map_err exec_failure (tx_verify E stx)) (\<lambda>_.
         and_then (map_err exec_failure (validate_account_locks E stx lock_limit)) (\<lambda>_.
         Inr stx))))"

section \<open>Loading\<close>

definition construct_instructions_account ::
    "('pc, 'x, 'st, 'ic) exec_ext \<Rightarrow> sanitized_tx \<Rightarrow> account option" where
  "construct_instructions_account E stx =
     map_option (\<lambda>bs. default_account\<lparr>data := bs, owner := SysvarOwner\<rparr>) (instructions_data E stx)"

fun load_accounts ::
    "('pc, 'x, 'st, 'ic) exec_ext \<Rightarrow> 'c svm \<Rightarrow> sanitized_tx \<Rightarrow> rent \<Rightarrow> u64
      \<Rightarrow> (nat \<times> address) list \<Rightarrow> address option \<Rightarrow> (address \<times> account) list
      \<Rightarrow> (execution_result + (address \<times> account) list \<times> address option) option" where
  "load_accounts E s stx rent fee [] payer accs = Some (Inr (accs, payer))"
| "load_accounts E s stx rent fee ((i, key) # keys) payer accs =
     (if key = InstructionsSysvar then
        (case construct_instructions_account E stx of
           None \<Rightarrow> None
         | Some acc \<Rightarrow> load_accounts E s stx rent fee keys payer (accs @ [(key, acc)]))
      else case try_get_account (vm_accounts s) key of
        Inl err \<Rightarrow>
          Some (Inl (execution_result_with_account_source_error key err AccountNotFound fee))
      | Inr found \<Rightarrow>
          let acc = unwrap_or default_account found
          in if payer = None \<and> (\<not> is_invoked stx i \<or> is_instruction_account stx i)
             then (case validate_fee_payer (system_account_kind_of E) (nonce_state_size E) key acc
                          (of_nat i) rent fee of
                     None \<Rightarrow> None
                   | Some (acc', Inl err) \<Rightarrow> Some (Inl (exec_failure_fee err fee))
                   | Some (acc', Inr _) \<Rightarrow>
                       load_accounts E s stx rent fee keys (Some key) (accs @ [(key, acc')]))
             else load_accounts E s stx rent fee keys payer (accs @ [(key, acc)]))"

fun resolve_program_indices ::
    "'c svm \<Rightarrow> (address \<times> account) list \<Rightarrow> u64 \<Rightarrow> compiled_instruction list
      \<Rightarrow> account_source_failure list
      \<Rightarrow> execution_result + u16 list \<times> account_source_failure list" where
  "resolve_program_indices s accs fee [] failures = Inr ([], failures)"
| "resolve_program_indices s accs fee (ci # cis) failures =
     (let program_index = unat (program_id_index ci);
          proceed = (\<lambda>failures. map_ok (\<lambda>(ixs, fs). (of_nat program_index # ixs, fs))
                       (resolve_program_indices s accs fee cis failures))
      in case list_get accs program_index of
           None \<Rightarrow> Inl (exec_failure_fee InvalidProgramForExecution fee)
         | Some (program_id, program_account) \<Rightarrow>
             if program_id = NativeLoader then proceed failures
             else if \<not> executable program_account
             then Inl (exec_failure_fee InvalidProgramForExecution fee)
             else if owner program_account = NativeLoader then proceed failures
             else
               (let owner_id = owner program_account;
                    check = (\<lambda>owner_account failures.
                      if owner owner_account \<noteq> NativeLoader \<or> \<not> executable owner_account
                      then Inl ((exec_failure_fee InvalidProgramForExecution fee)
                                  \<lparr>er_source_failures := failures\<rparr>)
                      else proceed failures)
                in case try_get_account (vm_accounts s) owner_id of
                     Inr (Some owner_account) \<Rightarrow> check owner_account failures
                   | Inr None \<Rightarrow> Inl (exec_failure_fee ProgramAccountNotFound fee)
                   | Inl err \<Rightarrow>
                       check default_account
                         (failures @ [\<lparr>asf_pubkey = owner_id,
                                       asf_error = source_error_to_string err\<rparr>])))"

text \<open>The first half of \<open>process_transaction\<close>: everything before the context is created.\<close>

record loaded_tx =
  lt_budget :: compute_budget
  lt_rent :: rent
  lt_fee :: u64
  lt_accounts :: "(address \<times> account) list"
  lt_payer :: "address option"
  lt_indices :: "u16 list"
  lt_failures :: "account_source_failure list"

definition transaction_budget ::
    "('pc, 'x, 'st, 'ic) exec_ext \<Rightarrow> 'c svm \<Rightarrow> compute_budget_limits \<Rightarrow> tx_feature_flags
      \<Rightarrow> compute_budget" where
  "transaction_budget E s limits fl =
     unwrap_or
       ((budget_new_with_defaults E (flag_enabled fl RaiseCpiNestingLimitTo8))
          \<lparr>compute_unit_limit := ucast (limits_compute_unit_limit limits),
           heap_size := updated_heap_bytes limits\<rparr>)
       (v_compute_budget (vm_version s))"

definition transaction_fee ::
    "('pc, 'x, 'st, 'ic) exec_ext \<Rightarrow> 'c svm \<Rightarrow> sanitized_tx \<Rightarrow> compute_budget_limits \<Rightarrow> u64" where
  "transaction_fee E s stx limits =
     calculate_fee E stx (lamports_per_signature (vm_version s)) (prioritization_fee limits)"

definition load_transaction ::
    "('pc, 'x, 'st, 'ic) exec_ext \<Rightarrow> 'c svm \<Rightarrow> sanitized_tx \<Rightarrow> compute_budget_limits
      \<Rightarrow> tx_feature_flags \<Rightarrow> (execution_result + loaded_tx) option" where
  "load_transaction E s stx limits fl =
     (let budget = transaction_budget E s limits fl
      in case get_rent (sysvar_cache (vm_accounts s)) of
           None \<Rightarrow> Some (Inl (exec_failure SanitizeFailure))
         | Some rent \<Rightarrow>
             let fee = transaction_fee E s stx limits
             in case load_accounts E s stx rent fee (enumerated (account_keys stx)) None [] of
                  None \<Rightarrow> None
                | Some (Inl er) \<Rightarrow> Some (Inl er)
                | Some (Inr (accs, None)) \<Rightarrow> Some (Inl (exec_failure_fee AccountNotFound fee))
                | Some (Inr (accs, Some payer)) \<Rightarrow>
                    Some (map_ok
                      (\<lambda>(ixs, failures).
                         \<lparr>lt_budget = budget, lt_rent = rent, lt_fee = fee, lt_accounts = accs,
                          lt_payer = Some payer, lt_indices = ixs, lt_failures = failures\<rparr>)
                      (resolve_program_indices s accs fee (tx_instructions stx) [])))"

section \<open>Processing the message\<close>

fun process_instructions ::
    "('pc, 'x, 'st, 'ic) exec_ext \<Rightarrow> inspect_mode \<Rightarrow> 'c svm \<Rightarrow> bytes list \<Rightarrow> nat
      \<Rightarrow> ((address \<times> compiled_instruction) \<times> u16) list \<Rightarrow> 'ic \<Rightarrow> u64
      \<Rightarrow> 'ic \<times> u64 \<times> hook_event list \<times> (transaction_error + unit)" where
  "process_instructions E mode s datas index [] ic units = (ic, units, [], Inr ())"
| "process_instructions E mode s datas index (((program_id, ci), pix) # rest) ic units =
     (let started = fire mode s (InstructionStart index program_id);
          (ic', consumed, r) =
            (if is_precompile E ic program_id
             then (case process_precompile E ic program_id (ci_data ci) datas of
                     (ic', r) \<Rightarrow> (ic', 0, r))
             else process_instruction E ic);
          units' = saturating_add units consumed;
          ended = fire mode s (InstructionEnd index program_id)
      in case r of
           Inl err \<Rightarrow> (ic', units', started @ ended, Inl (InstructionError (of_nat index) err))
         | Inr _ \<Rightarrow>
             (case process_instructions E mode s datas (index + 1) rest ic' units' of
                (ic'', units'', evs, res) \<Rightarrow> (ic'', units'', started @ ended @ evs, res)))"

definition process_message ::
    "('pc, 'x, 'st, 'ic) exec_ext \<Rightarrow> inspect_mode \<Rightarrow> 'c svm \<Rightarrow> sanitized_tx \<Rightarrow> u16 list \<Rightarrow> 'ic
      \<Rightarrow> 'ic \<times> u64 \<times> hook_event list \<times> (transaction_error + unit)" where
  "process_message E mode s stx ixs ic =
     (case prepare_top_level E ic stx of
        (ic', Inl (index, err)) \<Rightarrow> (ic', 0, [], Inl (InstructionError index err))
      | (ic', Inr _) \<Rightarrow>
          process_instructions E mode s (map ci_data (tx_instructions stx)) 0
            (zip (program_instructions stx) ixs) ic' 0)"

record 'ic process_success =
  ps_result :: "transaction_error + unit"
  ps_units :: u64
  ps_context :: "'ic option"
  ps_fee :: u64
  ps_payer :: "address option"
  ps_failures :: "account_source_failure list"
  ps_live :: bool

definition new_context ::
    "('pc, 'x, 'st, 'ic) exec_ext \<Rightarrow> 'c svm \<Rightarrow> sanitized_tx \<Rightarrow> loaded_tx \<Rightarrow> 'pc \<Rightarrow> 'ic" where
  "new_context E s stx lt pc =
     ic_new E (lt_accounts lt) (lt_rent lt) (lt_budget lt) (length (tx_instructions stx))
       (log_bytes_limit (vm_version s)) (recent_blockhash stx) (environments (vm_accounts s))
       (sysvar_cache (vm_accounts s)) pc"

text \<open>The second half of \<open>process_transaction\<close>, under the lock on the program cache.\<close>

definition run_loaded ::
    "('pc, 'x, 'st, 'ic) exec_ext \<Rightarrow> inspect_mode \<Rightarrow> 'c svm \<Rightarrow> sanitized_tx \<Rightarrow> loaded_tx
      \<Rightarrow> ('pc, 'st) world
      \<Rightarrow> ('pc, 'st) world \<times> hook_event list \<times> string list \<times> 'ic process_success" where
  "run_loaded E mode s stx lt w =
     (let h = programs_cache (vm_accounts s);
          ic = new_context E s stx lt (caches w h);
          started = fire mode s TransactionStart;
          (ic', units, evs, res) = process_message E mode s stx (lt_indices lt) ic;
          logged = (if is_live mode
                    then concat (map (\<lambda>m. fire mode s (LogMessage m)) (ic_logs E ic')) else []);
          ended = fire mode s (TransactionEnd res)
      in (write_cache h (pc_drain E (ic_cache E ic')) w, started @ evs @ logged @ ended,
          ic_logs E ic',
          \<lparr>ps_result = res, ps_units = units, ps_context = Some ic', ps_fee = lt_fee lt,
           ps_payer = lt_payer lt, ps_failures = lt_failures lt, ps_live = is_live mode\<rparr>))"

type_synonym ('pc, 'st, 'r) exec_outcome =
  "(('pc, 'st) world \<times> hook_event list \<times> string list \<times> 'r) option"

definition process_transaction ::
    "('pc, 'x, 'st, 'ic) exec_ext \<Rightarrow> inspect_mode \<Rightarrow> 'c svm \<Rightarrow> sanitized_tx \<Rightarrow> compute_budget_limits
      \<Rightarrow> tx_feature_flags \<Rightarrow> ('pc, 'st) world
      \<Rightarrow> ('pc, 'st, execution_result + 'ic process_success) exec_outcome" where
  "process_transaction E mode s stx limits fl w =
     (case load_transaction E s stx limits fl of
        None \<Rightarrow> None
      | Some (Inl er) \<Rightarrow> Some (w, [], [], Inl er)
      | Some (Inr lt) \<Rightarrow>
          (let (w', evs, lgs, ps) = run_loaded E mode s stx lt w in Some (w', evs, lgs, Inr ps)))"

section \<open>Checks\<close>

definition require_sysvars_loaded :: "'c svm \<Rightarrow> hpsvm_error + unit" where
  "require_sysvars_loaded s =
     (if m_sysvars (materialized s) then Inr () else Inl (MissingRuntimeComponent ''sysvars''))"

definition check_message_for_nonce ::
    "('pc, 'x, 'st, 'ic) exec_ext \<Rightarrow> 'c svm \<Rightarrow> sanitized_tx \<Rightarrow> bool" where
  "check_message_for_nonce E s stx =
     is_some_and (\<lambda>authority. authority \<in> set (get_ix_signers E stx 0))
       (Option.bind (Option.bind (get_durable_nonce E stx) (get_account (vm_accounts s)))
          (\<lambda>nonce_account. verify_nonce_account E nonce_account (recent_blockhash stx)))"

definition check_transaction_for_nonce ::
    "('pc, 'x, 'st, 'ic) exec_ext \<Rightarrow> 'c svm \<Rightarrow> sanitized_tx \<Rightarrow> hash \<Rightarrow> bool" where
  "check_transaction_for_nonce E s stx next_durable_nonce =
     (recent_blockhash stx \<noteq> next_durable_nonce \<and> check_message_for_nonce E s stx)"

definition check_transaction_age_inner ::
    "('pc, 'x, 'st, 'ic) exec_ext \<Rightarrow> 'c svm \<Rightarrow> sanitized_tx \<Rightarrow> transaction_error + unit" where
  "check_transaction_age_inner E s stx =
     (if recent_blockhash stx = latest_blockhash s \<or>
         check_transaction_for_nonce E s stx (durable_nonce E (latest_blockhash s))
      then Inr () else Inl BlockhashNotFound)"

definition maybe_blockhash_check ::
    "('pc, 'x, 'st, 'ic) exec_ext \<Rightarrow> 'c svm \<Rightarrow> sanitized_tx \<Rightarrow> execution_result + unit" where
  "maybe_blockhash_check E s stx =
     (if blockhash_check (vm_version s)
      then map_err exec_failure (check_transaction_age_inner E s stx) else Inr ())"

definition maybe_history_check ::
    "'c history_ops \<Rightarrow> 'c svm \<Rightarrow> sanitized_tx \<Rightarrow> execution_result + unit" where
  "maybe_history_check L s stx =
     (if sigverify (vm_version s) \<and> check_transaction L (vm_history s) (tx_signature stx)
      then Inl (exec_failure AlreadyProcessed) else Inr ())"

definition get_compute_budget_limits ::
    "('pc, 'x, 'st, 'ic) exec_ext \<Rightarrow> sanitized_tx \<Rightarrow> address set
      \<Rightarrow> execution_result + compute_budget_limits" where
  "get_compute_budget_limits E stx fs =
     map_err exec_failure (process_compute_budget_instructions E stx fs)"

definition pre_checks ::
    "('pc, 'x, 'st, 'ic) exec_ext \<Rightarrow> 'c history_ops \<Rightarrow> 'c svm \<Rightarrow> sanitized_tx
      \<Rightarrow> execution_result + compute_budget_limits" where
  "pre_checks E L s stx =
     and_then (map_err (\<lambda>_. exec_failure SanitizeFailure) (require_sysvars_loaded s)) (\<lambda>_.
     and_then (maybe_blockhash_check E s stx) (\<lambda>_.
     and_then (get_compute_budget_limits E stx (feature_set (vm_version s))) (\<lambda>limits.
     and_then (maybe_history_check L s stx) (\<lambda>_. Inr limits))))"

definition check_and_process_transaction ::
    "('pc, 'x, 'st, 'ic) exec_ext \<Rightarrow> 'c history_ops \<Rightarrow> inspect_mode \<Rightarrow> 'c svm \<Rightarrow> sanitized_tx
      \<Rightarrow> tx_feature_flags \<Rightarrow> ('pc, 'st) world
      \<Rightarrow> ('pc, 'st, execution_result + 'ic process_success) exec_outcome" where
  "check_and_process_transaction E L mode s stx fl w =
     (case pre_checks E L s stx of
        Inl er \<Rightarrow> Some (w, [], [], Inl er)
      | Inr limits \<Rightarrow> process_transaction E mode s stx limits fl w)"

section \<open>Results\<close>

definition writable_accounts :: "sanitized_tx \<Rightarrow> (address \<times> account) list \<Rightarrow> post_accounts" where
  "writable_accounts stx accs =
     map snd (filter (\<lambda>(i, p). is_writable stx i) (enumerated accs))"

definition execution_result_if_context ::
    "('pc, 'x, 'st, 'ic) exec_ext \<Rightarrow> sanitized_tx \<Rightarrow> 'ic \<Rightarrow> 'ic process_success
      \<Rightarrow> execution_result option" where
  "execution_result_if_context E stx ic ps =
     map_option
       (\<lambda>(inner_ixs, tr).
          \<lparr>er_post_accounts = writable_accounts stx (ic_accounts E ic), tx_result = ps_result ps,
           er_signature = tx_signature stx, er_units = ps_units ps, er_inner = inner_ixs,
           er_return_data = ic_return_data E ic, er_trace = tr, er_included = True,
           er_fee = ps_fee ps, er_fee_payer = ps_payer ps, er_source_failures = ps_failures ps,
           er_fatal = None, er_inspector_live = False\<rparr>)
       (extract_instruction_trace_data (map fst (ic_accounts E ic)) (ic_trace E ic))"

definition execute_sanitized_transaction ::
    "('pc, 'x, 'st, 'ic) exec_ext \<Rightarrow> 'c history_ops \<Rightarrow> inspect_mode \<Rightarrow> 'c svm \<Rightarrow> sanitized_tx
      \<Rightarrow> tx_feature_flags \<Rightarrow> ('pc, 'st) world \<Rightarrow> ('pc, 'st, execution_result) exec_outcome" where
  "execute_sanitized_transaction E L mode s stx fl w =
     (case check_and_process_transaction E L mode s stx fl w of
        None \<Rightarrow> None
      | Some (w', evs, lgs, Inl er) \<Rightarrow> Some (w', evs, lgs, er)
      | Some (w', evs, lgs, Inr ps) \<Rightarrow>
          (case ps_context ps of
             Some ic \<Rightarrow>
               map_option (\<lambda>er. (w', evs, lgs, er\<lparr>er_inspector_live := ps_live ps\<rparr>))
                 (execution_result_if_context E stx ic ps)
           | None \<Rightarrow>
               Some (w', evs, lgs,
                 default_execution_result
                   \<lparr>tx_result := ps_result ps, er_units := ps_units ps, er_fee := ps_fee ps,
                    er_source_failures := ps_failures ps, er_inspector_live := ps_live ps\<rparr>)))"

definition execute_transaction_readonly ::
    "('pc, 'x, 'st, 'ic) exec_ext \<Rightarrow> 'c history_ops \<Rightarrow> inspect_mode \<Rightarrow> 'c svm \<Rightarrow> versioned_tx
      \<Rightarrow> ('pc, 'st) world \<Rightarrow> ('pc, 'st, execution_result) exec_outcome" where
  "execute_transaction_readonly E L mode s tx w =
     (let fl = load_flags (gate_id E) (feature_set (vm_version s))
      in case sanitize_transaction_with_flags_and_policy E s tx fl (policy_for_mode mode) of
           Inl er \<Rightarrow> Some (w, [], [], er)
         | Inr stx \<Rightarrow> execute_sanitized_transaction E L mode s stx fl w)"

definition execute_transaction_no_verify_readonly ::
    "('pc, 'x, 'st, 'ic) exec_ext \<Rightarrow> 'c history_ops \<Rightarrow> inspect_mode \<Rightarrow> 'c svm \<Rightarrow> versioned_tx
      \<Rightarrow> ('pc, 'st) world \<Rightarrow> ('pc, 'st, execution_result) exec_outcome" where
  "execute_transaction_no_verify_readonly E L mode s tx w =
     (let fl = load_flags (gate_id E) (feature_set (vm_version s))
      in case sanitize_transaction_no_verify_with_policy E s tx (policy_for_mode mode) of
           Inl er \<Rightarrow> Some (w, [], [], er)
         | Inr stx \<Rightarrow> execute_sanitized_transaction E L mode s stx fl w)"

definition execute_readonly ::
    "('pc, 'x, 'st, 'ic) exec_ext \<Rightarrow> 'c history_ops \<Rightarrow> 'c svm \<Rightarrow> versioned_tx
      \<Rightarrow> ('pc, 'st) world \<Rightarrow> ('pc, 'st, execution_result) exec_outcome" where
  "execute_readonly E L s tx w =
     (let mode = select_mode s
      in if sigverify (vm_version s) then execute_transaction_readonly E L mode s tx w
         else execute_transaction_no_verify_readonly E L mode s tx w)"

section \<open>Diagnostics and the detached outcome\<close>

definition public_account_from_shared :: "account \<Rightarrow> account option" where
  "public_account_from_shared acc = (if lamports acc \<noteq> 0 then Some acc else None)"

definition accounts_differ :: "account \<Rightarrow> account \<Rightarrow> bool" where
  "accounts_differ pre post =
     (lamports pre \<noteq> lamports post \<or> owner pre \<noteq> owner post \<or>
      executable pre \<noteq> executable post \<or> rent_epoch pre \<noteq> rent_epoch post \<or> data pre \<noteq> data post)"

definition mint_decimals ::
    "('pc, 'x, 'st, 'ic) exec_ext \<Rightarrow> (address \<times> account) list \<Rightarrow> address \<rightharpoonup> u8" where
  "mint_decimals E accs =
     fold (\<lambda>(addr, acc) m.
             if length (data acc) = mint_len E
             then (case mint_unpack E (data acc) of
                     None \<Rightarrow> m
                   | Some d \<Rightarrow> (if m addr = None then m(addr \<mapsto> d) else m))
             else m) accs Map.empty"

definition token_balances ::
    "('pc, 'x, 'st, 'ic) exec_ext \<Rightarrow> (address \<times> account) list \<Rightarrow> accounts \<Rightarrow> token_balance list" where
  "token_balances E accs a =
     List.map_filter
       (\<lambda>(i, addr, acc).
          if length (data acc) \<noteq> token_len E then None
          else map_option
            (\<lambda>(mnt, own, amt).
               \<lparr>account_index = i, tb_address = addr, mint = mnt, tb_owner = own, amount = amt,
                decimals =
                  (case mint_decimals E accs mnt of
                     Some d \<Rightarrow> Some d
                   | None \<Rightarrow>
                       Option.bind (get_account a mnt)
                         (\<lambda>m. if length (data m) = mint_len E then mint_unpack E (data m) else None))\<rparr>)
            (token_unpack E (data acc)))
       (enumerated accs)"

definition vm_execution_diagnostics ::
    "('pc, 'x, 'st, 'ic) exec_ext \<Rightarrow> 'c svm \<Rightarrow> post_accounts \<Rightarrow> executed_instruction list
      \<Rightarrow> account_source_failure list \<Rightarrow> execution_diagnostics" where
  "vm_execution_diagnostics E s post tr failures =
     (let pre_of = (\<lambda>addr. unwrap_or default_account (get_account (vm_accounts s) addr))
      in \<lparr>pre_balances = map (\<lambda>(addr, acc). lamports (pre_of addr)) post,
          post_balances = map (\<lambda>(addr, acc). lamports acc) post,
          account_diffs =
            List.map_filter
              (\<lambda>(addr, acc).
                 if accounts_differ (pre_of addr) acc
                 then Some \<lparr>diff_address = addr,
                            diff_pre = public_account_from_shared (pre_of addr),
                            diff_post = public_account_from_shared acc\<rparr>
                 else None) post,
          diag_source_failures = failures,
          pre_token_balances =
            token_balances E (map (\<lambda>(addr, acc). (addr, pre_of addr)) post) (vm_accounts s),
          post_token_balances = token_balances E post (vm_accounts s),
          diag_trace = tr\<rparr>)"

definition execution_into_detached ::
    "('pc, 'x, 'st, 'ic) exec_ext \<Rightarrow> 'c svm \<Rightarrow> execution_result \<Rightarrow> string list \<Rightarrow> detached_tx" where
  "execution_into_detached E s er lgs =
     \<lparr>meta =
        \<lparr>meta_signature = er_signature er, logs = lgs, inner_instructions = er_inner er,
         compute_units_consumed = er_units er, meta_return_data = er_return_data er,
         meta_fee = er_fee er,
         diagnostics =
           (if compute_diagnostics (vm_version s)
            then vm_execution_diagnostics E s (er_post_accounts er) (er_trace er)
                   (er_source_failures er)
            else default_diagnostics
                   \<lparr>diag_trace := er_trace er, diag_source_failures := er_source_failures er\<rparr>)\<rparr>,
      det_post_accounts = er_post_accounts er, status = tx_result er, included = er_included er,
      fee_payer = er_fee_payer er, fatal_error = er_fatal er,
      inspector_live = er_inspector_live er\<rparr>"

definition default_execute_detached ::
    "('pc, 'x, 'st, 'ic) exec_ext \<Rightarrow> 'c history_ops \<Rightarrow> 'c svm \<Rightarrow> versioned_tx
      \<Rightarrow> ('pc, 'st) world \<Rightarrow> ('pc, 'st, detached_tx) outcome" where
  "default_execute_detached E L s tx w =
     map_option (\<lambda>(w', evs, lgs, er). (w', evs, execution_into_detached E s er lgs))
       (execute_readonly E L s tx w)"

text \<open>
  The handlers of a VM: the default handler accepts everything and runs the readonly path;
  the application's handlers are the argument.
\<close>

definition vm_handlers ::
    "('pc, 'x, 'st, 'ic) exec_ext \<Rightarrow> 'c history_ops
      \<Rightarrow> (nat \<Rightarrow> versioned_tx \<Rightarrow> 'c svm \<Rightarrow> tx_validation_error + unit)
      \<Rightarrow> (nat \<Rightarrow> versioned_tx \<Rightarrow> 'c svm \<Rightarrow> ('pc, 'st) world
          \<Rightarrow> ('pc, 'st, execution_error + detached_tx) outcome)
      \<Rightarrow> ('pc, 'st, 'c) handlers" where
  "vm_handlers E L custom_validate custom_execute =
     \<lparr>handler_validate =
        (\<lambda>handle tx s. case handle of
           DefaultExecutionHandler \<Rightarrow> Inr () | CustomHandler n \<Rightarrow> custom_validate n tx s),
      handler_execute =
        (\<lambda>handle tx s w. case handle of
           DefaultExecutionHandler \<Rightarrow> map_outcome Inr (default_execute_detached E L s tx w)
         | CustomHandler n \<Rightarrow> custom_execute n tx s w)\<rparr>"

end
