(* ===== verification/Tx_Batch.thy ===== *)
theory Tx_Batch
  imports Execution
begin

text \<open>
  The batch scheduler of \<^verbatim>\<open>batch.rs\<close>: lock sets, the best-fit planner, the workers of a parallel
  stage and the merge of their results. How the thread pool distributes the transactions of a
  stage is the argument \<open>sched\<close>: one list of indexes per worker VM, in the order it runs
  them. Workers share no cache, so running them one after the other is as good as any
  interleaving.
\<close>

section \<open>Plans and errors\<close>

record transaction_batch_stage =
  transaction_indexes :: "nat list"

record transaction_batch_plan =
  plan_stages :: "transaction_batch_stage list"

record transaction_batch_execution_result =
  result_plan :: transaction_batch_plan
  result_results :: "transaction_result list"

datatype transaction_batch_error =
    BatchSanitize nat transaction_error
  | BatchAccountSource nat address account_source_error

datatype batch_sanitize_error =
    SanitizeTransaction transaction_error
  | SanitizeAccountSource address account_source_error

fun into_batch_error :: "nat \<Rightarrow> batch_sanitize_error \<Rightarrow> transaction_batch_error" where
  "into_batch_error index (SanitizeTransaction src) = BatchSanitize index src"
| "into_batch_error index (SanitizeAccountSource pubkey src) = BatchAccountSource index pubkey src"

section \<open>Lock sets\<close>

record transaction_lock_set =
  readonly :: "address set"
  writable :: "address set"

definition empty_lock_set :: transaction_lock_set where
  "empty_lock_set = \<lparr>readonly = {}, writable = {}\<rparr>"

definition lock_key :: "sanitized_tx \<Rightarrow> nat \<times> address \<Rightarrow> transaction_lock_set \<Rightarrow> transaction_lock_set" where
  "lock_key stx ik ls =
     (let (index, key) = ik
      in if is_writable stx index then ls\<lparr>writable := insert key (writable ls)\<rparr>
         else ls\<lparr>readonly := insert key (readonly ls)\<rparr>)"

definition lock_set_from_transaction :: "sanitized_tx \<Rightarrow> versioned_tx \<Rightarrow> transaction_lock_set" where
  "lock_set_from_transaction stx tx =
     (let ls = fold (lock_key stx) (enumerated (account_keys stx)) empty_lock_set
      in case address_table_lookups tx of
           None \<Rightarrow> ls
         | Some lookups \<Rightarrow>
             ls\<lparr>readonly := readonly ls \<union> set (map lookup_key lookups)\<rparr>)"

definition conflicts_with :: "transaction_lock_set \<Rightarrow> transaction_lock_set \<Rightarrow> bool" where
  "conflicts_with a b \<longleftrightarrow>
     (\<exists>key \<in> writable a. key \<in> writable b \<or> key \<in> readonly b) \<or>
     (\<exists>key \<in> readonly a. key \<in> writable b)"

definition lock_set_len :: "transaction_lock_set \<Rightarrow> nat" where
  "lock_set_len ls = card (writable ls) + card (readonly ls)"

definition lock_set_extend ::
    "transaction_lock_set \<Rightarrow> transaction_lock_set \<Rightarrow> transaction_lock_set" where
  "lock_set_extend a b = a\<lparr>readonly := readonly a \<union> readonly b, writable := writable a \<union> writable b\<rparr>"

section \<open>Planning\<close>

record scheduled_stage =
  sched_indexes :: "nat list"
  sched_lock_set :: transaction_lock_set

definition consider_stage ::
    "transaction_lock_set \<Rightarrow> nat \<times> scheduled_stage \<Rightarrow> (nat \<times> nat) option \<Rightarrow> (nat \<times> nat) option" where
  "consider_stage ls ist best =
     (let (index, stage) = ist
      in if conflicts_with (sched_lock_set stage) ls then best
         else let weight = lock_set_len (sched_lock_set stage)
              in if is_none_or (\<lambda>(_, best_weight). weight < best_weight) best
                 then Some (index, weight) else best)"

definition best_fit_stage :: "scheduled_stage list \<Rightarrow> transaction_lock_set \<Rightarrow> nat option" where
  "best_fit_stage stages ls =
     map_option fst (fold (consider_stage ls) (enumerated stages) None)"

definition schedule_one ::
    "nat \<Rightarrow> transaction_lock_set \<Rightarrow> scheduled_stage list \<Rightarrow> scheduled_stage list" where
  "schedule_one index ls stages =
     (case best_fit_stage stages ls of
        Some k \<Rightarrow>
          (let stage = stages ! k
           in stages[k := stage\<lparr>sched_indexes := sched_indexes stage @ [index],
                                sched_lock_set := lock_set_extend (sched_lock_set stage) ls\<rparr>])
      | None \<Rightarrow> stages @ [\<lparr>sched_indexes = [index], sched_lock_set = ls\<rparr>])"

definition sanitize_transaction_no_verify ::
    "('pc, 'x, 'st, 'ic) exec_ext \<Rightarrow> 'c svm \<Rightarrow> versioned_tx \<Rightarrow> execution_result + sanitized_tx" where
  "sanitize_transaction_no_verify E s tx = sanitize_transaction_no_verify_with_policy E s tx HashCompute"

definition sanitize_transaction ::
    "('pc, 'x, 'st, 'ic) exec_ext \<Rightarrow> 'c svm \<Rightarrow> versioned_tx \<Rightarrow> execution_result + sanitized_tx" where
  "sanitize_transaction E s tx =
     (let flags = load_flags (gate_id E) (feature_set (vm_version s))
      in sanitize_transaction_with_flags_and_policy E s tx flags HashCompute)"

definition sanitize_transaction_for_batch ::
    "('pc, 'x, 'st, 'ic) exec_ext \<Rightarrow> 'c svm \<Rightarrow> versioned_tx \<Rightarrow> batch_sanitize_error + sanitized_tx" where
  "sanitize_transaction_for_batch E s tx =
     (let result = (if sigverify (vm_version s) then sanitize_transaction E s tx
                    else sanitize_transaction_no_verify E s tx)
      in map_err
           (\<lambda>er. case er_fatal er of
              Some (ExecAccountSource pubkey src) \<Rightarrow> SanitizeAccountSource pubkey src
            | _ \<Rightarrow> SanitizeTransaction
                     (case tx_result er of Inl e \<Rightarrow> e | Inr _ \<Rightarrow> SanitizeFailure))
           result)"

fun plan_from ::
    "('pc, 'x, 'st, 'ic) exec_ext \<Rightarrow> 'c svm \<Rightarrow> (nat \<times> versioned_tx) list \<Rightarrow> scheduled_stage list
      \<Rightarrow> transaction_batch_error + scheduled_stage list" where
  "plan_from E s [] stages = Inr stages"
| "plan_from E s ((index, tx) # rest) stages =
     (case map_err (into_batch_error index) (sanitize_transaction_for_batch E s tx) of
        Inl e \<Rightarrow> Inl e
      | Inr stx \<Rightarrow>
          plan_from E s rest (schedule_one index (lock_set_from_transaction stx tx) stages))"

definition plan_transaction_batch ::
    "('pc, 'x, 'st, 'ic) exec_ext \<Rightarrow> 'c svm \<Rightarrow> versioned_tx list
      \<Rightarrow> transaction_batch_error + transaction_batch_plan" where
  "plan_transaction_batch E s txs =
     map_ok (\<lambda>stages. \<lparr>plan_stages = map (\<lambda>st. \<lparr>transaction_indexes = sched_indexes st\<rparr>) stages\<rparr>)
       (plan_from E s (enumerated txs) [])"

section \<open>Worker VMs\<close>

definition with_transaction_origin ::
    "transaction_origin
      \<Rightarrow> (('pc, 'st, 'c) vm \<Rightarrow> (('pc, 'st, 'c) vm \<times> hook_event list \<times> 'o) option)
      \<Rightarrow> ('pc, 'st, 'c) vm \<Rightarrow> (('pc, 'st, 'c) vm \<times> hook_event list \<times> 'o) option" where
  "with_transaction_origin org op v =
     (let (w, s) = v; previous_origin = inspection_origin s
      in map_option (\<lambda>((w', s'), evs, r). ((w', s'\<lparr>inspection_origin := previous_origin\<rparr>), evs, r))
           (op (w, s\<lparr>inspection_origin := org\<rparr>)))"

record 'c runtime_state =
  rt_accounts :: accounts
  rt_history :: "'c transaction_history"

definition runtime_from_vm :: "'c svm \<Rightarrow> 'c runtime_state" where
  "runtime_from_vm s =
     \<lparr>rt_accounts = accounts_clone (vm_accounts s), rt_history = vm_history s\<rparr>"

record batch_stage_result =
  bs_index :: nat
  bs_result :: transaction_result
  bs_delta :: state_change_set

definition parallel_stage_drops_inspector :: "'c svm \<Rightarrow> bool" where
  "parallel_stage_drops_inspector s = (vm_inspector s \<noteq> None)"

definition worker_vm ::
    "'c svm \<Rightarrow> 'c runtime_state \<Rightarrow> transaction_origin \<Rightarrow> ('pc, 'st) world \<Rightarrow> ('pc, 'st, 'c) vm" where
  "worker_vm s runtime org w =
     (let (w', accs) = clone_for_worker (w, rt_accounts runtime)
      in (w', clone_with_state s accs (rt_history runtime) org))"

definition worker_step ::
    "('pc, 'st, 'c) handlers \<Rightarrow> nat \<Rightarrow> versioned_tx list \<Rightarrow> nat \<Rightarrow> ('pc, 'st, 'c) vm
      \<Rightarrow> (('pc, 'st, 'c) vm \<times> hook_event list \<times> batch_stage_result) option" where
  "worker_step Hs stage_index txs index v =
     (let (w, l) = v;
          local = l\<lparr>inspection_origin := Batch stage_index index\<rparr>
      in case list_get txs index of
           None \<Rightarrow> None
         | Some tx \<Rightarrow>
             map_option
               (\<lambda>(w', evs, d).
                  let (res, delta) = detached_into_result_and_state_change_set d
                        (history_is_enabled (vm_history local))
                  in ((w', local), evs, \<lparr>bs_index = index, bs_result = res, bs_delta = delta\<rparr>))
               (transact_detached Hs tx (w, local)))"

fun run_worker ::
    "('pc, 'st, 'c) handlers \<Rightarrow> nat \<Rightarrow> versioned_tx list \<Rightarrow> nat list \<Rightarrow> ('pc, 'st, 'c) vm
      \<Rightarrow> (('pc, 'st) world \<times> hook_event list \<times> batch_stage_result list) option" where
  "run_worker Hs stage_index txs [] v = Some (fst v, [], [])"
| "run_worker Hs stage_index txs (index # rest) v =
     (case worker_step Hs stage_index txs index v of
        None \<Rightarrow> None
      | Some (v', evs, r) \<Rightarrow>
          map_option (\<lambda>(w', evs', rs). (w', evs @ evs', r # rs))
            (run_worker Hs stage_index txs rest v'))"

fun run_workers ::
    "('pc, 'st, 'c) handlers \<Rightarrow> 'c svm \<Rightarrow> nat \<Rightarrow> versioned_tx list \<Rightarrow> nat list list
      \<Rightarrow> ('pc, 'st) world
      \<Rightarrow> (('pc, 'st) world \<times> hook_event list \<times> batch_stage_result list) option" where
  "run_workers Hs s stage_index txs [] w = Some (w, [], [])"
| "run_workers Hs s stage_index txs (chunk # chunks) w =
     (case run_worker Hs stage_index txs chunk
             (worker_vm s (runtime_from_vm s) (Batch stage_index 0) w) of
        None \<Rightarrow> None
      | Some (w', evs, rs) \<Rightarrow>
          map_option (\<lambda>(w'', evs', rs'). (w'', evs @ evs', rs @ rs'))
            (run_workers Hs s stage_index txs chunks w'))"

definition execute_transaction_batch_stage ::
    "(nat list \<Rightarrow> nat list list) \<Rightarrow> ('pc, 'st, 'c) handlers \<Rightarrow> 'c svm \<Rightarrow> nat
      \<Rightarrow> transaction_batch_stage \<Rightarrow> versioned_tx list \<Rightarrow> ('pc, 'st) world
      \<Rightarrow> (('pc, 'st) world \<times> hook_event list \<times> batch_stage_result list) option" where
  "execute_transaction_batch_stage sched Hs s stage_index stage txs w =
     run_workers Hs s stage_index txs (sched (transaction_indexes stage)) w"

definition batch_stage_result_new ::
    "('pc, 'st, 'c) handlers \<Rightarrow> nat \<Rightarrow> nat \<Rightarrow> 'c svm \<Rightarrow> 'c runtime_state \<Rightarrow> versioned_tx
      \<Rightarrow> ('pc, 'st) world \<Rightarrow> (('pc, 'st) world \<times> hook_event list \<times> batch_stage_result) option" where
  "batch_stage_result_new Hs stage_index index s snapshot tx w =
     (let (w', local) = worker_vm s snapshot (Batch stage_index index) w
      in map_option
           (\<lambda>(w'', evs, d).
              let (res, delta) = detached_into_result_and_state_change_set d
                    (history_is_enabled (vm_history local))
              in (w'', evs, \<lparr>bs_index = index, bs_result = res, bs_delta = delta\<rparr>))
           (transact_detached Hs tx (w', local)))"

section \<open>Running a batch\<close>

fun union_keys :: "address set \<Rightarrow> address list \<Rightarrow> address list" where
  "union_keys seen [] = []"
| "union_keys seen (key # keys) =
     (if key \<in> seen then union_keys seen keys else key # union_keys (insert key seen) keys)"

definition stage_read_set :: "transaction_batch_stage \<Rightarrow> versioned_tx list \<Rightarrow> address list" where
  "stage_read_set stage txs =
     union_keys {}
       (concat (map (\<lambda>index. case list_get txs index of
                         None \<Rightarrow> [] | Some tx \<Rightarrow> static_account_keys tx)
                    (transaction_indexes stage)))"

definition svm_prewarm_programs ::
    "('pc, 'x, 'st) db_ext \<Rightarrow> address list \<Rightarrow> ('pc, 'st, 'c) vm
      \<Rightarrow> ('pc, 'st, 'c) vm \<times> (hpsvm_error + unit)" where
  "svm_prewarm_programs X program_ids v =
     (let (w, s0) = v; s = svm_sync_jit_policy s0;
          (w', r) = prewarm_programs X program_ids (vm_accounts s) w
      in ((w', s), map_err Database r))"

definition batch_source_error :: "(any_error \<Rightarrow> string) \<Rightarrow> db_error \<Rightarrow> account_source_error" where
  \<comment> \<open>the first argument renders an erased error, which is what its own type displays\<close>
  "batch_source_error display e =
     unwrap_or (source_error_with_kind OtherKind (display (db_inner e))) (downcast_source (db_inner e))"

text \<open>The two prewarms of a parallel stage; a failure is charged to the stage head.\<close>

definition prewarm_stage ::
    "('pc, 'x, 'st) db_ext \<Rightarrow> (any_error \<Rightarrow> string) \<Rightarrow> transaction_batch_stage \<Rightarrow> versioned_tx list
      \<Rightarrow> ('pc, 'st, 'c) vm \<Rightarrow> ('pc, 'st, 'c) vm \<times> (transaction_batch_error + unit)" where
  "prewarm_stage X display stage txs v =
     (let (w, s) = v;
          read_set = stage_read_set stage txs;
          blame = (\<lambda>e. BatchAccountSource (hd (transaction_indexes stage)) (hd read_set)
                         (batch_source_error display e));
          (a', r) = prewarm read_set (vm_accounts s);
          s' = s\<lparr>vm_accounts := a'\<rparr>
      in case r of
           Inl db_error \<Rightarrow> ((w, s'), Inl (blame db_error))
         | Inr _ \<Rightarrow>
             (case svm_prewarm_programs X read_set (w, s') of
                (v', Inl (Database db_error)) \<Rightarrow> (v', Inl (blame db_error))
              | (v', Inl other) \<Rightarrow>
                  (v', Inl (BatchAccountSource (hd (transaction_indexes stage)) (hd read_set)
                              (source_error_with_kind OtherKind (display (AnyHpsvm other)))))
              | (v', Inr _) \<Rightarrow> (v', Inr ())))"

definition set_slot :: "nat \<Rightarrow> 'a \<Rightarrow> 'a option list \<Rightarrow> 'a option list option" where
  "set_slot index r slots = (if index < length slots then Some (slots[index := Some r]) else None)"

fun merge_stage ::
    "('pc, 'x, 'st) db_ext \<Rightarrow> 'c history_ops \<Rightarrow> batch_stage_result list \<Rightarrow> ('pc, 'st, 'c) vm
      \<Rightarrow> transaction_result option list
      \<Rightarrow> (('pc, 'st, 'c) vm \<times> transaction_result option list) option" where
  "merge_stage X L [] v slots = Some (v, slots)"
| "merge_stage X L (r # rs) (w, s) slots =
     (case apply_commit_delta X L (bs_delta r) (w, vm_accounts s) (vm_history s) of
        (wa, h, Inl _) \<Rightarrow> None
      | ((w', a'), h, Inr _) \<Rightarrow>
          (case set_slot (bs_index r) (bs_result r) slots of
             None \<Rightarrow> None
           | Some slots' \<Rightarrow>
               merge_stage X L rs (w', s\<lparr>vm_accounts := a', vm_history := h\<rparr>) slots'))"

definition run_single ::
    "('pc, 'x, 'st) db_ext \<Rightarrow> 'c history_ops \<Rightarrow> ('pc, 'st, 'c) handlers \<Rightarrow> versioned_tx list
      \<Rightarrow> nat \<Rightarrow> nat \<Rightarrow> ('pc, 'st, 'c) vm \<Rightarrow> transaction_result option list
      \<Rightarrow> (('pc, 'st, 'c) vm \<times> hook_event list \<times> transaction_result option list) option" where
  "run_single X L Hs txs stage_index index v slots =
     (case list_get txs index of
        None \<Rightarrow> None
      | Some tx \<Rightarrow>
          (case with_transaction_origin (Batch stage_index index) (send_transaction X L Hs tx) v of
             None \<Rightarrow> None
           | Some (v', evs, res) \<Rightarrow>
               map_option (\<lambda>slots'. (v', evs, slots')) (set_slot index res slots)))"

definition run_parallel ::
    "(nat list \<Rightarrow> nat list list) \<Rightarrow> ('pc, 'x, 'st) db_ext \<Rightarrow> 'c history_ops
      \<Rightarrow> ('pc, 'st, 'c) handlers \<Rightarrow> versioned_tx list \<Rightarrow> nat \<Rightarrow> transaction_batch_stage
      \<Rightarrow> ('pc, 'st, 'c) vm \<Rightarrow> transaction_result option list
      \<Rightarrow> (('pc, 'st, 'c) vm \<times> hook_event list \<times> transaction_result option list) option" where
  "run_parallel sched X L Hs txs stage_index stage v slots =
     (case execute_transaction_batch_stage sched Hs (snd v) stage_index stage txs (fst v) of
        None \<Rightarrow> None
      | Some (w', evs, stage_results) \<Rightarrow>
          map_option (\<lambda>(v', slots'). (v', evs, slots'))
            (merge_stage X L (sort_key bs_index stage_results) (w', snd v) slots))"

fun run_stages ::
    "(nat list \<Rightarrow> nat list list) \<Rightarrow> (any_error \<Rightarrow> string) \<Rightarrow> ('pc, 'x, 'st) db_ext
      \<Rightarrow> 'c history_ops \<Rightarrow> ('pc, 'st, 'c) handlers \<Rightarrow> versioned_tx list
      \<Rightarrow> (nat \<times> transaction_batch_stage) list \<Rightarrow> ('pc, 'st, 'c) vm \<Rightarrow> transaction_result option list
      \<Rightarrow> (('pc, 'st, 'c) vm \<times> hook_event list
          \<times> (transaction_batch_error + transaction_result option list)) option" where
  "run_stages sched display X L Hs txs [] v slots = Some (v, [], Inr slots)"
| "run_stages sched display X L Hs txs ((stage_index, stage) # rest) v slots =
     (if length (transaction_indexes stage) = 1
      then (case run_single X L Hs txs stage_index (hd (transaction_indexes stage)) v slots of
              None \<Rightarrow> None
            | Some (v', evs, slots') \<Rightarrow>
                map_option (\<lambda>(v'', evs', r). (v'', evs @ evs', r))
                  (run_stages sched display X L Hs txs rest v' slots'))
      else (case prewarm_stage X display stage txs v of
              (v', Inl e) \<Rightarrow> Some (v', [], Inl e)
            | (v', Inr _) \<Rightarrow>
                (case run_parallel sched X L Hs txs stage_index stage v' slots of
                   None \<Rightarrow> None
                 | Some (v'', evs, slots') \<Rightarrow>
                     map_option (\<lambda>(v3, evs', r). (v3, evs @ evs', r))
                       (run_stages sched display X L Hs txs rest v'' slots'))))"

definition send_transaction_batch ::
    "(nat list \<Rightarrow> nat list list) \<Rightarrow> (any_error \<Rightarrow> string) \<Rightarrow> ('pc, 'x, 'st, 'ic) exec_ext
      \<Rightarrow> 'c history_ops \<Rightarrow> ('pc, 'st, 'c) handlers \<Rightarrow> versioned_tx list \<Rightarrow> ('pc, 'st, 'c) vm
      \<Rightarrow> (('pc, 'st, 'c) vm \<times> hook_event list
          \<times> (transaction_batch_error + transaction_batch_execution_result)) option" where
  "send_transaction_batch sched display E L Hs txs v =
     (case plan_transaction_batch E (snd v) txs of
        Inl e \<Rightarrow> Some (v, [], Inl e)
      | Inr plan \<Rightarrow>
          (case run_stages sched display (db E) L Hs txs (enumerated (plan_stages plan)) v
                  (replicate (length txs) None) of
             None \<Rightarrow> None
           | Some (v', evs, Inl e) \<Rightarrow> Some (v', evs, Inl e)
           | Some (v', evs, Inr slots) \<Rightarrow>
               if list_all (\<lambda>r. r \<noteq> None) slots
               then Some (v', evs, Inr \<lparr>result_plan = plan, result_results = map the slots\<rparr>)
               else None))"

end
