(* ===== verification/Batch_Plan_Props.thy ===== *)
theory Batch_Plan_Props
  imports Tx_Batch
begin

text \<open>
  Correctness of the batch planner: the best-fit choice, that every transaction is scheduled
  exactly once, and that no two transactions of a stage conflict.
\<close>

section \<open>Lock sets\<close>

lemma conflicts_iff:
  "conflicts_with a b \<longleftrightarrow>
     writable a \<inter> (writable b \<union> readonly b) \<noteq> {} \<or> readonly a \<inter> writable b \<noteq> {}"
  by (auto simp: conflicts_with_def)

lemma conflicts_sym: "conflicts_with a b = conflicts_with b a"
  by (auto simp: conflicts_with_def)

lemma conflicts_extend:
  "conflicts_with (lock_set_extend a b) c \<longleftrightarrow> conflicts_with a c \<or> conflicts_with b c"
  by (auto simp: conflicts_with_def lock_set_extend_def)

lemma fold_lock_key:
  "fold (lock_key stx) iks ls =
     ls\<lparr>writable := writable ls \<union> snd ` {ik \<in> set iks. is_writable stx (fst ik)},
        readonly := readonly ls \<union> snd ` {ik \<in> set iks. \<not> is_writable stx (fst ik)}\<rparr>"
proof (induction iks arbitrary: ls)
  case (Cons ik iks)
  have w: "snd ` {x \<in> set (ik # iks). is_writable stx (fst x)} =
    (if is_writable stx (fst ik) then {snd ik} else {}) \<union>
    snd ` {x \<in> set iks. is_writable stx (fst x)}" by auto
  have r: "snd ` {x \<in> set (ik # iks). \<not> is_writable stx (fst x)} =
    (if is_writable stx (fst ik) then {} else {snd ik}) \<union>
    snd ` {x \<in> set iks. \<not> is_writable stx (fst x)}" by auto
  show ?case
    unfolding w r
    by (cases ik) (simp add: Cons.IH lock_key_def [of _ "(i, k)" for i k])
qed simp

section \<open>The best fit\<close>

definition fits :: "transaction_lock_set \<Rightarrow> scheduled_stage \<Rightarrow> bool" where
  "fits ls stage = (\<not> conflicts_with (sched_lock_set stage) ls)"

definition stage_weight :: "scheduled_stage \<Rightarrow> nat" where
  "stage_weight stage = lock_set_len (sched_lock_set stage)"

text \<open>The first of the lightest conflict-free stages, as a specification.\<close>

definition is_best_fit :: "scheduled_stage list \<Rightarrow> transaction_lock_set \<Rightarrow> nat \<Rightarrow> bool" where
  "is_best_fit stages ls k \<longleftrightarrow>
     k < length stages \<and> fits ls (stages ! k) \<and>
     (\<forall>j < length stages. fits ls (stages ! j) \<longrightarrow>
        stage_weight (stages ! k) \<le> stage_weight (stages ! j) \<and>
        (j < k \<longrightarrow> stage_weight (stages ! k) < stage_weight (stages ! j)))"

lemma consider_fold:
  "case fold (consider_stage ls) (enumerated stages) None of
     None \<Rightarrow> \<forall>j < length stages. \<not> fits ls (stages ! j)
   | Some (k, wt) \<Rightarrow> is_best_fit stages ls k \<and> wt = stage_weight (stages ! k)"
proof (induction stages rule: rev_induct)
  case Nil
  show ?case by (simp add: enumerated_def)
next
  case (snoc st stages)
  have f: "fold (consider_stage ls) (enumerated (stages @ [st])) None =
    consider_stage ls (length stages, st) (fold (consider_stage ls) (enumerated stages) None)"
    by (simp add: enumerated_def enumerate_append_eq)
  have one: "consider_stage ls (length stages, st) best =
    (if fits ls st \<and> is_none_or (\<lambda>(_, best_weight). stage_weight st < best_weight) best
     then Some (length stages, stage_weight st) else best)" for best
    by (simp add: consider_stage_def Let_def fits_def stage_weight_def)
  show ?case
  proof (cases "fold (consider_stage ls) (enumerated stages) None")
    case None
    with snoc show ?thesis
      by (auto simp: f one is_none_or_def is_best_fit_def nth_append less_Suc_eq)
  next
    case (Some kw)
    obtain k wt where kw: "kw = (k, wt)" by (cases kw)
    have b: "is_best_fit stages ls k" "wt = stage_weight (stages ! k)"
      using snoc Some by (simp_all add: kw)
    show ?thesis
    proof (cases "fits ls st \<and> stage_weight st < wt")
      case True
      then show ?thesis
        using b by (fastforce simp: f one Some kw is_none_or_def is_best_fit_def nth_append less_Suc_eq)
    next
      case False
      then show ?thesis
        using b by (auto simp: f one Some kw is_none_or_def is_best_fit_def nth_append less_Suc_eq)
    qed
  qed
qed

lemma best_fit_Some: "best_fit_stage stages ls = Some k \<Longrightarrow> is_best_fit stages ls k"
  using consider_fold [of stages ls]
  by (auto simp: best_fit_stage_def split: option.splits prod.splits)

lemma best_fit_None:
  "best_fit_stage stages ls = None \<Longrightarrow> j < length stages \<Longrightarrow> \<not> fits ls (stages ! j)"
  using consider_fold [of stages ls]
  by (auto simp: best_fit_stage_def split: option.splits prod.splits)

lemma best_fit_unique: "is_best_fit stages ls k \<Longrightarrow> is_best_fit stages ls k' \<Longrightarrow> k = k'"
  unfolding is_best_fit_def by (metis leD linorder_neqE_nat)

text \<open>
  The planner's scan is exactly best fit: it returns an index if and only if that stage
  is the first among the conflict-free stages that lock the fewest accounts, and nothing if
  and only if every stage conflicts with the transaction.
\<close>

theorem best_fit_exact:
  "(best_fit_stage stages ls = Some k \<longleftrightarrow> is_best_fit stages ls k) \<and>
   (best_fit_stage stages ls = None \<longleftrightarrow>
      list_all (\<lambda>stage. conflicts_with (sched_lock_set stage) ls) stages)"
proof (cases "best_fit_stage stages ls")
  case None
  then have "\<not> is_best_fit stages ls k" by (auto simp: is_best_fit_def dest: best_fit_None)
  with None show ?thesis
    by (auto simp: list_all_length fits_def dest: best_fit_None [unfolded fits_def])
next
  case (Some m)
  then have m: "is_best_fit stages ls m" by (rule best_fit_Some)
  moreover have "\<not> list_all (\<lambda>stage. conflicts_with (sched_lock_set stage) ls) stages"
    using m by (auto simp: is_best_fit_def fits_def list_all_length)
  ultimately show ?thesis using Some best_fit_unique by (metis option.distinct(1) option.sel)
qed

section \<open>The plan\<close>

text \<open>The accounts a transaction locks at planning time.\<close>

definition tx_locks :: "('pc, 'x, 'st, 'ic) exec_ext \<Rightarrow> 'c svm \<Rightarrow> versioned_tx \<Rightarrow> transaction_lock_set" where
  "tx_locks E s tx =
     (case sanitize_transaction_for_batch E s tx of
        Inl _ \<Rightarrow> empty_lock_set | Inr stx \<Rightarrow> lock_set_from_transaction stx tx)"

lemma plan_from_fold:
  "plan_from E s its stages = Inr stages' \<Longrightarrow>
     stages' = fold (\<lambda>(i, tx). schedule_one i (tx_locks E s tx)) its stages"
  by (induction E s its stages rule: plan_from.induct)
    (auto simp: tx_locks_def split: sum.splits)

definition stage_inv :: "(nat \<Rightarrow> transaction_lock_set) \<Rightarrow> nat \<Rightarrow> scheduled_stage \<Rightarrow> bool" where
  "stage_inv lk n stage \<longleftrightarrow>
     sched_indexes stage \<noteq> [] \<and> sorted_wrt (<) (sched_indexes stage) \<and>
     (\<forall>i \<in> set (sched_indexes stage). i < n) \<and>
     (\<forall>ls. conflicts_with (sched_lock_set stage) ls \<longleftrightarrow>
        (\<exists>i \<in> set (sched_indexes stage). conflicts_with (lk i) ls)) \<and>
     (\<forall>i \<in> set (sched_indexes stage). \<forall>j \<in> set (sched_indexes stage).
        i \<noteq> j \<longrightarrow> \<not> conflicts_with (lk i) (lk j))"

definition plan_inv :: "(nat \<Rightarrow> transaction_lock_set) \<Rightarrow> nat \<Rightarrow> scheduled_stage list \<Rightarrow> bool" where
  "plan_inv lk n stages \<longleftrightarrow>
     mset (concat (map sched_indexes stages)) = mset [0..<n] \<and>
     list_all (stage_inv lk n) stages"

lemma stage_inv_mono: "stage_inv lk n st \<Longrightarrow> stage_inv lk (Suc n) st"
  by (auto simp: stage_inv_def)

lemma stage_inv_new: "stage_inv lk (Suc n) \<lparr>sched_indexes = [n], sched_lock_set = lk n\<rparr>"
  by (simp add: stage_inv_def)

lemma stage_inv_join:
  assumes "stage_inv lk n st" and "fits (lk n) st"
  shows "stage_inv lk (Suc n) (st\<lparr>sched_indexes := sched_indexes st @ [n],
           sched_lock_set := lock_set_extend (sched_lock_set st) (lk n)\<rparr>)"
proof -
  have "\<not> conflicts_with (lk i) (lk n)" if "i \<in> set (sched_indexes st)" for i
    using assms that by (auto simp: stage_inv_def fits_def)
  moreover from this have "\<not> conflicts_with (lk n) (lk i)" if "i \<in> set (sched_indexes st)" for i
    using that conflicts_sym [of "lk n" "lk i"] by blast
  ultimately show ?thesis
    using assms(1) by (auto simp: stage_inv_def sorted_wrt_append conflicts_extend less_SucI)
qed

lemma mset_concat_join:
  "k < length xss \<Longrightarrow> mset (concat (xss[k := xss ! k @ [x]])) = add_mset x (mset (concat xss))"
proof (induction xss arbitrary: k)
  case (Cons xs xss)
  then show ?case by (cases k) auto
qed simp

lemma plan_inv_step:
  assumes "plan_inv lk n stages"
  shows "plan_inv lk (Suc n) (schedule_one n (lk n) stages)"
proof (cases "best_fit_stage stages (lk n)")
  case None
  with assms show ?thesis
    by (auto simp: plan_inv_def schedule_one_def stage_inv_new list_all_iff stage_inv_mono)
next
  case (Some k)
  then have k: "k < length stages" "fits (lk n) (stages ! k)"
    by (auto dest!: best_fit_Some simp: is_best_fit_def)
  let ?st = "stages ! k"
  let ?st' = "?st\<lparr>sched_indexes := sched_indexes ?st @ [n],
    sched_lock_set := lock_set_extend (sched_lock_set ?st) (lk n)\<rparr>"
  have s: "schedule_one n (lk n) stages = stages[k := ?st']"
    by (simp add: schedule_one_def Some Let_def)
  have "stage_inv lk (Suc n) ?st'"
    using assms k by (intro stage_inv_join) (auto simp: plan_inv_def list_all_length)
  then have "list_all (stage_inv lk (Suc n)) (stages[k := ?st'])"
    using assms stage_inv_mono by (auto simp: plan_inv_def list_all_iff dest!: subsetD [OF set_update_subset_insert])
  moreover have "mset (concat (map sched_indexes (stages[k := ?st']))) = mset [0..<Suc n]"
    using assms k(1) mset_concat_join [of k "map sched_indexes stages" n]
    by (simp add: plan_inv_def map_update)
  ultimately show ?thesis by (simp add: plan_inv_def s)
qed

lemma plan_inv_fold:
  "plan_inv lk (length txs) (fold (\<lambda>(i, tx). schedule_one i (lk i)) (enumerated txs) [])"
proof (induction txs rule: rev_induct)
  case Nil
  show ?case by (simp add: enumerated_def plan_inv_def)
next
  case (snoc tx txs)
  then show ?case by (simp add: enumerated_def enumerate_append_eq plan_inv_step)
qed

lemma plan_invariant:
  assumes "plan_from E s (enumerated txs) [] = Inr stages"
  shows "plan_inv (\<lambda>i. tx_locks E s (txs ! i)) (length txs) stages"
proof -
  have "fold (\<lambda>(i, tx). schedule_one i (tx_locks E s tx)) (enumerated txs) [] =
    fold (\<lambda>(i, tx). schedule_one i (tx_locks E s (txs ! i))) (enumerated txs) []"
    by (rule fold_cong) (auto simp: set_enumerated)
  then show ?thesis
    using plan_inv_fold [of "\<lambda>i. tx_locks E s (txs ! i)" txs] plan_from_fold [OF assms] by simp
qed

lemma plan_obtain:
  assumes "plan_transaction_batch E s txs = Inr plan"
  obtains stages where "plan_inv (\<lambda>i. tx_locks E s (txs ! i)) (length txs) stages"
    and "plan = \<lparr>plan_stages = map (\<lambda>st. \<lparr>transaction_indexes = sched_indexes st\<rparr>) stages\<rparr>"
  using assms plan_invariant [of E s txs]
  by (auto simp: plan_transaction_batch_def map_ok_def split: sum.splits)

lemma plan_covers:
  assumes "plan_transaction_batch E s txs = Inr plan"
  shows "mset (concat (map transaction_indexes (plan_stages plan))) = mset [0..<length txs]"
  using assms by (rule plan_obtain) (simp add: plan_inv_def comp_def)

text \<open>
  C6. A plan schedules every transaction exactly once: put together, the stages of a
  successful plan are a permutation of the indexes of the batch. Every stage is non-empty and
  keeps the submission order, so a batch needs at most one round per transaction.
\<close>

theorem plan_schedules_once:
  assumes "plan_transaction_batch E s txs = Inr plan"
  shows "mset (concat (map transaction_indexes (plan_stages plan))) = mset [0..<length txs] \<and>
     list_all (\<lambda>stage. transaction_indexes stage \<noteq> [] \<and>
       sorted_wrt (<) (transaction_indexes stage)) (plan_stages plan) \<and>
     length (plan_stages plan) \<le> length txs"
proof -
  from assms obtain stages where inv: "plan_inv (\<lambda>i. tx_locks E s (txs ! i)) (length txs) stages"
    and p: "plan = \<lparr>plan_stages = map (\<lambda>st. \<lparr>transaction_indexes = sched_indexes st\<rparr>) stages\<rparr>"
    by (rule plan_obtain)
  have len: "length xss \<le> length (concat xss)" if "list_all (\<lambda>xs. xs \<noteq> []) xss" for xss :: "nat list list"
    using that
  proof (induction xss)
    case (Cons xs xss)
    then show ?case by (cases xs) auto
  qed simp
  have "length (concat (map sched_indexes stages)) = length txs"
    using inv by (metis plan_inv_def mset_eq_length length_upt diff_zero)
  moreover have "list_all (\<lambda>xs. xs \<noteq> []) (map sched_indexes stages)"
    using inv by (auto simp: plan_inv_def stage_inv_def list_all_iff)
  ultimately have "length stages \<le> length txs" using len [of "map sched_indexes stages"] by simp
  with inv show ?thesis
    by (auto simp: p plan_inv_def stage_inv_def list_all_iff comp_def)
qed

text \<open>
  C5. Stages are conflict-free: no account that one transaction of a stage writes is locked,
  for writing or reading, by another transaction of the same stage. Its lookup tables count
  as read.
\<close>

theorem plan_conflict_free:
  assumes "plan_transaction_batch E s txs = Inr plan"
    and "stage \<in> set (plan_stages plan)"
    and "i \<in> set (transaction_indexes stage)" and "j \<in> set (transaction_indexes stage)"
    and "i \<noteq> j"
  shows "i < length txs \<and> j < length txs \<and>
     writable (tx_locks E s (txs ! i)) \<inter>
       (writable (tx_locks E s (txs ! j)) \<union> readonly (tx_locks E s (txs ! j))) = {}"
proof -
  from assms(1) obtain stages where inv: "plan_inv (\<lambda>i. tx_locks E s (txs ! i)) (length txs) stages"
    and p: "plan = \<lparr>plan_stages = map (\<lambda>st. \<lparr>transaction_indexes = sched_indexes st\<rparr>) stages\<rparr>"
    by (rule plan_obtain)
  from inv assms(2-)
  have "\<not> conflicts_with (tx_locks E s (txs ! i)) (tx_locks E s (txs ! j))"
    and "i < length txs" and "j < length txs"
    by (auto simp: p plan_inv_def stage_inv_def list_all_iff)
  then show ?thesis by (auto simp: conflicts_iff)
qed

section \<open>Prewarming a stage\<close>

lemma set_union_keys: "set (union_keys seen keys) = set keys - seen"
  by (induction seen keys rule: union_keys.induct) auto

lemma distinct_union_keys: "distinct (union_keys seen keys)"
  by (induction seen keys rule: union_keys.induct) (auto simp: set_union_keys)

lemma prewarm_error_nonempty: "snd (prewarm ks a) = Inl e \<Longrightarrow> ks \<noteq> []"
  by (auto simp: prewarm_def)

lemma prewarm_programs_error_nonempty: "snd (prewarm_programs X ks a w) = Inl e \<Longrightarrow> ks \<noteq> []"
  by (auto simp: prewarm_programs_def programs_to_resolve_def List.map_filter_def)

text \<open>
  The blame of a failed prewarm is well defined: the read set lists each static key of
  the stage's transactions once, and whenever prewarming a stage fails the read set is not
  empty, so the error names a key of the stage; a failure of the account source is reported
  as that very source error.
\<close>

theorem prewarm_blame_defined:
  assumes "snd (prewarm_stage X display stage txs v) = Inl e"
  shows "distinct (stage_read_set stage txs) \<and>
     (\<exists>src. e = BatchAccountSource (hd (transaction_indexes stage))
              (hd (stage_read_set stage txs)) src \<and> stage_read_set stage txs \<noteq> []) \<and>
     (\<forall>se. source_get_accounts (source (vm_accounts (snd v)))
             (prewarm_missing (cache (vm_accounts (snd v))) {} (stage_read_set stage txs)) = Inl se \<and>
           prewarm_missing (cache (vm_accounts (snd v))) {} (stage_read_set stage txs) \<noteq> [] \<longrightarrow>
       e = BatchAccountSource (hd (transaction_indexes stage)) (hd (stage_read_set stage txs)) se)"
proof -
  obtain w s where v: "v = (w, s)" by (cases v)
  let ?rs = "stage_read_set stage txs"
  have d: "distinct ?rs" by (simp add: stage_read_set_def distinct_union_keys)
  have ne: "\<exists>src. e = BatchAccountSource (hd (transaction_indexes stage)) (hd ?rs) src \<and> ?rs \<noteq> []"
  proof (cases "prewarm ?rs (vm_accounts s)")
    case (Pair a' r)
    show ?thesis
    proof (cases r)
      case (Inl de)
      with Pair have "?rs \<noteq> []" using prewarm_error_nonempty [of ?rs "vm_accounts s" de] by simp
      with Inl Pair assms show ?thesis by (auto simp: v prewarm_stage_def Let_def)
    next
      case (Inr u)
      let ?s = "svm_sync_jit_policy (s\<lparr>vm_accounts := a'\<rparr>)"
      obtain w' r' where pw: "prewarm_programs X ?rs (vm_accounts ?s) w = (w', r')" by fastforce
      with Inr Pair assms obtain de where "r' = Inl de"
        and "e = BatchAccountSource (hd (transaction_indexes stage)) (hd ?rs) (batch_source_error display de)"
        by (cases r') (auto simp: v prewarm_stage_def Let_def svm_prewarm_programs_def)
      with pw prewarm_programs_error_nonempty [of X ?rs "vm_accounts ?s" w de] show ?thesis by simp
    qed
  qed
  have "e = BatchAccountSource (hd (transaction_indexes stage)) (hd ?rs) se"
    if "source_get_accounts (source (vm_accounts s)) (prewarm_missing (cache (vm_accounts s)) {} ?rs) = Inl se"
      and "prewarm_missing (cache (vm_accounts s)) {} ?rs \<noteq> []" for se
    using assms that
    by (simp add: v prewarm_stage_def prewarm_def Let_def batch_source_error_def
        db_error_from_source_def unwrap_or_def)
  with d ne show ?thesis by (simp add: v)
qed

end
