(* ===== verification/Staged_Props.thy ===== *)
theory Staged_Props
  imports Staged_Tx
begin

text \<open>
  What staging promises: discarding restores the VM, committing is the same as applying the
  commit delta directly, a failing sink or a failing stage leaves no account change behind,
  and transactions that were not included stage nothing.
\<close>

section \<open>The shape of a stage\<close>

definition staged_post :: "detached_tx \<Rightarrow> post_accounts" where
  "staged_post d = (if included d then det_post_accounts d else [])"

definition staged_entry :: "detached_tx \<Rightarrow> bool \<Rightarrow> history_entry option" where
  "staged_entry d enabled =
     (if included d \<and> enabled
      then Some (meta_signature (meta d), fst (detached_into_result_and_delta d enabled)) else None)"

lemma delta_parts:
  "into_parts (snd (detached_into_result_and_delta d b)) = (staged_post d, staged_entry d b)"
  by (simp add: detached_into_result_and_delta_def into_parts_def Let_def staged_post_def
      staged_entry_def)

lemma delta_ignores_fatal [simp]:
  "detached_into_result_and_delta (d\<lparr>fatal_error := f\<rparr>) b = detached_into_result_and_delta d b"
  by (simp add: detached_into_result_and_delta_def Let_def split: sum.split)

lemma stage_detached_fatal:
  "fatal_error d = Some e \<Longrightarrow>
     stage_detached X d (w, s) =
       ((w, s), Inl \<lparr>sf_error = hpsvm_from_execution e,
                     sf_result = fst (detached_into_result_and_delta d False)\<rparr>)"
  by (simp add: stage_detached_def take_fatal_def)

lemma stage_detached_unfold:
  assumes "fatal_error d = None"
    and "sync_accounts X (staged_post d) (w, vm_accounts s) = ((w', a'), r)"
  shows "stage_detached X d (w, s) =
     (case r of
        Inl e \<Rightarrow> ((w', s\<lparr>vm_accounts := rollback a' (checkpoint (vm_accounts s))\<rparr>),
                  Inl \<lparr>sf_error = e, sf_result =
                    fst (detached_into_result_and_delta d (history_is_enabled (vm_history s)))\<rparr>)
      | Inr _ \<Rightarrow> ((w', s\<lparr>vm_accounts := a'\<rparr>),
          Inr \<lparr>et_checkpoint = checkpoint (vm_accounts s),
               et_result = fst (detached_into_result_and_delta d (history_is_enabled (vm_history s))),
               et_history_entry = staged_entry d (history_is_enabled (vm_history s)),
               et_cache_dirty = staging_touches_caches (det_post_accounts d) (vm_accounts s),
               et_changes = staged_changes (vm_accounts s) (staged_post d),
               et_inspector_live = inspector_live d\<rparr>))"
proof -
  obtain res delta where rd:
    "detached_into_result_and_delta d (history_is_enabled (vm_history s)) = (res, delta)"
    by (cases "detached_into_result_and_delta d (history_is_enabled (vm_history s))")
  have "into_parts delta = (staged_post d, staged_entry d (history_is_enabled (vm_history s)))"
    using delta_parts [of d "history_is_enabled (vm_history s)"] by (simp add: rd)
  then show ?thesis
    using assms by (cases r) (simp_all add: stage_detached_def take_fatal_def rd Let_def)
qed

lemma stage_ok:
  assumes "stage_detached X d (w, s) = ((w1, s1), Inr et)"
  obtains a' where "fatal_error d = None"
    and "sync_accounts X (staged_post d) (w, vm_accounts s) = ((w1, a'), Inr ())"
    and "s1 = s\<lparr>vm_accounts := a'\<rparr>"
    and "et = \<lparr>et_checkpoint = checkpoint (vm_accounts s),
               et_result = fst (detached_into_result_and_delta d (history_is_enabled (vm_history s))),
               et_history_entry = staged_entry d (history_is_enabled (vm_history s)),
               et_cache_dirty = staging_touches_caches (det_post_accounts d) (vm_accounts s),
               et_changes = staged_changes (vm_accounts s) (staged_post d),
               et_inspector_live = inspector_live d\<rparr>"
proof -
  obtain w' a' r where sy: "sync_accounts X (staged_post d) (w, vm_accounts s) = ((w', a'), r)"
    by (metis prod.exhaust)
  have f: "fatal_error d = None"
  proof (rule ccontr)
    assume "fatal_error d \<noteq> None"
    then obtain e where "fatal_error d = Some e" by (cases "fatal_error d") simp_all
    with assms show False by (simp add: stage_detached_fatal)
  qed
  show ?thesis
    using assms sy that [OF f] by (cases r) (simp_all add: stage_detached_unfold [OF f sy])
qed

lemma sync_accounts_extends: "extends (snd wa) (snd (fst (sync_accounts X accs wa)))"
  by (simp add: sync_accounts_def add_accounts_extends)

lemma sync_rollback:
  assumes "sync_accounts X accs (w, a) = ((w', a'), r)"
  shows "rollback a' (checkpoint a) = a'\<lparr>journal := journal a, cache := cache a\<rparr>"
  using rollback_to_extended [OF sync_accounts_extends [of "(w, a)" X accs]] assms by simp

section \<open>Staging that touches no cache\<close>

definition clean_write :: "accounts \<Rightarrow> address \<times> account \<Rightarrow> bool" where
  "clean_write a p \<longleftrightarrow>
     \<not> executable (snd p) \<and> \<not> is_managed_sysvar_account (fst p) \<and>
     \<not> is_some_and executable (get_account_ref a (fst p))"

lemma staging_clean_iff:
  "\<not> staging_touches_caches post a \<longleftrightarrow> (\<forall>p \<in> set post. clean_write a p)"
  by (auto simp: staging_touches_caches_def clean_write_def list_ex_iff)

lemma clean_write_put:
  assumes "clean_write a (k, acc)" and "clean_write a p"
  shows "clean_write (overlay_put k acc a) p"
  using assms
  by (cases p) (auto simp: clean_write_def get_account_ref_def overlay_put_def db_simps)

lemma add_account_clean:
  assumes "clean_write a (k, acc)"
  shows "add_account X k acc (w, a) = ((w, overlay_put k acc a), Inr ())"
proof -
  have "\<not> is_cached_program_account k acc"
    using assms by (simp add: clean_write_def is_cached_program_account_def)
  moreover have "\<not> is_some_and (is_cached_program_account k) (inner (cache a) k)"
    using assms
    by (cases "inner (cache a) k")
      (simp_all add: clean_write_def is_cached_program_account_def get_account_ref_def)
  ultimately show ?thesis
    using assms
    by (simp add: add_account_unfold prepare_account_def refresh_program_cache_def clean_write_def)
qed

lemma add_accounts_clean:
  assumes "\<forall>p \<in> set post. clean_write a p"
  shows "add_accounts X post (w, a) =
     ((w, fold (\<lambda>(k, acc). overlay_put k acc) post a), Inr ())"
  using assms
proof (induction post arbitrary: a)
  case (Cons p post)
  obtain k acc where p: "p = (k, acc)" by (cases p)
  from Cons.prems have c: "clean_write a (k, acc)" by (simp add: p)
  have "\<forall>q \<in> set post. clean_write (overlay_put k acc a) q"
    using Cons.prems clean_write_put [OF c] by simp
  from Cons.IH [OF this] show ?case by (simp add: p add_account_clean [OF c])
qed simp

lemma fold_put_fields:
  "sysvar_cache (fold (\<lambda>(k, acc). overlay_put k acc) post a) = sysvar_cache a \<and>
   source (fold (\<lambda>(k, acc). overlay_put k acc) post a) = source a \<and>
   programs_cache (fold (\<lambda>(k, acc). overlay_put k acc) post a) = programs_cache a \<and>
   environments (fold (\<lambda>(k, acc). overlay_put k acc) post a) = environments a \<and>
   jit_policy (fold (\<lambda>(k, acc). overlay_put k acc) post a) = jit_policy a"
  by (induction post arbitrary: a) (auto simp: db_simps)

lemma partition_programdata_mset: "mset (partition_programdata accs) = mset accs"
proof -
  obtain wr xs where f: "fold partition_step [0..<length accs] (0, accs) = (wr, xs)"
    by (cases "fold partition_step [0..<length accs] (0, accs)")
  then show ?thesis
    using partition_invariant [OF order_refl f] by (simp add: partition_programdata_def)
qed

lemma sync_clean:
  assumes "\<not> staging_touches_caches post a"
  shows "sync_accounts X post (w, a) =
     ((w, fold (\<lambda>(k, acc). overlay_put k acc) (partition_programdata post) a), Inr ())"
proof -
  have "\<forall>p \<in> set (partition_programdata post). clean_write a p"
    using assms partition_programdata_mset [of post]
    by (simp add: staging_clean_iff flip: set_mset_mset)
  then show ?thesis by (simp add: sync_accounts_def add_accounts_clean)
qed

lemma staged_post_clean:
  "\<not> staging_touches_caches (det_post_accounts d) a \<Longrightarrow> \<not> staging_touches_caches (staged_post d) a"
  by (simp add: staged_post_def staging_clean_iff)

lemma unstage_clean:
  assumes st: "stage_detached X d (w, s) = ((w1, s1), Inr et)" and clean: "\<not> et_cache_dirty et"
  shows "unstage X et (w1, s1) = Some (w, s)"
proof -
  from st obtain a' where sy: "sync_accounts X (staged_post d) (w, vm_accounts s) = ((w1, a'), Inr ())"
    and s1: "s1 = s\<lparr>vm_accounts := a'\<rparr>"
    and cp: "et_checkpoint et = checkpoint (vm_accounts s)"
    and dirty: "et_cache_dirty et = staging_touches_caches (det_post_accounts d) (vm_accounts s)"
    by (rule stage_ok) simp
  from clean dirty have "\<not> staging_touches_caches (staged_post d) (vm_accounts s)"
    by (simp add: staged_post_clean)
  from sync_clean [OF this, of X w] sy have w1: "w1 = w"
    and a': "a' = fold (\<lambda>(k, acc). overlay_put k acc)
      (partition_programdata (staged_post d)) (vm_accounts s)"
    by simp_all
  have "a'\<lparr>journal := journal (vm_accounts s), cache := cache (vm_accounts s)\<rparr> = vm_accounts s"
    by (rule accounts.equality) (simp_all add: a' fold_put_fields)
  then have "rollback a' (checkpoint (vm_accounts s)) = vm_accounts s"
    using sync_rollback [OF sy] by simp
  then show ?thesis by (simp add: unstage_def clean cp s1 w1)
qed

section \<open>Discarding\<close>

text \<open>
  C2. Discarding is exact: a staged transaction that wrote no program, no sysvar and over no
  program is undone completely by \<open>discard\<close>, which then neither fails nor panics: the VM and
  the heap of shared caches are, to the last component, what they were before staging.
\<close>

theorem discard_exact:
  assumes "stage_detached X d (w, s) = ((w1, s1), Inr et)" and "\<not> et_cache_dirty et"
  shows "discard X et (w1, s1) = Some ((w, s), et_result et)"
  using unstage_clean [OF assms] by (simp add: discard_def)

lemma stage_history:
  assumes "stage_detached X d (w, s) = ((w1, s1), Inr et)"
  shows "vm_history s1 = vm_history s"
  using assms by (rule stage_ok) simp

lemma svm_sync_jit_policy_fields:
  "cache (vm_accounts (svm_sync_jit_policy s)) = cache (vm_accounts s)"
  "journal (vm_accounts (svm_sync_jit_policy s)) = journal (vm_accounts s)"
  "sysvar_cache (vm_accounts (svm_sync_jit_policy s)) = sysvar_cache (vm_accounts s)"
  "programs_cache (vm_accounts (svm_sync_jit_policy s)) = programs_cache (vm_accounts s)"
  "vm_history (svm_sync_jit_policy s) = vm_history s"
  by (simp_all add: svm_sync_jit_policy_def sync_jit_policy_def Let_def)

lemma unstage_dirty:
  assumes st: "stage_detached X d (w, s) = ((w1, s1), Inr et)" and "et_cache_dirty et"
    and un: "unstage X et (w1, s1) = Some (w2, s2)"
  shows "cache (vm_accounts s2) = cache (vm_accounts s) \<and>
     journal (vm_accounts s2) = journal (vm_accounts s) \<and> vm_history s2 = vm_history s \<and>
     sysvar_cache (vm_accounts s2) =
       sysvar_fill X (\<lambda>k. map_option data (inner (cache (vm_accounts s)) k)) \<and>
     (\<exists>w'. rebuild_program_cache X (vm_accounts s2) w' = (w2, Inr ()))"
proof -
  from st obtain a' where sy: "sync_accounts X (staged_post d) (w, vm_accounts s) = ((w1, a'), Inr ())"
    and s1: "s1 = s\<lparr>vm_accounts := a'\<rparr>"
    and cp: "et_checkpoint et = checkpoint (vm_accounts s)"
    by (rule stage_ok) simp
  let ?a = "rollback a' (checkpoint (vm_accounts s))"
  have ra: "cache ?a = cache (vm_accounts s)" "journal ?a = journal (vm_accounts s)"
    by (simp_all add: sync_rollback [OF sy])
  obtain w3 a3 where rs: "rebuild_sysvar_cache X (w1, ?a) = (w3, a3)"
    by (cases "rebuild_sysvar_cache X (w1, ?a)")
  then have a3: "cache a3 = cache ?a" "journal a3 = journal ?a"
    "sysvar_cache a3 = sysvar_fill X (\<lambda>k. map_option data (inner (cache ?a) k))"
    by (auto simp: rebuild_sysvar_cache_def Let_def)
  let ?s3 = "svm_sync_jit_policy (s\<lparr>vm_accounts := a3\<rparr>)"
  have "s2 = ?s3 \<and> rebuild_program_cache X (vm_accounts ?s3) w3 = (w2, Inr ())"
    using un assms(2) cp s1 rs by (auto simp: unstage_def Let_def split: prod.splits sum.splits)
  then show ?thesis
    using ra a3 by (auto simp: svm_sync_jit_policy_fields)
qed

text \<open>
  C24. Discarding a staged transaction that may have touched the derived caches restores
  overlay, tombstones, journal and history, and leaves caches derived from the restored
  accounts alone: the sysvars are decoded from them, and the program cache holds exactly the
  restored program accounts and the builtins that have an account.
\<close>

theorem discard_rebuilds:
  assumes "db_crates X pc_entries" and "finite (dom (inner (cache (vm_accounts s))))"
    and "stage_detached X d (w, s) = ((w1, s1), Inr et)" and "et_cache_dirty et"
    and "discard X et (w1, s1) = Some ((w2, s2), res)"
  shows "cache (vm_accounts s2) = cache (vm_accounts s) \<and>
     journal (vm_accounts s2) = journal (vm_accounts s) \<and>
     vm_history s2 = vm_history s \<and> res = et_result et \<and>
     sysvar_cache (vm_accounts s2) =
       sysvar_fill X (\<lambda>k. map_option data (inner (cache (vm_accounts s)) k)) \<and>
     dom (pc_entries (caches w2 (programs_cache (vm_accounts s2)))) =
       {k. \<exists>acc. inner (cache (vm_accounts s)) k = Some acc \<and> is_cached_program_account k acc} \<union>
       {builtin_id b |b. b \<in> set (builtins X) \<and>
          inner (cache (vm_accounts s)) (builtin_id b) \<noteq> None}"
proof -
  from assms(5) have un: "unstage X et (w1, s1) = Some (w2, s2)" and res: "res = et_result et"
    by (auto simp: discard_def)
  from unstage_dirty [OF assms(3,4) un] obtain w' where
    r: "rebuild_program_cache X (vm_accounts s2) w' = (w2, Inr ())"
    and c: "cache (vm_accounts s2) = cache (vm_accounts s)"
    and rest: "journal (vm_accounts s2) = journal (vm_accounts s)" "vm_history s2 = vm_history s"
      "sysvar_cache (vm_accounts s2) =
         sysvar_fill X (\<lambda>k. map_option data (inner (cache (vm_accounts s)) k))"
    by blast
  have "finite (dom (inner (cache (vm_accounts s2))))" using assms(2) c by simp
  from rebuild_published [OF assms(1) this r] c rest res show ?thesis by simp
qed

section \<open>Committing\<close>

text \<open>
  C9. The staged path and the batch path agree: staging an outcome and committing it gives
  the accounts, the heap and the history that applying the outcome's state change set
  directly gives, and both report the same result.
\<close>

theorem commit_equals_apply:
  assumes "stage_detached X d (w, s) = ((w1, s1), Inr et)"
    and "commit L et (w1, s1) = ((w2, s2), evs, res)"
    and "detached_into_result_and_state_change_set d (history_is_enabled (vm_history s)) = (res', cs)"
  shows "apply_commit_delta X L cs (w, vm_accounts s) (vm_history s) =
     ((w2, vm_accounts s2), vm_history s2, Inr ()) \<and> res = res'"
proof -
  let ?b = "history_is_enabled (vm_history s)"
  obtain a' where sy: "sync_accounts X (staged_post d) (w, vm_accounts s) = ((w1, a'), Inr ())"
    and s1: "s1 = s\<lparr>vm_accounts := a'\<rparr>"
    and et: "et_result et = fst (detached_into_result_and_delta d ?b)"
      "et_history_entry et = staged_entry d ?b"
    using assms(1) by (rule stage_ok) simp
  have cs: "cs = \<lparr>set_post_accounts = staged_post d, set_history_entry = staged_entry d ?b\<rparr>"
    and res': "res' = fst (detached_into_result_and_delta d ?b)"
    using assms(3) delta_parts [of d ?b]
    by (auto simp: detached_into_result_and_state_change_set_def set_from_delta_def
        split: prod.splits)
  show ?thesis
    using assms(2) sy by (auto simp: cs res' apply_commit_delta_def commit_def s1 et)
qed


section \<open>Nothing staged\<close>

text \<open>
  A stage that fails leaves no account change: overlay, tombstones, journal and history
  are those before it. A fatal execution error does not even touch the caches, and any other
  failure can only come from an outcome that writes a program, a sysvar or over a program.
\<close>

theorem stage_failure_restores:
  assumes "stage_detached X d (w, s) = ((w1, s1), Inl f)"
  shows "cache (vm_accounts s1) = cache (vm_accounts s) \<and>
     journal (vm_accounts s1) = journal (vm_accounts s) \<and> vm_history s1 = vm_history s \<and>
     (fatal_error d \<noteq> None \<and> (w1, s1) = (w, s) \<or>
      fatal_error d = None \<and> staging_touches_caches (det_post_accounts d) (vm_accounts s))"
proof (cases "fatal_error d")
  case (Some e)
  with assms show ?thesis by (simp add: stage_detached_fatal)
next
  case None
  obtain w' a' r where sy: "sync_accounts X (staged_post d) (w, vm_accounts s) = ((w', a'), r)"
    by (metis prod.exhaust)
  with assms None obtain e where r: "r = Inl e"
    and s1: "s1 = s\<lparr>vm_accounts := rollback a' (checkpoint (vm_accounts s))\<rparr>"
    by (cases r) (auto simp: stage_detached_unfold [OF None sy])
  have "staging_touches_caches (det_post_accounts d) (vm_accounts s)"
  proof (rule ccontr)
    assume "\<not> ?thesis"
    from sync_clean [OF staged_post_clean [OF this], of X w] sy r show False by simp
  qed
  with None show ?thesis by (simp add: s1 sync_rollback [OF sy])
qed

text \<open>
  An outcome that was not included stages nothing: no account is written, no change is
  reported, no hook fires, and committing it leaves the VM, its history and the heap as they
  were.
\<close>

theorem not_included_inert:
  assumes "\<not> included d" and "fatal_error d = None"
  shows "\<exists>et. stage_detached X d (w, s) = ((w, s), Inr et) \<and> et_changes et = [] \<and>
     commit L et (w, s) = ((w, s), [], et_result et)"
proof -
  have p: "staged_post d = []" "staged_entry d b = None" for b
    using assms(1) by (simp_all add: staged_post_def staged_entry_def)
  have sy: "sync_accounts X (staged_post d) (w, vm_accounts s) = ((w, vm_accounts s), Inr ())"
    by (simp add: p sync_accounts_def partition_programdata_def)
  show ?thesis
    by (simp add: stage_detached_unfold [OF assms(2) sy] p commit_def record_entry_def
        fire_changes_def staged_changes_def)
qed

end
