(* ===== verification/Example_Vm.thy ===== *)
theory Example_Vm
  imports Staged_Props
begin

text \<open>
  A small VM over the example crates with a list-based history: the instance at which the
  staging properties are evaluated. The last theorem shows what a failing stage leaves in
  the program cache.
\<close>

type_synonym ex_history = "(signature, transaction_result) list_lru"

definition ex_version :: version where
  "ex_version = (base_version {} 5000 ex_rent MainnetBeta)\<lparr>sigverify := False, blockhash_check := False\<rparr>"

definition ex_svm :: "accounts \<Rightarrow> ex_history svm" where
  "ex_svm a =
     \<lparr>vm_accounts = a, vm_history = history_new list_lru_ops, vm_version = ex_version,
      latest_blockhash = 0, block_slot = 0, inspection_origin = User, vm_inspector = None,
      registry = registry_with_defaults, tier_policy = default_jit_policy, reserved_keys = {},
      materialized = default_materialized, airdrop_pubkey = Pubkey 99, custom_syscalls = [],
      standard_precompiles = False, precompiles = no_precompiles\<rparr>"

definition ex_detached :: "post_accounts \<Rightarrow> detached_tx" where
  "ex_detached post =
     \<lparr>meta = default_metadata\<lparr>meta_signature := 7\<rparr>, det_post_accounts = post, status = Inr (),
      included = True, fee_payer = None, fatal_error = None, inspector_live = False\<rparr>"

abbreviation ex_transfer :: detached_tx where
  "ex_transfer \<equiv> ex_detached [(Pubkey 2, ex_account 5)]"

lemma ex_svm_fields [simp]:
  "vm_accounts (ex_svm a) = a"
  "vm_history (ex_svm a) = history_new list_lru_ops"
  "vm_version (ex_svm a) = ex_version"
  "vm_inspector (ex_svm a) = None"
  by (simp_all add: ex_svm_def)

lemma ex_detached_fields [simp]:
  "det_post_accounts (ex_detached post) = post"
  "fatal_error (ex_detached post) = None"
  "included (ex_detached post) = True"
  "staged_post (ex_detached post) = post"
  by (simp_all add: ex_detached_def staged_post_def)

lemma ex_transfer_clean: "\<not> staging_touches_caches [(Pubkey 2, ex_account 5)] ex_db0"
  by (simp add: staging_touches_caches_def get_account_ref_def accounts_default_def
      is_managed_sysvar_account_def ex_account_def default_account_def)

lemma ex_transfer_stage:
  obtains et where
    "stage_detached ex_ext ex_transfer (ex_world0, ex_svm ex_db0) =
       ((ex_world0, ex_svm (overlay_put (Pubkey 2) (ex_account 5) ex_db0)), Inr et)"
    and "\<not> et_cache_dirty et" and "length (et_changes et) = 1"
proof -
  have p: "partition_programdata [(Pubkey 2, ex_account 5)] = [(Pubkey 2, ex_account 5)]"
    by (simp add: partition_programdata_def partition_step_def is_programdata_def ex_account_def
        default_account_def)
  have sy: "sync_accounts ex_ext (staged_post ex_transfer) (ex_world0, vm_accounts (ex_svm ex_db0)) =
      ((ex_world0, overlay_put (Pubkey 2) (ex_account 5) ex_db0), Inr ())"
    using sync_clean [OF ex_transfer_clean, of ex_ext ex_world0] by (simp add: p)
  have "ex_svm (overlay_put (Pubkey 2) (ex_account 5) ex_db0) =
      (ex_svm ex_db0)\<lparr>vm_accounts := overlay_put (Pubkey 2) (ex_account 5) ex_db0\<rparr>"
    by (simp add: ex_svm_def)
  then show ?thesis
    using that ex_transfer_clean
    by (simp add: stage_detached_unfold [OF _ sy] staged_changes_def)
qed

theorem discard_exact_witness:
  "\<exists>s1 et. stage_detached ex_ext ex_transfer (ex_world0, ex_svm ex_db0) =
       ((ex_world0, s1), Inr et) \<and>
     get_account (vm_accounts s1) (Pubkey 2) = Some (ex_account 5) \<and>
     discard ex_ext et (ex_world0, s1) = Some ((ex_world0, ex_svm ex_db0), et_result et)"
proof -
  obtain et where st: "stage_detached ex_ext ex_transfer (ex_world0, ex_svm ex_db0) =
       ((ex_world0, ex_svm (overlay_put (Pubkey 2) (ex_account 5) ex_db0)), Inr et)"
    and c: "\<not> et_cache_dirty et"
    by (rule ex_transfer_stage)
  have "get_account (overlay_put (Pubkey 2) (ex_account 5) ex_db0) (Pubkey 2) = Some (ex_account 5)"
    by (simp add: get_account_def try_get_account_def get_account_ref_def overlay_put_def db_simps
        ex_account_def)
  with st discard_exact [OF st c] show ?thesis by (intro exI conjI) simp_all
qed

theorem commit_equals_apply_witness:
  "\<exists>(s2 :: ex_history svm) cs. apply_commit_delta ex_ext list_lru_ops cs (ex_world0, ex_db0) (history_new list_lru_ops) =
       ((ex_world0, vm_accounts s2), vm_history s2, Inr ()) \<and>
     set_post_accounts cs = [(Pubkey 2, ex_account 5)] \<and>
     check_transaction list_lru_ops (vm_history s2) 7"
proof -
  obtain et where st: "stage_detached ex_ext ex_transfer (ex_world0, ex_svm ex_db0) =
       ((ex_world0, ex_svm (overlay_put (Pubkey 2) (ex_account 5) ex_db0)), Inr et)"
    by (rule ex_transfer_stage)
  let ?s1 = "ex_svm (overlay_put (Pubkey 2) (ex_account 5) ex_db0)"
  let ?cs = "snd (detached_into_result_and_state_change_set ex_transfer True)"
  have en: "history_is_enabled (vm_history (ex_svm ex_db0)) = True"
    by (simp add: history_is_enabled_def history_new_def history_with_capacity_def)
  from st have he: "et_history_entry et = staged_entry ex_transfer True"
    using en by (rule_tac stage_ok [OF st]) simp
  have sg: "meta_signature (meta ex_transfer) = 7" by (simp add: ex_detached_def)
  let ?s2 = "snd (fst (commit list_lru_ops et (ex_world0, ?s1)))"
  have c: "commit list_lru_ops et (ex_world0, ?s1) =
      ((ex_world0, ?s2), fire_changes et ?s1, et_result et)"
    by (simp add: commit_def)
  have "check_transaction list_lru_ops (vm_history ?s2) 7"
    by (simp add: commit_def record_entry_def he staged_entry_def sg add_new_transaction_def
        check_transaction_def history_new_def history_with_capacity_def list_lru_ops_def)
  moreover have "set_post_accounts ?cs = [(Pubkey 2, ex_account 5)]"
    by (simp add: detached_into_result_and_state_change_set_def set_from_delta_def
        detached_into_result_and_delta_def into_parts_def Let_def)
  moreover have "apply_commit_delta ex_ext list_lru_ops ?cs (ex_world0, ex_db0)
      (history_new list_lru_ops) = ((ex_world0, vm_accounts ?s2), vm_history ?s2, Inr ())"
  proof -
    obtain res' where r: "detached_into_result_and_state_change_set ex_transfer
        (history_is_enabled (vm_history (ex_svm ex_db0))) = (res', ?cs)"
      unfolding en by (metis prod.collapse)
    show ?thesis using commit_equals_apply [OF st c r] by simp
  qed
  ultimately show ?thesis by blast
qed


theorem not_included_inert_witness:
  "\<exists>et. stage_detached ex_ext (ex_transfer\<lparr>included := False\<rparr>) (ex_world0, ex_svm ex_db0) =
       ((ex_world0, ex_svm ex_db0), Inr et) \<and>
     commit list_lru_ops et (ex_world0, ex_svm ex_db0) = ((ex_world0, ex_svm ex_db0), [], et_result et)"
  using not_included_inert [of "ex_transfer\<lparr>included := False\<rparr>" ex_ext ex_world0 "ex_svm ex_db0"
      list_lru_ops]
  by (auto simp: ex_detached_def)

section \<open>Staged programs\<close>

lemma ex_add_program:
  obtains w1 where
    "add_account ex_ext (Pubkey 2) (ex_program [7]) (ex_world0, ex_clocked) =
       ((w1, overlay_put (Pubkey 2) (ex_program [7]) ex_clocked), Inr ())"
    and "has_program_cache_entry ex_ext ex_clocked w1 (Pubkey 2)"
proof -
  have prog: "lamports (ex_program [7]) \<noteq> 0" "is_cached_program_account (Pubkey 2) (ex_program [7])"
    by (simp_all add: ex_program_def is_cached_program_account_def)
  obtain w1 e where l: "load_program ex_ext ex_clocked (ex_program [7]) ex_world0 = (w1, Inr e)"
    using ex_load by auto
  let ?a = "overlay_put (Pubkey 2) (ex_program [7]) ex_clocked"
  have "add_account ex_ext (Pubkey 2) (ex_program [7]) (ex_world0, ex_clocked) =
      ((replenish_program_cache ex_ext (Pubkey 2) e ?a w1, ?a), Inr ())"
    by (simp add: add_account_def prepare_account_def refresh_program_cache_def Let_def
        is_managed_sysvar_account_def prog l)
  then show ?thesis
    by (rule that) (simp add: has_program_cache_entry_def replenish_program_cache_def db_simps
        ex_ext_def)
qed

abbreviation ex_deploy_bad_clock :: detached_tx where
  "ex_deploy_bad_clock \<equiv> ex_detached [(Pubkey 2, ex_program [7]), (ClockSysvar, ex_account 5)]"

lemma ex_bad_stage:
  obtains w1 f where
    "stage_detached ex_ext ex_deploy_bad_clock (ex_world0, ex_svm ex_clocked) =
       ((w1, ex_svm ex_clocked), Inl f)"
    and "has_program_cache_entry ex_ext ex_clocked w1 (Pubkey 2)"
proof -
  obtain w1 where a: "add_account ex_ext (Pubkey 2) (ex_program [7]) (ex_world0, ex_clocked) =
       ((w1, overlay_put (Pubkey 2) (ex_program [7]) ex_clocked), Inr ())"
    and h: "has_program_cache_entry ex_ext ex_clocked w1 (Pubkey 2)"
    by (rule ex_add_program)
  let ?a = "overlay_put (Pubkey 2) (ex_program [7]) ex_clocked"
  have p: "partition_programdata [(Pubkey 2, ex_program [7]), (ClockSysvar, ex_account 5)] =
      [(Pubkey 2, ex_program [7]), (ClockSysvar, ex_account 5)]"
    by (simp add: partition_programdata_def partition_step_def is_programdata_def ex_account_def
        default_account_def ex_program_def upt_rec)
  have "add_account ex_ext ClockSysvar (ex_account 5) (w1, ?a) =
      ((w1, ?a), Inl (InvalidSysvarData InvalidClock))"
    by (rule add_account_failed)
      (simp add: prepare_account_def Let_def is_managed_sysvar_account_def
        validate_sysvar_account_def sysvar_error_def ex_defs)
  then have sy: "sync_accounts ex_ext (staged_post ex_deploy_bad_clock)
      (ex_world0, vm_accounts (ex_svm ex_clocked)) =
      ((w1, ?a), Inl (InvalidSysvarData InvalidClock))"
    by (simp add: sync_accounts_def p a)
  have "rollback ?a (checkpoint ex_clocked) = ex_clocked"
    using rollback_to_extended [OF extends_overlay_put [of ex_clocked "Pubkey 2" "ex_program [7]"]]
    by (simp add: db_simps ex_clocked_def accounts_default_def)
  then have "(ex_svm ex_clocked)\<lparr>vm_accounts := rollback ?a (checkpoint ex_clocked)\<rparr> = ex_svm ex_clocked"
    by (simp add: ex_svm_def)
  with that [OF _ h] show ?thesis
    by (simp add: stage_detached_unfold [OF _ sy])
qed

theorem stage_failure_restores_witness:
  "\<exists>w1 s1 f. stage_detached ex_ext ex_deploy_bad_clock (ex_world0, ex_svm ex_clocked) =
       ((w1, s1), Inl f) \<and>
     cache (vm_accounts s1) = cache ex_clocked \<and> journal (vm_accounts s1) = journal ex_clocked"
proof -
  obtain w1 f where st: "stage_detached ex_ext ex_deploy_bad_clock (ex_world0, ex_svm ex_clocked) =
       ((w1, ex_svm ex_clocked), Inl f)"
    by (rule ex_bad_stage)
  from stage_failure_restores [OF st] st show ?thesis by auto
qed

text \<open>
  A stage that fails half way rolls the accounts back but not the program cache: there
  is a VM and an outcome such that after the failed stage the overlay is unchanged and does
  not know the program, and yet the program cache resolves it.
\<close>

theorem stage_failure_stale_cache:
  "\<exists>w1 s1 f. stage_detached ex_ext ex_deploy_bad_clock (ex_world0, ex_svm ex_clocked) =
       ((w1, s1), Inl f) \<and>
     get_account (vm_accounts s1) (Pubkey 2) = None \<and>
     \<not> has_program_cache_entry ex_ext ex_clocked ex_world0 (Pubkey 2) \<and>
     has_program_cache_entry ex_ext (vm_accounts s1) w1 (Pubkey 2)"
proof -
  obtain w1 f where "stage_detached ex_ext ex_deploy_bad_clock (ex_world0, ex_svm ex_clocked) =
       ((w1, ex_svm ex_clocked), Inl f)"
    and "has_program_cache_entry ex_ext ex_clocked w1 (Pubkey 2)"
    by (rule ex_bad_stage)
  moreover have "get_account ex_clocked (Pubkey 2) = None"
    by (simp add: get_account_def try_get_account_def get_account_ref_def ex_clocked_def
        accounts_default_def empty_account_source_def Let_def)
  moreover have "\<not> has_program_cache_entry ex_ext ex_clocked ex_world0 (Pubkey 2)"
    by (simp add: has_program_cache_entry_def ex_ext_def ex_world0_def)
  ultimately show ?thesis by auto
qed

abbreviation ex_deploy :: detached_tx where
  "ex_deploy \<equiv> ex_detached [(Pubkey 2, ex_program [7])]"

lemma ex_rebuild_empty:
  assumes "inner (cache a) = Map.empty"
  shows "\<exists>w'. rebuild_program_cache ex_ext a w = (w', Inr ())"
proof -
  have "program_accounts ex_ext a = []"
    using assms by (simp add: program_accounts_def ex_ext_def List.map_filter_simps)
  then show ?thesis by (simp add: rebuild_program_cache_def)
qed

theorem discard_rebuilds_witness:
  "\<exists>w1 s1 et w2 s2. stage_detached ex_ext ex_deploy (ex_world0, ex_svm ex_clocked) =
       ((w1, s1), Inr et) \<and>
     has_program_cache_entry ex_ext ex_clocked w1 (Pubkey 2) \<and>
     discard ex_ext et (w1, s1) = Some ((w2, s2), et_result et) \<and>
     dom (ex_entries (caches w2 (programs_cache (vm_accounts s2)))) = {}"
proof -
  obtain w1 where a: "add_account ex_ext (Pubkey 2) (ex_program [7]) (ex_world0, ex_clocked) =
       ((w1, overlay_put (Pubkey 2) (ex_program [7]) ex_clocked), Inr ())"
    and h: "has_program_cache_entry ex_ext ex_clocked w1 (Pubkey 2)"
    by (rule ex_add_program)
  have p: "partition_programdata [(Pubkey 2, ex_program [7])] = [(Pubkey 2, ex_program [7])]"
    by (simp add: partition_programdata_def partition_step_def is_programdata_def ex_program_def)
  have sy: "sync_accounts ex_ext (staged_post ex_deploy) (ex_world0, vm_accounts (ex_svm ex_clocked)) =
      ((w1, overlay_put (Pubkey 2) (ex_program [7]) ex_clocked), Inr ())"
    by (simp add: sync_accounts_def p a)
  have tc: "staging_touches_caches [(Pubkey 2, ex_program [7])] ex_clocked"
    by (simp add: staging_touches_caches_def ex_program_def)
  let ?s1 = "(ex_svm ex_clocked)\<lparr>vm_accounts := overlay_put (Pubkey 2) (ex_program [7]) ex_clocked\<rparr>"
  obtain et where st: "stage_detached ex_ext ex_deploy (ex_world0, ex_svm ex_clocked) = ((w1, ?s1), Inr et)"
    and dirty: "et_cache_dirty et" and cp: "et_checkpoint et = checkpoint ex_clocked"
    using stage_detached_unfold [OF _ sy] tc by simp
  have rb: "cache (rollback (overlay_put (Pubkey 2) (ex_program [7]) ex_clocked) (checkpoint ex_clocked)) =
      cache ex_clocked"
    using rollback_to_extended [OF extends_overlay_put [of ex_clocked "Pubkey 2" "ex_program [7]"]]
    by simp
  have empty: "inner (cache ex_clocked) = Map.empty" by (simp add: ex_clocked_def accounts_default_def)
  have "\<exists>v. unstage ex_ext et (w1, ?s1) = Some v"
  proof -
    let ?a = "rollback (overlay_put (Pubkey 2) (ex_program [7]) ex_clocked) (checkpoint ex_clocked)"
    obtain w3 a3 where rs: "rebuild_sysvar_cache ex_ext (w1, ?a) = (w3, a3)"
      by (cases "rebuild_sysvar_cache ex_ext (w1, ?a)")
    let ?s3 = "svm_sync_jit_policy (?s1\<lparr>vm_accounts := a3\<rparr>)"
    have "cache a3 = cache ?a"
      using rs by (auto simp: rebuild_sysvar_cache_def Let_def)
    then have "inner (cache (vm_accounts ?s3)) = Map.empty"
      by (simp add: svm_sync_jit_policy_fields rb empty)
    then obtain w4 where "rebuild_program_cache ex_ext (vm_accounts ?s3) w3 = (w4, Inr ())"
      using ex_rebuild_empty by blast
    then show ?thesis using rs by (simp add: unstage_def dirty cp Let_def)
  qed
  then obtain w2 s2 where "unstage ex_ext et (w1, ?s1) = Some (w2, s2)" by auto
  then have d: "discard ex_ext et (w1, ?s1) = Some ((w2, s2), et_result et)"
    by (simp add: discard_def)
  have "finite (dom (inner (cache (vm_accounts (ex_svm ex_clocked)))))" by (simp add: empty)
  from discard_rebuilds [OF ex.db_crates_axioms this st dirty d] d st h show ?thesis
    by (auto simp: empty)
qed

end
