(* ===== verification/Execution_Props.thy ===== *)
theory Execution_Props
  imports Execution Example_Vm
begin

text \<open>
  Correctness of readonly execution: what a rejected transaction leaves behind, how the fee
  is charged, which errors are fatal, how hooks and instruction errors line up, replay
  protection, and what execution does to the shared program cache.
\<close>

section \<open>Rejections\<close>

definition rejected :: "execution_result \<Rightarrow> bool" where
  "rejected er \<longleftrightarrow>
     \<not> er_included er \<and> er_post_accounts er = [] \<and> er_trace er = [] \<and> er_units er = 0 \<and>
     (\<exists>err. tx_result er = Inl err)"

lemma rejected_exec_failure [simp]: "rejected (exec_failure err)"
  by (simp add: rejected_def exec_failure_def default_execution_result_def)

lemma rejected_exec_failure_fee [simp]: "rejected (exec_failure_fee err fee)"
  by (simp add: rejected_def exec_failure_fee_def exec_failure_def default_execution_result_def)

lemma rejected_source_error [simp]:
  "rejected (execution_result_with_account_source_error k e err fee)"
  by (simp add: rejected_def execution_result_with_account_source_error_def
      default_execution_result_def)

lemma rejected_update_failures [simp]:
  "rejected (er\<lparr>er_source_failures := fs\<rparr>) = rejected er"
  by (simp add: rejected_def)

lemma rejected_sanitize [simp]: "rejected (sanitize_error_into_execution_result f err)"
  by (simp add: sanitize_error_into_execution_result_def split: option.split)

lemma sanitize_no_verify_rejected:
  "sanitize_transaction_no_verify_with_policy E s tx p = Inl er \<Longrightarrow> rejected er"
  by (auto simp: sanitize_transaction_no_verify_with_policy_def map_err_def
      split: sanitize_step.splits sum.splits prod.splits)

lemma sanitize_rejected:
  "sanitize_transaction_with_flags_and_policy E s tx fl p = Inl er \<Longrightarrow> rejected er"
  by (auto simp: sanitize_transaction_with_flags_and_policy_def and_then_def map_err_def Let_def
      dest: sanitize_no_verify_rejected split: sum.splits)

lemma load_accounts_rejected:
  "load_accounts E s stx rent fee keys payer accs = Some (Inl er) \<Longrightarrow> rejected er"
  by (induction E s stx rent fee keys payer accs rule: load_accounts.induct)
    (auto simp: Let_def split: if_splits option.splits sum.splits prod.splits)

lemma resolve_rejected:
  "resolve_program_indices s accs fee cis fs = Inl er \<Longrightarrow> rejected er"
  by (induction s accs fee cis fs rule: resolve_program_indices.induct)
    (auto simp: Let_def map_ok_def split: if_splits option.splits sum.splits prod.splits)

lemma load_transaction_rejected:
  "load_transaction E s stx limits fl = Some (Inl er) \<Longrightarrow> rejected er"
  by (auto simp: load_transaction_def Let_def map_ok_def
      dest: load_accounts_rejected resolve_rejected
      split: option.splits sum.splits prod.splits)

lemma pre_checks_rejected: "pre_checks E L s stx = Inl er \<Longrightarrow> rejected er"
  by (auto simp: pre_checks_def and_then_def map_err_def maybe_blockhash_check_def
      get_compute_budget_limits_def maybe_history_check_def split: sum.splits if_splits)

lemma run_loaded_context:
  assumes "run_loaded E mode s stx lt w = (w', evs, lgs, ps)"
  shows "\<exists>ic. ps_context ps = Some ic \<and> ps_fee ps = lt_fee lt \<and> ps_payer ps = lt_payer lt"
  using assms by (auto simp: run_loaded_def Let_def split: prod.splits)

text \<open>An execution either rejected the transaction without any effect or ran it.\<close>

lemma execute_sanitized_cases:
  assumes "execute_sanitized_transaction E L mode s stx fl w = Some (w', evs, lgs, er)"
  obtains (rejected) "rejected er" "w' = w" "evs = []" "lgs = []"
      "(pre_checks E L s stx = Inl er \<or>
        (\<exists>limits. load_transaction E s stx limits fl = Some (Inl er)))"
  | (ran) limits lt ps ic er' where "pre_checks E L s stx = Inr limits"
      "load_transaction E s stx limits fl = Some (Inr lt)"
      "run_loaded E mode s stx lt w = (w', evs, lgs, ps)" "ps_context ps = Some ic"
      "execution_result_if_context E stx ic ps = Some er'"
      "er = er'\<lparr>er_inspector_live := ps_live ps\<rparr>"
proof (cases "pre_checks E L s stx")
  case (Inl er0)
  with assms pre_checks_rejected [OF Inl] show ?thesis
    by (intro rejected) (simp_all add: execute_sanitized_transaction_def
        check_and_process_transaction_def)
next
  case (Inr limits)
  note pre = this
  show ?thesis
  proof (cases "load_transaction E s stx limits fl")
    case None
    with pre assms show ?thesis
      by (simp add: execute_sanitized_transaction_def check_and_process_transaction_def
          process_transaction_def)
  next
    case (Some r)
    show ?thesis
    proof (cases r)
      case (Inl er0)
      with Some pre assms load_transaction_rejected [of E s stx limits fl er0] show ?thesis
        by (intro rejected) (auto simp: execute_sanitized_transaction_def
            check_and_process_transaction_def process_transaction_def)
    next
      case (Inr lt)
      obtain w1 evs1 lgs1 ps where run: "run_loaded E mode s stx lt w = (w1, evs1, lgs1, ps)"
        by (metis prod.exhaust)
      from run_loaded_context [OF run] obtain ic where ic: "ps_context ps = Some ic" by blast
      from assms pre Some Inr run ic obtain er' where
        "execution_result_if_context E stx ic ps = Some er'" "w1 = w'" "evs1 = evs" "lgs1 = lgs"
        "er = er'\<lparr>er_inspector_live := ps_live ps\<rparr>"
        by (auto simp: execute_sanitized_transaction_def check_and_process_transaction_def
            process_transaction_def)
      with pre Some Inr run ic show ?thesis
        by (intro ran [of limits lt ps ic er']) simp_all
    qed
  qed
qed

lemma execute_readonly_cases:
  assumes "execute_readonly E L s tx w = Some (w', evs, lgs, er)"
  obtains (rejected) "rejected er" "w' = w" "evs = []" "lgs = []"
  | (ran) stx fl where
      "execute_sanitized_transaction E L (select_mode s) s stx fl w = Some (w', evs, lgs, er)"
  using assms
  by (auto simp: execute_readonly_def execute_transaction_readonly_def Let_def
      execute_transaction_no_verify_readonly_def
      dest: sanitize_rejected sanitize_no_verify_rejected split: if_splits sum.splits)

lemma if_context_included:
  "execution_result_if_context E stx ic ps = Some er \<Longrightarrow>
     er_included er \<and> er_fatal er = None \<and> tx_result er = ps_result ps \<and> er_fee er = ps_fee ps \<and>
     er_fee_payer er = ps_payer ps \<and> er_signature er = tx_signature stx \<and>
     er_post_accounts er = writable_accounts stx (ic_accounts E ic) \<and> er_units er = ps_units ps"
  by (auto simp: execution_result_if_context_def)

text \<open>
  C10. A transaction that is not included has no effect and reports an error: no account is
  written, no instruction is traced, no compute unit is consumed, no hook fires, no log is
  recorded and no shared cache is touched.
\<close>

theorem not_included_no_effect:
  assumes "execute_readonly E L s tx w = Some (w', evs, lgs, er)" and "\<not> er_included er"
  shows "w' = w \<and> evs = [] \<and> lgs = [] \<and> er_post_accounts er = [] \<and> er_trace er = [] \<and>
     er_units er = 0 \<and> (\<exists>err. tx_result er = Inl err)"
  using assms(1)
proof (cases rule: execute_readonly_cases)
  case rejected
  then show ?thesis by (simp add: rejected_def)
next
  case (ran stx fl)
  then show ?thesis
  proof (cases rule: execute_sanitized_cases)
    case rejected
    then show ?thesis by (simp add: rejected_def)
  next
    case (ran limits lt ps ic er')
    with if_context_included [OF ran(5)] assms(2) show ?thesis by simp
  qed
qed

section \<open>Loading and the fee\<close>

definition loaded_account ::
    "('pc, 'x, 'st, 'ic) exec_ext \<Rightarrow> 'c svm \<Rightarrow> sanitized_tx \<Rightarrow> address \<Rightarrow> account option" where
  "loaded_account E s stx key =
     (if key = InstructionsSysvar then construct_instructions_account E stx
      else case try_get_account (vm_accounts s) key of
             Inl e \<Rightarrow> None | Inr found \<Rightarrow> Some (unwrap_or default_account found))"

definition may_pay :: "sanitized_tx \<Rightarrow> nat \<times> address \<Rightarrow> bool" where
  "may_pay stx p \<longleftrightarrow> snd p \<noteq> InstructionsSysvar \<and>
     (\<not> is_invoked stx (fst p) \<or> is_instruction_account stx (fst p))"

definition charged ::
    "('pc, 'x, 'st, 'ic) exec_ext \<Rightarrow> 'c svm \<Rightarrow> sanitized_tx \<Rightarrow> rent \<Rightarrow> u64 \<Rightarrow> nat \<times> address
      \<Rightarrow> account \<Rightarrow> bool" where
  "charged E s stx rent fee p acc' \<longleftrightarrow>
     (\<exists>acc. loaded_account E s stx (snd p) = Some acc \<and>
        validate_fee_payer (system_account_kind_of E) (nonce_state_size E) (snd p) acc
          (of_nat (fst p)) rent fee = Some (acc', Inr ()))"

lemma load_accounts_paid:
  assumes "load_accounts E s stx rent fee keys (Some k) accs = Some (Inr (accs', payer))"
  shows "payer = Some k \<and> (\<exists>new. accs' = accs @ new \<and>
     list_all2 (\<lambda>p q. fst q = snd p \<and> loaded_account E s stx (snd p) = Some (snd q)) keys new)"
  using assms
proof (induction keys arbitrary: accs)
  case (Cons p keys)
  obtain i key where p: "p = (i, key)" by (cases p)
  from Cons.prems obtain acc where
    l: "loaded_account E s stx key = Some acc"
    and r: "load_accounts E s stx rent fee keys (Some k) (accs @ [(key, acc)]) =
      Some (Inr (accs', payer))"
    by (auto simp: p loaded_account_def split: if_splits option.splits sum.splits)
  from Cons.IH [OF r] obtain new where "payer = Some k" "accs' = (accs @ [(key, acc)]) @ new"
    "list_all2 (\<lambda>p q. fst q = snd p \<and> loaded_account E s stx (snd p) = Some (snd q)) keys new"
    by blast
  with l show ?case by (intro conjI exI [of _ "(key, acc) # new"]) (simp_all add: p)
qed simp

lemma load_accounts_unpaid:
  assumes "load_accounts E s stx rent fee keys None accs = Some (Inr (accs', Some k))"
  shows "\<exists>pre p post acc' new1 new2. keys = pre @ p # post \<and> k = snd p \<and>
     list_all (\<lambda>q. \<not> may_pay stx q) pre \<and> may_pay stx p \<and>
     accs' = accs @ new1 @ (k, acc') # new2 \<and> charged E s stx rent fee p acc' \<and>
     list_all2 (\<lambda>p q. fst q = snd p \<and> loaded_account E s stx (snd p) = Some (snd q)) pre new1 \<and>
     list_all2 (\<lambda>p q. fst q = snd p \<and> loaded_account E s stx (snd p) = Some (snd q)) post new2"
  using assms
proof (induction keys arbitrary: accs)
  case (Cons p keys)
  obtain i key where p: "p = (i, key)" by (cases p)
  show ?case
  proof (cases "may_pay stx p")
    case True
    with Cons.prems obtain acc acc' where
      l: "loaded_account E s stx key = Some acc"
      and v: "validate_fee_payer (system_account_kind_of E) (nonce_state_size E) key acc
          (of_nat i) rent fee = Some (acc', Inr ())"
      and r: "load_accounts E s stx rent fee keys (Some key) (accs @ [(key, acc')]) =
        Some (Inr (accs', Some k))"
      by (auto simp: p loaded_account_def may_pay_def Let_def
          split: if_splits option.splits sum.splits prod.splits)
    from load_accounts_paid [OF r] obtain new where
      "k = key" "accs' = accs @ (key, acc') # new"
      "list_all2 (\<lambda>p q. fst q = snd p \<and> loaded_account E s stx (snd p) = Some (snd q)) keys new"
      by auto
    with True l v show ?thesis
      by (intro exI [of _ "[]"] exI [of _ p] exI [of _ keys] exI [of _ acc'] exI [of _ new])
        (auto simp: p charged_def)
  next
    case False
    with Cons.prems obtain acc where
      l: "loaded_account E s stx key = Some acc"
      and r: "load_accounts E s stx rent fee keys None (accs @ [(key, acc)]) =
        Some (Inr (accs', Some k))"
      by (auto simp: p loaded_account_def may_pay_def Let_def
          split: if_splits option.splits sum.splits prod.splits)
    from Cons.IH [OF r] obtain pre q post acc' new1 new2 where
      "keys = pre @ q # post" "k = snd q" "list_all (\<lambda>q. \<not> may_pay stx q) pre" "may_pay stx q"
      "accs' = (accs @ [(key, acc)]) @ new1 @ (k, acc') # new2" "charged E s stx rent fee q acc'"
      "list_all2 (\<lambda>p q. fst q = snd p \<and> loaded_account E s stx (snd p) = Some (snd q)) pre new1"
      "list_all2 (\<lambda>p q. fst q = snd p \<and> loaded_account E s stx (snd p) = Some (snd q)) post new2"
      by blast
    with False l show ?thesis
      by (intro exI [of _ "p # pre"] exI [of _ q] exI [of _ post] exI [of _ acc']
          exI [of _ "(key, acc) # new1"] exI [of _ new2]) (auto simp: p)
  qed
qed simp

lemma validate_fee_payer_debits:
  assumes "validate_fee_payer kind_of ns addr acc i r fee = Some (acc', Inr ())"
  shows "acc' = acc\<lparr>lamports := lamports acc - fee\<rparr> \<and> fee \<le> lamports acc"
  using assms
  by (auto simp: validate_fee_payer_cases word_le_nat_alt split: if_splits option.splits)

lemma list_all2_fst:
  "list_all2 (\<lambda>p q. fst q = snd p \<and> P p q) xs ys \<Longrightarrow> map fst ys = map snd xs"
  by (induction rule: list_all2_induct) auto

lemma load_transaction_accounts:
  assumes "load_transaction E s stx limits fl = Some (Inr lt)"
  shows "lt_fee lt = transaction_fee E s stx limits \<and>
     (\<exists>payer. lt_payer lt = Some payer \<and>
        load_accounts E s stx (lt_rent lt) (lt_fee lt) (enumerated (account_keys stx)) None [] =
          Some (Inr (lt_accounts lt, Some payer)))"
  using assms
  by (auto simp: load_transaction_def Let_def map_ok_eq_Inr split: option.splits sum.splits)

lemma list_all2_middle:
  assumes "list_all2 R xs us" and "list_all2 R ys vs" and "i < Suc (length xs + length ys)" "i \<noteq> length xs"
  shows "R ((xs @ x # ys) ! i) ((us @ u # vs) ! i)"
proof -
  have len: "length us = length xs" using assms(1) by (simp add: list_all2_lengthD)
  show ?thesis
  proof (cases "i < length xs")
    case True
    then show ?thesis using list_all2_nthD [OF assms(1)] len by (simp add: nth_append)
  next
    case False
    then obtain j where "i = Suc (length xs + j)" using assms(4) less_imp_Suc_add by (metis nat_neq_iff)
    then show ?thesis using list_all2_nthD [OF assms(2), of j] assms(3) len by (simp add: nth_append)
  qed
qed

text \<open>
  C8. The fee is charged exactly once: the loaded accounts are the message's keys in order;
  exactly one of them, the first key that is not merely an invoked program, is the payer and
  is loaded with the fee subtracted, which it can afford; every other account is loaded as
  the database has it.
\<close>

theorem fee_charged_once:
  assumes "load_transaction E s stx limits fl = Some (Inr lt)"
  shows "map fst (lt_accounts lt) = account_keys stx \<and>
     (\<exists>p acc. p < length (account_keys stx) \<and> lt_payer lt = Some (account_keys stx ! p) \<and>
        may_pay stx (p, account_keys stx ! p) \<and>
        (\<forall>j < p. \<not> may_pay stx (j, account_keys stx ! j)) \<and>
        loaded_account E s stx (account_keys stx ! p) = Some acc \<and> lt_fee lt \<le> lamports acc \<and>
        snd (lt_accounts lt ! p) = acc\<lparr>lamports := lamports acc - lt_fee lt\<rparr> \<and>
        (\<forall>i < length (account_keys stx). i \<noteq> p \<longrightarrow>
           loaded_account E s stx (account_keys stx ! i) = Some (snd (lt_accounts lt ! i))))"
proof -
  let ?keys = "account_keys stx"
  let ?R = "\<lambda>p q. fst q = snd p \<and> loaded_account E s stx (snd p) = Some (snd q)"
  from load_transaction_accounts [OF assms] obtain payer where
    pay: "lt_payer lt = Some payer" and
    l: "load_accounts E s stx (lt_rent lt) (lt_fee lt) (enumerated ?keys) None [] =
      Some (Inr (lt_accounts lt, Some payer))"
    by blast
  from load_accounts_unpaid [OF l] obtain pre q post acc' new1 new2 where
    keys: "enumerated ?keys = pre @ q # post" and k: "payer = snd q"
    and npay: "list_all (\<lambda>q. \<not> may_pay stx q) pre" and mp: "may_pay stx q"
    and accs: "lt_accounts lt = new1 @ (payer, acc') # new2"
    and ch: "charged E s stx (lt_rent lt) (lt_fee lt) q acc'"
    and n1: "list_all2 ?R pre new1" and n2: "list_all2 ?R post new2"
    by auto
  let ?p = "length pre"
  have len: "length ?keys = Suc (?p + length post)"
    using keys by (metis enumerated_def length_Cons length_append length_enumerate add_Suc_right)
  have nth: "enumerated ?keys ! i = (i, ?keys ! i)" if "i < length ?keys" for i
    using that by (simp add: enumerated_def nth_enumerate_eq)
  have q: "q = (?p, ?keys ! ?p)" using nth [of ?p] len by (simp add: keys)
  have "map snd (enumerated ?keys) = ?keys" by (simp add: enumerated_def)
  then have fsts: "map fst (lt_accounts lt) = ?keys"
    using list_all2_fst [OF n1] list_all2_fst [OF n2] by (simp add: accs keys k)
  have l1: "length new1 = ?p" using n1 by (simp add: list_all2_lengthD)
  have before: "\<forall>j < ?p. \<not> may_pay stx (j, ?keys ! j)"
  proof (intro allI impI)
    fix j assume "j < ?p"
    then have "pre ! j = (j, ?keys ! j)" using nth [of j] len by (simp add: keys nth_append)
    then show "\<not> may_pay stx (j, ?keys ! j)" using npay \<open>j < ?p\<close> by (auto simp: list_all_length)
  qed
  from ch obtain acc where acc: "loaded_account E s stx (snd q) = Some acc"
    and v: "validate_fee_payer (system_account_kind_of E) (nonce_state_size E) (snd q) acc
        (of_nat (fst q)) (lt_rent lt) (lt_fee lt) = Some (acc', Inr ())"
    by (auto simp: charged_def)
  have others: "loaded_account E s stx (?keys ! i) = Some (snd (lt_accounts lt ! i))"
    if "i < length ?keys" "i \<noteq> ?p" for i
    using list_all2_middle [OF n1 n2, where i = i and x = q and u = "(payer, acc')"] that len nth [of i] by (simp add: accs keys)
  have at: "snd (lt_accounts lt ! ?p) = acc'" by (simp add: accs nth_append l1)
  have "?p < length ?keys" using len by simp
  moreover have "lt_payer lt = Some (?keys ! ?p)" using pay k q by (metis snd_conv)
  moreover have "may_pay stx (?p, ?keys ! ?p)" using mp q by simp
  moreover have "loaded_account E s stx (?keys ! ?p) = Some acc" using acc q by (metis snd_conv)
  ultimately show ?thesis
    using fsts before others at validate_fee_payer_debits [OF v] by blast
qed

section \<open>Hooks and instruction errors\<close>

definition instruction_hooks ::
    "inspect_mode \<Rightarrow> 'c svm \<Rightarrow> ((address \<times> compiled_instruction) \<times> u16) list \<Rightarrow> nat \<Rightarrow> nat
      \<Rightarrow> hook_event list" where
  "instruction_hooks mode s pis index n =
     concat (map (\<lambda>i. fire mode s (InstructionStart (index + i) (fst (fst (pis ! i)))) @
                      fire mode s (InstructionEnd (index + i) (fst (fst (pis ! i))))) [0..<n])"

lemma instruction_hooks_Suc:
  "instruction_hooks mode s (p # pis) index (Suc n) =
     fire mode s (InstructionStart index (fst (fst p))) @
     fire mode s (InstructionEnd index (fst (fst p))) @ instruction_hooks mode s pis (Suc index) n"
  unfolding instruction_hooks_def upt_conv_Cons [OF zero_less_Suc]
  by (simp add: comp_def del: upt_Suc flip: map_Suc_upt)

lemma process_instructions_shape:
  assumes "process_instructions E mode s datas index pis ic units = (ic', units', evs, r)"
  shows "\<exists>n \<le> length pis. evs = instruction_hooks mode s pis index n \<and>
     (case r of
        Inr _ \<Rightarrow> n = length pis
      | Inl err \<Rightarrow> 0 < n \<and> (\<exists>e. err = InstructionError (of_nat (index + n - 1)) e))"
  using assms
proof (induction pis arbitrary: index ic units evs ic' units' r)
  case Nil
  then show ?case by (auto simp: instruction_hooks_def)
next
  case (Cons p pis)
  obtain pid ci pix where p: "p = ((pid, ci), pix)" by (metis prod.exhaust)
  obtain ic1 c1 r1 where st:
    "(if is_precompile E ic pid
      then (case process_precompile E ic pid (ci_data ci) datas of (ic', r) \<Rightarrow> (ic', 0, r))
      else process_instruction E ic) = (ic1, c1, r1)"
    by (metis prod.exhaust)
  show ?case
  proof (cases r1)
    case (Inl e)
    with Cons.prems st have "evs = instruction_hooks mode s (p # pis) index 1"
      "r = Inl (InstructionError (of_nat index) e)"
      by (auto simp: p Let_def instruction_hooks_def)
    then show ?thesis by (intro exI [of _ 1]) auto
  next
    case (Inr u)
    obtain ic2 u2 evs2 r2 where rest:
      "process_instructions E mode s datas (index + 1) pis ic1 (saturating_add units c1) =
        (ic2, u2, evs2, r2)"
      by (metis prod.exhaust)
    from Cons.IH [OF rest] obtain n where n: "n \<le> length pis"
      "evs2 = instruction_hooks mode s pis (index + 1) n"
      "case r2 of Inr _ \<Rightarrow> n = length pis
       | Inl err \<Rightarrow> 0 < n \<and> (\<exists>e. err = InstructionError (of_nat (index + 1 + n - 1)) e)"
      by blast
    from Cons.prems st Inr rest have "r = r2"
      "evs = fire mode s (InstructionStart index pid) @ fire mode s (InstructionEnd index pid) @ evs2"
      by (auto simp: p Let_def)
    with n show ?thesis
      by (intro exI [of _ "Suc n"])
        (auto simp: p instruction_hooks_Suc split: sum.splits)
  qed
qed

text \<open>
  C39. Hooks of a message are balanced and ordered: for the first \<open>n\<close> top-level instructions,
  in order, exactly one start and one end hook fire, also for the instruction that fails; a
  message that succeeds ran all of its instructions, and a failure names the last instruction
  that was run (or the preparation failed before any of them).
\<close>

theorem message_hooks_balanced:
  assumes "process_message E mode s stx ixs ic = (ic', units, evs, r)"
  shows "\<exists>n \<le> length (zip (program_instructions stx) ixs).
     evs = instruction_hooks mode s (zip (program_instructions stx) ixs) 0 n \<and>
     (case r of
        Inr _ \<Rightarrow> n = length (zip (program_instructions stx) ixs)
      | Inl err \<Rightarrow> (0 < n \<and> (\<exists>e. err = InstructionError (of_nat (n - 1)) e)) \<or>
          (n = 0 \<and> (\<exists>i e. err = InstructionError i e \<and>
             snd (prepare_top_level E ic stx) = Inl (i, e))))"
proof -
  obtain ic1 pr where prep: "prepare_top_level E ic stx = (ic1, pr)"
    by (cases "prepare_top_level E ic stx")
  show ?thesis
  proof (cases pr)
    case (Inl p)
    obtain i e where "p = (i, e)" by (cases p)
    with Inl prep assms show ?thesis
      by (intro exI [of _ 0]) (auto simp: process_message_def instruction_hooks_def)
  next
    case (Inr u)
    with prep assms have "process_instructions E mode s (map ci_data (tx_instructions stx)) 0
        (zip (program_instructions stx) ixs) ic1 0 = (ic', units, evs, r)"
      by (simp add: process_message_def)
    from process_instructions_shape [OF this] show ?thesis
      by (fastforce split: sum.splits)
  qed
qed

section \<open>Fatal errors\<close>

lemma load_accounts_fatal:
  assumes "load_accounts E s stx rent fee keys payer accs = Some (Inl er)"
    and "er_fatal er = Some e"
  shows "\<exists>k err. e = ExecAccountSource k err \<and> try_get_account (vm_accounts s) k = Inl err"
  using assms
  by (induction E s stx rent fee keys payer accs rule: load_accounts.induct)
    (auto simp: Let_def execution_result_with_account_source_error_def exec_failure_fee_def
      exec_failure_def default_execution_result_def
      split: if_splits option.splits sum.splits prod.splits)

lemma exec_failure_not_fatal [simp]:
  "er_fatal (exec_failure err) = None" "er_fatal (exec_failure_fee err fee) = None"
  by (simp_all add: exec_failure_fee_def exec_failure_def default_execution_result_def)

lemma resolve_not_fatal: "resolve_program_indices s accs fee cis fs = Inl er \<Longrightarrow> er_fatal er = None"
  by (induction s accs fee cis fs rule: resolve_program_indices.induct)
    (auto simp: Let_def map_ok_def split: if_splits option.splits sum.splits prod.splits)

lemma load_transaction_fatal:
  assumes "load_transaction E s stx limits fl = Some (Inl er)" and "er_fatal er = Some e"
  shows "\<exists>k err. e = ExecAccountSource k err \<and> try_get_account (vm_accounts s) k = Inl err"
  using assms
  by (auto simp: load_transaction_def Let_def map_ok_def
      dest: load_accounts_fatal resolve_not_fatal split: option.splits sum.splits prod.splits)

lemma pre_checks_not_fatal: "pre_checks E L s stx = Inl er \<Longrightarrow> er_fatal er = None"
  by (auto simp: pre_checks_def and_then_def map_err_def maybe_blockhash_check_def
      get_compute_budget_limits_def maybe_history_check_def split: sum.splits if_splits)

lemma tracking_failure_genuine:
  assumes "tracking_load_addresses X a ls None = (r, Some f)"
  shows "try_get_account a (fail_pubkey f) = Inl (fail_source f)"
proof -
  have "snd (tracking_load_addresses X a ls None) = Some f" using assms by simp
  then show ?thesis
  proof (induction ls)
    case (Cons l ls)
    show ?case
    proof (cases "try_load_lookup_table_addresses X a l")
      case (Inl e)
      with Cons.prems lookup_source_failure [of X a l f] show ?thesis
        by (cases e) (auto simp: record_failure_def)
    next
      case (Inr la)
      with Cons show ?thesis by (auto split: prod.splits)
    qed
  qed simp
qed

lemma sanitize_error_fatal:
  assumes "er_fatal (sanitize_error_into_execution_result failure err) = Some e"
  shows "\<exists>f. failure = Some f \<and> e = ExecAccountSource (fail_pubkey f) (fail_source f)"
  using assms
  by (auto simp: sanitize_error_into_execution_result_def
      execution_result_with_account_source_error_def split: option.splits)

lemma sanitize_no_verify_fatal:
  assumes "sanitize_transaction_no_verify_with_policy E s tx p = Inl er" and "er_fatal er = Some e"
  shows "\<exists>k err. e = ExecAccountSource k err \<and> try_get_account (vm_accounts s) k = Inl err"
proof (cases "try_create E tx (p = HashCompute) (reserved_keys s)")
  case (SanitizeDone r)
  with assms show ?thesis
    by (auto simp: sanitize_transaction_no_verify_with_policy_def map_err_def
        dest: sanitize_error_fatal split: sum.splits)
next
  case (NeedLookups ls cont)
  obtain r f where t: "tracking_load_addresses (db E) (vm_accounts s) ls None = (r, f)"
    by (cases "tracking_load_addresses (db E) (vm_accounts s) ls None")
  from assms NeedLookups t obtain g where "f = Some g"
    "e = ExecAccountSource (fail_pubkey g) (fail_source g)"
    by (auto simp: sanitize_transaction_no_verify_with_policy_def map_err_def
        dest: sanitize_error_fatal split: sum.splits)
  with tracking_failure_genuine t show ?thesis by blast
qed

lemma sanitize_fatal:
  assumes "sanitize_transaction_with_flags_and_policy E s tx fl p = Inl er" "er_fatal er = Some e"
  shows "\<exists>k err. e = ExecAccountSource k err \<and> try_get_account (vm_accounts s) k = Inl err"
  using assms
  by (auto simp: sanitize_transaction_with_flags_and_policy_def and_then_def map_err_def Let_def
      dest: sanitize_no_verify_fatal split: sum.splits)

lemma execute_sanitized_fatal:
  assumes "execute_sanitized_transaction E L mode s stx fl w = Some (w', evs, lgs, er)"
    and "er_fatal er = Some e"
  shows "\<not> er_included er \<and>
     (\<exists>k err. e = ExecAccountSource k err \<and> try_get_account (vm_accounts s) k = Inl err)"
  using assms(1)
proof (cases rule: execute_sanitized_cases)
  case rejected
  with assms(2) show ?thesis
    by (auto simp: rejected_def dest: pre_checks_not_fatal load_transaction_fatal)
next
  case (ran limits lt ps ic er')
  with if_context_included [OF ran(5)] assms(2) show ?thesis by simp
qed

text \<open>
  C38. A fatal execution error is always a genuine failure of the account source: it names an
  address and the error the source gives for it, the address is one the execution had to
  read, and the transaction is then not included.
\<close>

theorem fatal_is_source_failure:
  assumes "execute_readonly E L s tx w = Some (w', evs, lgs, er)" and "er_fatal er = Some e"
  shows "\<not> er_included er \<and>
     (\<exists>k err. e = ExecAccountSource k err \<and> try_get_account (vm_accounts s) k = Inl err)"
proof (cases "sigverify (vm_version s)")
  case True
  let ?fl = "load_flags (gate_id E) (feature_set (vm_version s))"
  let ?r = "sanitize_transaction_with_flags_and_policy E s tx ?fl (policy_for_mode (select_mode s))"
  show ?thesis
    using assms True sanitize_fatal [of E s tx ?fl] sanitize_rejected [of E s tx ?fl]
      execute_sanitized_fatal [of E L "select_mode s" s _ ?fl w w' evs lgs er e]
    by (cases ?r) (auto simp: execute_readonly_def execute_transaction_readonly_def rejected_def)
next
  case False
  let ?fl = "load_flags (gate_id E) (feature_set (vm_version s))"
  let ?r = "sanitize_transaction_no_verify_with_policy E s tx (policy_for_mode (select_mode s))"
  show ?thesis
    using assms False sanitize_no_verify_fatal [of E s tx] sanitize_no_verify_rejected [of E s tx]
      execute_sanitized_fatal [of E L "select_mode s" s _ ?fl w w' evs lgs er e]
    by (cases ?r)
      (auto simp: execute_readonly_def execute_transaction_no_verify_readonly_def rejected_def)
qed

text \<open>
  The owner of a program is the exception: when the account source fails while the
  executor looks up the loader that owns an invoked program, the transaction is rejected as
  an invalid program and the failure is only recorded; it is not fatal, so callers see an
  ordinary transaction error.
\<close>

theorem owner_source_failure_not_fatal:
  assumes "list_get accs (unat (program_id_index ci)) = Some (pid, prog)"
    and "pid \<noteq> NativeLoader" and "executable prog" and "owner prog \<noteq> NativeLoader"
    and "try_get_account (vm_accounts s) (owner prog) = Inl err"
  shows "\<exists>er. resolve_program_indices s accs fee (ci # cis) fs = Inl er \<and> er_fatal er = None \<and>
     tx_result er = Inl InvalidProgramForExecution \<and> er_fee er = fee \<and>
     er_source_failures er =
       fs @ [\<lparr>asf_pubkey = owner prog, asf_error = source_error_to_string err\<rparr>]"
  using assms
  by (simp add: Let_def default_account_def exec_failure_fee_def exec_failure_def
      default_execution_result_def)

section \<open>Included transactions\<close>

text \<open>
  A transaction that fails while it runs is still included, and its result carries every
  writable account exactly as the failed instruction left it: the writes of the instructions
  before the failure, and those of the failed one, are part of the post-state, and the fee
  and the units are reported.
\<close>

theorem failed_transaction_keeps_writes:
  assumes "pre_checks E L s stx = Inr limits"
    and "load_transaction E s stx limits fl = Some (Inr lt)"
    and "process_message E mode s stx (lt_indices lt)
           (new_context E s stx lt (caches w (programs_cache (vm_accounts s)))) =
         (ic, units, evs, Inl err)"
    and "trace_wf (ic_trace E ic)"
  shows "\<exists>w' evs' er.
     execute_sanitized_transaction E L mode s stx fl w = Some (w', evs', ic_logs E ic, er) \<and>
     er_included er \<and> tx_result er = Inl err \<and> er_units er = units \<and> er_fee er = lt_fee lt \<and>
     er_post_accounts er = writable_accounts stx (ic_accounts E ic)"
proof -
  obtain w' evs' lgs ps where run: "run_loaded E mode s stx lt w = (w', evs', lgs, ps)"
    by (metis prod.exhaust)
  with assms(3) have ps: "ps_context ps = Some ic" "ps_result ps = Inl err" "ps_units ps = units"
    "ps_fee ps = lt_fee lt" "lgs = ic_logs E ic"
    by (auto simp: run_loaded_def Let_def)
  obtain ct where "extract_instruction_trace_data (map fst (ic_accounts E ic)) (ic_trace E ic) = Some ct"
    using extract_returns [OF assms(4)] by blast
  then obtain er where er: "execution_result_if_context E stx ic ps = Some er"
    by (auto simp: execution_result_if_context_def)
  show ?thesis
    using if_context_included [OF er] assms(1,2) run ps er
    by (simp add: execute_sanitized_transaction_def check_and_process_transaction_def
        process_transaction_def)
qed

end
