(* ===== verification/Replay_Props.thy ===== *)
theory Replay_Props
  imports Execution_Props
begin

text \<open>
  Properties that span execution, staging and history: a committed transaction cannot be
  executed again, readonly execution leaves the heap of shared caches alone, and a
  simulation is therefore invisible.
\<close>

section \<open>Replay protection\<close>

lemma commit_history:
  "commit L et (w1, s1) = ((w2, s2), evs, res) \<Longrightarrow>
     s2 = s1\<lparr>vm_history := record_entry L (et_history_entry et) (vm_history s1)\<rparr>"
  by (auto simp: commit_def)

lemma committed_signature_known:
  assumes "lru L ents cap" and "history_reachable L (vm_history s)"
    and "stage_detached X d (w, s) = ((w1, s1), Inr et)"
    and "commit L et (w1, s1) = ((w2, s2), evs, res)"
    and "included d" and "history_is_enabled (vm_history s)"
  shows "check_transaction L (vm_history s2) (meta_signature (meta d))"
proof -
  have h: "vm_history s1 = vm_history s" by (rule stage_history [OF assms(3)])
  have e: "et_history_entry et = staged_entry d True"
    using assms(6) by (rule_tac stage_ok [OF assms(3)]) simp
  have inv: "lru.invar ents cap (hist_entries (vm_history s))"
    using lru.reachable_history_inv [OF assms(1,2)] lru.history_inv_def [OF assms(1)] by blast
  have "vm_history s2 = record_entry L (staged_entry d True) (vm_history s)"
    using commit_history [OF assms(4)] by (simp add: e h)
  then show ?thesis
    using assms(5,6) lru.put_then_peek [OF assms(1) inv]
    by (simp add: record_entry_def staged_entry_def add_new_transaction_def check_transaction_def
        history_is_enabled_def)
qed

lemma known_signature_rejected:
  assumes "sigverify (vm_version s)" and "check_transaction L (vm_history s) (tx_signature stx)"
  shows "\<exists>er. pre_checks E L s stx = Inl er \<and>
     (m_sysvars (materialized s) \<and> maybe_blockhash_check E s stx = Inr () \<and>
      is_ok (process_compute_budget_instructions E stx (feature_set (vm_version s))) \<longrightarrow>
        tx_result er = Inl AlreadyProcessed)"
proof -
  have h: "maybe_history_check L s stx = Inl (exec_failure AlreadyProcessed)"
    using assms by (simp add: maybe_history_check_def)
  show ?thesis
    by (cases "require_sysvars_loaded s"; cases "maybe_blockhash_check E s stx";
        cases "process_compute_budget_instructions E stx (feature_set (vm_version s))")
      (simp_all add: pre_checks_def h get_compute_budget_limits_def require_sysvars_loaded_def
        exec_failure_def split: if_splits)
qed


section \<open>Readonly execution\<close>

text \<open>
  What the program runtime documents about the cache it is lent: an execution adds and
  changes only modified entries and per-batch flags, so the committed part stays as it is,
  and draining leaves nothing but the committed part.
\<close>

definition scratch_only :: "('pc, 'x, 'st, 'ic) exec_ext \<Rightarrow> ('pc \<Rightarrow> 'v) \<Rightarrow> bool" where
  "scratch_only E committed \<longleftrightarrow>
     (\<forall>accs rent b n lim bh env sv pc.
        committed (ic_cache E (ic_new E accs rent b n lim bh env sv pc)) = committed pc) \<and>
     (\<forall>ic stx. committed (ic_cache E (fst (prepare_top_level E ic stx))) =
        committed (ic_cache E ic)) \<and>
     (\<forall>ic pid bs ds. committed (ic_cache E (fst (process_precompile E ic pid bs ds))) =
        committed (ic_cache E ic)) \<and>
     (\<forall>ic. committed (ic_cache E (fst (process_instruction E ic))) = committed (ic_cache E ic)) \<and>
     (\<forall>pc pc'. committed pc = committed pc' \<longrightarrow> pc_drain E pc = pc_drain E pc')"

lemma process_instructions_committed:
  assumes "scratch_only E committed"
  shows "committed (ic_cache E (fst (process_instructions E mode s ds i pis ic u))) =
     committed (ic_cache E ic)"
proof (induction pis arbitrary: i ic u)
  case (Cons p pis)
  obtain pid ci pix where p: "p = ((pid, ci), pix)" by (metis prod.exhaust)
  obtain ic1 c1 r1 where st:
    "(if is_precompile E ic pid
      then (case process_precompile E ic pid (ci_data ci) ds of (ic', r) \<Rightarrow> (ic', 0, r))
      else process_instruction E ic) = (ic1, c1, r1)"
    by (metis prod.exhaust)
  have "ic1 = fst (process_precompile E ic pid (ci_data ci) ds) \<or> ic1 = fst (process_instruction E ic)"
    using st by (auto split: if_splits prod.splits)
  then have c: "committed (ic_cache E ic1) = committed (ic_cache E ic)"
    using assms by (auto simp: scratch_only_def)
  show ?case
    using Cons.IH [of "i + 1" ic1 "saturating_add u c1"] c st
    by (auto simp: p Let_def split: sum.split prod.split)
qed simp

lemma process_message_committed:
  assumes "scratch_only E committed"
  shows "committed (ic_cache E (fst (process_message E mode s stx ixs ic))) =
     committed (ic_cache E ic)"
proof -
  obtain ic1 r where prep: "prepare_top_level E ic stx = (ic1, r)"
    by (cases "prepare_top_level E ic stx")
  then have "committed (ic_cache E ic1) = committed (ic_cache E ic)"
    using assms unfolding scratch_only_def by (metis fst_conv)
  then show ?thesis
    using prep
    by (auto simp: process_message_def process_instructions_committed [OF assms]
        split: sum.split prod.split)
qed

lemma run_loaded_world:
  assumes "scratch_only E committed"
    and "pc_drain E (caches w (programs_cache (vm_accounts s))) =
      caches w (programs_cache (vm_accounts s))"
    and "run_loaded E mode s stx lt w = (w', evs, lgs, ps)"
  shows "w' = w"
proof -
  let ?h = "programs_cache (vm_accounts s)"
  let ?ic = "new_context E s stx lt (caches w ?h)"
  obtain ic' u evs' r where pm: "process_message E mode s stx (lt_indices lt) ?ic = (ic', u, evs', r)"
    by (metis prod.exhaust)
  have "committed (ic_cache E ic') = committed (ic_cache E ?ic)"
    using process_message_committed [OF assms(1), of mode s stx "lt_indices lt" ?ic] pm by simp
  also have "\<dots> = committed (caches w ?h)"
    using assms(1) by (simp add: scratch_only_def new_context_def)
  finally have "pc_drain E (ic_cache E ic') = pc_drain E (caches w ?h)"
    using assms(1) unfolding scratch_only_def by blast
  moreover have "w' = write_cache ?h (pc_drain E (ic_cache E ic')) w"
    using assms(3) pm by (auto simp: run_loaded_def Let_def)
  ultimately show ?thesis using assms(2) by (simp add: write_cache_def)
qed

lemma execute_readonly_world:
  assumes "scratch_only E committed"
    and "pc_drain E (caches w (programs_cache (vm_accounts s))) =
      caches w (programs_cache (vm_accounts s))"
    and "execute_readonly E L s tx w = Some (w', evs, lgs, er)"
  shows "w' = w"
  using assms(3)
proof (cases rule: execute_readonly_cases)
  case (ran stx fl)
  then show ?thesis
  proof (cases rule: execute_sanitized_cases)
    case (ran limits lt ps ic er')
    then show ?thesis using run_loaded_world [OF assms(1,2)] by blast
  qed
qed


end
