(* ===== verification/Batch_Run_Props.thy ===== *)
theory Batch_Run_Props
  imports Batch_Plan_Props Replay_Props
begin

text \<open>
  Correctness of running a batch. The outcome of a readonly execution does not depend on
  which handle the program cache sits behind, so a worker on its private copy computes what
  the live snapshot would; a parallel stage therefore has one outcome, whatever the pool
  does, and every transaction of the batch gets its result.
\<close>

section \<open>Executions do not depend on the cache handle\<close>

text \<open>The VM value with its program cache behind another handle.\<close>

abbreviation rehandle :: "nat \<Rightarrow> accounts \<Rightarrow> accounts" where
  "rehandle h a \<equiv> a\<lparr>programs_cache := h\<rparr>"

abbreviation svm_rehandle :: "nat \<Rightarrow> 'c svm \<Rightarrow> 'c svm" where
  "svm_rehandle h s \<equiv> s\<lparr>vm_accounts := rehandle h (vm_accounts s)\<rparr>"

lemma rehandle_reads [simp]:
  "try_get_account (rehandle h a) = try_get_account a"
  "get_account (rehandle h a) = get_account a"
  "get_account_ref (rehandle h a) = get_account_ref a"
proof -
  show t: "try_get_account (rehandle h a) = try_get_account a"
    by (rule ext) (simp add: try_get_account_def get_account_ref_def split: option.split)
  show r: "get_account_ref (rehandle h a) = get_account_ref a"
    by (rule ext) (simp add: get_account_ref_def)
  show "get_account (rehandle h a) = get_account a"
    by (rule ext) (simp add: get_account_def t r)
qed

lemma rehandle_lookup [simp]:
  "try_load_lookup_table_addresses X (rehandle h a) l = try_load_lookup_table_addresses X a l"
  by (simp add: try_load_lookup_table_addresses_def split: sum.split option.split)

lemma rehandle_lookups [simp]:
  "tracking_load_addresses X (rehandle h a) ls f = tracking_load_addresses X a ls f"
  by (induction ls arbitrary: f) (simp_all split: sum.split lookup_table_load_error.split)

lemma rehandle_svm [simp]:
  "select_mode (svm_rehandle h s) = select_mode s"
  "fire mode (svm_rehandle h s) ev = fire mode s ev"
  by (simp_all add: select_mode_def svm_inspector_live_def inspector_accepts_origin_def
      fire_def split: inspect_mode.split option.split)

lemma rehandle_load_accounts [simp]:
  "load_accounts E (svm_rehandle h s) stx rent fee keys payer accs =
     load_accounts E s stx rent fee keys payer accs"
  by (induction E s stx rent fee keys payer accs rule: load_accounts.induct)
    (simp_all add: Let_def split: option.split sum.split)

lemma rehandle_resolve [simp]:
  "resolve_program_indices (svm_rehandle h s) accs fee cis failures =
     resolve_program_indices s accs fee cis failures"
  by (induction s accs fee cis failures rule: resolve_program_indices.induct)
    (simp_all add: Let_def split: option.split sum.split)

lemma rehandle_load_transaction [simp]:
  "load_transaction E (svm_rehandle h s) stx limits fl = load_transaction E s stx limits fl"
  by (simp add: load_transaction_def transaction_budget_def transaction_fee_def Let_def
      split: option.split sum.split prod.split)

lemma rehandle_process_instructions [simp]:
  "process_instructions E mode (svm_rehandle h s) ds i pis ic u =
     process_instructions E mode s ds i pis ic u"
proof (induction pis arbitrary: i ic u)
  case (Cons p pis)
  obtain pid ci pix where p: "p = ((pid, ci), pix)" by (metis prod.exhaust)
  show ?case
    unfolding p process_instructions.simps Cons.IH rehandle_svm ..
qed simp

lemma rehandle_run_loaded:
  assumes "caches w' h = caches w (programs_cache (vm_accounts s))"
  shows "snd (run_loaded E mode (svm_rehandle h s) stx lt w') = snd (run_loaded E mode s stx lt w)"
  using assms
  by (simp add: run_loaded_def Let_def new_context_def process_message_def split: prod.split)

lemma rehandle_checks [simp]:
  "pre_checks E L (svm_rehandle h s) stx = pre_checks E L s stx"
  by (simp add: pre_checks_def require_sysvars_loaded_def maybe_blockhash_check_def
      check_transaction_age_inner_def check_transaction_for_nonce_def check_message_for_nonce_def
      maybe_history_check_def)

lemma rehandle_sanitize_no_verify [simp]:
  "sanitize_transaction_no_verify_with_policy E (svm_rehandle h s) tx pol =
     sanitize_transaction_no_verify_with_policy E s tx pol"
  by (simp add: sanitize_transaction_no_verify_with_policy_def split: sanitize_step.split)

lemma rehandle_sanitize [simp]:
  "sanitize_transaction_with_flags_and_policy E (svm_rehandle h s) tx fl pol =
     sanitize_transaction_with_flags_and_policy E s tx fl pol"
  by (simp add: sanitize_transaction_with_flags_and_policy_def)

lemma rehandle_execute_sanitized:
  assumes c: "caches w' h = caches w (programs_cache (vm_accounts s))"
  shows "map_option snd (execute_sanitized_transaction E L mode (svm_rehandle h s) stx fl w') =
     map_option snd (execute_sanitized_transaction E L mode s stx fl w)"
proof -
  have "snd (run_loaded E mode (svm_rehandle h s) stx lt w') = snd (run_loaded E mode s stx lt w)" for lt
    using c by (rule rehandle_run_loaded)
  then show ?thesis
    by (auto simp: execute_sanitized_transaction_def check_and_process_transaction_def
        process_transaction_def option.map_comp comp_def Let_def case_prod_beta
        split: option.split sum.split)
qed

lemma rehandle_execute_readonly:
  assumes "caches w' h = caches w (programs_cache (vm_accounts s))"
  shows "map_option snd (execute_readonly E L (svm_rehandle h s) tx w') =
     map_option snd (execute_readonly E L s tx w)"
  using rehandle_execute_sanitized [OF assms, of E L]
  by (simp add: execute_readonly_def execute_transaction_readonly_def
      execute_transaction_no_verify_readonly_def Let_def split: sum.split)

lemma rehandle_token_balances [simp]: "token_balances E accs (rehandle h a) = token_balances E accs a"
  unfolding token_balances_def rehandle_reads ..

lemma rehandle_into_detached [simp]:
  "execution_into_detached E (svm_rehandle h s) er lgs = execution_into_detached E s er lgs"
  by (simp add: execution_into_detached_def vm_execution_diagnostics_def)

lemma transact_detached_default:
  assumes "registry s (tag_of tx) = Some DefaultExecutionHandler"
  shows "transact_detached (vm_handlers E L cv ce) tx (w, s) = default_execute_detached E L s tx w"
  using assms
  by (simp add: transact_detached_def dispatch_detached_def registry_dispatch_def vm_handlers_def
      map_outcome_def option.map_comp comp_def case_prod_beta option.map_ident)

lemma rehandle_default_execute:
  assumes "caches w' h = caches w (programs_cache (vm_accounts s))"
  shows "map_option snd (default_execute_detached E L (svm_rehandle h s) tx w') =
     map_option snd (default_execute_detached E L s tx w)"
proof -
  let ?f = "\<lambda>(evs, lgs, er). (evs, execution_into_detached E s er lgs)"
  have "map_option snd (default_execute_detached E L (svm_rehandle h s) tx w') =
    map_option ?f (map_option snd (execute_readonly E L (svm_rehandle h s) tx w'))"
    by (simp add: default_execute_detached_def option.map_comp comp_def case_prod_beta)
  also have "\<dots> = map_option ?f (map_option snd (execute_readonly E L s tx w))"
    by (simp only: rehandle_execute_readonly [OF assms])
  also have "\<dots> = map_option snd (default_execute_detached E L s tx w)"
    by (simp add: default_execute_detached_def option.map_comp comp_def case_prod_beta)
  finally show ?thesis .
qed

section \<open>Workers\<close>

text \<open>The VM a worker stands for: the live state, no inspector, the batch origin.\<close>

definition stage_view :: "'c svm \<Rightarrow> nat \<Rightarrow> nat \<Rightarrow> 'c svm" where
  "stage_view s stage_index index =
     clone_with_state s (vm_accounts s) (vm_history s) (Batch stage_index index)"

text \<open>What one transaction of a stage yields, executed alone on that view.\<close>

definition stage_outcome ::
    "('pc, 'st, 'c) handlers \<Rightarrow> 'c svm \<Rightarrow> nat \<Rightarrow> versioned_tx list \<Rightarrow> ('pc, 'st) world \<Rightarrow> nat
      \<Rightarrow> batch_stage_result option" where
  "stage_outcome Hs s stage_index txs w index =
     map_option
       (\<lambda>(w', evs, d).
          let (res, delta) = detached_into_result_and_state_change_set d
                (history_is_enabled (vm_history s))
          in \<lparr>bs_index = index, bs_result = res, bs_delta = delta\<rparr>)
       (transact_detached Hs (txs ! index) (w, stage_view s stage_index index))"

lemma accounts_clone_id [simp]: "accounts_clone a = a"
  by (simp add: accounts_clone_def)

lemma worker_vm_eq:
  "worker_vm s (runtime_from_vm s) org w =
     ((write_cache (next_cache w) (caches w (programs_cache (vm_accounts s))) w)
        \<lparr>next_cache := next_cache w + 1\<rparr>,
      clone_with_state s (rehandle (next_cache w) (vm_accounts s)) (vm_history s) org)"
  by (simp add: worker_vm_def runtime_from_vm_def clone_for_worker_def Let_def)

text \<open>No inspector, hence no hook events.\<close>

lemma no_inspector_fire: "vm_inspector s = None \<Longrightarrow> fire mode s ev = []"
  by (simp add: fire_def split: inspect_mode.split)

lemma no_inspector_instructions:
  "vm_inspector s = None \<Longrightarrow> fst (snd (snd (process_instructions E mode s ds i pis ic u))) = []"
  by (induction E mode s ds i pis ic u rule: process_instructions.induct)
    (auto simp: no_inspector_fire Let_def split: prod.splits sum.splits)

lemma no_inspector_run_loaded:
  assumes "vm_inspector s = None"
  shows "fst (snd (run_loaded E mode s stx lt w)) = []"
proof -
  have "fst (snd (snd (process_message E mode s stx ixs ic))) = []" for ixs ic
    using no_inspector_instructions [OF assms]
    by (auto simp: process_message_def split: prod.split sum.split)
  then show ?thesis
    by (simp add: run_loaded_def Let_def no_inspector_fire [OF assms] case_prod_beta)
qed

lemma no_inspector_readonly:
  assumes "vm_inspector s = None" and "execute_readonly E L s tx w = Some (w', evs, lgs, er)"
  shows "evs = []"
  using assms(2)
proof (cases rule: execute_readonly_cases)
  case (ran stx fl)
  then show ?thesis
  proof (cases rule: execute_sanitized_cases)
    case (ran limits lt ps ic er')
    then show ?thesis using no_inspector_run_loaded [OF assms(1), of E _ stx lt w] by (metis fst_conv snd_conv)
  qed
qed

lemma default_execute_frame:
  assumes "scratch_only E committed"
    and "pc_drain E (caches w (programs_cache (vm_accounts s))) =
      caches w (programs_cache (vm_accounts s))"
    and "vm_inspector s = None"
    and "default_execute_detached E L s tx w = Some (w', evs, d)"
  shows "w' = w \<and> evs = []"
proof -
  from assms(4) obtain lgs er where x: "execute_readonly E L s tx w = Some (w', evs, lgs, er)"
    by (auto simp: default_execute_detached_def)
  show ?thesis
    using execute_readonly_world [OF assms(1,2) x] no_inspector_readonly [OF assms(3) x] by simp
qed

lemma stage_view_fields [simp]:
  "registry (stage_view s k i) = registry s" "vm_inspector (stage_view s k i) = None"
  "vm_accounts (stage_view s k i) = vm_accounts s"
  by (simp_all add: stage_view_def clone_with_state_def)

lemma worker_step_outcome:
  assumes sc: "scratch_only E committed"
    and c: "caches w h = caches w0 (programs_cache (vm_accounts s))"
    and dr: "pc_drain E (caches w h) = caches w h"
    and i: "i < length txs" "registry s (tag_of (txs ! i)) = Some DefaultExecutionHandler"
  shows "worker_step (vm_handlers E L cv ce) k txs i
       (w, clone_with_state s (rehandle h (vm_accounts s)) (vm_history s) org) =
     map_option
       (\<lambda>r. ((w, clone_with_state s (rehandle h (vm_accounts s)) (vm_history s) (Batch k i)), [], r))
       (stage_outcome (vm_handlers E L cv ce) s k txs w0 i)"
proof -
  let ?v = "stage_view s k i"
  let ?l = "svm_rehandle h ?v"
  have l: "(clone_with_state s (rehandle h (vm_accounts s)) (vm_history s) org)
      \<lparr>inspection_origin := Batch k i\<rparr> = ?l"
    "clone_with_state s (rehandle h (vm_accounts s)) (vm_history s) (Batch k i) = ?l"
    by (simp_all add: stage_view_def clone_with_state_def)
  have t: "transact_detached (vm_handlers E L cv ce) (txs ! i) (w', s') =
    default_execute_detached E L s' (txs ! i) w'" if "registry s' = registry s" for w' s'
    using i(2) that by (simp add: transact_detached_default)
  have eq: "map_option snd (default_execute_detached E L ?l (txs ! i) w) =
    map_option snd (default_execute_detached E L ?v (txs ! i) w0)"
    using c by (intro rehandle_default_execute) simp
  have fr: "w' = w \<and> evs = []" if "default_execute_detached E L ?l (txs ! i) w = Some (w', evs, d)" for w' evs d
    using default_execute_frame [OF sc _ _ that] dr by simp
  have h: "vm_history ?l = vm_history s" "vm_history (clone_with_state s a' h' org) = h'" for a' h'
    by (simp_all add: stage_view_def clone_with_state_def)
  show ?thesis
  proof (cases "default_execute_detached E L ?l (txs ! i) w")
    case None
    with eq show ?thesis
      by (simp add: worker_step_def Let_def l list_get_def i(1) t stage_outcome_def)
  next
    case (Some x)
    obtain w' evs d where x: "x = (w', evs, d)" by (metis prod.exhaust)
    from fr Some x have "w' = w" "evs = []" by simp_all
    moreover from eq Some x obtain w2 where "default_execute_detached E L ?v (txs ! i) w0 = Some (w2, evs, d)"
      by (cases "default_execute_detached E L ?v (txs ! i) w0") auto
    ultimately show ?thesis
      using Some x
      by (simp add: worker_step_def Let_def l list_get_def i(1) t stage_outcome_def h case_prod_beta)
  qed
qed

lemma those_append:
  "those (xs @ ys) = Option.bind (those xs) (\<lambda>a. map_option ((@) a) (those ys))"
  by (cases "those ys"; induction xs) (auto split: option.split bind_splits)

lemma run_worker_outcomes:
  assumes sc: "scratch_only E committed"
    and c: "caches w h = caches w0 (programs_cache (vm_accounts s))"
    and dr: "pc_drain E (caches w h) = caches w h"
    and "list_all (\<lambda>i. i < length txs \<and>
      registry s (tag_of (txs ! i)) = Some DefaultExecutionHandler) chunk"
  shows "run_worker (vm_handlers E L cv ce) k txs chunk
       (w, clone_with_state s (rehandle h (vm_accounts s)) (vm_history s) org) =
     map_option (\<lambda>rs. (w, [], rs))
       (those (map (stage_outcome (vm_handlers E L cv ce) s k txs w0) chunk))"
  using assms(4)
proof (induction chunk arbitrary: org)
  case (Cons i chunk)
  then have i: "i < length txs" "registry s (tag_of (txs ! i)) = Some DefaultExecutionHandler" by simp_all
  show ?case
    using Cons by (simp add: worker_step_outcome [OF sc c dr i] option.map_comp comp_def split: option.split)
qed simp

lemma run_workers_outcomes:
  assumes sc: "scratch_only E committed"
    and "caches w live = caches w0 live" and "live < next_cache w"
    and live: "live = programs_cache (vm_accounts s)"
    and dr: "pc_drain E (caches w0 live) = caches w0 live"
    and "list_all (list_all (\<lambda>i. i < length txs \<and>
      registry s (tag_of (txs ! i)) = Some DefaultExecutionHandler)) chunks"
  shows "map_option snd (run_workers (vm_handlers E L cv ce) s k txs chunks w) =
     map_option (\<lambda>rs. ([], rs))
       (those (map (stage_outcome (vm_handlers E L cv ce) s k txs w0) (concat chunks)))"
  using assms(2,3,6)
proof (induction chunks arbitrary: w)
  case (Cons chunk chunks)
  let ?h = "next_cache w"
  let ?w = "(write_cache ?h (caches w live) w)\<lparr>next_cache := ?h + 1\<rparr>"
  have c: "caches ?w ?h = caches w0 (programs_cache (vm_accounts s))"
    using Cons.prems(1) by (simp add: write_cache_def live)
  have run: "run_worker (vm_handlers E L cv ce) k txs chunk
      (worker_vm s (runtime_from_vm s) (Batch k 0) w) =
    map_option (\<lambda>rs. (?w, [], rs)) (those (map (stage_outcome (vm_handlers E L cv ce) s k txs w0) chunk))"
    using run_worker_outcomes [OF sc c] c dr Cons.prems(3)
    by (simp add: worker_vm_eq flip: live)
  have "map_option snd (run_workers (vm_handlers E L cv ce) s k txs chunks ?w) =
     map_option (\<lambda>rs. ([], rs))
       (those (map (stage_outcome (vm_handlers E L cv ce) s k txs w0) (concat chunks)))"
    using Cons by (intro Cons.IH) (simp_all add: write_cache_def)
  then show ?case
    by (cases "run_workers (vm_handlers E L cv ce) s k txs chunks ?w";
        cases "those (map (stage_outcome (vm_handlers E L cv ce) s k txs w0) (concat chunks))")
      (auto simp: run those_append split: option.split bind_splits)
qed simp

lemma those_Some_iff: "those xs = Some ys \<longleftrightarrow> xs = map Some ys"
  by (induction xs arbitrary: ys) (auto split: option.splits)

lemma those_None_iff: "those xs = None \<longleftrightarrow> None \<in> set xs"
  by (induction xs) (auto split: option.splits)

lemma stage_outcome_index: "stage_outcome Hs s k txs w i = Some r \<Longrightarrow> bs_index r = i"
  by (auto simp: stage_outcome_def Let_def case_prod_beta)

text \<open>Sorting collected results by index undoes any reordering of the indexes.\<close>

lemma those_sort_perm:
  assumes p: "mset js = mset is" and s: "sorted_wrt (<) is"
    and key: "\<And>i r. f i = Some r \<Longrightarrow> key r = (i :: nat)"
  shows "map_option (sort_key key) (those (map f js)) = those (map f is)"
proof (cases "those (map f is)")
  case None
  with p show ?thesis by (metis those_None_iff list.set_map mset_eq_setD option.map_disc_iff)
next
  case (Some rs)
  then have rs: "map f is = map Some rs" by (simp add: those_Some_iff)
  define g where "g i = the (f i)" for i
  have f: "f i = Some (g i)" if "i \<in> set is" for i
    using rs that by (metis g_def imageI list.set_map image_iff option.sel)
  have js: "those (map f js) = Some (map g js)"
    using f mset_eq_setD [OF p] by (auto simp: those_Some_iff)
  have "rs = map the (map f is)" by (simp add: rs comp_def)
  then have rs': "rs = map g is" by (simp add: g_def comp_def)
  have kg: "key (g i) = i" if "i \<in> set is" for i using f key that by blast
  have "sort_key key (map g js) = rs"
  proof (rule sort_key_inj_key_eq)
    show "mset (map g js) = mset rs" using p by (simp add: rs')
    show "inj_on key (set (map g js))"
      using kg mset_eq_setD [OF p] by (auto simp: inj_on_def)
    show "sorted (map key rs)"
      using s kg by (simp add: rs' comp_def map_idI strict_sorted_imp_sorted cong: map_cong)
  qed
  with js Some show ?thesis by simp
qed

text \<open>
  C3. A parallel stage has exactly one outcome. However the thread pool splits the stage
  among workers and in whatever order each runs its share, the collected results, sorted by
  index, are the results of executing each transaction alone and readonly on the snapshot the
  stage started from, in submission order; if one of those panics the stage does; and no
  inspector hook fires. Workers run the default handler, and the program runtime keeps its
  scratch entries out of the committed part of the program cache.
\<close>

theorem parallel_stage_deterministic:
  assumes "scratch_only E committed"
    and "pc_drain E (caches w (programs_cache (vm_accounts s))) =
      caches w (programs_cache (vm_accounts s))"
    and "programs_cache (vm_accounts s) < next_cache w"
    and "mset (concat (sched (transaction_indexes stage))) = mset (transaction_indexes stage)"
    and "sorted_wrt (<) (transaction_indexes stage)"
    and "list_all (\<lambda>i. i < length txs \<and>
      registry s (tag_of (txs ! i)) = Some DefaultExecutionHandler) (transaction_indexes stage)"
  shows "map_option (\<lambda>(w', evs, rs). (evs, sort_key bs_index rs))
       (execute_transaction_batch_stage sched (vm_handlers E L cv ce) s k stage txs w) =
     map_option (\<lambda>rs. ([], rs))
       (those (map (stage_outcome (vm_handlers E L cv ce) s k txs w) (transaction_indexes stage)))"
proof -
  let ?o = "stage_outcome (vm_handlers E L cv ce) s k txs w"
  let ?chunks = "sched (transaction_indexes stage)"
  have "set (concat ?chunks) = set (transaction_indexes stage)"
    using assms(4) by (rule mset_eq_setD)
  then have ok: "list_all (list_all (\<lambda>i. i < length txs \<and>
      registry s (tag_of (txs ! i)) = Some DefaultExecutionHandler)) ?chunks"
    using assms(6) by (auto simp: list_all_iff)
  have "map_option (\<lambda>(w', evs, rs). (evs, sort_key bs_index rs))
      (execute_transaction_batch_stage sched (vm_handlers E L cv ce) s k stage txs w) =
    map_option (\<lambda>(evs, rs). (evs, sort_key bs_index rs))
      (map_option snd (run_workers (vm_handlers E L cv ce) s k txs ?chunks w))"
    by (cases "run_workers (vm_handlers E L cv ce) s k txs ?chunks w")
      (auto simp: execute_transaction_batch_stage_def)
  also have "\<dots> = map_option (\<lambda>rs. ([], rs)) (map_option (sort_key bs_index) (those (map ?o (concat ?chunks))))"
    by (simp add: run_workers_outcomes [OF assms(1) refl assms(3) refl assms(2) ok]
        option.map_comp comp_def)
  also have "map_option (sort_key bs_index) (those (map ?o (concat ?chunks))) =
    those (map ?o (transaction_indexes stage))"
    using assms(4,5) stage_outcome_index by (rule those_sort_perm)
  finally show ?thesis .
qed

section \<open>Result slots\<close>

definition filled :: "'a option list \<Rightarrow> nat set" where
  "filled slots = {i. i < length slots \<and> slots ! i \<noteq> None}"

lemma set_slot_filled:
  "set_slot i r slots = Some slots' \<Longrightarrow>
     length slots' = length slots \<and> filled slots' = insert i (filled slots)"
  by (auto simp: set_slot_def filled_def nth_list_update split: if_splits)

lemma merge_stage_filled:
  "merge_stage X L rs v slots = Some (v', slots') \<Longrightarrow>
     length slots' = length slots \<and> filled slots' = filled slots \<union> bs_index ` set rs \<and>
     inspection_origin (snd v') = inspection_origin (snd v)"
proof (induction X L rs v slots rule: merge_stage.induct)
  case (2 X L r rs w s slots)
  from 2(2) obtain w1 a1 h u slots1
    where a: "apply_commit_delta X L (bs_delta r) (w, vm_accounts s) (vm_history s) = ((w1, a1), h, Inr u)"
      and sl: "set_slot (bs_index r) (bs_result r) slots = Some slots1"
      and m: "merge_stage X L rs (w1, s\<lparr>vm_accounts := a1, vm_history := h\<rparr>) slots1 = Some (v', slots')"
    by (auto split: prod.splits sum.splits option.splits)
  from 2(1) [OF a [symmetric] refl refl refl sl m] set_slot_filled [OF sl]
  show ?case by simp
qed simp

lemma worker_step_index:
  "worker_step Hs k txs i v = Some (v', evs, r) \<Longrightarrow> bs_index r = i"
  by (auto simp: worker_step_def Let_def case_prod_beta split: option.splits)

lemma run_worker_indexes:
  "run_worker Hs k txs chunk v = Some (w', evs, rs) \<Longrightarrow> map bs_index rs = chunk"
proof (induction chunk arbitrary: v w' evs rs)
  case (Cons i chunk)
  then show ?case by (auto simp: worker_step_index split: option.splits)
qed simp

lemma run_workers_indexes:
  "run_workers Hs s k txs chunks w = Some (w', evs, rs) \<Longrightarrow> map bs_index rs = concat chunks"
proof (induction chunks arbitrary: w w' evs rs)
  case (Cons chunk chunks)
  then show ?case by (auto simp: run_worker_indexes split: option.splits)
qed simp

lemma run_single_filled:
  assumes "run_single X L Hs txs k i v slots = Some (v', evs, slots')"
  shows "length slots' = length slots \<and> filled slots' = insert i (filled slots) \<and>
     inspection_origin (snd v') = inspection_origin (snd v)"
proof -
  from assms obtain tx res
    where s: "set_slot i res slots = Some slots'"
      and o: "with_transaction_origin (Batch k i) (send_transaction X L Hs tx) v = Some (v', evs, res)"
    by (auto simp: run_single_def split: option.splits)
  from o have "inspection_origin (snd v') = inspection_origin (snd v)"
    by (auto simp: with_transaction_origin_def Let_def split: prod.splits)
  with set_slot_filled [OF s] show ?thesis by simp
qed

lemma run_parallel_filled:
  assumes "run_parallel sched X L Hs txs k stage v slots = Some (v', evs, slots')"
    and "mset (concat (sched (transaction_indexes stage))) = mset (transaction_indexes stage)"
  shows "length slots' = length slots \<and> filled slots' = filled slots \<union> set (transaction_indexes stage) \<and>
     inspection_origin (snd v') = inspection_origin (snd v)"
proof -
  from assms(1) obtain w' rs
    where x: "run_workers Hs (snd v) k txs (sched (transaction_indexes stage)) (fst v) = Some (w', evs, rs)"
      and m: "merge_stage X L (sort_key bs_index rs) (w', snd v) slots = Some (v', slots')"
    by (auto simp: run_parallel_def execute_transaction_batch_stage_def split: option.splits)
  have "bs_index ` set rs = set (concat (sched (transaction_indexes stage)))"
    using run_workers_indexes [OF x] by (metis list.set_map)
  also have "\<dots> = set (transaction_indexes stage)" using assms(2) by (rule mset_eq_setD)
  finally show ?thesis using merge_stage_filled [OF m] by simp
qed

lemma prewarm_stage_origin:
  "inspection_origin (snd (fst (prewarm_stage X display stage txs v))) = inspection_origin (snd v)"
  by (simp add: prewarm_stage_def Let_def svm_prewarm_programs_def svm_sync_jit_policy_def
      map_err_def split: prod.split sum.split hpsvm_error.split)

lemma run_stages_filled:
  assumes "\<And>is. mset (concat (sched is)) = mset is"
    and "run_stages sched display X L Hs txs its v slots = Some (v', evs, r)"
  shows "inspection_origin (snd v') = inspection_origin (snd v) \<and>
     (case r of Inl e \<Rightarrow> True
      | Inr slots' \<Rightarrow> length slots' = length slots \<and>
          filled slots' = filled slots \<union> \<Union> (set ` transaction_indexes ` snd ` set its))"
  using assms(2)
proof (induction its arbitrary: v slots evs)
  case (Cons it its)
  obtain k stage where it: "it = (k, stage)" by (cases it)
  show ?case
  proof (cases "length (transaction_indexes stage) = 1")
    case True
    then obtain i where i: "transaction_indexes stage = [i]" by (cases "transaction_indexes stage") auto
    with Cons.prems obtain v1 evs1 slots1 evs2
      where s: "run_single X L Hs txs k i v slots = Some (v1, evs1, slots1)"
        and rest: "run_stages sched display X L Hs txs its v1 slots1 = Some (v', evs2, r)"
      by (auto simp: it split: option.splits)
    from Cons.IH [OF rest] run_single_filled [OF s] show ?thesis
      by (cases r) (auto simp: it i)
  next
    case False
    obtain v0 pr where p: "prewarm_stage X display stage txs v = (v0, pr)" by fastforce
    then have o: "inspection_origin (snd v0) = inspection_origin (snd v)"
      using prewarm_stage_origin [of X display stage txs v] by simp
    show ?thesis
    proof (cases pr)
      case (Inl e)
      with Cons.prems p o False show ?thesis by (auto simp: it)
    next
      case (Inr u)
      with Cons.prems p False obtain v1 evs1 slots1 evs2
        where s: "run_parallel sched X L Hs txs k stage v0 slots = Some (v1, evs1, slots1)"
          and rest: "run_stages sched display X L Hs txs its v1 slots1 = Some (v', evs2, r)"
        by (auto simp: it split: option.splits)
      from Cons.IH [OF rest] run_parallel_filled [OF s assms(1)] o show ?thesis
        by (cases r) (auto simp: it)
    qed
  qed
qed auto

text \<open>
  C15. Every transaction of a batch is answered: once planning succeeds and the stages run
  through, the invariant the code checks with \<open>expect\<close> holds, so the batch returns exactly
  one result per submitted transaction, under any distribution of the transactions over
  workers; and whether it succeeds or fails the VM is back at its own transaction origin.
\<close>

theorem batch_all_answered:
  assumes "\<And>is. mset (concat (sched is)) = mset is"
    and "plan_transaction_batch E (snd v) txs = Inr plan"
    and "run_stages sched display (db E) L Hs txs (enumerated (plan_stages plan)) v
      (replicate (length txs) None) = Some (v', evs, r)"
  shows "inspection_origin (snd v') = inspection_origin (snd v) \<and>
     (case r of
        Inl e \<Rightarrow> send_transaction_batch sched display E L Hs txs v = Some (v', evs, Inl e)
      | Inr slots \<Rightarrow> \<exists>results. slots = map Some results \<and> length results = length txs \<and>
          send_transaction_batch sched display E L Hs txs v =
            Some (v', evs, Inr \<lparr>result_plan = plan, result_results = results\<rparr>))"
proof -
  note run = run_stages_filled [OF assms(1,3)]
  show ?thesis
  proof (cases r)
    case (Inl e)
    with run assms(2,3) show ?thesis by (simp add: send_transaction_batch_def)
  next
    case (Inr slots)
    have "set (concat (map transaction_indexes (plan_stages plan))) = {0..<length txs}"
      using plan_covers [OF assms(2)] by (metis mset_eq_setD set_upt)
    moreover have "snd ` set (enumerated xs) = set xs" for xs :: "transaction_batch_stage list"
      by (simp add: enumerated_def flip: set_map)
    ultimately have "filled slots = {0..<length txs}" and len: "length slots = length txs"
      using run Inr by (auto simp: filled_def)
    then have all: "list_all (\<lambda>r. r \<noteq> None) slots"
      by (auto simp: list_all_length filled_def)
    then have "slots = map Some (map the slots)"
      by (auto simp: list_all_iff intro!: nth_equalityI)
    with all len run Inr assms(2,3) show ?thesis
      by (auto simp: send_transaction_batch_def intro!: exI [of _ "map the slots"])
  qed
qed

end
