(* ===== verification/Example_Exec.thy ===== *)
theory Example_Exec
  imports Replay_Props
begin

text \<open>
  A concrete runtime for the executor: an invoke context that holds the accounts and adds a
  byte to the data of the first one per instruction, failing on instructions with empty data.
  It is the instance at which the execution properties are evaluated.
\<close>

record ex_ic =
  xi_accounts :: "(address \<times> account) list"
  xi_todo :: "bytes list"
  xi_cache :: ex_cache

definition ex_touch :: "(address \<times> account) list \<Rightarrow> (address \<times> account) list" where
  "ex_touch accs = (case accs of [] \<Rightarrow> [] | (k, acc) # rest \<Rightarrow> (k, acc\<lparr>data := 1 # data acc\<rparr>) # rest)"

definition ex_process :: "ex_ic \<Rightarrow> ex_ic \<times> u64 \<times> (instruction_error + unit)" where
  "ex_process ic =
     (case xi_todo ic of
        [] \<Rightarrow> (ic, 0, Inl InvalidArgument)
      | d # ds \<Rightarrow>
          (ic\<lparr>xi_accounts := ex_touch (xi_accounts ic), xi_todo := ds\<rparr>, 150,
           if d = [] then Inl InvalidAccountData else Inr ()))"

definition ex_stx :: "bytes \<Rightarrow> sanitized_tx" where
  "ex_stx d =
     \<lparr>tx_signature = 7, account_keys = [Pubkey 2, NativeLoader],
      tx_instructions = [\<lparr>program_id_index = 1, ci_accounts = [0], ci_data = d\<rparr>],
      program_instructions = [(NativeLoader, \<lparr>program_id_index = 1, ci_accounts = [0], ci_data = d\<rparr>)],
      recent_blockhash = 0, is_writable = (\<lambda>i. i = 0), is_invoked = (\<lambda>i. i = 1),
      is_instruction_account = (\<lambda>i. i = 0)\<rparr>"

definition ex_limits :: compute_budget_limits where
  "ex_limits = \<lparr>limits_compute_unit_limit = 200000, updated_heap_bytes = 32768, prioritization_fee = 0\<rparr>"

definition ex_exec :: "(ex_cache, bytes, ex_store, ex_ic) exec_ext" where
  "ex_exec =
     \<lparr>db = ex_ext, gate_id = (\<lambda>g. Pubkey 900),
      try_create = (\<lambda>tx c rk. if vt_body tx = 0 then SanitizeDone (Inl SanitizeFailure)
        else SanitizeDone (Inr (ex_stx (if vt_body tx = 1 then [] else [9])))),
      tx_verify = (\<lambda>stx. Inr ()), validate_account_locks = (\<lambda>stx n. Inr ()),
      process_compute_budget_instructions = (\<lambda>stx fs. Inr ex_limits),
      calculate_fee = (\<lambda>stx l p. l + p),
      budget_new_with_defaults = (\<lambda>b. \<lparr>compute_unit_limit = 0, heap_size = 0, budget_costs = 0\<rparr>),
      system_account_kind_of = (\<lambda>acc. Some SystemKind), nonce_state_size = 80,
      instructions_data = (\<lambda>stx. Some []), durable_nonce = (\<lambda>h. h + 1),
      get_durable_nonce = (\<lambda>stx. None), verify_nonce_account = (\<lambda>acc h. None),
      get_ix_signers = (\<lambda>stx i. []),
      ic_new = (\<lambda>accs r b n lim bh env sv pc. \<lparr>xi_accounts = accs, xi_todo = [], xi_cache = pc\<rparr>),
      prepare_top_level = (\<lambda>ic stx. (ic\<lparr>xi_todo := map ci_data (tx_instructions stx)\<rparr>, Inr ())),
      is_precompile = (\<lambda>ic k. False),
      process_precompile = (\<lambda>ic k d ds. (ic, Inr ())), process_instruction = ex_process,
      ic_logs = (\<lambda>ic. [''log'']), ic_accounts = xi_accounts,
      ic_return_data = (\<lambda>ic. (default_address, [])), ic_trace = (\<lambda>ic. []), ic_cache = xi_cache,
      pc_drain = (\<lambda>c. c), mint_len = 82, mint_unpack = (\<lambda>b. None), token_len = 165,
      token_unpack = (\<lambda>b. None)\<rparr>"

definition ex_funded :: accounts where
  "ex_funded =
     add_account_no_checks (Pubkey 2) (ex_account 9000)
       (ex_db0\<lparr>sysvar_cache := default_sysvar_cache\<lparr>get_rent := Some ex_rent\<rparr>\<rparr>)"

definition ex_vm :: "ex_history svm" where
  "ex_vm = (ex_svm ex_funded)\<lparr>materialized := default_materialized\<lparr>m_sysvars := True\<rparr>\<rparr>"

definition ex_tx :: "nat \<Rightarrow> versioned_tx" where
  "ex_tx n =
     \<lparr>vt_signatures = [7], vt_version = MessageLegacy,
      static_account_keys = [Pubkey 2, NativeLoader], address_table_lookups = None, vt_body = n\<rparr>"

lemmas ex_exec_defs = ex_exec_def ex_limits_def ex_stx_def ex_vm_def ex_svm_def ex_version_def
  base_version_def default_materialized_def

lemma ex_vm_fields [simp]:
  "vm_accounts ex_vm = ex_funded" "vm_version ex_vm = ex_version"
  "vm_history ex_vm = history_new list_lru_ops" "vm_inspector ex_vm = None"
  by (simp_all add: ex_vm_def ex_svm_def)

lemma ex_lookup:
  "try_get_account ex_funded (Pubkey 2) = Inr (Some (ex_account 9000))"
  "try_get_account ex_funded NativeLoader = Inr None"
  by (simp_all add: try_get_account_def get_account_ref_def ex_funded_def
      add_account_no_checks_def db_simps accounts_default_def empty_account_source_def Let_def)

lemma ex_charge:
  "validate_fee_payer (\<lambda>acc. Some SystemKind) 80 (Pubkey 2) (ex_account 9000) 0 ex_rent 5000 =
     Some (ex_account 4000, Inr ())"
  by (simp add: validate_fee_payer_cases payer_min_balance_def ex_account_def default_account_def
      check_rent_state_with_account_def get_account_rent_state_def ex_rent_def)

definition ex_loaded :: loaded_tx where
  "ex_loaded =
     \<lparr>lt_budget = \<lparr>compute_unit_limit = 200000, heap_size = 32768, budget_costs = 0\<rparr>,
      lt_rent = ex_rent, lt_fee = 5000,
      lt_accounts = [(Pubkey 2, ex_account 4000), (NativeLoader, default_account)],
      lt_payer = Some (Pubkey 2), lt_indices = [1], lt_failures = []\<rparr>"

lemma ex_load_transaction:
  "load_transaction ex_exec ex_vm (ex_stx d) ex_limits fl = Some (Inr ex_loaded)"
proof -
  have fee: "transaction_fee ex_exec ex_vm (ex_stx d) ex_limits = 5000"
    by (simp add: transaction_fee_def ex_exec_defs)
  have rent: "get_rent (sysvar_cache ex_funded) = Some ex_rent"
    by (simp add: ex_funded_def add_account_no_checks_def db_simps)
  have keys: "enumerated (account_keys (ex_stx d)) = [(0, Pubkey 2), (Suc 0, NativeLoader)]"
    by (simp add: ex_stx_def enumerated_def)
  have flds: "system_account_kind_of ex_exec = (\<lambda>acc. Some SystemKind)"
    "nonce_state_size ex_exec = 80" "is_invoked (ex_stx d) = (\<lambda>i. i = 1)"
    by (simp_all add: ex_exec_def ex_stx_def)
  have la: "load_accounts ex_exec ex_vm (ex_stx d) ex_rent 5000
      [(0, Pubkey 2), (Suc 0, NativeLoader)] None [] =
      Some (Inr ([(Pubkey 2, ex_account 4000), (NativeLoader, default_account)], Some (Pubkey 2)))"
    by (simp add: ex_lookup flds ex_charge)
  have "transaction_budget ex_exec ex_vm ex_limits fl =
      \<lparr>compute_unit_limit = 200000, heap_size = 32768, budget_costs = 0\<rparr>"
    by (simp add: transaction_budget_def ex_exec_defs)
  then show ?thesis
    by (simp add: load_transaction_def fee rent keys la ex_loaded_def del: load_accounts.simps)
      (simp add: ex_stx_def list_get_def)
qed

lemma ex_pre_checks: "pre_checks ex_exec list_lru_ops ex_vm (ex_stx d) = Inr ex_limits"
  by (simp add: pre_checks_def require_sysvars_loaded_def maybe_blockhash_check_def
      get_compute_budget_limits_def maybe_history_check_def ex_exec_defs)

lemma ex_trace_wf: "trace_wf (ic_trace ex_exec ic)"
  by (simp add: trace_wf_def ex_exec_def)

definition ex_flags :: tx_feature_flags where
  "ex_flags = load_flags (gate_id ex_exec) (feature_set ex_version)"

theorem fee_charged_once_witness:
  "\<exists>lt. load_transaction ex_exec ex_vm (ex_stx [9]) ex_limits ex_flags = Some (Inr lt) \<and>
     map fst (lt_accounts lt) = account_keys (ex_stx [9]) \<and> lt_fee lt = 5000 \<and>
     snd (lt_accounts lt ! 0) = ex_account 4000"
  using fee_charged_once [OF ex_load_transaction [of "[9]" ex_flags]]
    ex_load_transaction [of "[9]" ex_flags]
  by (intro exI [of _ ex_loaded]) (simp add: ex_loaded_def)

lemma ex_select_mode: "vm_inspector s = None \<Longrightarrow> select_mode s = NoInspector"
  by (simp add: select_mode_def svm_inspector_live_def inspector_accepts_origin_def is_some_and_def)

lemma ex_execute_readonly:
  assumes "vm_inspector s = None" and "vm_version s = ex_version"
  shows "execute_readonly ex_exec L s (ex_tx n) w =
     (if n = 0 then Some (w, [], [], exec_failure SanitizeFailure)
      else execute_sanitized_transaction ex_exec L NoInspector s
             (ex_stx (if n = 1 then [] else [9])) ex_flags w)"
  using assms
  by (simp add: execute_readonly_def execute_transaction_no_verify_readonly_def ex_select_mode
      sanitize_transaction_no_verify_with_policy_def sanitize_error_into_execution_result_def
      Let_def ex_flags_def)
    (simp add: ex_exec_def ex_tx_def ex_version_def sanitize_error_into_execution_result_def)

theorem not_included_no_effect_witness:
  "\<exists>er. execute_readonly ex_exec list_lru_ops ex_vm (ex_tx 0) ex_world0 =
       Some (ex_world0, [], [], er) \<and> er_post_accounts er = [] \<and>
     tx_result er = Inl SanitizeFailure"
proof -
  have r: "execute_readonly ex_exec list_lru_ops ex_vm (ex_tx 0) ex_world0 =
      Some (ex_world0, [], [], exec_failure SanitizeFailure)"
    by (simp add: ex_execute_readonly)
  have "\<not> er_included (exec_failure SanitizeFailure)"
    by (simp add: exec_failure_def default_execution_result_def)
  from not_included_no_effect [OF r this] r show ?thesis
    by (intro exI [of _ "exec_failure SanitizeFailure"]) (simp add: exec_failure_def)
qed

definition ex_context :: "bytes \<Rightarrow> ex_ic" where
  "ex_context d =
     \<lparr>xi_accounts = ex_touch (lt_accounts ex_loaded), xi_todo = [], xi_cache = caches ex_world0 0\<rparr>"

lemma ex_process_message:
  "process_message ex_exec mode s (ex_stx d) [1]
     (new_context ex_exec ex_vm (ex_stx d) ex_loaded (caches ex_world0 0)) =
   (ex_context d, 150,
    fire mode s (InstructionStart 0 NativeLoader) @ fire mode s (InstructionEnd 0 NativeLoader),
    if d = [] then Inl (InstructionError 0 InvalidAccountData) else Inr ())"
  by (simp add: process_message_def new_context_def ex_exec_def ex_stx_def ex_process_def
      ex_context_def saturating_add_def)

theorem message_hooks_balanced_witness:
  "\<exists>ic evs. process_message ex_exec DynInspector (ex_vm\<lparr>vm_inspector := Some DefaultOrigins\<rparr>)
       (ex_stx []) [1] (new_context ex_exec ex_vm (ex_stx []) ex_loaded (caches ex_world0 0)) =
       (ic, 150, evs, Inl (InstructionError 0 InvalidAccountData)) \<and>
     evs = [InstructionStart 0 NativeLoader, InstructionEnd 0 NativeLoader]"
proof -
  let ?s = "ex_vm\<lparr>vm_inspector := Some DefaultOrigins\<rparr>"
  let ?ic = "new_context ex_exec ex_vm (ex_stx []) ex_loaded (caches ex_world0 0)"
  have pm: "process_message ex_exec DynInspector ?s (ex_stx []) [1] ?ic =
      (ex_context [], 150, [InstructionStart 0 NativeLoader, InstructionEnd 0 NativeLoader],
       Inl (InstructionError 0 InvalidAccountData))"
    by (simp add: ex_process_message fire_def)
  from message_hooks_balanced [OF pm] pm show ?thesis by blast
qed

definition ex_broken :: accounts where
  "ex_broken =
     ex_funded\<lparr>source := \<lparr>source_get_account = (\<lambda>k. Inl (source_error_new ''down'')),
                        source_get_accounts = (\<lambda>ks. Inl (source_error_new ''down''))\<rparr>\<rparr>"

lemma ex_broken_lookup:
  "try_get_account ex_broken (Pubkey 2) = Inr (Some (ex_account 9000))"
  "try_get_account ex_broken NativeLoader = Inl (source_error_new ''down'')"
  "try_get_account ex_broken BpfLoader = Inl (source_error_new ''down'')"
  by (simp_all add: try_get_account_def get_account_ref_def ex_broken_def ex_funded_def
      add_account_no_checks_def db_simps accounts_default_def)

lemma ex_broken_load:
  "load_transaction ex_exec (ex_vm\<lparr>vm_accounts := ex_broken\<rparr>) (ex_stx [9]) ex_limits ex_flags =
     Some (Inl (execution_result_with_account_source_error NativeLoader (source_error_new ''down'')
       AccountNotFound 5000))"
proof -
  let ?s = "ex_vm\<lparr>vm_accounts := ex_broken\<rparr>"
  have fee: "transaction_fee ex_exec ?s (ex_stx [9]) ex_limits = 5000"
    by (simp add: transaction_fee_def ex_exec_defs)
  have rent: "get_rent (sysvar_cache ex_broken) = Some ex_rent"
    by (simp add: ex_broken_def ex_funded_def add_account_no_checks_def db_simps)
  have keys: "enumerated (account_keys (ex_stx [9])) = [(0, Pubkey 2), (Suc 0, NativeLoader)]"
    by (simp add: ex_stx_def enumerated_def)
  have flds: "system_account_kind_of ex_exec = (\<lambda>acc. Some SystemKind)"
    "nonce_state_size ex_exec = 80" "is_invoked (ex_stx [9]) = (\<lambda>i. i = 1)"
    by (simp_all add: ex_exec_def ex_stx_def)
  have "load_accounts ex_exec ?s (ex_stx [9]) ex_rent 5000
      [(0, Pubkey 2), (Suc 0, NativeLoader)] None [] =
      Some (Inl (execution_result_with_account_source_error NativeLoader
        (source_error_new ''down'') AccountNotFound 5000))"
    by (simp add: ex_broken_lookup flds ex_charge)
  then show ?thesis
    by (simp add: load_transaction_def fee rent keys Let_def del: load_accounts.simps)
qed

theorem fatal_is_source_failure_witness:
  "\<exists>er. execute_readonly ex_exec list_lru_ops (ex_vm\<lparr>vm_accounts := ex_broken\<rparr>) (ex_tx 2) ex_world0 =
       Some (ex_world0, [], [], er) \<and>
     er_fatal er = Some (ExecAccountSource NativeLoader (source_error_new ''down'')) \<and>
     \<not> er_included er"
proof -
  let ?s = "ex_vm\<lparr>vm_accounts := ex_broken\<rparr>"
  let ?er = "execution_result_with_account_source_error NativeLoader (source_error_new ''down'')
      AccountNotFound 5000"
  have "pre_checks ex_exec list_lru_ops ?s (ex_stx [9]) = Inr ex_limits"
    by (simp add: pre_checks_def require_sysvars_loaded_def maybe_blockhash_check_def
        get_compute_budget_limits_def maybe_history_check_def ex_exec_defs)
  then have r: "execute_readonly ex_exec list_lru_ops ?s (ex_tx 2) ex_world0 =
      Some (ex_world0, [], [], ?er)"
    by (simp add: ex_execute_readonly execute_sanitized_transaction_def
        check_and_process_transaction_def process_transaction_def ex_broken_load)
  have f: "er_fatal ?er = Some (ExecAccountSource NativeLoader (source_error_new ''down''))"
    by (simp add: execution_result_with_account_source_error_def)
  from fatal_is_source_failure [OF r f] r f show ?thesis by blast
qed

theorem owner_source_failure_not_fatal_witness:
  "\<exists>er. resolve_program_indices (ex_vm\<lparr>vm_accounts := ex_broken\<rparr>) [(Pubkey 5, ex_program [7])] 5000
       [\<lparr>program_id_index = 0, ci_accounts = [], ci_data = []\<rparr>] [] = Inl er \<and> er_fatal er = None \<and>
     er_source_failures er =
       [\<lparr>asf_pubkey = BpfLoader, asf_error = ''Unavailable: down''\<rparr>]"
proof -
  let ?ci = "\<lparr>program_id_index = 0, ci_accounts = [], ci_data = []\<rparr> :: compiled_instruction"
  have g: "list_get [(Pubkey 5, ex_program [7])] (unat (program_id_index ?ci)) =
      Some (Pubkey 5, ex_program [7])"
    by (simp add: list_get_def)
  have p: "Pubkey 5 \<noteq> NativeLoader" "executable (ex_program [7])"
    "owner (ex_program [7]) \<noteq> NativeLoader"
    "try_get_account (vm_accounts (ex_vm\<lparr>vm_accounts := ex_broken\<rparr>)) (owner (ex_program [7])) =
      Inl (source_error_new ''down'')"
    by (simp_all add: ex_program_def ex_broken_lookup)
  have "source_error_to_string (source_error_new ''down'') = ''Unavailable: down''"
    by (simp add: source_error_to_string_def source_error_new_def)
  moreover have "owner (ex_program [7]) = BpfLoader" by (simp add: ex_program_def)
  ultimately show ?thesis
    using owner_source_failure_not_fatal [OF g p, of 5000 "[]" "[]"] by auto
qed

theorem failed_transaction_keeps_writes_witness:
  "\<exists>w' evs er. execute_sanitized_transaction ex_exec list_lru_ops NoInspector ex_vm (ex_stx [])
       ex_flags ex_world0 = Some (w', evs, [''log''], er) \<and>
     er_included er \<and> tx_result er = Inl (InstructionError 0 InvalidAccountData) \<and>
     er_post_accounts er = [(Pubkey 2, (ex_account 4000)\<lparr>data := [1]\<rparr>)]"
proof -
  have h: "programs_cache (vm_accounts ex_vm) = 0"
    by (simp add: ex_funded_def add_account_no_checks_def db_simps accounts_default_def)
  have pm: "process_message ex_exec NoInspector ex_vm (ex_stx []) (lt_indices ex_loaded)
      (new_context ex_exec ex_vm (ex_stx []) ex_loaded
        (caches ex_world0 (programs_cache (vm_accounts ex_vm)))) =
      (ex_context [], 150, [], Inl (InstructionError 0 InvalidAccountData))"
    unfolding h by (simp add: ex_process_message ex_loaded_def [THEN arg_cong, of lt_indices] fire_def)
  have "writable_accounts (ex_stx []) (ic_accounts ex_exec (ex_context [])) =
      [(Pubkey 2, (ex_account 4000)\<lparr>data := [1]\<rparr>)]"
    by (simp add: writable_accounts_def ex_stx_def ex_exec_def ex_context_def ex_touch_def
        ex_loaded_def enumerated_def ex_account_def default_account_def)
  moreover have "ic_logs ex_exec (ex_context []) = [''log'']" by (simp add: ex_exec_def)
  ultimately show ?thesis
    using failed_transaction_keeps_writes
      [OF ex_pre_checks ex_load_transaction [of "[]" ex_flags] pm ex_trace_wf]
    by (simp only:) blast
qed


lemma ex_scratch_only: "scratch_only ex_exec (\<lambda>c. c)"
  by (simp add: scratch_only_def ex_exec_def ex_process_def split: list.split)


end
