(* ===== verification/Example_Batch.thy ===== *)
theory Example_Batch
  imports Batch_Run_Props Example_Exec
begin

text \<open>
  Concrete batches on the example VM: a runtime that locks the static keys of a message, all
  but the last for writing, and three transactions of which the second conflicts with both
  others.
\<close>

definition ex_batch_exec :: "(ex_cache, bytes, ex_store, ex_ic) exec_ext" where
  "ex_batch_exec = ex_exec\<lparr>try_create := (\<lambda>tx c rk. SanitizeDone (Inr ((ex_stx [9])
     \<lparr>account_keys := static_account_keys tx,
      is_writable := (\<lambda>i. Suc i < length (static_account_keys tx))\<rparr>)))\<rparr>"

definition ex_btx :: "address list \<Rightarrow> versioned_tx" where
  "ex_btx keys =
     \<lparr>vt_signatures = [7], vt_version = MessageLegacy, static_account_keys = keys @ [NativeLoader],
      address_table_lookups = None, vt_body = 2\<rparr>"

definition ex_txs :: "versioned_tx list" where
  "ex_txs = [ex_btx [Pubkey 2], ex_btx [Pubkey 2, Pubkey 3], ex_btx [Pubkey 3]]"

lemma ex_tx_locks:
  "tx_locks ex_batch_exec ex_vm (ex_btx keys) = \<lparr>readonly = {NativeLoader}, writable = set keys\<rparr>"
proof -
  have k: "account_keys ((ex_stx [9])\<lparr>account_keys := keys @ [NativeLoader],
      is_writable := (\<lambda>i. i < length keys)\<rparr>) = keys @ [NativeLoader]"
    by simp
  have e: "set (enumerated (keys @ [NativeLoader])) =
    set (enumerated keys) \<union> {(length keys, NativeLoader)}"
    by (auto simp: enumerated_def enumerate_append_eq)
  have "snd ` {ik \<in> set (enumerated (keys @ [NativeLoader])). fst ik < length keys} =
    snd ` set (enumerated keys)" unfolding e by (force simp: set_enumerated)
  moreover have "snd ` {ik \<in> set (enumerated (keys @ [NativeLoader])). \<not> fst ik < length keys} =
    {NativeLoader}" unfolding e by (force simp: set_enumerated)
  moreover have "snd ` set (enumerated keys) = set keys" by (simp add: enumerated_def flip: set_map)
  ultimately show ?thesis
    by (simp add: tx_locks_def sanitize_transaction_for_batch_def sanitize_transaction_no_verify_def
        sanitize_transaction_no_verify_with_policy_def ex_batch_exec_def ex_btx_def ex_version_def
        lock_set_from_transaction_def Let_def fold_lock_key empty_lock_set_def)
qed

lemma ex_sanitize:
  "\<exists>stx. sanitize_transaction_for_batch ex_batch_exec ex_vm tx = Inr stx"
  by (simp add: sanitize_transaction_for_batch_def sanitize_transaction_no_verify_def
      sanitize_transaction_no_verify_with_policy_def ex_batch_exec_def ex_version_def)

lemma ex_plan_from:
  "plan_from ex_batch_exec ex_vm its stages =
     Inr (fold (\<lambda>(i, tx). schedule_one i (tx_locks ex_batch_exec ex_vm tx)) its stages)"
proof (induction its arbitrary: stages)
  case (Cons it its)
  obtain i tx where it: "it = (i, tx)" by (cases it)
  obtain stx where "sanitize_transaction_for_batch ex_batch_exec ex_vm tx = Inr stx"
    using ex_sanitize by blast
  then show ?case by (simp add: it Cons.IH tx_locks_def)
qed simp

definition ex_plan :: transaction_batch_plan where
  "ex_plan = \<lparr>plan_stages = [\<lparr>transaction_indexes = [0, 2]\<rparr>, \<lparr>transaction_indexes = [1]\<rparr>]\<rparr>"

lemma ex_plan: "plan_transaction_batch ex_batch_exec ex_vm ex_txs = Inr ex_plan"
  by (simp add: plan_transaction_batch_def ex_plan_from ex_txs_def enumerated_def ex_tx_locks
      schedule_one_def best_fit_stage_def consider_stage_def Let_def conflicts_with_def
      is_none_or_def lock_set_extend_def lock_set_len_def ex_plan_def del: plan_from.simps)

text \<open>
  The planner may run conflicting transactions out of order: of three transactions
  writing the accounts A, then A and B, then B, the third joins the first stage while the
  second, submitted before it and in conflict with it over B, has to wait for the second
  stage. A batch is therefore not equivalent to submitting its transactions one by one.
\<close>

theorem plan_reorders_conflicts:
  "plan_transaction_batch ex_batch_exec ex_vm ex_txs =
     Inr \<lparr>plan_stages = [\<lparr>transaction_indexes = [0, 2]\<rparr>, \<lparr>transaction_indexes = [1]\<rparr>]\<rparr> \<and>
   conflicts_with (tx_locks ex_batch_exec ex_vm (ex_txs ! 1))
     (tx_locks ex_batch_exec ex_vm (ex_txs ! 2)) \<and>
   Pubkey 3 \<in> writable (tx_locks ex_batch_exec ex_vm (ex_txs ! 1)) \<inter>
     writable (tx_locks ex_batch_exec ex_vm (ex_txs ! 2))"
  using ex_plan by (simp add: ex_plan_def ex_txs_def ex_tx_locks conflicts_with_def)

theorem plan_schedules_once_witness:
  "\<exists>plan. plan_transaction_batch ex_batch_exec ex_vm ex_txs = Inr plan \<and>
     mset (concat (map transaction_indexes (plan_stages plan))) = mset [0..<length ex_txs] \<and>
     length (plan_stages plan) \<le> 3 \<and> length ex_txs = 3"
proof -
  have "length ex_txs = 3" by (simp add: ex_txs_def)
  with plan_schedules_once [OF ex_plan] ex_plan show ?thesis by auto
qed

theorem plan_conflict_free_witness:
  "plan_transaction_batch ex_batch_exec ex_vm ex_txs = Inr ex_plan \<and>
   writable (tx_locks ex_batch_exec ex_vm (ex_txs ! 0)) = {Pubkey 2} \<and>
   writable (tx_locks ex_batch_exec ex_vm (ex_txs ! 0)) \<inter>
     (writable (tx_locks ex_batch_exec ex_vm (ex_txs ! 2)) \<union>
      readonly (tx_locks ex_batch_exec ex_vm (ex_txs ! 2))) = {}"
proof -
  have "\<lparr>transaction_indexes = [0, 2]\<rparr> \<in> set (plan_stages ex_plan)" by (simp add: ex_plan_def)
  from plan_conflict_free [OF ex_plan this, of 0 2] ex_plan show ?thesis
    by (simp add: ex_txs_def ex_tx_locks)
qed

theorem prewarm_blame_defined_witness:
  "\<exists>e. snd (prewarm_stage ex_ext (\<lambda>e. ''error'') \<lparr>transaction_indexes = [0, 2]\<rparr> ex_txs
        (ex_world0, ex_vm\<lparr>vm_accounts := ex_broken\<rparr>)) = Inl e \<and>
     e = BatchAccountSource 0 (Pubkey 2) (source_error_new ''down'')"
proof -
  let ?stage = "\<lparr>transaction_indexes = [0, 2]\<rparr> :: transaction_batch_stage"
  let ?v = "(ex_world0, ex_vm\<lparr>vm_accounts := ex_broken\<rparr>)"
  have rs: "stage_read_set ?stage ex_txs = [Pubkey 2, NativeLoader, Pubkey 3]"
    by (simp add: stage_read_set_def ex_txs_def ex_btx_def list_get_def)
  have m: "prewarm_missing (cache ex_broken) {} [Pubkey 2, NativeLoader, Pubkey 3] = [NativeLoader, Pubkey 3]"
    by (simp add: ex_broken_def ex_funded_def add_account_no_checks_def db_simps accounts_default_def)
  have s: "source_get_accounts (source ex_broken) ks = Inl (source_error_new ''down'')" for ks
    by (simp add: ex_broken_def)
  have "snd (prewarm_stage ex_ext (\<lambda>e. ''error'') ?stage ex_txs ?v) =
      Inl (BatchAccountSource 0 (Pubkey 2) (source_error_new ''down''))"
    by (simp add: prewarm_stage_def rs prewarm_def m s Let_def batch_source_error_def
        db_error_from_source_def unwrap_or_def del: prewarm_missing.simps)
  from prewarm_blame_defined [OF this] this show ?thesis by blast
qed

text \<open>One worker per transaction, started in reverse order.\<close>

definition ex_sched :: "nat list \<Rightarrow> nat list list" where
  "ex_sched is = map (\<lambda>i. [i]) (rev is)"

lemma ex_sched: "mset (concat (ex_sched is)) = mset is"
proof -
  have "concat (map (\<lambda>i. [i]) js) = js" for js :: "nat list" by (induction js) simp_all
  then show ?thesis by (simp add: ex_sched_def)
qed

theorem parallel_stage_deterministic_witness:
  "list_all (\<lambda>i. i < length [ex_tx 0, ex_tx 2]) [0, 1] \<and>
   map_option (\<lambda>(w', evs, rs). (evs, sort_key bs_index rs))
       (execute_transaction_batch_stage ex_sched
         (vm_handlers ex_exec list_lru_ops (\<lambda>n tx s. Inr ()) (\<lambda>n tx s w. None)) ex_vm 0
         \<lparr>transaction_indexes = [0, 1]\<rparr> [ex_tx 0, ex_tx 2] ex_world0) =
     map_option (\<lambda>rs. ([], rs))
       (those (map (stage_outcome
         (vm_handlers ex_exec list_lru_ops (\<lambda>n tx s. Inr ()) (\<lambda>n tx s w. None)) ex_vm 0
         [ex_tx 0, ex_tx 2] ex_world0) [0, 1]))"
proof -
  have dr: "pc_drain ex_exec (caches ex_world0 (programs_cache (vm_accounts ex_vm))) =
      caches ex_world0 (programs_cache (vm_accounts ex_vm))"
    by (simp add: ex_exec_def)
  have lt: "programs_cache (vm_accounts ex_vm) < next_cache ex_world0"
    by (simp add: ex_funded_def add_account_no_checks_def db_simps accounts_default_def ex_world0_def)
  have reg: "list_all (\<lambda>i. i < length [ex_tx 0, ex_tx 2] \<and>
      registry ex_vm (tag_of ([ex_tx 0, ex_tx 2] ! i)) = Some DefaultExecutionHandler)
      (transaction_indexes \<lparr>transaction_indexes = [0, 1]\<rparr>)"
    by (simp add: ex_vm_def ex_svm_def registry_with_defaults_def registry_register_def
        registry_new_def tag_of_def ex_tx_def)
  show ?thesis
    using parallel_stage_deterministic [where sched = ex_sched
        and stage = "\<lparr>transaction_indexes = [0, 1]\<rparr>" and k = 0,
        OF ex_scratch_only dr lt ex_sched _ reg] by simp
qed

text \<open>Handlers that refuse every transaction.\<close>

definition ex_refuse :: "(ex_cache, ex_store, ex_history) handlers" where
  "ex_refuse =
     \<lparr>handler_validate = (\<lambda>h tx s. Inl (InvalidTx SanitizeFailure)),
      handler_execute = (\<lambda>h tx s w. None)\<rparr>"

lemma ex_refuse_dispatch:
  "\<exists>e. dispatch_detached ex_refuse tx s w = Some (w, [], Inl e)"
  by (simp add: dispatch_detached_def registry_dispatch_def ex_refuse_def split: option.split)

lemma ex_refuse_worker:
  assumes "list_get txs i = Some tx"
  obtains r where "worker_step ex_refuse k txs i (w, l) = Some ((w, l\<lparr>inspection_origin := Batch k i\<rparr>), [], r)"
    and "bs_index r = i" and "bs_delta r = \<lparr>set_post_accounts = [], set_history_entry = None\<rparr>"
proof -
  obtain e where "dispatch_detached ex_refuse tx (l\<lparr>inspection_origin := Batch k i\<rparr>) w = Some (w, [], Inl e)"
    using ex_refuse_dispatch by blast
  then show ?thesis
    using assms that
    by (simp add: worker_step_def transact_detached_def map_outcome_def
        detached_into_result_and_state_change_set_def detached_into_result_and_delta_def Let_def
        for_dispatch_failure_def set_from_delta_def into_parts_def)
qed

lemma ex_refuse_send: "\<exists>v' res. send_transaction X L ex_refuse tx v = Some (v', [], res)"
proof -
  obtain w s where v: "v = (w, s)" by (cases v)
  obtain e where "dispatch_detached ex_refuse tx (svm_sync_jit_policy s) w = Some (w, [], Inl e)"
    using ex_refuse_dispatch by blast
  then show ?thesis by (simp add: v send_transaction_def transact_core_def Let_def)
qed

lemma ex_merge_empty:
  assumes "bs_delta r = \<lparr>set_post_accounts = [], set_history_entry = None\<rparr>" and "bs_index r < length slots"
  shows "merge_stage X L (r # rs) (w, s) slots =
     merge_stage X L rs (w, s) (slots[bs_index r := Some (bs_result r)])"
  using assms
  by (simp add: apply_commit_delta_def sync_accounts_def partition_programdata_def record_entry_def
      set_slot_def)

lemma ex_run_parallel:
  "\<exists>v' slots'. run_parallel ex_sched X L ex_refuse ex_txs 0 \<lparr>transaction_indexes = [0, 2]\<rparr> (w, s)
       (replicate 3 None) = Some (v', [], slots') \<and> length slots' = 3"
proof -
  have g: "list_get ex_txs 2 = Some (ex_btx [Pubkey 3])" "list_get ex_txs 0 = Some (ex_btx [Pubkey 2])"
    by (simp_all add: list_get_def ex_txs_def)
  obtain w1 l1 where v1: "worker_vm s (runtime_from_vm s) (Batch 0 0) w = (w1, l1)" by fastforce
  obtain w2 l2 where v2: "worker_vm s (runtime_from_vm s) (Batch 0 0) w1 = (w2, l2)" by fastforce
  obtain r1 where r1: "worker_step ex_refuse 0 ex_txs 2 (w1, l1) =
      Some ((w1, l1\<lparr>inspection_origin := Batch 0 2\<rparr>), [], r1)" "bs_index r1 = 2"
    "bs_delta r1 = \<lparr>set_post_accounts = [], set_history_entry = None\<rparr>"
    using g(1) by (rule ex_refuse_worker)
  obtain r2 where r2: "worker_step ex_refuse 0 ex_txs 0 (w2, l2) =
      Some ((w2, l2\<lparr>inspection_origin := Batch 0 0\<rparr>), [], r2)" "bs_index r2 = 0"
    "bs_delta r2 = \<lparr>set_post_accounts = [], set_history_entry = None\<rparr>"
    using g(2) by (rule ex_refuse_worker)
  have "execute_transaction_batch_stage ex_sched ex_refuse s 0 \<lparr>transaction_indexes = [0, 2]\<rparr> ex_txs w =
      Some (w2, [], [r1, r2])"
    by (simp add: execute_transaction_batch_stage_def ex_sched_def v1 v2 r1 r2)
  moreover have "sort_key bs_index [r1, r2] = [r2, r1]" using r1 r2 by simp
  ultimately show ?thesis
    using r1 r2 by (simp add: run_parallel_def ex_merge_empty del: replicate.simps merge_stage.simps(2))
qed

lemma ex_prewarm_stage:
  "\<exists>v'. prewarm_stage ex_ext display \<lparr>transaction_indexes = [0, 2]\<rparr> ex_txs (ex_world0, ex_vm) = (v', Inr ())"
proof -
  have rs: "stage_read_set \<lparr>transaction_indexes = [0, 2]\<rparr> ex_txs = [Pubkey 2, NativeLoader, Pubkey 3]"
    by (simp add: stage_read_set_def ex_txs_def ex_btx_def list_get_def)
  have none: "default_get_accounts (\<lambda>_. Inr None) [NativeLoader, Pubkey 3] = Inr [None, None]"
    by (simp add: default_get_accounts_def)
  have pw: "prewarm [Pubkey 2, NativeLoader, Pubkey 3] ex_funded = (ex_funded, Inr ())"
    by (simp add: prewarm_def none ex_funded_def add_account_no_checks_def db_simps accounts_default_def
        empty_account_source_def insert_hits_def Let_def)
  have vm: "svm_sync_jit_policy ex_vm = ex_vm"
    by (simp add: svm_sync_jit_policy_def ex_vm_def ex_svm_def ex_version_def base_version_def
        ex_funded_def add_account_no_checks_def db_simps accounts_default_def)
  have r: "programs_to_resolve ex_ext [Pubkey 2, NativeLoader, Pubkey 3] ex_world0 ex_funded = []"
    by (simp add: programs_to_resolve_def List.map_filter_simps ex_funded_def add_account_no_checks_def
        db_simps accounts_default_def is_cached_program_account_def ex_account_def default_account_def)
  have u: "ex_vm\<lparr>vm_accounts := ex_funded\<rparr> = ex_vm" by (simp add: ex_vm_def ex_svm_def)
  show ?thesis
    by (simp add: prewarm_stage_def rs pw svm_prewarm_programs_def vm prewarm_programs_def r u Let_def)
qed

theorem batch_all_answered_witness:
  "\<exists>v' evs results.
     send_transaction_batch ex_sched (\<lambda>e. ''error'') ex_batch_exec list_lru_ops ex_refuse ex_txs
       (ex_world0, ex_vm) =
       Some (v', evs, Inr \<lparr>result_plan = ex_plan, result_results = results\<rparr>) \<and>
     length results = 3"
proof -
  have len: "length ex_txs = 3" "list_get ex_txs (Suc 0) = Some (ex_btx [Pubkey 2, Pubkey 3])"
    by (simp_all add: ex_txs_def list_get_def)
  have db: "db ex_batch_exec = ex_ext" by (simp add: ex_batch_exec_def ex_exec_def)
  obtain w1 s1 where p: "prewarm_stage ex_ext (\<lambda>e. ''error'') \<lparr>transaction_indexes = [0, 2]\<rparr> ex_txs
      (ex_world0, ex_vm) = ((w1, s1), Inr ())"
    using ex_prewarm_stage by fastforce
  obtain v2 slots where rp: "run_parallel ex_sched ex_ext list_lru_ops ex_refuse ex_txs 0
      \<lparr>transaction_indexes = [0, 2]\<rparr> (w1, s1) (replicate 3 None) = Some (v2, [], slots)"
    and sl: "length slots = 3" using ex_run_parallel by blast
  obtain v3 res where "with_transaction_origin (Batch 1 1)
      (send_transaction ex_ext list_lru_ops ex_refuse (ex_btx [Pubkey 2, Pubkey 3])) v2 = Some (v3, [], res)"
    using ex_refuse_send [of ex_ext list_lru_ops "ex_btx [Pubkey 2, Pubkey 3]"
        "(fst v2, (snd v2)\<lparr>inspection_origin := Batch 1 1\<rparr>)"]
    by (auto simp: with_transaction_origin_def Let_def case_prod_beta)
  then have rs: "run_single ex_ext list_lru_ops ex_refuse ex_txs 1 1 v2 slots =
      Some (v3, [], slots[1 := Some res])"
    using sl by (simp add: run_single_def len set_slot_def)
  have en: "enumerated (plan_stages ex_plan) =
      [(0, \<lparr>transaction_indexes = [0, 2]\<rparr>), (1, \<lparr>transaction_indexes = [1]\<rparr>)]"
    by (simp add: ex_plan_def enumerated_def)
  have run: "run_stages ex_sched (\<lambda>e. ''error'') (db ex_batch_exec) list_lru_ops ex_refuse ex_txs
      (enumerated (plan_stages ex_plan)) (ex_world0, ex_vm) (replicate (length ex_txs) None) =
      Some (v3, [], Inr (slots[1 := Some res]))"
    using rs rp p by (simp add: en db len del: replicate.simps)
  have "plan_transaction_batch ex_batch_exec (snd (ex_world0, ex_vm)) ex_txs = Inr ex_plan"
    using ex_plan by simp
  from batch_all_answered [OF ex_sched this run] len show ?thesis by auto
qed

text \<open>
  Merging a parallel stage panics where a serial submission reports an error: the
  outcome of a transaction that the account database refuses makes \<open>stage_detached\<close> return
  a failure, while the merge of the same outcome from a worker does not return.
\<close>

theorem merge_panics_where_staging_fails:
  "\<exists>w1 s1 f. stage_detached ex_ext ex_deploy_bad_clock (ex_world0, ex_svm ex_clocked) =
       ((w1, s1), Inl f) \<and>
     merge_stage ex_ext list_lru_ops
       [\<lparr>bs_index = 0,
         bs_result = fst (detached_into_result_and_state_change_set ex_deploy_bad_clock True),
         bs_delta = snd (detached_into_result_and_state_change_set ex_deploy_bad_clock True)\<rparr>]
       (ex_world0, ex_svm ex_clocked) [None] = None"
proof -
  obtain w1 f where st: "stage_detached ex_ext ex_deploy_bad_clock (ex_world0, ex_svm ex_clocked) =
       ((w1, ex_svm ex_clocked), Inl f)"
    by (rule ex_bad_stage)
  obtain wa e where "sync_accounts ex_ext [(Pubkey 2, ex_program [7]), (ClockSysvar, ex_account 5)]
      (ex_world0, ex_clocked) = (wa, Inl e)"
  proof (cases "sync_accounts ex_ext [(Pubkey 2, ex_program [7]), (ClockSysvar, ex_account 5)]
      (ex_world0, ex_clocked)")
    case (Pair wa r)
    with st that show ?thesis
      by (cases r; cases wa) (auto simp: stage_detached_def Let_def ex_detached_def take_fatal_def
          detached_into_result_and_delta_def into_parts_def ex_svm_def)
  qed
  then have "merge_stage ex_ext list_lru_ops
       [\<lparr>bs_index = 0,
         bs_result = fst (detached_into_result_and_state_change_set ex_deploy_bad_clock True),
         bs_delta = snd (detached_into_result_and_state_change_set ex_deploy_bad_clock True)\<rparr>]
       (ex_world0, ex_svm ex_clocked) [None] = None"
    by (simp add: apply_commit_delta_def detached_into_result_and_state_change_set_def
        detached_into_result_and_delta_def set_from_delta_def into_parts_def ex_detached_def
        ex_svm_def Let_def)
  with st show ?thesis by blast
qed

end
