(* ===== verification/Tiering.thy ===== *)
theory Tiering
  imports Accounts_Db
begin

text \<open>
  The tier promoter of \<^verbatim>\<open>programs/tiering.rs\<close> and the statistics of \<^verbatim>\<open>programs/tier_stats.rs\<close>. The
  entries of the program cache are shared objects, addressed by number; the JIT compiler and
  the per-entry statistics of the runtime crates are the record \<open>tier_ext\<close>. Promotion is a
  concurrent protocol over atomic counters, so besides the sequential operations there is a
  step relation in which every atomic access of a calling thread or of a pool job is one step.
\<close>

section \<open>Entries and counters\<close>

record tier_entry =
  te_loaded :: bool
  te_compiled :: bool
  te_stats :: program_statistics

type_synonym tier_heap = "nat \<Rightarrow> tier_entry"

text \<open>
  \<open>jit_compile\<close> says whether compiling succeeds and whether a compiled program is there
  afterwards; \<open>jit_compiled\<close> is the runtime's own bookkeeping of a compilation.
\<close>

record tier_ext =
  jit_target :: bool
  jit_compile :: "tier_entry \<Rightarrow> (unit + unit) \<times> bool"
  jit_compiled :: "u64 \<Rightarrow> program_statistics \<Rightarrow> program_statistics"

definition has_compiled_program :: "tier_ext \<Rightarrow> tier_entry \<Rightarrow> bool" where
  "has_compiled_program T e = (jit_target T \<and> te_loaded e \<and> te_compiled e)"

definition entry_is_loaded :: "tier_entry \<Rightarrow> bool" where
  "entry_is_loaded e = te_loaded e"

definition compile_entry :: "tier_ext \<Rightarrow> tier_entry \<Rightarrow> tier_entry \<times> bool" where
  "compile_entry T e =
     (if jit_target T \<and> te_loaded e
      then if te_compiled e then (e, True)
           else let (r, present) = jit_compile T e; e' = e\<lparr>te_compiled := present\<rparr>
                in (case r of Inl _ \<Rightarrow> (e', False) | Inr _ \<Rightarrow> (e', present))
      else (e, False))"

record promotion_stats =
  attempted :: u64
  succeeded :: u64
  failed :: u64
  compile_us :: u64
  dropped :: u64

definition default_promotion_stats :: promotion_stats where
  "default_promotion_stats =
     \<lparr>attempted = 0, succeeded = 0, failed = 0, compile_us = 0, dropped = 0\<rparr>"

record tier_promoter =
  promoter_enabled :: bool
  promoter_threshold :: nat
  has_pool :: bool
  pending :: u64
  max_pending :: u64
  promotion :: promotion_stats

definition usize_max :: nat where
  "usize_max = 2 ^ 64 - 1"

definition pool_threads :: "nat \<Rightarrow> nat" where
  "pool_threads cpus = max 1 (min 4 ((cpus + 1) div 2))"

definition promoter_new :: "bool \<Rightarrow> (nat \<Rightarrow> bool) \<Rightarrow> nat \<Rightarrow> jit_policy \<Rightarrow> tier_promoter" where
  \<comment> \<open>the target, whether a pool of so many threads can be built, and the number of cpus\<close>
  "promoter_new x86 build_pool cpus policy =
     (let (enabled, threshold) =
            (case jit_effective x86 policy of Lazy t \<Rightarrow> (True, t) | _ \<Rightarrow> (False, usize_max));
          enabled' = (enabled \<and> x86);
          pool = (enabled' \<and> build_pool (pool_threads cpus))
      in \<lparr>promoter_enabled = (enabled' \<and> pool), promoter_threshold = threshold, has_pool = pool,
          pending = 0, max_pending = 64, promotion = default_promotion_stats\<rparr>)"

definition promoter_disabled :: tier_promoter where
  "promoter_disabled =
     \<lparr>promoter_enabled = False, promoter_threshold = usize_max, has_pool = False,
      pending = 0, max_pending = 64, promotion = default_promotion_stats\<rparr>"

section \<open>Sequential operations\<close>

definition record_compile ::
    "tier_ext \<Rightarrow> u64 \<Rightarrow> bool \<Rightarrow> tier_entry \<Rightarrow> promotion_stats \<Rightarrow> tier_entry \<times> promotion_stats" where
  "record_compile T elapsed outcome e ps =
     (let ps' = ps\<lparr>compile_us := compile_us ps + elapsed\<rparr>
      in if outcome
         then (e\<lparr>te_stats := jit_compiled T elapsed (te_stats e)\<rparr>,
               ps'\<lparr>succeeded := succeeded ps' + 1\<rparr>)
         else (e, ps'\<lparr>failed := failed ps' + 1\<rparr>))"

definition promote_blocking ::
    "tier_ext \<Rightarrow> (nat \<Rightarrow> u64) \<Rightarrow> nat \<Rightarrow> tier_promoter \<times> tier_heap \<Rightarrow> tier_promoter \<times> tier_heap" where
  \<comment> \<open>the second argument is the time each compilation takes\<close>
  "promote_blocking T elapsed i ph =
     (let (pr, heap) = ph
      in if \<not> promoter_enabled pr \<or> has_compiled_program T (heap i) then (pr, heap)
         else let ps = (promotion pr)\<lparr>attempted := attempted (promotion pr) + 1\<rparr>;
                  (e, outcome) = compile_entry T (heap i);
                  (e', ps') = record_compile T (elapsed i) outcome e ps
              in (pr\<lparr>promotion := ps'\<rparr>, heap(i := e')))"

definition promotable :: "tier_ext \<Rightarrow> tier_entry \<Rightarrow> bool" where
  "promotable T e = (\<not> has_compiled_program T e \<and> entry_is_loaded e)"

text \<open>
  The sweep after a transaction: with threshold 0 every promotable entry is compiled on this
  thread; otherwise the hot ones are handed to \<open>promote\<close>, in this order.
\<close>

definition observe ::
    "tier_ext \<Rightarrow> (nat \<Rightarrow> u64) \<Rightarrow> nat list \<Rightarrow> tier_promoter \<times> tier_heap
      \<Rightarrow> (tier_promoter \<times> tier_heap) \<times> nat list" where
  "observe T elapsed entries ph =
     (let (pr, heap) = ph
      in if \<not> promoter_enabled pr then (ph, [])
         else if promoter_threshold pr = 0
         then (fold (\<lambda>i ph. if promotable T (snd ph i) then promote_blocking T elapsed i ph else ph)
                 entries ph, [])
         else (ph, filter (\<lambda>i. promotable T (heap i) \<and>
                 \<not> interpreted_invocations (te_stats (heap i)) < of_nat (promoter_threshold pr))
                 entries))"

text \<open>What \<open>Svm::prewarm_programs\<close> promotes under a lazy policy, and on which thread.\<close>

definition prewarm_promotions ::
    "tier_ext \<Rightarrow> (nat \<Rightarrow> u64) \<Rightarrow> bool \<Rightarrow> jit_policy \<Rightarrow> (address \<rightharpoonup> nat) \<Rightarrow> address list
      \<Rightarrow> tier_promoter \<times> tier_heap \<Rightarrow> (tier_promoter \<times> tier_heap) \<times> nat list" where
  "prewarm_promotions T elapsed x86 policy lookup_entry program_ids ph =
     (if jit_is_lazy x86 policy
      then let entries = filter (\<lambda>i. \<not> has_compiled_program T (snd ph i))
                 (List.map_filter lookup_entry program_ids)
           in if jit_hot_threshold x86 policy = Some 0
              then (fold (promote_blocking T elapsed) entries ph, [])
              else (ph, entries)
      else (ph, []))"

section \<open>Statistics\<close>

record program_tier_stats =
  pts_policy :: jit_policy
  effective_policy :: jit_policy
  resident_entries :: nat
  cache_entries :: nat
  tier_compilations :: u64
  tier_total_compile_time_us :: u64
  tier_interpreted_invocations :: u64
  tier_jit_invocations :: u64
  promotions_attempted :: u64
  promotions_succeeded :: u64
  promotions_failed :: u64
  promotions_dropped :: u64
  promotion_compile_us :: u64

definition saturating_sum :: "(tier_entry \<Rightarrow> u64) \<Rightarrow> tier_entry list \<Rightarrow> u64" where
  "saturating_sum f entries = fold (\<lambda>e acc. saturating_add acc (f e)) entries 0"

definition tier_stats_collect ::
    "bool \<Rightarrow> jit_policy \<Rightarrow> tier_entry list \<Rightarrow> nat \<Rightarrow> promotion_stats \<Rightarrow> program_tier_stats" where
  "tier_stats_collect x86 policy entries resident ps =
     \<lparr>pts_policy = policy, effective_policy = jit_effective x86 policy,
      resident_entries = resident, cache_entries = length entries,
      tier_compilations = saturating_sum (\<lambda>e. compilations (te_stats e)) entries,
      tier_total_compile_time_us = saturating_sum (\<lambda>e. total_compilation_time_us (te_stats e)) entries,
      tier_interpreted_invocations = saturating_sum (\<lambda>e. interpreted_invocations (te_stats e)) entries,
      tier_jit_invocations = saturating_sum (\<lambda>e. jit_invocations (te_stats e)) entries,
      promotions_attempted = attempted ps, promotions_succeeded = succeeded ps,
      promotions_failed = failed ps, promotions_dropped = dropped ps,
      promotion_compile_us = compile_us ps\<rparr>"

section \<open>The promotion protocol\<close>

text \<open>
  A thread inside \<open>promote\<close>: before its \<open>fetch_add\<close>, after it with the value it read, about
  to take the increment back (and then to count a dropped job, or not when there is no pool),
  or about to count the drop. A pool job: started, compiling, accounting, or about to drop
  its guard.
\<close>

datatype caller = CallAdd nat | CallCheck nat u64 | CallUndo bool | CallDrop

datatype job = JobStart nat | JobCompile nat | JobAccount nat bool u64 | JobGuard

record tier_state = tier_promoter +
  heap :: tier_heap
  callers :: "caller multiset"
  jobs :: "job multiset"

text \<open>The number of threads that may be inside \<open>promote\<close> at once, far below the counter's width.\<close>

definition max_threads :: nat where
  "max_threads = 2 ^ 32"

text \<open>Steps of the threads and jobs that are under way.\<close>

inductive internal_step :: "tier_ext \<Rightarrow> tier_state \<Rightarrow> tier_state \<Rightarrow> bool" for T where
  call_add:
    "callers s = add_mset (CallAdd i) C \<Longrightarrow>
     internal_step T s (s\<lparr>pending := pending s + 1, callers := add_mset (CallCheck i (pending s)) C\<rparr>)"
| call_saturated:
    "callers s = add_mset (CallCheck i p) C \<Longrightarrow> max_pending s \<le> p \<Longrightarrow>
     internal_step T s (s\<lparr>callers := add_mset (CallUndo True) C\<rparr>)"
| call_no_pool:
    "callers s = add_mset (CallCheck i p) C \<Longrightarrow> p < max_pending s \<Longrightarrow> \<not> has_pool s \<Longrightarrow>
     internal_step T s (s\<lparr>callers := add_mset (CallUndo False) C\<rparr>)"
| call_spawn:
    "callers s = add_mset (CallCheck i p) C \<Longrightarrow> p < max_pending s \<Longrightarrow> has_pool s \<Longrightarrow>
     internal_step T s (s\<lparr>callers := C, jobs := add_mset (JobStart i) (jobs s)\<rparr>)"
| call_undo:
    "callers s = add_mset (CallUndo counted) C \<Longrightarrow>
     internal_step T s (s\<lparr>pending := pending s - 1,
       callers := (if counted then add_mset CallDrop C else C)\<rparr>)"
| call_drop:
    "callers s = add_mset CallDrop C \<Longrightarrow>
     internal_step T s (s\<lparr>callers := C,
       promotion := (promotion s)\<lparr>dropped := dropped (promotion s) + 1\<rparr>\<rparr>)"
| job_start:
    "jobs s = add_mset (JobStart i) J \<Longrightarrow>
     internal_step T s (s\<lparr>jobs := add_mset (JobCompile i) J,
       promotion := (promotion s)\<lparr>attempted := attempted (promotion s) + 1\<rparr>\<rparr>)"
| job_compile:
    "jobs s = add_mset (JobCompile i) J \<Longrightarrow> compile_entry T (heap s i) = (e, outcome) \<Longrightarrow>
     internal_step T s (s\<lparr>jobs := add_mset (JobAccount i outcome elapsed) J,
       heap := (heap s)(i := e)\<rparr>)"
| job_account:
    "jobs s = add_mset (JobAccount i outcome elapsed) J \<Longrightarrow>
     record_compile T elapsed outcome (heap s i) (promotion s) = (e, ps) \<Longrightarrow>
     internal_step T s (s\<lparr>jobs := add_mset JobGuard J, heap := (heap s)(i := e), promotion := ps\<rparr>)"
| job_guard:
    "jobs s = add_mset JobGuard J \<Longrightarrow>
     internal_step T s (s\<lparr>pending := pending s - 1, jobs := J\<rparr>)"

inductive tier_step :: "tier_ext \<Rightarrow> tier_state \<Rightarrow> tier_state \<Rightarrow> bool" for T where
  internal: "internal_step T s s' \<Longrightarrow> tier_step T s s'"
| promote:
    "promoter_enabled s \<Longrightarrow> \<not> has_compiled_program T (heap s i) \<Longrightarrow>
     size (callers s) < max_threads \<Longrightarrow>
     tier_step T s (s\<lparr>callers := add_mset (CallAdd i) (callers s)\<rparr>)"
| invoked:
    "interpreted_invocations (te_stats (heap s i)) \<le> interpreted_invocations st \<Longrightarrow>
     tier_step T s (s\<lparr>heap := (heap s)(i := (heap s i)\<lparr>te_stats := st\<rparr>)\<rparr>)"

text \<open>States reachable from a fresh promoter over any entries.\<close>

inductive tier_reachable :: "tier_ext \<Rightarrow> tier_state \<Rightarrow> bool" for T where
  fresh:
    "tier_reachable T (tier_promoter.extend (promoter_new x86 build_pool cpus policy)
       \<lparr>heap = h, callers = {#}, jobs = {#}\<rparr>)"
| stepped: "tier_reachable T s \<Longrightarrow> tier_step T s s' \<Longrightarrow> tier_reachable T s'"

inductive_cases internal_stepE: "internal_step T s s'"

section \<open>Counting\<close>

fun in_window :: "caller \<Rightarrow> bool" where
  "in_window (CallCheck i p) = True"
| "in_window (CallUndo b) = True"
| "in_window _ = False"

fun admitted :: "u64 \<Rightarrow> caller \<Rightarrow> bool" where
  "admitted m (CallCheck i p) = (p < m)"
| "admitted m _ = False"

fun unresolved :: "job \<Rightarrow> bool" where
  "unresolved (JobCompile i) = True"
| "unresolved (JobAccount i r t) = True"
| "unresolved _ = False"

abbreviation count_if :: "('a \<Rightarrow> bool) \<Rightarrow> 'a multiset \<Rightarrow> nat" where
  "count_if P M \<equiv> size (filter_mset P M)"

text \<open>
  The increments in flight are exactly the pending counter; the jobs together with the
  threads that have been admitted never exceed the limit; every attempt is resolved or still
  running.
\<close>

definition tier_inv :: "tier_state \<Rightarrow> bool" where
  "tier_inv s \<longleftrightarrow>
     max_pending s = 64 \<and> size (callers s) \<le> max_threads \<and>
     pending s = of_nat (count_if in_window (callers s) + size (jobs s)) \<and>
     size (jobs s) + count_if (admitted 64) (callers s) \<le> 64 \<and>
     attempted (promotion s) =
       succeeded (promotion s) + failed (promotion s) + of_nat (count_if unresolved (jobs s))"

lemma unat_of_nat_u64: "n < 2 ^ 64 \<Longrightarrow> unat (of_nat n :: u64) = n"
  by (simp add: unat_of_nat)

lemma count_if_le: "(\<And>x. P x \<Longrightarrow> Q x) \<Longrightarrow> count_if P M \<le> count_if Q M"
  by (induction M) auto

lemma count_if_size: "count_if P M \<le> size M"
  by (simp add: size_filter_mset_lesseq)

lemma tier_inv_admit:
  assumes inv: "tier_inv s" and c: "callers s = add_mset (CallAdd i) C"
  shows "size (jobs s) + count_if (admitted 64) (add_mset (CallCheck i (pending s)) C) \<le> 64"
proof (cases "pending s < 64")
  case True
  let ?n = "count_if in_window C + size (jobs s)"
  have "size C \<le> max_threads" using inv c by (simp add: tier_inv_def)
  then have "count_if in_window C \<le> max_threads"
    using count_if_size [of in_window C] by (rule le_trans [rotated])
  moreover have j: "size (jobs s) \<le> 64" using inv by (simp add: tier_inv_def)
  ultimately have "?n < 2 ^ 64" by (simp add: max_threads_def)
  then have "unat (of_nat ?n :: u64) = ?n" by (rule unat_of_nat_u64)
  moreover have "pending s = of_nat ?n" using inv c by (simp add: tier_inv_def)
  ultimately have "unat (pending s) = ?n" by simp
  then have "?n < 64" using True by (simp add: word_less_nat_alt)
  moreover have "count_if (admitted 64) C \<le> count_if in_window C"
  proof (rule count_if_le)
    show "admitted 64 c \<Longrightarrow> in_window c" for c by (cases c) auto
  qed
  ultimately show ?thesis by simp
next
  case False
  with inv c show ?thesis by (simp add: tier_inv_def)
qed

lemma record_compile_stats:
  assumes "record_compile T t r e ps = (e', ps')"
  shows "attempted ps' = attempted ps \<and> succeeded ps' + failed ps' = succeeded ps + failed ps + 1 \<and>
     te_compiled e' = te_compiled e \<and> te_loaded e' = te_loaded e"
  using assms by (auto simp: record_compile_def Let_def algebra_simps split: if_splits)

lemma tier_inv_internal:
  assumes "internal_step T s s'" and inv: "tier_inv s"
  shows "tier_inv s'"
  using assms(1)
proof cases
  case (call_add i C)
  with inv tier_inv_admit [OF inv call_add(2)] show ?thesis by (simp add: tier_inv_def)
next
  case (job_account i r t J e ps)
  with inv record_compile_stats [OF job_account(3)] show ?thesis
    by (simp add: tier_inv_def algebra_simps)
qed (use inv in \<open>auto simp: tier_inv_def algebra_simps split: if_splits\<close>)

lemma tier_inv_reachable: "tier_reachable T s \<Longrightarrow> tier_inv s"
proof (induction rule: tier_reachable.induct)
  case (fresh x86 build_pool cpus policy h)
  show ?case
    by (simp add: tier_inv_def tier_promoter.extend_def promoter_new_def Let_def
        default_promotion_stats_def case_prod_beta max_threads_def)
next
  case (stepped s s')
  from stepped(2,3) show ?case
  proof cases
    case internal
    then show ?thesis using stepped(3) by (rule tier_inv_internal)
  qed (auto simp: tier_inv_def)
qed

text \<open>
  C17. The promotion pool is bounded under every interleaving: at most 64 jobs are queued or
  running, the shared counter is exactly the number of jobs plus the threads that have
  incremented it and not yet decided, and every counted attempt has succeeded, has failed or
  is being compiled.
\<close>

theorem promotion_pool_bounded:
  assumes "tier_reachable T s"
  shows "size (jobs s) \<le> 64 \<and>
     unat (pending s) = size (jobs s) + count_if in_window (callers s) \<and>
     attempted (promotion s) =
       succeeded (promotion s) + failed (promotion s) + of_nat (count_if unresolved (jobs s))"
proof -
  have inv: "tier_inv s" using assms by (rule tier_inv_reachable)
  let ?n = "count_if in_window (callers s) + size (jobs s)"
  have "size (callers s) \<le> 2 ^ 32" "size (jobs s) \<le> 64"
    using inv by (simp_all add: tier_inv_def max_threads_def)
  then have "?n < 2 ^ 64"
    using le_trans [OF count_if_size [of in_window "callers s"]] by fastforce
  then have "unat (of_nat ?n :: u64) = ?n" by (rule unat_of_nat_u64)
  with inv show ?thesis by (simp add: tier_inv_def)
qed

section \<open>Draining\<close>

fun caller_work :: "caller \<Rightarrow> nat" where
  "caller_work (CallAdd i) = 6"
| "caller_work (CallCheck i p) = 5"
| "caller_work (CallUndo b) = 2"
| "caller_work CallDrop = 1"

fun job_work :: "job \<Rightarrow> nat" where
  "job_work (JobStart i) = 4"
| "job_work (JobCompile i) = 3"
| "job_work (JobAccount i r t) = 2"
| "job_work JobGuard = 1"

definition tier_work :: "tier_state \<Rightarrow> nat" where
  "tier_work s = sum_mset (image_mset caller_work (callers s)) + sum_mset (image_mset job_work (jobs s))"

lemma internal_step_decreases: "internal_step T s s' \<Longrightarrow> tier_work s' < tier_work s"
  by (erule internal_stepE) (simp_all add: tier_work_def)

lemma internal_step_exists:
  assumes "callers s \<noteq> {#} \<or> jobs s \<noteq> {#}"
  shows "\<exists>s'. internal_step T s s'"
  using assms
proof
  assume "callers s \<noteq> {#}"
  then obtain c C where c: "callers s = add_mset c C" by (meson multiset_cases)
  show ?thesis
  proof (cases c)
    case (CallAdd i)
    then show ?thesis using internal_step.call_add c by blast
  next
    case (CallCheck i p)
    then show ?thesis
      using c internal_step.call_saturated internal_step.call_no_pool internal_step.call_spawn
      by (metis leI)
  next
    case (CallUndo b)
    then show ?thesis using internal_step.call_undo c by blast
  next
    case CallDrop
    then show ?thesis using internal_step.call_drop c by blast
  qed
next
  assume "jobs s \<noteq> {#}"
  then obtain j J where j: "jobs s = add_mset j J" by (meson multiset_cases)
  show ?thesis
  proof (cases j)
    case (JobStart i)
    then show ?thesis using internal_step.job_start j by blast
  next
    case (JobCompile i)
    then show ?thesis using internal_step.job_compile j by (metis surj_pair)
  next
    case (JobAccount i r t)
    then show ?thesis using internal_step.job_account j by (metis surj_pair)
  next
    case JobGuard
    then show ?thesis using internal_step.job_guard j by blast
  qed
qed

lemma internal_steps_drain:
  "\<exists>s'. (internal_step T)\<^sup>*\<^sup>* s s' \<and> callers s' = {#} \<and> jobs s' = {#}"
proof (induction "tier_work s" arbitrary: s rule: less_induct)
  case less
  show ?case
  proof (cases "callers s \<noteq> {#} \<or> jobs s \<noteq> {#}")
    case True
    then obtain s1 where s1: "internal_step T s s1" using internal_step_exists by blast
    with less [OF internal_step_decreases [OF s1]] show ?thesis
      by (meson converse_rtranclp_into_rtranclp)
  qed blast
qed

lemma internal_steps_bounded: "(internal_step T ^^ n) s s' \<Longrightarrow> n + tier_work s' \<le> tier_work s"
proof (induction n arbitrary: s')
  case (Suc n)
  then obtain s1 where "(internal_step T ^^ n) s s1" "internal_step T s1 s'" by auto
  with Suc.IH internal_step_decreases show ?case by fastforce
qed simp

lemma reachable_internal_steps:
  "(internal_step T)\<^sup>*\<^sup>* s s' \<Longrightarrow> tier_reachable T s \<Longrightarrow> tier_reachable T s'"
  by (induction rule: rtranclp_induct) (auto intro: tier_reachable.stepped tier_step.internal)

text \<open>
  C18. Promotion drains: from every reachable state, once no new promotion is requested, the
  threads and jobs under way finish. A run of their steps is never longer than the work left,
  a state without such a step is idle, and in the idle state the pending counter is back at
  zero and every attempt is accounted for as a success or a failure.
\<close>

theorem promotion_drains:
  assumes "tier_reachable T s"
  shows "(\<exists>s'. (internal_step T)\<^sup>*\<^sup>* s s' \<and> callers s' = {#} \<and> jobs s' = {#} \<and> pending s' = 0 \<and>
       attempted (promotion s') = succeeded (promotion s') + failed (promotion s')) \<and>
     (\<forall>n s'. (internal_step T ^^ n) s s' \<longrightarrow> n \<le> tier_work s) \<and>
     ((\<nexists>s'. internal_step T s s') \<longrightarrow> callers s = {#} \<and> jobs s = {#} \<and> pending s = 0)"
proof -
  have idle: "pending s' = 0 \<and> attempted (promotion s') = succeeded (promotion s') + failed (promotion s')"
    if "tier_reachable T s'" "callers s' = {#}" "jobs s' = {#}" for s'
    using tier_inv_reachable [OF that(1)] that by (simp add: tier_inv_def)
  obtain s' where s': "(internal_step T)\<^sup>*\<^sup>* s s'" "callers s' = {#}" "jobs s' = {#}"
    using internal_steps_drain by blast
  have "tier_reachable T s'" using s'(1) assms by (rule reachable_internal_steps)
  from idle [OF this s'(2,3)] s' have "\<exists>s'. (internal_step T)\<^sup>*\<^sup>* s s' \<and> callers s' = {#} \<and>
      jobs s' = {#} \<and> pending s' = 0 \<and>
      attempted (promotion s') = succeeded (promotion s') + failed (promotion s')" by blast
  moreover have "n \<le> tier_work s" if "(internal_step T ^^ n) s s'" for n s'
    using internal_steps_bounded [OF that] by simp
  moreover have "callers s = {#} \<and> jobs s = {#} \<and> pending s = 0" if "\<nexists>s'. internal_step T s s'"
    using that internal_step_exists [of s T] idle [OF assms] by blast
  ultimately show ?thesis by blast
qed

section \<open>Compiled entries\<close>

lemma compile_entry_keeps:
  assumes "compile_entry T e = (e', r)"
  shows "te_loaded e' = te_loaded e \<and> (has_compiled_program T e \<longrightarrow> has_compiled_program T e') \<and>
     (r \<longrightarrow> has_compiled_program T e')"
  using assms
  by (auto simp: compile_entry_def has_compiled_program_def Let_def split: if_splits prod.splits sum.splits)

lemma tier_step_keeps:
  assumes "tier_step T s s'"
  shows "te_loaded (heap s' i) = te_loaded (heap s i) \<and>
     (has_compiled_program T (heap s i) \<longrightarrow> has_compiled_program T (heap s' i))"
  using assms
proof cases
  case internal
  then show ?thesis
  proof (cases rule: internal_step.cases)
    case (job_compile k J e r t)
    with compile_entry_keeps [OF job_compile(3)] show ?thesis by auto
  next
    case (job_account k r t J e ps)
    with record_compile_stats [OF job_account(3)] show ?thesis
      by (auto simp: has_compiled_program_def)
  qed simp_all
qed (auto simp: has_compiled_program_def)

lemma unat_saturating_sum_acc:
  "unat (fold (\<lambda>e acc. saturating_add acc (f e)) es a) =
     min (unat a + sum_list (map (\<lambda>e. unat (f e)) es)) (2 ^ 64 - 1)" for a :: u64
proof (induction es arbitrary: a)
  case Nil
  show ?case using unat_le_max [of a] by simp
next
  case (Cons e es)
  have "unat (saturating_add a (f e)) = min (unat a + unat (f e)) (2 ^ 64 - 1)"
    using unat_saturating_add [of a "f e"] by simp
  then show ?case by (simp add: Cons.IH min_def)
qed

text \<open>
  Tier statistics saturate: each total of the snapshot is the exact sum over the cached
  entries, capped at the largest 64-bit value, so a total never wraps around to a small one.
\<close>

theorem tier_stats_saturate:
  "unat (tier_interpreted_invocations (tier_stats_collect x86 policy entries resident ps)) =
     min (sum_list (map (\<lambda>e. unat (interpreted_invocations (te_stats e))) entries)) (2 ^ 64 - 1) \<and>
   unat (tier_compilations (tier_stats_collect x86 policy entries resident ps)) =
     min (sum_list (map (\<lambda>e. unat (compilations (te_stats e))) entries)) (2 ^ 64 - 1)"
  using unat_saturating_sum_acc [of "\<lambda>e. interpreted_invocations (te_stats e)" entries 0]
    unat_saturating_sum_acc [of "\<lambda>e. compilations (te_stats e)" entries 0]
  by (simp add: tier_stats_collect_def saturating_sum_def)

section \<open>A concrete run\<close>

definition ex_tier_ext :: tier_ext where
  "ex_tier_ext = \<lparr>jit_target = True, jit_compile = (\<lambda>e. (Inr (), True)), jit_compiled = (\<lambda>t st. st)\<rparr>"

definition ex_tier_entry :: tier_entry where
  "ex_tier_entry =
     \<lparr>te_loaded = True, te_compiled = False,
      te_stats = \<lparr>compilations = 0, total_compilation_time_us = 0,
        interpreted_invocations = 9, jit_invocations = 0\<rparr>\<rparr>"

text \<open>One job queued after a promotion request of entry 0.\<close>

definition ex_tier_state :: "u64 \<Rightarrow> caller multiset \<Rightarrow> job multiset \<Rightarrow> tier_state" where
  "ex_tier_state n C J =
     \<lparr>promoter_enabled = True, promoter_threshold = 2, has_pool = True, pending = n, max_pending = 64,
      promotion = default_promotion_stats, heap = (\<lambda>_. ex_tier_entry), callers = C, jobs = J\<rparr>"

lemma ex_tier_reachable: "tier_reachable ex_tier_ext (ex_tier_state 1 {#} {#JobStart 0#})"
proof -
  let ?T = ex_tier_ext
  have "tier_reachable ?T (tier_promoter.extend (promoter_new True (\<lambda>n. True) 8 (Lazy 2))
      \<lparr>heap = (\<lambda>_. ex_tier_entry), callers = {#}, jobs = {#}\<rparr>)"
    by (rule tier_reachable.fresh)
  then have r0: "tier_reachable ?T (ex_tier_state 0 {#} {#})"
    by (simp add: ex_tier_state_def tier_promoter.extend_def promoter_new_def jit_effective_def)
  have "tier_step ?T (ex_tier_state 0 {#} {#}) (ex_tier_state 0 {#CallAdd 0#} {#})"
    using tier_step.promote [of "ex_tier_state 0 {#} {#}" ?T 0]
    by (simp add: ex_tier_state_def has_compiled_program_def ex_tier_entry_def max_threads_def)
  with r0 have r1: "tier_reachable ?T (ex_tier_state 0 {#CallAdd 0#} {#})" by (rule tier_reachable.stepped)
  have "internal_step ?T (ex_tier_state 0 {#CallAdd 0#} {#}) (ex_tier_state 1 {#CallCheck 0 0#} {#})"
    using internal_step.call_add [of "ex_tier_state 0 {#CallAdd 0#} {#}" 0 "{#}" ?T]
    by (simp add: ex_tier_state_def)
  with r1 have r2: "tier_reachable ?T (ex_tier_state 1 {#CallCheck 0 0#} {#})"
    by (blast intro: tier_reachable.stepped tier_step.internal)
  have "internal_step ?T (ex_tier_state 1 {#CallCheck 0 0#} {#}) (ex_tier_state 1 {#} {#JobStart 0#})"
    using internal_step.call_spawn [of "ex_tier_state 1 {#CallCheck 0 0#} {#}" 0 0 "{#}" ?T]
    by (simp add: ex_tier_state_def)
  with r2 show ?thesis by (blast intro: tier_reachable.stepped tier_step.internal)
qed

theorem promotion_pool_bounded_witness:
  "tier_reachable ex_tier_ext (ex_tier_state 1 {#} {#JobStart 0#}) \<and>
   unat (pending (ex_tier_state 1 {#} {#JobStart 0#})) = size (jobs (ex_tier_state 1 {#} {#JobStart 0#}))"
  using promotion_pool_bounded [OF ex_tier_reachable] ex_tier_reachable by (simp add: ex_tier_state_def)

theorem promotion_drains_witness:
  "\<exists>s'. (internal_step ex_tier_ext)\<^sup>*\<^sup>* (ex_tier_state 1 {#} {#JobStart 0#}) s' \<and> jobs s' = {#} \<and> pending s' = 0"
  using promotion_drains [OF ex_tier_reachable] by blast

end
