(* ===== verification/Vm_Config.thy ===== *)
theory Vm_Config
  imports Tx_Batch
begin

text \<open>
  Configuration of a VM (\<^verbatim>\<open>vm.rs\<close>, \<^verbatim>\<open>runtime_env.rs\<close>, \<^verbatim>\<open>runtime_registry.rs\<close>, \<^verbatim>\<open>programs/mod.rs\<close>,
  \<^verbatim>\<open>precompiles.rs\<close>): the setters, sysvars and slots, runtime environments with custom
  syscalls, builtins, programs, feature accounts and the reconfiguration for a new feature
  set. What other crates compute, encode or ship is the record \<open>vm_ext\<close>; an \<open>expect\<close> or
  \<open>unwrap\<close> that fails is \<^const>\<open>None\<close>. The memo of default programs in front of the entry
  store is left out: it returns what the store returned for the same program before.
\<close>

section \<open>What other crates provide\<close>

text \<open>
  A sysvar: its address, type name, account size, and its encoding into a zeroed buffer of a
  given size.
\<close>

record sysvar_value =
  sv_id :: address
  sv_name :: string
  sv_size :: nat
  sv_write :: "nat \<Rightarrow> string + bytes"

record vm_ext =
  clock_sysvar :: "clock \<Rightarrow> sysvar_value"
  clock_decode :: "bytes \<Rightarrow> string + clock"
  early_sysvars :: "sysvar_value list"
  blockhashes_sysvar :: "hash \<Rightarrow> u64 \<Rightarrow> sysvar_value"
  fees_default_lamports :: u64
  rent_sysvar :: "bool \<Rightarrow> sysvar_value"
  slot_hashes_sysvar :: "u64 \<Rightarrow> hash \<Rightarrow> sysvar_value"
  slot_history_sysvar :: sysvar_value
  stake_history_data :: bytes
  create_blockhash :: "hash \<Rightarrow> hash"
  all_features :: "address set"
  active_features :: "address set \<Rightarrow> (address \<times> u64) list"
  feature_account :: "u64 \<Rightarrow> u64 \<Rightarrow> account"
  feature_size :: nat
  reserved_for :: "address set \<Rightarrow> address set"
  builtin_name :: "address \<Rightarrow> bytes"
  builtin_feature :: "address \<Rightarrow> address option"
  create_env :: "address set \<Rightarrow> compute_budget \<Rightarrow> string + unit"
  register_syscall ::
    "address set \<Rightarrow> compute_budget \<Rightarrow> (string \<times> nat) list \<Rightarrow> string \<Rightarrow> nat \<Rightarrow> string + unit"
  native_rows :: "native_precompile list"
  key_order :: "precompile_set \<Rightarrow> address list"
  b58 :: "string \<Rightarrow> address"
  elf_file :: "string \<Rightarrow> bytes"
  find_program_address :: "address \<Rightarrow> address \<Rightarrow> address"
  programdata_metadata :: "u64 \<Rightarrow> bytes"
  program_state :: "address \<Rightarrow> bytes"
  entry_load_error :: "bytes \<Rightarrow> string"

section \<open>Setters\<close>

definition set_compute_budget :: "compute_budget \<Rightarrow> 'c svm \<Rightarrow> 'c svm" where
  "set_compute_budget b s = s\<lparr>vm_version := (vm_version s)\<lparr>v_compute_budget := Some b\<rparr>\<rparr>"

definition set_compute_unit_limit ::
    "('pc, 'x, 'st, 'ic) exec_ext \<Rightarrow> u64 \<Rightarrow> 'c svm \<Rightarrow> 'c svm" where
  "set_compute_unit_limit E limit s =
     (let b = (case v_compute_budget (vm_version s) of
                 Some b \<Rightarrow> b
               | None \<Rightarrow> budget_new_with_defaults E
                           (gate_id E RaiseCpiNestingLimitTo8 \<in> feature_set (vm_version s)))
      in set_compute_budget (b\<lparr>compute_unit_limit := limit\<rparr>) s)"

definition set_sigverify :: "bool \<Rightarrow> 'c svm \<Rightarrow> 'c svm" where
  "set_sigverify b s = s\<lparr>vm_version := (vm_version s)\<lparr>sigverify := b\<rparr>\<rparr>"

definition set_blockhash_check :: "bool \<Rightarrow> 'c svm \<Rightarrow> 'c svm" where
  "set_blockhash_check b s = s\<lparr>vm_version := (vm_version s)\<lparr>blockhash_check := b\<rparr>\<rparr>"

definition set_compute_diagnostics :: "bool \<Rightarrow> 'c svm \<Rightarrow> 'c svm" where
  "set_compute_diagnostics b s = s\<lparr>vm_version := (vm_version s)\<lparr>compute_diagnostics := b\<rparr>\<rparr>"

definition set_log_bytes_limit :: "nat option \<Rightarrow> 'c svm \<Rightarrow> 'c svm" where
  "set_log_bytes_limit l s = s\<lparr>vm_version := (vm_version s)\<lparr>log_bytes_limit := l\<rparr>\<rparr>"

definition set_transaction_history :: "'c history_ops \<Rightarrow> nat \<Rightarrow> 'c svm \<Rightarrow> 'c svm" where
  "set_transaction_history L capacity s = s\<lparr>vm_history := set_capacity L (vm_history s) capacity\<rparr>"

definition svm_set_account_source :: "account_source \<Rightarrow> 'c svm \<Rightarrow> 'c svm" where
  "svm_set_account_source src s = s\<lparr>vm_accounts := set_account_source src (vm_accounts s)\<rparr>"

definition register_tx_handler :: "tx_tag \<Rightarrow> tx_handler \<Rightarrow> 'c svm \<Rightarrow> 'c svm" where
  "register_tx_handler tag h s = s\<lparr>registry := registry_register tag h (registry s)\<rparr>"

definition set_boxed_inspector :: "inspector \<Rightarrow> 'c svm \<Rightarrow> 'c svm" where
  "set_boxed_inspector i s = s\<lparr>vm_inspector := Some i\<rparr>"

definition clear_inspector :: "'c svm \<Rightarrow> 'c svm \<times> inspector option" where
  "clear_inspector s = (s\<lparr>vm_inspector := None\<rparr>, vm_inspector s)"

definition set_lamports :: "u64 \<Rightarrow> 'c svm \<Rightarrow> 'c svm" where
  "set_lamports l s =
     s\<lparr>vm_accounts := add_account_no_checks (airdrop_pubkey s)
        (default_account\<lparr>lamports := l, owner := SystemProgram\<rparr>) (vm_accounts s)\<rparr>"

section \<open>Accounts, sysvars and slots\<close>

definition sync_block_env_slot :: "'c svm \<Rightarrow> 'c svm" where
  "sync_block_env_slot s = s\<lparr>block_slot := current_slot (vm_accounts s)\<rparr>"

definition svm_set_account ::
    "('pc, 'x, 'st) db_ext \<Rightarrow> address \<Rightarrow> account \<Rightarrow> ('pc, 'st, 'c) vm
      \<Rightarrow> ('pc, 'st, 'c) vm \<times> (hpsvm_error + unit)" where
  "svm_set_account X addr acc v =
     (let (w, s0) = v; s = svm_sync_jit_policy s0
      in case add_account X addr acc (w, vm_accounts s) of
           ((w', a'), Inl e) \<Rightarrow> ((w', s\<lparr>vm_accounts := a'\<rparr>), Inl e)
         | ((w', a'), Inr _) \<Rightarrow> ((w', sync_block_env_slot (s\<lparr>vm_accounts := a'\<rparr>)), Inr ()))"

definition sysvar_account :: "bytes \<Rightarrow> account" where
  "sysvar_account bs = default_account\<lparr>lamports := 1, data := bs, owner := SysvarOwner\<rparr>"

definition try_set_sysvar ::
    "('pc, 'x, 'st) db_ext \<Rightarrow> sysvar_value \<Rightarrow> ('pc, 'st, 'c) vm
      \<Rightarrow> ('pc, 'st, 'c) vm \<times> (hpsvm_error + unit)" where
  "try_set_sysvar X sv v =
     (let (w, s) = v
      in case sv_write sv (sv_size sv) of
           Inl reason \<Rightarrow> (v, Inl (SysvarSerialization (sv_name sv) reason))
         | Inr bs \<Rightarrow>
             (case add_account X (sv_id sv) (sysvar_account bs) (w, vm_accounts s) of
                ((w', a'), r) \<Rightarrow> ((w', s\<lparr>vm_accounts := a'\<rparr>), r)))"

definition set_sysvar ::
    "('pc, 'x, 'st) db_ext \<Rightarrow> sysvar_value \<Rightarrow> ('pc, 'st, 'c) vm
      \<Rightarrow> ('pc, 'st, 'c) vm \<times> (hpsvm_error + unit)" where
  "set_sysvar X sv v =
     (case try_set_sysvar X sv v of
        (v', Inl e) \<Rightarrow> (v', Inl e)
      | ((w', s'), Inr _) \<Rightarrow> ((w', sync_block_env_slot s'), Inr ()))"

definition set_sysvar_internal ::
    "('pc, 'x, 'st) db_ext \<Rightarrow> sysvar_value \<Rightarrow> ('pc, 'st, 'c) vm \<Rightarrow> ('pc, 'st, 'c) vm option" where
  "set_sysvar_internal X sv v =
     (case try_set_sysvar X sv v of
        (v', Inl e) \<Rightarrow> None
      | ((w', s'), Inr _) \<Rightarrow> Some (w', sync_block_env_slot s'))"

definition try_get_clock :: "vm_ext \<Rightarrow> 'c svm \<Rightarrow> hpsvm_error + clock" where
  "try_get_clock V s =
     (case get_account_ref (vm_accounts s) ClockSysvar of
        None \<Rightarrow> Inl (MissingRuntimeComponent ''sysvars'')
      | Some acc \<Rightarrow>
          map_err (SysvarSerialization (sv_name (clock_sysvar V default_clock)))
            (clock_decode V (data acc)))"

definition warp_to_slot ::
    "vm_ext \<Rightarrow> ('pc, 'x, 'st) db_ext \<Rightarrow> u64 \<Rightarrow> ('pc, 'st, 'c) vm \<Rightarrow> ('pc, 'st, 'c) vm option" where
  "warp_to_slot V X sl v =
     (case try_get_clock V (snd v) of
        Inl e \<Rightarrow> None
      | Inr ck \<Rightarrow> set_sysvar_internal X (clock_sysvar V (ck\<lparr>slot := sl\<rparr>)) v)"

definition expire_blockhash ::
    "vm_ext \<Rightarrow> ('pc, 'x, 'st) db_ext \<Rightarrow> ('pc, 'st, 'c) vm \<Rightarrow> ('pc, 'st, 'c) vm option" where
  "expire_blockhash V X v =
     (let (w, s) = v;
          s' = s\<lparr>latest_blockhash := create_blockhash V (latest_blockhash s)\<rparr>
      in set_sysvar_internal X
           (blockhashes_sysvar V (latest_blockhash s') (lamports_per_signature (vm_version s')))
           (w, s'))"

fun set_sysvars_internal ::
    "('pc, 'x, 'st) db_ext \<Rightarrow> ('c svm \<Rightarrow> sysvar_value) list \<Rightarrow> ('pc, 'st, 'c) vm
      \<Rightarrow> ('pc, 'st, 'c) vm option" where
  "set_sysvars_internal X [] v = Some v"
| "set_sysvars_internal X (sv # svs) v =
     Option.bind (set_sysvar_internal X (sv (snd v)) v) (set_sysvars_internal X svs)"

definition set_sysvars ::
    "vm_ext \<Rightarrow> ('pc, 'x, 'st, 'ic) exec_ext \<Rightarrow> ('pc, 'st, 'c) vm \<Rightarrow> ('pc, 'st, 'c) vm option" where
  "set_sysvars V E v =
     (let (w, s) = v;
          s0 = s\<lparr>materialized := (materialized s)\<lparr>m_sysvars := True\<rparr>\<rparr>;
          bh = latest_blockhash s0;
          svs = (\<lambda>_. clock_sysvar V default_clock) # map (\<lambda>sv _. sv) (early_sysvars V) @
            [\<lambda>_. blockhashes_sysvar V bh (fees_default_lamports V),
             \<lambda>s. rent_sysvar V (gate_id E DeprecateRentExemptionThreshold \<in> feature_set (vm_version s)),
             \<lambda>s. slot_hashes_sysvar V (current_slot (vm_accounts s)) bh,
             \<lambda>_. slot_history_sysvar V]
      in case set_sysvars_internal (db E) svs (w, s0) of
           None \<Rightarrow> None
         | Some (w1, s1) \<Rightarrow>
             (case add_account (db E) StakeHistorySysvar (sysvar_account (stake_history_data V))
                     (w1, vm_accounts s1) of
                (wa, Inl e) \<Rightarrow> None
              | ((w2, a2), Inr _) \<Rightarrow> Some (w2, s1\<lparr>vm_accounts := a2\<rparr>)))"

section \<open>Runtime environments\<close>

text \<open>
  Each custom syscall is registered in a copy of the environment built so far: the one of a
  feature set and a compute budget, with the custom syscalls \<open>registered\<close> before.
\<close>

fun register_syscalls ::
    "vm_ext \<Rightarrow> address set \<Rightarrow> compute_budget \<Rightarrow> (string \<times> nat) list \<Rightarrow> (string \<times> nat) list
      \<Rightarrow> hpsvm_error + unit" where
  "register_syscalls V fs b registered [] = Inr ()"
| "register_syscalls V fs b registered ((name, f) # rest) =
     (case register_syscall V fs b registered name f of
        Inl reason \<Rightarrow> Inl (CustomSyscallRegistration name ''runtime'' reason)
      | Inr _ \<Rightarrow> register_syscalls V fs b (registered @ [(name, f)]) rest)"

text \<open>
  An environment is a fresh shared object, identified by number; the default configuration
  shares one per process.
\<close>

definition try_refresh_runtime_environments ::
    "vm_ext \<Rightarrow> ('pc, 'x, 'st, 'ic) exec_ext \<Rightarrow> ('pc, 'st, 'c) vm
      \<Rightarrow> ('pc, 'st, 'c) vm \<times> (hpsvm_error + unit)" where
  "try_refresh_runtime_environments V E v =
     (let (w, s) = v;
          fs = feature_set (vm_version s);
          is_default_config = (v_compute_budget (vm_version s) = None \<and> custom_syscalls s = [] \<and>
            fs = all_features V);
          install = (\<lambda>env. s\<lparr>vm_accounts := set_runtime_environments env (vm_accounts s)\<rparr>);
          flags = load_flags (gate_id E) fs;
          budget = unwrap_or (budget_new_with_defaults E (flag_enabled flags RaiseCpiNestingLimitTo8))
            (v_compute_budget (vm_version s));
          fresh = (case map_err (RuntimeEnvironment ''v1'') (create_env V fs budget) of
              Inl e \<Rightarrow> (v, Inl e)
            | Inr _ \<Rightarrow>
                (case register_syscalls V fs budget [] (custom_syscalls s) of
                   Inl e \<Rightarrow> (v, Inl e)
                 | Inr _ \<Rightarrow>
                     let env = next_env w;
                         w' = w\<lparr>next_env := env + 1\<rparr>
                     in ((if is_default_config \<and> default_env w = None
                          then w'\<lparr>default_env := Some env\<rparr> else w', install env), Inr ())))
      in if is_default_config
         then (case default_env w of Some env \<Rightarrow> ((w, install env), Inr ()) | None \<Rightarrow> fresh)
         else fresh)"

definition refresh_runtime_environments ::
    "vm_ext \<Rightarrow> ('pc, 'x, 'st, 'ic) exec_ext \<Rightarrow> ('pc, 'st, 'c) vm \<Rightarrow> ('pc, 'st, 'c) vm option" where
  "refresh_runtime_environments V E v =
     (case try_refresh_runtime_environments V E v of (v', Inl e) \<Rightarrow> None | (v', Inr _) \<Rightarrow> Some v')"

definition rebuild_programs ::
    "('pc, 'x, 'st) db_ext \<Rightarrow> ('pc, 'st, 'c) vm \<Rightarrow> ('pc, 'st, 'c) vm \<times> (hpsvm_error + unit)" where
  "rebuild_programs X v =
     (let (w, s0) = v; s = svm_sync_jit_policy s0; (w', r) = rebuild_program_cache X (vm_accounts s) w
      in ((w', s), map_err Instruction r))"

definition register_custom_syscall ::
    "vm_ext \<Rightarrow> ('pc, 'x, 'st, 'ic) exec_ext \<Rightarrow> string \<Rightarrow> nat \<Rightarrow> ('pc, 'st, 'c) vm
      \<Rightarrow> ('pc, 'st, 'c) vm \<times> (hpsvm_error + unit)" where
  "register_custom_syscall V E name f v =
     (let (w, s) = v;
          s' = s\<lparr>custom_syscalls := custom_syscalls s @ [(name, f)]\<rparr>
      in case try_refresh_runtime_environments V E (w, s') of
           (v', Inl e) \<Rightarrow> (v', Inl e)
         | (v', Inr _) \<Rightarrow> rebuild_programs (db E) v')"

section \<open>Programs\<close>

definition resolve_program_entry ::
    "vm_ext \<Rightarrow> ('pc, 'x, 'st) db_ext \<Rightarrow> address \<Rightarrow> bytes \<Rightarrow> ('pc, 'st, 'c) vm
      \<Rightarrow> ('pc, 'st) world \<times> (hpsvm_error + 'x program_cache_entry)" where
  "resolve_program_entry V X loader_id program_bytes v =
     (let (w, s) = v;
          env = environments (vm_accounts s);
          key = content_key (sha256 X) env program_bytes loader_id immediate_deployment_slot;
          (hit, st) = store_get (store_ops X) (entry_store w) key;
          w' = w\<lparr>entry_store := st\<rparr>
      in case hit of
           Some entry \<Rightarrow> (w', Inr entry)
         | None \<Rightarrow>
             (case (if requires_uncompiled_load (v_jit_policy (vm_version s)) \<and> x86_64 X
                    then map_err Instruction (load_program_uncompiled X loader_id env program_bytes)
                    else ok_or (ProgramLoad (entry_load_error V program_bytes))
                           (entry_load X env loader_id immediate_deployment_slot program_bytes)) of
                Inl e \<Rightarrow> (w', Inl e)
              | Inr loaded \<Rightarrow>
                  let (res, st') = store_insert (store_ops X) st key loaded
                  in (w'\<lparr>entry_store := st'\<rparr>, Inr res)))"

definition program_overlay ::
    "vm_ext \<Rightarrow> ('pc, 'x, 'st) db_ext \<Rightarrow> address \<Rightarrow> bytes \<Rightarrow> address \<Rightarrow> accounts
      \<Rightarrow> hpsvm_error + accounts" where
  "program_overlay V X program_id program_bytes loader_id a =
     (if loader_id = BpfLoaderUpgradeable then
        (let programdata_address = find_program_address V program_id loader_id;
             programdata = programdata_metadata V (current_slot a) @ program_bytes;
             programdata_account = default_account
               \<lparr>lamports := minimum_balance_for_rent_exemption X a (length programdata),
                data := programdata, owner := loader_id\<rparr>;
             program_data = program_state V programdata_address;
             program_account = default_account
               \<lparr>lamports := minimum_balance_for_rent_exemption X a (length program_data),
                data := program_data, owner := loader_id, executable := True\<rparr>
         in Inr (add_account_no_checks program_id program_account
                  (add_account_no_checks programdata_address programdata_account a)))
      else if loader_id = BpfLoader \<or> loader_id = BpfLoaderDeprecated then
        Inr (add_account_no_checks program_id
          (default_account\<lparr>lamports := minimum_balance_for_rent_exemption X a (length program_bytes),
             data := program_bytes, owner := loader_id, executable := True\<rparr>) a)
      else Inl (InvalidLoader program_id loader_id))"

definition add_program_internal ::
    "vm_ext \<Rightarrow> ('pc, 'x, 'st) db_ext \<Rightarrow> address \<Rightarrow> bytes \<Rightarrow> address \<Rightarrow> ('pc, 'st, 'c) vm
      \<Rightarrow> ('pc, 'st, 'c) vm \<times> (hpsvm_error + unit)" where
  "add_program_internal V X program_id program_bytes loader_id v =
     (let (w, s0) = v; s = svm_sync_jit_policy s0
      in case program_overlay V X program_id program_bytes loader_id (vm_accounts s) of
           Inl e \<Rightarrow> ((w, s), Inl e)
         | Inr a \<Rightarrow>
             let s' = s\<lparr>vm_accounts := a\<rparr>
             in (case resolve_program_entry V X loader_id program_bytes (w, s') of
                   (w', Inl e) \<Rightarrow> ((w', s'), Inl e)
                 | (w', Inr entry) \<Rightarrow>
                     ((replenish_program_cache X program_id entry a w', s'), Inr ())))"

definition add_program ::
    "vm_ext \<Rightarrow> ('pc, 'x, 'st) db_ext \<Rightarrow> address \<Rightarrow> bytes \<Rightarrow> ('pc, 'st, 'c) vm
      \<Rightarrow> ('pc, 'st, 'c) vm \<times> (hpsvm_error + unit)" where
  "add_program V X program_id program_bytes v =
     add_program_internal V X program_id program_bytes BpfLoaderUpgradeable v"

definition add_program_with_loader ::
    "vm_ext \<Rightarrow> ('pc, 'x, 'st) db_ext \<Rightarrow> address \<Rightarrow> bytes \<Rightarrow> address \<Rightarrow> ('pc, 'st, 'c) vm
      \<Rightarrow> ('pc, 'st, 'c) vm \<times> (hpsvm_error + unit)" where
  "add_program_with_loader V X program_id program_bytes loader_id v =
     add_program_internal V X program_id program_bytes loader_id v"

definition add_builtin ::
    "('pc, 'x, 'st) db_ext \<Rightarrow> address \<Rightarrow> nat \<Rightarrow> ('pc, 'st, 'c) vm \<Rightarrow> ('pc, 'st, 'c) vm" where
  "add_builtin X program_id entrypoint v =
     (let (w, s) = v
      in (replenish_program_cache X program_id (new_builtin X entrypoint) (vm_accounts s) w,
          s\<lparr>vm_accounts := add_account_no_checks program_id
             (default_account\<lparr>lamports := 1, data := [0], owner := NativeLoader,
                executable := True\<rparr>) (vm_accounts s)\<rparr>))"

section \<open>Standard programs\<close>

definition token_id :: "vm_ext \<Rightarrow> address" where
  "token_id V = b58 V ''TokenkegQfeZyiNwAJbNbGKPFXCWuBvf9Ss623VQ5DA''"

definition token_2022_id :: "vm_ext \<Rightarrow> address" where
  "token_2022_id V = b58 V ''TokenzQdBNbLqP5VEhdkAS6EPFLC1PHnBqCXEpPxuEb''"

definition associated_token_id :: "vm_ext \<Rightarrow> address" where
  "associated_token_id V = b58 V ''ATokenGPvbdGVxr1b2hvZbsiqW5xWH25efTNsLJA8knL''"

definition memo_v1_id :: "vm_ext \<Rightarrow> address" where
  "memo_v1_id V = b58 V ''Memo1UhkJRfHyvLMcVucJwxXeuD728EqVDDwQDxFMNo''"

definition memo_id :: "vm_ext \<Rightarrow> address" where
  "memo_id V = b58 V ''MemoSq4gqABAXKb96qnH8TysNcWxMyWCqXgDLGmfcHr''"

definition default_program_ids :: "vm_ext \<Rightarrow> address list" where
  "default_program_ids V =
     [token_id V, token_2022_id V, memo_v1_id V, memo_id V, associated_token_id V, ConfigProgram,
      AddressLookupTableProgram, StakeProgram]"

definition spl_program_ids :: "vm_ext \<Rightarrow> address list" where
  "spl_program_ids V = [token_id V, token_2022_id V, associated_token_id V]"

text \<open>Loading a list of vendored programs; a failure of any is a panic.\<close>

fun add_programs_preverified ::
    "vm_ext \<Rightarrow> ('pc, 'x, 'st) db_ext \<Rightarrow> (address \<times> string \<times> address) list \<Rightarrow> ('pc, 'st, 'c) vm
      \<Rightarrow> ('pc, 'st, 'c) vm option" where
  "add_programs_preverified V X [] v = Some v"
| "add_programs_preverified V X ((program_id, file, loader_id) # rest) v =
     (case add_program_internal V X program_id (elf_file V file) loader_id v of
        (v', Inl e) \<Rightarrow> None
      | (v', Inr _) \<Rightarrow> add_programs_preverified V X rest v')"

definition spl_programs :: "vm_ext \<Rightarrow> bool \<Rightarrow> (address \<times> string \<times> address) list" where
  "spl_programs V p_token =
     [if p_token then (token_id V, ''pinocchio_token_program.so'', BpfLoaderUpgradeable)
      else (token_id V, ''spl_token-3.5.0.so'', BpfLoader),
      (token_2022_id V, ''spl_token_2022-10.0.0.so'', BpfLoaderUpgradeable),
      (associated_token_id V, ''spl_associated_token_account-1.1.1.so'', BpfLoader)]"

definition non_spl_default_programs :: "vm_ext \<Rightarrow> (address \<times> string \<times> address) list" where
  "non_spl_default_programs V =
     [(memo_v1_id V, ''spl_memo-1.0.0.so'', BpfLoaderDeprecated),
      (memo_id V, ''spl_memo-3.0.0.so'', BpfLoader),
      (ConfigProgram, ''config.so'', BpfLoaderUpgradeable),
      (AddressLookupTableProgram, ''address_lookup_table.so'', BpfLoaderUpgradeable),
      (StakeProgram, ''core_bpf_stake.so'', BpfLoaderUpgradeable)]"

definition load_spl_programs ::
    "vm_ext \<Rightarrow> ('pc, 'x, 'st, 'ic) exec_ext \<Rightarrow> ('pc, 'st, 'c) vm \<Rightarrow> ('pc, 'st, 'c) vm option" where
  "load_spl_programs V E v =
     (let (w, s) = v; s' = s\<lparr>materialized := (materialized s)\<lparr>m_spl_programs := True\<rparr>\<rparr>;
          flags = load_flags (gate_id E) (feature_set (vm_version s))
      in add_programs_preverified V (db E)
           (spl_programs V (flag_enabled flags ReplaceSplTokenWithPToken)) (w, s'))"

definition load_default_programs ::
    "vm_ext \<Rightarrow> ('pc, 'x, 'st, 'ic) exec_ext \<Rightarrow> ('pc, 'st, 'c) vm \<Rightarrow> ('pc, 'st, 'c) vm option" where
  "load_default_programs V E v =
     (let (w, s) = v; s' = s\<lparr>materialized := (materialized s)\<lparr>m_default_programs := True\<rparr>\<rparr>;
          flags = load_flags (gate_id E) (feature_set (vm_version s))
      in Option.bind
           (add_programs_preverified V (db E)
             (spl_programs V (flag_enabled flags ReplaceSplTokenWithPToken)) (w, s'))
           (add_programs_preverified V (db E) (non_spl_default_programs V)))"

definition remove_all ::
    "('pc, 'x, 'st) db_ext \<Rightarrow> address list \<Rightarrow> ('pc, 'st, 'c) vm \<Rightarrow> ('pc, 'st, 'c) vm" where
  "remove_all X addrs v =
     (let (w, s) = v; (w', a') = fold (remove_account X) addrs (w, vm_accounts s)
      in (w', s\<lparr>vm_accounts := a'\<rparr>))"

definition clear_program ::
    "vm_ext \<Rightarrow> ('pc, 'x, 'st) db_ext \<Rightarrow> address \<Rightarrow> ('pc, 'st) world \<times> accounts
      \<Rightarrow> ('pc, 'st) world \<times> accounts" where
  "clear_program V X program_id wa =
     remove_account X program_id
       (if is_some_and (\<lambda>acc. owner acc = BpfLoaderUpgradeable) (get_account_ref (snd wa) program_id)
        then remove_account X (find_program_address V program_id BpfLoaderUpgradeable) wa else wa)"

definition clear_programs ::
    "vm_ext \<Rightarrow> ('pc, 'x, 'st) db_ext \<Rightarrow> address list \<Rightarrow> ('pc, 'st, 'c) vm \<Rightarrow> ('pc, 'st, 'c) vm" where
  "clear_programs V X ids v =
     (let (w, s) = v; (w', a') = fold (clear_program V X) ids (w, vm_accounts s)
      in (w', s\<lparr>vm_accounts := a'\<rparr>))"

section \<open>Features, builtins and precompiles\<close>

definition materialize_feature_accounts ::
    "vm_ext \<Rightarrow> ('pc, 'x, 'st) db_ext \<Rightarrow> 'c svm \<Rightarrow> 'c svm" where
  "materialize_feature_accounts V X s =
     (let s' = s\<lparr>materialized := (materialized s)\<lparr>m_feature_accounts := True\<rparr>\<rparr>
      in s'\<lparr>vm_accounts := fold
           (\<lambda>(feature_id, activation_slot) a. add_account_no_checks feature_id
              (feature_account V activation_slot
                (minimum_balance_for_rent_exemption X a (feature_size V))) a)
           (active_features V (feature_set (vm_version s'))) (vm_accounts s')\<rparr>)"

definition create_loadable_account_for_test :: "bytes \<Rightarrow> account" where
  "create_loadable_account_for_test name =
     \<lparr>lamports = 1, data = name, owner = NativeLoader, executable = True, rent_epoch = u64_max\<rparr>"

definition load_builtin ::
    "vm_ext \<Rightarrow> ('pc, 'x, 'st) db_ext \<Rightarrow> address set \<Rightarrow> builtin \<Rightarrow> ('pc, 'st) world \<times> accounts
      \<Rightarrow> ('pc, 'st) world \<times> accounts" where
  "load_builtin V X fs b wa =
     (let (w, a) = wa
      in if is_none_or (\<lambda>f. f \<in> fs) (builtin_feature V (builtin_id b))
         then (replenish_program_cache X (builtin_id b) (new_builtin X (register_fn b)) a w,
               add_builtin_account (builtin_id b)
                 (create_loadable_account_for_test (builtin_name V (builtin_id b))) a)
         else wa)"

definition load_builtins ::
    "vm_ext \<Rightarrow> ('pc, 'x, 'st, 'ic) exec_ext \<Rightarrow> ('pc, 'st, 'c) vm \<Rightarrow> ('pc, 'st, 'c) vm option" where
  "load_builtins V E v =
     (let (w, s) = v
      in case refresh_runtime_environments V E
                (w, s\<lparr>materialized := (materialized s)\<lparr>m_builtins := True\<rparr>\<rparr>) of
           None \<Rightarrow> None
         | Some (w1, s1) \<Rightarrow>
             let (w2, a2) = fold (load_builtin V (db E) (feature_set (vm_version s1)))
                   (builtins (db E)) (w1, vm_accounts s1)
             in Some (w2, s1\<lparr>vm_accounts := a2\<rparr>))"

fun install_precompiles ::
    "('pc, 'x, 'st) db_ext \<Rightarrow> address list \<Rightarrow> ('pc, 'st, 'c) vm \<Rightarrow> ('pc, 'st, 'c) vm option" where
  "install_precompiles X [] v = Some v"
| "install_precompiles X (program_id # ids) v =
     (case svm_set_account X program_id
             (default_account\<lparr>lamports := 1, owner := NativeLoader, executable := True\<rparr>) v of
        (v', Inl e) \<Rightarrow> None
      | (v', Inr _) \<Rightarrow> install_precompiles X ids v')"

definition load_precompiles ::
    "('pc, 'x, 'st) db_ext \<Rightarrow> ('pc, 'st, 'c) vm \<Rightarrow> ('pc, 'st, 'c) vm option" where
  "load_precompiles X v =
     (let fs = feature_set (vm_version (snd v)); p = precompiles (snd v)
      in install_precompiles X
           (filter (\<lambda>pid. is_some_and (\<lambda>e. pre_is_enabled e fs) (prov_get p pid)) (prov_program_ids p)) v)"

definition set_precompiles ::
    "('pc, 'x, 'st) db_ext \<Rightarrow> ('pc, 'st, 'c) vm \<Rightarrow> ('pc, 'st, 'c) vm option" where
  "set_precompiles X v =
     (let (w, s) = v in load_precompiles X (w, s\<lparr>standard_precompiles := True\<rparr>))"

definition set_precompile_provider ::
    "('pc, 'x, 'st) db_ext \<Rightarrow> precompile_provider \<Rightarrow> ('pc, 'st, 'c) vm \<Rightarrow> ('pc, 'st, 'c) vm option" where
  "set_precompile_provider X p v =
     (let (w, s) = v in load_precompiles X (w, s\<lparr>precompiles := p\<rparr>))"

text \<open>The runtime's callbacks for precompiles.\<close>

definition svm_is_precompile :: "'c svm \<Rightarrow> address \<Rightarrow> bool" where
  "svm_is_precompile s k =
     is_some_and (\<lambda>e. pre_is_enabled e (feature_set (vm_version s))) (prov_get (precompiles s) k)"

definition svm_process_precompile ::
    "'c svm \<Rightarrow> address \<Rightarrow> bytes \<Rightarrow> bytes list \<Rightarrow> precompile_error + unit" where
  "svm_process_precompile s k bs slices =
     (case prov_get (precompiles s) k of
        Some e \<Rightarrow>
          if pre_is_enabled e (feature_set (vm_version s))
          then pre_verify e bs slices (feature_set (vm_version s)) else Inl InvalidPublicKey
      | None \<Rightarrow> Inl InvalidPublicKey)"

definition reconfigure_materialized_feature_state ::
    "vm_ext \<Rightarrow> ('pc, 'x, 'st, 'ic) exec_ext \<Rightarrow> address set \<Rightarrow> ('pc, 'st, 'c) vm
      \<Rightarrow> (('pc, 'st, 'c) vm \<times> (hpsvm_error + unit)) option" where
  "reconfigure_materialized_feature_state V E old_features v =
     (let X = db E; m = materialized (snd v);
          v1 = (if m_feature_accounts m
                then (let (w, s) = remove_all X (map fst (active_features V old_features)) v
                      in (w, materialize_feature_accounts V X s)) else v);
          v2 = (if m_default_programs m then clear_programs V X (default_program_ids V) v1 else v1);
          v3 = (if m_spl_programs m then clear_programs V X (spl_program_ids V) v2 else v2);
          r4 = (if m_builtins m then load_builtins V E (remove_all X (map builtin_id (builtins X)) v3)
                else if custom_syscalls (snd v3) \<noteq> [] then refresh_runtime_environments V E v3
                else Some v3);
          r5 = Option.bind r4 (\<lambda>v4. if standard_precompiles (snd v4)
                then load_precompiles X (remove_all X (prov_program_ids (precompiles (snd v4))) v4) else Some v4);
          r6 = Option.bind r5 (\<lambda>v5. if m_default_programs m then load_default_programs V E v5 else Some v5);
          r7 = Option.bind r6 (\<lambda>v6. if m_spl_programs m then load_spl_programs V E v6 else Some v6)
      in map_option (rebuild_programs X) r7)"

definition set_feature_set ::
    "vm_ext \<Rightarrow> ('pc, 'x, 'st, 'ic) exec_ext \<Rightarrow> address set \<Rightarrow> ('pc, 'st, 'c) vm
      \<Rightarrow> (('pc, 'st, 'c) vm \<times> (hpsvm_error + unit)) option" where
  "set_feature_set V E fs v =
     (let (w, s) = v;
          previous_feature_set = feature_set (vm_version s);
          previous_accounts = accounts_clone (vm_accounts s);
          previous_reserved = reserved_keys s;
          s1 = s\<lparr>vm_version := (vm_version s)\<lparr>feature_set := fs\<rparr>, reserved_keys := reserved_for V fs\<rparr>
      in case reconfigure_materialized_feature_state V E previous_feature_set (w, s1) of
           None \<Rightarrow> None
         | Some (v2, Inr _) \<Rightarrow> Some (v2, Inr ())
         | Some ((w2, s2), Inl err) \<Rightarrow>
             let s3 = s2\<lparr>vm_version := (vm_version s2)\<lparr>feature_set := previous_feature_set\<rparr>,
                         reserved_keys := previous_reserved, vm_accounts := previous_accounts\<rparr>
             in Some (fst (rebuild_programs (db E) (w2, s3)), Inl err))"

end
