(* ===== verification/Vm_Run.thy ===== *)
theory Vm_Run
  imports Vm_Config
begin

text \<open>
  Instruction-level entry points of \<^verbatim>\<open>vm.rs\<close>, the airdrop, and program deployment through
  transactions (\<^verbatim>\<open>loader.rs\<close>, \<^verbatim>\<open>instruction.rs\<close>). Building messages, signing and encoding loader
  instructions is what other crates do; it is the record \<open>msg_ext\<close>.
\<close>

record msg_ext =
  unsigned_tx :: "instruction list \<Rightarrow> address \<Rightarrow> hash \<Rightarrow> versioned_tx"
  signed_tx :: "instruction list \<Rightarrow> address \<Rightarrow> address list \<Rightarrow> hash \<Rightarrow> versioned_tx"
  transfer_ix :: "address \<Rightarrow> address \<Rightarrow> u64 \<Rightarrow> instruction"
  create_buffer_ixs ::
    "address \<Rightarrow> address \<Rightarrow> address \<Rightarrow> u64 \<Rightarrow> nat \<Rightarrow> instruction_error + instruction list"
  write_ix :: "address \<Rightarrow> address \<Rightarrow> u32 \<Rightarrow> bytes \<Rightarrow> instruction"
  deploy_ixs :: "address \<Rightarrow> address \<Rightarrow> address \<Rightarrow> address \<Rightarrow> u64 \<Rightarrow> nat
      \<Rightarrow> instruction_error + instruction list"
  set_authority_ix :: "address \<Rightarrow> address \<Rightarrow> address option \<Rightarrow> instruction"
  size_of_buffer :: "nat \<Rightarrow> nat"

section \<open>Scoped changes\<close>

definition with_temporary_account_source ::
    "account_source
      \<Rightarrow> (('pc, 'st, 'c) vm \<Rightarrow> (('pc, 'st, 'c) vm \<times> hook_event list \<times> 'o) option)
      \<Rightarrow> ('pc, 'st, 'c) vm \<Rightarrow> (('pc, 'st, 'c) vm \<times> hook_event list \<times> 'o) option" where
  "with_temporary_account_source src op v =
     (let (w, s) = v;
          (previous_source, a) = replace_account_source src (vm_accounts s)
      in map_option
           (\<lambda>((w', s'), evs, r).
              ((w', s'\<lparr>vm_accounts := set_account_source previous_source (vm_accounts s')\<rparr>), evs, r))
           (op (w, s\<lparr>vm_accounts := a\<rparr>)))"

definition airdrop ::
    "msg_ext \<Rightarrow> ('pc, 'x, 'st) db_ext \<Rightarrow> 'c history_ops \<Rightarrow> ('pc, 'st, 'c) handlers
      \<Rightarrow> address \<Rightarrow> u64 \<Rightarrow> ('pc, 'st, 'c) vm
      \<Rightarrow> (('pc, 'st, 'c) vm \<times> hook_event list \<times> transaction_result) option" where
  "airdrop M X L Hs addr lamps v =
     (let payer = airdrop_pubkey (snd v);
          tx = signed_tx M [transfer_ix M payer addr lamps] payer [payer] (latest_blockhash (snd v))
      in with_temporary_account_source empty_account_source
           (with_transaction_origin InternalAirdropOrigin (send_transaction X L Hs tx)) v)"

section \<open>Instruction chains\<close>

definition fee_payer_for_instructions :: "instruction list \<Rightarrow> address \<Rightarrow> address" where
  "fee_payer_for_instructions ixs fallback =
     (let metas = concat (map ix_accounts ixs)
      in unwrap_or fallback (map_option meta_pubkey
           (case List.find is_signer metas of
              Some m \<Rightarrow> Some m | None \<Rightarrow> List.find is_writable_meta metas)))"

definition instruction_chain_transaction ::
    "msg_ext \<Rightarrow> instruction list \<Rightarrow> 'c svm \<Rightarrow> versioned_tx" where
  "instruction_chain_transaction M ixs s =
     unsigned_tx M ixs (fee_payer_for_instructions ixs (airdrop_pubkey s)) (latest_blockhash s)"

definition process_instruction_chain ::
    "msg_ext \<Rightarrow> ('pc, 'x, 'st) db_ext \<Rightarrow> 'c history_ops \<Rightarrow> ('pc, 'st, 'c) handlers
      \<Rightarrow> instruction list \<Rightarrow> ('pc, 'st, 'c) vm
      \<Rightarrow> (('pc, 'st, 'c) vm \<times> hook_event list \<times> transaction_result) option" where
  "process_instruction_chain M X L Hs ixs v =
     (let (w, s) = v;
          tx = instruction_chain_transaction M ixs s;
          saved = sigverify (vm_version s)
      in case transact_core X Hs tx (w, set_sigverify False s) of
           None \<Rightarrow> None
         | Some (v1, evs, outcome) \<Rightarrow>
             let ((w2, s2), evs2, res) =
                   (case outcome of Inr staged \<Rightarrow> commit L staged v1
                    | Inl failure \<Rightarrow> (v1, [], sf_result failure))
             in Some ((w2, set_sigverify saved s2), evs @ evs2, res))"

definition rejected_pre_account :: transaction_result where
  "rejected_pre_account =
     Inl \<lparr>failed_err = InstructionError 0 InvalidAccountData, failed_meta = default_metadata\<rparr>"

fun set_accounts ::
    "('pc, 'x, 'st) db_ext \<Rightarrow> (address \<times> account) list \<Rightarrow> ('pc, 'st, 'c) vm
      \<Rightarrow> ('pc, 'st, 'c) vm \<times> (hpsvm_error + unit)" where
  "set_accounts X [] v = (v, Inr ())"
| "set_accounts X ((addr, acc) # rest) v =
     (case svm_set_account X addr acc v of
        (v', Inl e) \<Rightarrow> (v', Inl e)
      | (v', Inr _) \<Rightarrow> set_accounts X rest v')"

definition process_instruction_chain_with_accounts ::
    "msg_ext \<Rightarrow> ('pc, 'x, 'st) db_ext \<Rightarrow> 'c history_ops \<Rightarrow> ('pc, 'st, 'c) handlers
      \<Rightarrow> instruction list \<Rightarrow> (address \<times> account) list \<Rightarrow> ('pc, 'st, 'c) vm
      \<Rightarrow> (('pc, 'st, 'c) vm \<times> hook_event list \<times> transaction_result) option" where
  "process_instruction_chain_with_accounts M X L Hs ixs pre v =
     (case set_accounts X pre v of
        (v', Inl _) \<Rightarrow> Some (v', [], rejected_pre_account)
      | (v', Inr _) \<Rightarrow> process_instruction_chain M X L Hs ixs v')"

definition process_instruction_ix ::
    "msg_ext \<Rightarrow> ('pc, 'x, 'st) db_ext \<Rightarrow> 'c history_ops \<Rightarrow> ('pc, 'st, 'c) handlers
      \<Rightarrow> instruction \<Rightarrow> ('pc, 'st, 'c) vm
      \<Rightarrow> (('pc, 'st, 'c) vm \<times> hook_event list \<times> transaction_result) option" where
  "process_instruction_ix M X L Hs ix v = process_instruction_chain M X L Hs [ix] v"

definition detached_simulation ::
    "detached_tx \<Rightarrow> failed_transaction_metadata + transaction_metadata \<times> post_accounts" where
  "detached_simulation d =
     (case status d of
        Inl err \<Rightarrow> Inl \<lparr>failed_err = err, failed_meta = meta d\<rparr>
      | Inr _ \<Rightarrow> Inr (meta d, det_post_accounts d))"

definition simulate_instruction_chain ::
    "msg_ext \<Rightarrow> ('pc, 'st, 'c) handlers \<Rightarrow> instruction list \<Rightarrow> ('pc, 'st, 'c) vm
      \<Rightarrow> ('pc, 'st, failed_transaction_metadata + transaction_metadata \<times> post_accounts) outcome" where
  "simulate_instruction_chain M Hs ixs v =
     (let (w, s) = v;
          working = set_sigverify False (svm_clone s);
          tx = instruction_chain_transaction M ixs working
      in map_outcome detached_simulation (transact_detached Hs tx (w, working)))"

definition simulate_instruction_chain_with_accounts ::
    "msg_ext \<Rightarrow> ('pc, 'x, 'st) db_ext \<Rightarrow> ('pc, 'st, 'c) handlers \<Rightarrow> instruction list
      \<Rightarrow> (address \<times> account) list \<Rightarrow> ('pc, 'st, 'c) vm
      \<Rightarrow> ('pc, 'st, failed_transaction_metadata + transaction_metadata \<times> post_accounts) outcome" where
  "simulate_instruction_chain_with_accounts M X Hs ixs pre v =
     (let (w, s) = v
      in case set_accounts X pre (w, svm_clone s) of
           ((w', working), Inl _) \<Rightarrow>
             Some (w', [], Inl \<lparr>failed_err = InstructionError 0 InvalidAccountData,
                               failed_meta = default_metadata\<rparr>)
         | ((w', working), Inr _) \<Rightarrow>
             let working' = set_sigverify False working;
                 tx = instruction_chain_transaction M ixs working'
             in map_outcome detached_simulation (transact_detached Hs tx (w', working')))"

section \<open>Instruction cases\<close>

record instruction_case =
  case_program_id :: address
  case_accounts :: "account_meta list"
  case_data :: bytes
  pre_accounts :: "(address \<times> account) list"

definition case_instruction :: "instruction_case \<Rightarrow> instruction" where
  "case_instruction c =
     \<lparr>ix_program_id = case_program_id c, ix_accounts = case_accounts c, ix_data = case_data c\<rparr>"

definition fee_payer_for_instruction_case :: "address \<Rightarrow> instruction_case \<Rightarrow> address" where
  \<comment> \<open>the first argument is the fresh address used when the case has no accounts\<close>
  "fee_payer_for_instruction_case new_unique c =
     unwrap_or new_unique (map_option meta_pubkey
       (case List.find is_signer (case_accounts c) of
          Some m \<Rightarrow> Some m
        | None \<Rightarrow>
            (case List.find is_writable_meta (case_accounts c) of
               Some m \<Rightarrow> Some m
             | None \<Rightarrow> list_first (case_accounts c))))"

definition process_instruction_case ::
    "msg_ext \<Rightarrow> address \<Rightarrow> ('pc, 'x, 'st) db_ext \<Rightarrow> ('pc, 'st, 'c) handlers \<Rightarrow> instruction_case
      \<Rightarrow> ('pc, 'st, 'c) vm \<Rightarrow> ('pc, 'st, hpsvm_error + detached_tx) outcome" where
  "process_instruction_case M new_unique X Hs c v =
     (let (w, s) = v;
          payer = fee_payer_for_instruction_case new_unique c
      in case set_accounts X (pre_accounts c) (w, set_sigverify False (svm_clone s)) of
           ((w1, s1), Inl e) \<Rightarrow> Some (w1, [], Inl e)
         | ((w1, s1), Inr _) \<Rightarrow>
             (case (if get_account (vm_accounts s1) payer = None
                    then svm_set_account X payer
                           (default_account\<lparr>lamports := 1000000000, owner := SystemProgram\<rparr>) (w1, s1)
                    else ((w1, s1), Inr ())) of
                ((w2, s2), Inl e) \<Rightarrow> Some (w2, [], Inl e)
              | ((w2, s2), Inr _) \<Rightarrow>
                  try_transact Hs (unsigned_tx M [case_instruction c] payer (latest_blockhash s2))
                    (w2, s2)))"

section \<open>Deploying a program\<close>

definition chunk_size :: nat where
  "chunk_size = 512"

definition loader_instruction_error :: "instruction_error \<Rightarrow> failed_transaction_metadata" where
  "loader_instruction_error e = \<lparr>failed_err = InstructionError 0 e, failed_meta = default_metadata\<rparr>"

fun chunks_fuel :: "nat \<Rightarrow> nat \<Rightarrow> 'a list \<Rightarrow> 'a list list" where
  "chunks_fuel 0 n xs = []"
| "chunks_fuel (Suc k) n xs = (if xs = [] then [] else take n xs # chunks_fuel k n (drop n xs))"

definition list_chunks :: "nat \<Rightarrow> 'a list \<Rightarrow> 'a list list" where
  "list_chunks n xs = chunks_fuel (length xs) n xs"

text \<open>
  The writes of a program: one per chunk with the byte offset, which must fit 32 bits; the
  64-bit offset is advanced after each write.
\<close>

definition u32_try_from :: "u64 \<Rightarrow> u32 option" where
  "u32_try_from x = (if unat x < 2 ^ 32 then Some (ucast x) else None)"

fun send_chunks ::
    "msg_ext \<Rightarrow> ('pc, 'x, 'st) db_ext \<Rightarrow> 'c history_ops \<Rightarrow> ('pc, 'st, 'c) handlers
      \<Rightarrow> address \<Rightarrow> address \<Rightarrow> u64 \<Rightarrow> bytes list \<Rightarrow> ('pc, 'st, 'c) vm
      \<Rightarrow> (('pc, 'st, 'c) vm \<times> hook_event list \<times> (failed_transaction_metadata + unit)) option" where
  "send_chunks M X L Hs buffer payer offset [] v = Some (v, [], Inr ())"
| "send_chunks M X L Hs buffer payer offset (chunk # rest) v =
     (case u32_try_from offset of
        None \<Rightarrow> Some (v, [], Inl (loader_instruction_error (Custom 0)))
      | Some off \<Rightarrow>
          (case send_transaction X L Hs
                  (signed_tx M [write_ix M buffer payer off chunk] payer [payer]
                    (latest_blockhash (snd v))) v of
             None \<Rightarrow> None
           | Some (v', evs, Inl failure) \<Rightarrow> Some (v', evs, Inl failure)
           | Some (v', evs, Inr _) \<Rightarrow>
               map_option (\<lambda>(v'', evs', r). (v'', evs @ evs', r))
                 (send_chunks M X L Hs buffer payer (offset + of_nat chunk_size) rest v')))"

definition load_upgradeable_buffer ::
    "msg_ext \<Rightarrow> ('pc, 'x, 'st) db_ext \<Rightarrow> 'c history_ops \<Rightarrow> ('pc, 'st, 'c) handlers
      \<Rightarrow> address \<Rightarrow> address \<Rightarrow> bytes \<Rightarrow> ('pc, 'st, 'c) vm
      \<Rightarrow> (('pc, 'st, 'c) vm \<times> hook_event list \<times> (failed_transaction_metadata + address)) option" where
  \<comment> \<open>the fifth argument is the address of the fresh buffer key\<close>
  "load_upgradeable_buffer M X L Hs buffer payer program_bytes v =
     (let lamps = minimum_balance_for_rent_exemption X (vm_accounts (snd v))
            (size_of_buffer M (length program_bytes))
      in case create_buffer_ixs M payer buffer payer lamps (length program_bytes) of
           Inl e \<Rightarrow> Some (v, [], Inl (loader_instruction_error e))
         | Inr ixs \<Rightarrow>
             (case send_transaction X L Hs
                     (signed_tx M ixs payer [payer, buffer] (latest_blockhash (snd v))) v of
                None \<Rightarrow> None
              | Some (v1, evs, Inl failure) \<Rightarrow> Some (v1, evs, Inl failure)
              | Some (v1, evs, Inr _) \<Rightarrow>
                  map_option (\<lambda>(v2, evs', r). (v2, evs @ evs', map_ok (\<lambda>_. buffer) r))
                    (send_chunks M X L Hs buffer payer 0 (list_chunks chunk_size program_bytes) v1)))"

definition deploy_upgradeable_program ::
    "msg_ext \<Rightarrow> ('pc, 'x, 'st) db_ext \<Rightarrow> 'c history_ops \<Rightarrow> ('pc, 'st, 'c) handlers
      \<Rightarrow> address \<Rightarrow> address \<Rightarrow> address \<Rightarrow> bytes \<Rightarrow> ('pc, 'st, 'c) vm
      \<Rightarrow> (('pc, 'st, 'c) vm \<times> hook_event list \<times> (failed_transaction_metadata + unit)) option" where
  "deploy_upgradeable_program M X L Hs new_buffer payer program_id program_bytes v =
     (case load_upgradeable_buffer M X L Hs new_buffer payer program_bytes v of
        None \<Rightarrow> None
      | Some (v1, evs, Inl failure) \<Rightarrow> Some (v1, evs, Inl failure)
      | Some (v1, evs, Inr buffer) \<Rightarrow>
          (case deploy_ixs M payer program_id buffer payer
                  (minimum_balance_for_rent_exemption X (vm_accounts (snd v1)) (length program_bytes))
                  (length program_bytes * 2) of
             Inl e \<Rightarrow> Some (v1, evs, Inl (loader_instruction_error e))
           | Inr ixs \<Rightarrow>
               map_option (\<lambda>(v2, evs', r). (v2, evs @ evs', map_ok (\<lambda>_. ()) r))
                 (send_transaction X L Hs
                   (signed_tx M ixs payer [payer, program_id] (latest_blockhash (snd v1))) v1)))"

definition set_upgrade_authority ::
    "msg_ext \<Rightarrow> ('pc, 'x, 'st) db_ext \<Rightarrow> 'c history_ops \<Rightarrow> ('pc, 'st, 'c) handlers
      \<Rightarrow> address \<Rightarrow> address \<Rightarrow> address \<Rightarrow> address option \<Rightarrow> ('pc, 'st, 'c) vm
      \<Rightarrow> (('pc, 'st, 'c) vm \<times> hook_event list \<times> (failed_transaction_metadata + unit)) option" where
  "set_upgrade_authority M X L Hs payer program_address authority new_authority v =
     (let signers = (if payer \<noteq> authority then [payer, authority] else [payer])
      in map_option (\<lambda>(v', evs, r). (v', evs, map_ok (\<lambda>_. ()) r))
           (send_transaction X L Hs
             (signed_tx M [set_authority_ix M program_address authority new_authority] payer signers
               (latest_blockhash (snd v))) v))"

end
