(* ===== verification/Vm_Props.thy ===== *)
theory Vm_Props
  imports Vm_Run Example_Exec
begin

text \<open>
  Properties of the VM's configuration and entry points: what they leave alone, that scoped
  changes are undone, the clock round trip, and what failing reconfigurations leave behind.
\<close>

section \<open>Settings\<close>

text \<open>Everything of a VM but its accounts, its history and its tier policy, and its source.\<close>

definition vm_settings ::
    "'c svm \<Rightarrow> version \<times> hash \<times> u64 \<times> transaction_origin \<times> inspector option \<times> tx_registry \<times>
      address set \<times> materialized_state \<times> address \<times> (string \<times> nat) list \<times> bool \<times> precompile_provider \<times> account_source" where
  "vm_settings s =
     (vm_version s, latest_blockhash s, block_slot s, inspection_origin s, vm_inspector s,
      registry s, reserved_keys s, materialized s, airdrop_pubkey s, custom_syscalls s,
      standard_precompiles s, precompiles s, source (vm_accounts s))"

lemma add_accounts_source: "source (snd (fst (add_accounts X accs wa))) = source (snd wa)"
proof (induction accs arbitrary: wa)
  case (Cons p accs)
  obtain k acc where p: "p = (k, acc)" by (cases p)
  obtain w a where wa: "wa = (w, a)" by (cases wa)
  obtain w' a' r where r: "add_account X k acc (w, a) = ((w', a'), r)" by (metis prod.exhaust)
  have "source a' = source a" using add_account_overlay [OF r] by (auto simp: put_like_def)
  then show ?case using Cons.IH [of "(w', a')"] r by (cases r) (simp_all add: p wa)
qed simp

lemma rollback_source: "source (rollback a cp) = source a"
  by (simp add: rollback_eq)

lemma sync_jit_settings [simp]: "vm_settings (svm_sync_jit_policy s) = vm_settings s"
  by (simp add: svm_sync_jit_policy_def sync_jit_policy_def vm_settings_def Let_def)

lemma stage_settings: "vm_settings (snd (fst (stage_detached X d (w, s)))) = vm_settings s"
proof (cases "fatal_error d")
  case (Some e)
  then show ?thesis by (simp add: stage_detached_fatal)
next
  case None
  obtain w' a' r where sy: "sync_accounts X (staged_post d) (w, vm_accounts s) = ((w', a'), r)"
    by (metis prod.exhaust)
  then have "source a' = source (vm_accounts s)"
    using add_accounts_source [of X "partition_programdata (staged_post d)" "(w, vm_accounts s)"]
    by (simp add: sync_accounts_def)
  then show ?thesis
    by (cases r) (simp_all add: stage_detached_unfold [OF None sy] vm_settings_def rollback_source)
qed

lemma commit_settings:
  "vm_settings (snd (fst (commit L et v))) = vm_settings (snd v)"
  by (cases v) (simp add: commit_def vm_settings_def)

lemma transact_core_settings:
  assumes "transact_core X Hs tx (w, s) = Some (v', evs, r)"
  shows "vm_settings (snd v') = vm_settings s"
proof -
  obtain w1 evs1 o1 where d: "dispatch_detached Hs tx (svm_sync_jit_policy s) w = Some (w1, evs1, o1)"
    using assms by (auto simp: transact_core_def Let_def split: option.splits)
  show ?thesis
  proof (cases o1)
    case (Inl e)
    with d assms show ?thesis by (auto simp: transact_core_def Let_def)
  next
    case (Inr detached)
    with d assms stage_settings [of X detached w1 "svm_sync_jit_policy s"] show ?thesis
      by (auto simp: transact_core_def Let_def split: prod.splits)
  qed
qed

lemma send_transaction_settings:
  assumes "send_transaction X L Hs tx (w, s) = Some (v', evs, r)"
  shows "vm_settings (snd v') = vm_settings s"
proof -
  obtain v1 evs1 o1 where t: "transact_core X Hs tx (w, s) = Some (v1, evs1, o1)"
    using assms by (auto simp: send_transaction_def split: option.splits)
  have s1: "vm_settings (snd v1) = vm_settings s" using t by (rule transact_core_settings)
  show ?thesis
  proof (cases o1)
    case (Inl f)
    with assms t s1 show ?thesis by (auto simp: send_transaction_def)
  next
    case (Inr staged)
    with assms t s1 commit_settings [of L staged v1] show ?thesis
      by (auto simp: send_transaction_def split: prod.splits)
  qed
qed

lemma airdrop_settings:
  assumes "airdrop M X L Hs addr lamps (w, s) = Some ((w1, s1), evs, r)"
  shows "vm_settings s1 = vm_settings s"
proof -
  let ?tx = "signed_tx M [transfer_ix M (airdrop_pubkey s) addr lamps] (airdrop_pubkey s)
      [airdrop_pubkey s] (latest_blockhash s)"
  let ?s0 = "s\<lparr>vm_accounts := set_account_source empty_account_source (vm_accounts s),
      inspection_origin := InternalAirdropOrigin\<rparr>"
  obtain w' s' where sd: "send_transaction X L Hs ?tx (w, ?s0) = Some ((w', s'), evs, r)"
    and s1: "s1 = s'\<lparr>inspection_origin := inspection_origin s,
      vm_accounts := set_account_source (source (vm_accounts s)) (vm_accounts s')\<rparr>"
    using assms
    by (auto simp: airdrop_def with_temporary_account_source_def with_transaction_origin_def
        replace_account_source_def set_account_source_def Let_def)
  from send_transaction_settings [OF sd] show ?thesis
    by (simp add: s1 vm_settings_def set_account_source_def)
qed

lemma process_instruction_chain_settings:
  assumes "process_instruction_chain M X L Hs ixs (w, s) = Some ((w2, s2), evs, r)"
  shows "vm_settings s2 = vm_settings s"
proof -
  obtain v1 evs1 o1 where t: "transact_core X Hs (instruction_chain_transaction M ixs s)
      (w, set_sigverify False s) = Some (v1, evs1, o1)"
    and s2: "s2 = set_sigverify (sigverify (vm_version s))
      (snd (fst (case o1 of Inr staged \<Rightarrow> commit L staged v1 | Inl f \<Rightarrow> (v1, [], sf_result f))))"
    using assms
    by (auto simp: process_instruction_chain_def Let_def split: option.splits prod.splits)
  have "vm_settings (snd v1) = vm_settings (set_sigverify False s)"
    using t by (rule transact_core_settings)
  then show ?thesis
    using commit_settings [of L _ v1]
    by (cases o1) (auto simp: s2 vm_settings_def set_sigverify_def)
qed


section \<open>The clock\<close>

text \<open>
  What the sysvar crates document about the clock: its encoding fits its account, decodes
  back, and fills the sysvar cache.
\<close>

definition clock_codec :: "vm_ext \<Rightarrow> ('pc, 'x, 'st) db_ext \<Rightarrow> (clock \<Rightarrow> bytes) \<Rightarrow> bool" where
  "clock_codec V X enc \<longleftrightarrow>
     (\<forall>ck. sv_id (clock_sysvar V ck) = ClockSysvar \<and>
        sv_write (clock_sysvar V ck) (sv_size (clock_sysvar V ck)) = Inr (enc ck) \<and>
        clock_decode V (enc ck) = Inr ck \<and> sysvar_decodes X ClockSysvar (enc ck)) \<and>
     (\<forall>f ck. f ClockSysvar = Some (enc ck) \<longrightarrow> get_clock (sysvar_fill X f) = Some ck)"

lemma add_clock:
  assumes "clock_codec V X enc"
    and "\<not> is_some_and executable (get_account_ref a ClockSysvar)"
  shows "add_account X ClockSysvar (sysvar_account (enc ck)) (w, a) =
     (rebuild_sysvar_cache X (w, overlay_put ClockSysvar (sysvar_account (enc ck)) a), Inr ())"
proof -
  let ?acc = "sysvar_account (enc ck)"
  have p: "prepare_account X ClockSysvar ?acc a w = (w, Inr None)"
    using assms(1)
    by (auto simp: prepare_account_def Let_def validate_sysvar_account_def sysvar_error_def
        sysvar_account_def default_account_def is_cached_program_account_def clock_codec_def)
  have h: "\<not> is_some_and (is_cached_program_account ClockSysvar) (inner (cache a) ClockSysvar)"
    using assms(2) by (auto simp: get_account_ref_def is_some_and_def is_cached_program_account_def
        split: option.splits)
  have m: "is_managed_sysvar_account ClockSysvar" by (simp add: is_managed_sysvar_account_def)
  show ?thesis
    by (simp add: add_account_unfold p h m refresh_program_cache_def Let_def)
qed

text \<open>
  C29. Warping is a round trip: on a VM with a clock account, warping to a slot does not
  panic, and afterwards the clock account, the sysvar cache, the block environment and the
  program cache all show that slot, while the other fields of the clock are unchanged.
\<close>

theorem warp_to_slot_visible:
  assumes "db_crates X entries" and "clock_codec V X enc"
    and "get_account_ref (vm_accounts s) ClockSysvar = Some (sysvar_account (enc ck))"
  shows "\<exists>w' s'. warp_to_slot V X sl (w, s) = Some (w', s') \<and>
     try_get_clock V s' = Inr (ck\<lparr>slot := sl\<rparr>) \<and> current_slot (vm_accounts s') = sl \<and>
     block_slot s' = sl \<and> pc_slot X (caches w' (programs_cache (vm_accounts s'))) = sl"
proof -
  let ?ck = "ck\<lparr>slot := sl\<rparr>"
  let ?a = "overlay_put ClockSysvar (sysvar_account (enc ?ck)) (vm_accounts s)"
  have codec: "sv_id (clock_sysvar V c) = ClockSysvar"
    "sv_write (clock_sysvar V c) (sv_size (clock_sysvar V c)) = Inr (enc c)"
    "clock_decode V (enc c) = Inr c" for c
    using assms(2) by (simp_all add: clock_codec_def)
  have get: "try_get_clock V s = Inr ck"
    using assms(3) codec by (simp add: try_get_clock_def sysvar_account_def)
  have ne: "\<not> is_some_and executable (get_account_ref (vm_accounts s) ClockSysvar)"
    using assms(3) by (simp add: is_some_and_def sysvar_account_def default_account_def)
  have inner: "inner (cache ?a) ClockSysvar = Some (sysvar_account (enc ?ck))"
    by (simp add: overlay_put_def sysvar_account_def default_account_def db_simps)
  have fill: "get_clock (sysvar_fill X (\<lambda>pk. map_option data (inner (cache ?a) pk))) = Some ?ck"
    using assms(2) inner by (simp add: clock_codec_def sysvar_account_def)
  have sl: "pc_slot X (pc_set_slot X c n) = n" for c n
    using assms(1) by (rule db_crates.pc_set_slot_slot)
  show ?thesis
    using get add_clock [OF assms(2) ne, of ?ck w] fill inner sl
    by (simp add: warp_to_slot_def set_sysvar_internal_def try_set_sysvar_def codec
        rebuild_sysvar_cache_def Let_def sync_block_env_slot_def current_slot_def unwrap_or_def
        try_get_clock_def get_account_ref_def) (simp add: sysvar_account_def codec)
qed

section \<open>Reconfiguration\<close>

text \<open>What no reconfiguration step touches.\<close>

definition vm_fixed ::
    "'c svm \<Rightarrow> version \<times> 'c transaction_history \<times> (string \<times> nat) list \<times> hash \<times>
      transaction_origin \<times> inspector option \<times> tx_registry \<times> address \<times> bool \<times> precompile_provider \<times> address set" where
  "vm_fixed s =
     (vm_version s, vm_history s, custom_syscalls s, latest_blockhash s, inspection_origin s,
      vm_inspector s, registry s, airdrop_pubkey s, standard_precompiles s, precompiles s,
      reserved_keys s)"

lemma vm_fixed_updates [simp]:
  "vm_fixed (s\<lparr>vm_accounts := a\<rparr>) = vm_fixed s" "vm_fixed (s\<lparr>materialized := m\<rparr>) = vm_fixed s"
  "vm_fixed (s\<lparr>block_slot := n\<rparr>) = vm_fixed s" "vm_fixed (svm_sync_jit_policy s) = vm_fixed s"
  "vm_fixed (sync_block_env_slot s) = vm_fixed s"
  by (simp_all add: vm_fixed_def svm_sync_jit_policy_def sync_block_env_slot_def Let_def)

lemma remove_all_fixed [simp]: "vm_fixed (snd (remove_all X ks v)) = vm_fixed (snd v)"
  by (simp add: remove_all_def split: prod.split)

lemma clear_programs_fixed [simp]: "vm_fixed (snd (clear_programs V X ks v)) = vm_fixed (snd v)"
  by (simp add: clear_programs_def split: prod.split)

lemma materialize_fixed [simp]: "vm_fixed (materialize_feature_accounts V X s) = vm_fixed s"
  by (simp add: materialize_feature_accounts_def Let_def)

lemma rebuild_programs_fixed [simp]: "vm_fixed (snd (fst (rebuild_programs X v))) = vm_fixed (snd v)"
  by (simp add: rebuild_programs_def Let_def split: prod.split)

lemma svm_set_account_fixed:
  "svm_set_account X k acc v = (v', r) \<Longrightarrow> vm_fixed (snd v') = vm_fixed (snd v)"
  by (auto simp: svm_set_account_def Let_def split: prod.splits sum.splits)

lemma add_program_internal_fixed:
  "add_program_internal V X k bs l v = (v', r) \<Longrightarrow> vm_fixed (snd v') = vm_fixed (snd v)"
  by (auto simp: add_program_internal_def Let_def split: prod.splits sum.splits)

lemma refresh_fixed:
  "refresh_runtime_environments V E v = Some v' \<Longrightarrow> vm_fixed (snd v') = vm_fixed (snd v)"
  by (cases v) (auto simp: refresh_runtime_environments_def try_refresh_runtime_environments_def
      Let_def split: prod.splits sum.splits if_splits option.splits)

lemma load_builtins_fixed:
  "load_builtins V E v = Some v' \<Longrightarrow> vm_fixed (snd v') = vm_fixed (snd v)"
  by (cases v) (auto simp: load_builtins_def Let_def dest!: refresh_fixed
      split: prod.splits option.splits)

lemma install_precompiles_fixed:
  "install_precompiles X ks v = Some v' \<Longrightarrow> vm_fixed (snd v') = vm_fixed (snd v)"
  by (induction ks arbitrary: v)
    (auto split: prod.splits sum.splits dest!: svm_set_account_fixed)

lemma add_programs_preverified_fixed:
  "add_programs_preverified V X ps v = Some v' \<Longrightarrow> vm_fixed (snd v') = vm_fixed (snd v)"
proof (induction ps arbitrary: v)
  case (Cons p ps)
  then show ?case
    by (cases p) (auto split: prod.splits sum.splits dest!: add_program_internal_fixed)
qed simp

lemma load_programs_fixed:
  "load_default_programs V E v = Some v' \<Longrightarrow> vm_fixed (snd v') = vm_fixed (snd v)"
  "load_spl_programs V E v = Some v' \<Longrightarrow> vm_fixed (snd v') = vm_fixed (snd v)"
  by (cases v; auto simp: load_default_programs_def load_spl_programs_def Let_def bind_eq_Some_conv
      dest!: add_programs_preverified_fixed)+

lemma reconfigure_fixed:
  assumes "reconfigure_materialized_feature_state V E old v = Some (v', r)"
  shows "vm_fixed (snd v') = vm_fixed (snd v)"
proof -
  let ?X = "db E" and ?m = "materialized (snd v)"
  let ?v1 = "if m_feature_accounts ?m
    then (let (w, s) = remove_all ?X (map fst (active_features V old)) v
          in (w, materialize_feature_accounts V ?X s)) else v"
  let ?v2 = "if m_default_programs ?m then clear_programs V ?X (default_program_ids V) ?v1 else ?v1"
  let ?v3 = "if m_spl_programs ?m then clear_programs V ?X (spl_program_ids V) ?v2 else ?v2"
  have 1: "vm_fixed (snd ?v1) = vm_fixed (snd v)"
    using remove_all_fixed [of ?X "map fst (active_features V old)" v]
    by (auto split: prod.split simp del: remove_all_fixed)
  have 3: "vm_fixed (snd ?v3) = vm_fixed (snd v)"
    by (auto simp only: 1 clear_programs_fixed split: if_split)
  obtain v4 v5 v6 v7 where
    4: "(if m_builtins ?m then load_builtins V E (remove_all ?X (map builtin_id (builtins ?X)) ?v3)
      else if custom_syscalls (snd ?v3) \<noteq> [] then refresh_runtime_environments V E ?v3
      else Some ?v3) = Some v4"
    and 5: "(if standard_precompiles (snd v4)
      then load_precompiles ?X (remove_all ?X (prov_program_ids (precompiles (snd v4))) v4) else Some v4) = Some v5"
    and 6: "(if m_default_programs ?m then load_default_programs V E v5 else Some v5) = Some v6"
    and 7: "(if m_spl_programs ?m then load_spl_programs V E v6 else Some v6) = Some v7"
    and 8: "rebuild_programs ?X v7 = (v', r)"
    using assms
    unfolding reconfigure_materialized_feature_state_def Let_def map_option_eq_Some bind_eq_Some_conv
    by blast
  have "vm_fixed (snd v4) = vm_fixed (snd v)"
    using 4 3 by (auto split: if_split_asm dest!: load_builtins_fixed refresh_fixed)
  moreover have "vm_fixed (snd v5) = vm_fixed (snd v4)"
    using 5 by (auto simp: load_precompiles_def Let_def split: if_splits dest!: install_precompiles_fixed)
  moreover have "vm_fixed (snd v7) = vm_fixed (snd v5)"
    using 6 7 by (auto split: if_splits dest!: load_programs_fixed)
  moreover have "vm_fixed (snd v') = vm_fixed (snd v7)"
    using rebuild_programs_fixed [of ?X v7] by (simp add: 8)
  ultimately show ?thesis by simp
qed

text \<open>
  C22. A feature set change that reports an error is undone: whatever the materialised state,
  the version, the reserved keys, the history and every other setting are as before the
  call, and so are the overlay, the tombstones, the journal, the source, the sysvar cache,
  the runtime environments and the shared cache handle of the account database.
\<close>

theorem set_feature_set_failure_restores:
  assumes "set_feature_set V E fs (w, s) = Some ((w', s'), Inl e)"
  shows "vm_fixed s' = vm_fixed s \<and>
     vm_accounts s' = sync_jit_policy (v_jit_policy (vm_version s)) (vm_accounts s)"
proof -
  let ?s1 = "s\<lparr>vm_version := (vm_version s)\<lparr>feature_set := fs\<rparr>, reserved_keys := reserved_for V fs\<rparr>"
  let ?restored = "\<lambda>s2. s2\<lparr>vm_version := (vm_version s2)\<lparr>feature_set := feature_set (vm_version s)\<rparr>,
      reserved_keys := reserved_keys s, vm_accounts := accounts_clone (vm_accounts s)\<rparr>"
  obtain w2 s2 where
    r: "reconfigure_materialized_feature_state V E (feature_set (vm_version s)) (w, ?s1) =
      Some ((w2, s2), Inl e)"
    and v': "(w', s') = fst (rebuild_programs (db E) (w2, ?restored s2))"
    using assms by (auto simp: set_feature_set_def Let_def split: option.splits sum.splits)
  have f2: "vm_fixed s2 = vm_fixed ?s1" using reconfigure_fixed [OF r] by simp
  have s': "s' = svm_sync_jit_policy (?restored s2)"
    using v' by (simp add: rebuild_programs_def Let_def split: prod.splits)
  have "vm_fixed (?restored s2) = vm_fixed s"
    using f2 by (simp add: vm_fixed_def)
  moreover have "vm_version (?restored s2) = vm_version s"
    using f2 by (simp add: vm_fixed_def)
  ultimately show ?thesis
    by (simp add: s') (simp add: svm_sync_jit_policy_def sync_jit_policy_def accounts_clone_def Let_def)
qed

section \<open>Failing registrations\<close>

lemma register_syscalls_append:
  "register_syscalls V fs b reg xs = Inl e \<Longrightarrow> register_syscalls V fs b reg (xs @ ys) = Inl e"
proof (induction xs arbitrary: reg)
  case (Cons x xs)
  then show ?case by (cases x) (auto split: sum.splits)
qed simp

lemma refresh_custom_error:
  assumes "custom_syscalls s \<noteq> []"
    and "try_refresh_runtime_environments V E (w, s) = (v', Inl e)"
    and "feature_set (vm_version s') = feature_set (vm_version s)"
    and "v_compute_budget (vm_version s') = v_compute_budget (vm_version s)"
    and "custom_syscalls s' = custom_syscalls s @ ys"
  shows "try_refresh_runtime_environments V E (w', s') = ((w', s'), Inl e)" and "v' = (w, s)"
  using assms register_syscalls_append
  by (auto simp: try_refresh_runtime_environments_def Let_def map_err_def split: sum.splits)

lemma reconfigure_panics:
  assumes "\<And>w2 s2. vm_fixed s2 = vm_fixed s \<Longrightarrow> refresh_runtime_environments V E (w2, s2) = None"
    and "custom_syscalls s \<noteq> []"
  shows "reconfigure_materialized_feature_state V E old (w, s) = None"
proof -
  let ?X = "db E" and ?m = "materialized s"
  let ?v1 = "if m_feature_accounts ?m
    then (let (w, s) = remove_all ?X (map fst (active_features V old)) (w, s)
          in (w, materialize_feature_accounts V ?X s)) else (w, s)"
  let ?v2 = "if m_default_programs ?m then clear_programs V ?X (default_program_ids V) ?v1 else ?v1"
  let ?v3 = "if m_spl_programs ?m then clear_programs V ?X (spl_program_ids V) ?v2 else ?v2"
  have "vm_fixed (snd ?v1) = vm_fixed s"
    using remove_all_fixed [of ?X "map fst (active_features V old)" "(w, s)"]
    by (auto split: prod.split simp del: remove_all_fixed)
  then have 3: "vm_fixed (snd ?v3) = vm_fixed s"
    by (auto simp only: clear_programs_fixed split: if_split)
  have none: "refresh_runtime_environments V E v = None" if "vm_fixed (snd v) = vm_fixed s" for v
    using assms(1) [of "snd v" "fst v"] that by simp
  have "load_builtins V E v = None" if "vm_fixed (snd v) = vm_fixed s" for v
    using that by (cases v) (simp add: load_builtins_def none)
  moreover have "custom_syscalls (snd ?v3) \<noteq> []"
    using 3 assms(2) by (simp only: vm_fixed_def prod.inject) simp
  ultimately show ?thesis
    using 3 none [of ?v3]
    by (simp only: reconfigure_materialized_feature_state_def Let_def snd_conv remove_all_fixed
        if_cancel if_True not_False_eq_True Option.bind.simps option.map)
qed

text \<open>
  A custom syscall whose registration is refused stays registered: every later
  registration then fails with the same error, and setting a feature set under which it is
  still refused, such as the one the VM already has, panics.
\<close>

theorem failed_syscall_poisons:
  assumes "register_custom_syscall V E name f (w, s) =
     ((w', s'), Inl (CustomSyscallRegistration n t r))"
  shows "(name, f) \<in> set (custom_syscalls s') \<and>
     snd (register_custom_syscall V E name2 f2 (w', s')) = Inl (CustomSyscallRegistration n t r) \<and>
     set_feature_set V E (feature_set (vm_version s)) (w', s') = None"
proof -
  let ?s = "s\<lparr>custom_syscalls := custom_syscalls s @ [(name, f)]\<rparr>"
  obtain v where fail: "try_refresh_runtime_environments V E (w, ?s) =
      (v, Inl (CustomSyscallRegistration n t r))"
    using assms
    by (auto simp: register_custom_syscall_def rebuild_programs_def map_err_def Let_def
        split: prod.splits sum.splits)
  have "v = (w, ?s)" by (rule refresh_custom_error(2) [OF _ fail, of ?s "[]"]) simp_all
  with fail assms have s': "s' = ?s" "w' = w" by (auto simp: register_custom_syscall_def Let_def)
  have again: "try_refresh_runtime_environments V E (w2, s2) =
      ((w2, s2), Inl (CustomSyscallRegistration n t r))"
    if "vm_version s2 = vm_version ?s" "custom_syscalls s2 = custom_syscalls ?s @ ys" for w2 s2 ys
    using that by (intro refresh_custom_error(1) [OF _ fail]) simp_all
  let ?s1 = "?s\<lparr>vm_version := (vm_version s)\<lparr>feature_set := feature_set (vm_version s)\<rparr>,
      reserved_keys := reserved_for V (feature_set (vm_version s))\<rparr>"
  have "reconfigure_materialized_feature_state V E (feature_set (vm_version s)) (w, ?s1) = None"
    by (rule reconfigure_panics)
      (auto simp: refresh_runtime_environments_def vm_fixed_def again [of _ "[]"])
  then have "set_feature_set V E (feature_set (vm_version s)) (w, ?s) = None"
    by (simp add: set_feature_set_def Let_def)
  moreover have "snd (register_custom_syscall V E name2 f2 (w, ?s)) =
      Inl (CustomSyscallRegistration n t r)"
    by (simp add: register_custom_syscall_def Let_def again [of _ "[(name2, f2)]"])
  ultimately show ?thesis by (simp add: s')
qed

text \<open>
  Adding a program that fails to load is not undone: with any of the three loaders the
  call reports the error but the overlay keeps an executable account at the program's
  address, so that the account reads as a program although none was loaded, and the program
  cache is as before.
\<close>

theorem failed_add_program_stays:
  assumes "add_program_with_loader V X k bs l (w, s) = ((w', s'), Inl e)"
    and "l = BpfLoader \<or> l = BpfLoaderDeprecated \<or> l = BpfLoaderUpgradeable"
  shows "(\<exists>acc. get_account (vm_accounts s') k = Some acc \<and> executable acc \<and> owner acc = l) \<and>
     caches w' = caches w \<and> length (journal (vm_accounts s)) < length (journal (vm_accounts s'))"
proof -
  let ?s = "svm_sync_jit_policy s"
  obtain a where a: "program_overlay V X k bs l (vm_accounts ?s) = Inr a"
    using assms(2) by (auto simp: program_overlay_def Let_def)
  have r: "resolve_program_entry V X l bs (w, ?s\<lparr>vm_accounts := a\<rparr>) = (w', Inl e)"
    and s': "s' = ?s\<lparr>vm_accounts := a\<rparr>"
    using assms(1) a by (auto simp: add_program_with_loader_def add_program_internal_def Let_def
        split: prod.splits sum.splits)
  from r have "caches w' = caches w"
    by (auto simp: resolve_program_entry_def Let_def split: prod.splits option.splits sum.splits)
  moreover have "\<exists>acc. inner (cache a) k = Some acc \<and> executable acc \<and> owner acc = l"
    using a by (auto simp: program_overlay_def Let_def add_account_no_checks_def db_simps
        split: if_splits)
  then have "\<exists>acc. get_account a k = Some acc \<and> executable acc \<and> owner acc = l"
    by (auto simp: get_account_def try_get_account_def get_account_ref_def)
  moreover have "length (journal (vm_accounts s)) < length (journal a)"
    using a by (auto simp: program_overlay_def Let_def add_account_no_checks_def db_simps
        svm_sync_jit_policy_def sync_jit_policy_def split: if_splits)
  ultimately show ?thesis by (simp add: s')
qed

end
