(* ===== verification/Deploy_Props.thy ===== *)
theory Deploy_Props
  imports Vm_Props
begin

text \<open>
  Deployment through the upgradeable loader (\<^verbatim>\<open>loader.rs\<close>): the chunked writes of a program
  refine one assignment of the whole buffer, under the loader program's contract for a
  single write.
\<close>

section \<open>Writing in chunks\<close>

text \<open>What the loader program documents for a write: the bytes at the offset are replaced.\<close>

definition write_at :: "nat \<Rightarrow> bytes \<Rightarrow> bytes \<Rightarrow> bytes" where
  "write_at off chunk buf = take off buf @ chunk @ drop (off + length chunk) buf"

fun write_all :: "nat \<Rightarrow> bytes list \<Rightarrow> bytes \<Rightarrow> bytes" where
  "write_all off [] buf = buf"
| "write_all off (chunk # rest) buf = write_all (off + chunk_size) rest (write_at off chunk buf)"

lemma write_at_length [simp]:
  "off + length chunk \<le> length buf \<Longrightarrow> length (write_at off chunk buf) = length buf"
  by (simp add: write_at_def)

lemma write_at_append:
  assumes "off + length xs + length ys \<le> length buf"
  shows "write_at (off + length xs) ys (write_at off xs buf) = write_at off (xs @ ys) buf"
  using assms
  by (cases xs) (simp_all add: write_at_def min_def add.assoc add.commute add.left_commute)

lemma write_all_chunks:
  assumes "length xs \<le> k" and "off + length xs \<le> length buf"
  shows "write_all off (chunks_fuel k chunk_size xs) buf = write_at off xs buf"
  using assms
proof (induction k arbitrary: xs off buf)
  case 0
  then show ?case by (simp add: write_at_def)
next
  case (Suc k)
  show ?case
  proof (cases "length xs \<le> chunk_size")
    case True
    then show ?thesis by (cases k) (simp_all add: write_at_def)
  next
    case False
    let ?c = "take chunk_size xs" and ?r = "drop chunk_size xs"
    have c: "length ?c = chunk_size" using False by simp
    have "write_all (off + chunk_size) (chunks_fuel k chunk_size ?r) (write_at off ?c buf) =
        write_at (off + chunk_size) ?r (write_at off ?c buf)"
      using Suc.prems False by (intro Suc.IH) (simp_all add: chunk_size_def)
    also have "\<dots> = write_at off (?c @ ?r) buf"
      using write_at_append [of off ?c ?r buf] Suc.prems False c by simp
    finally show ?thesis using False by auto
  qed
qed

lemma list_chunks_last:
  assumes "xs \<noteq> []" and "length xs \<le> k"
  shows "chunks_fuel k chunk_size xs \<noteq> [] \<and>
     length xs \<le> chunk_size * length (chunks_fuel k chunk_size xs)"
  using assms
proof (induction k arbitrary: xs)
  case (Suc k)
  show ?case
  proof (cases "drop chunk_size xs = []")
    case True
    then show ?thesis using Suc.prems by simp
  next
    case False
    have "length (drop chunk_size xs) \<le> k" using Suc.prems by (simp add: chunk_size_def)
    from Suc.IH [OF False this] show ?thesis using Suc.prems by (auto simp: le_diff_conv)
  qed
qed simp

section \<open>Sending the chunks\<close>

text \<open>
  The contract of the loader program, for a view \<open>content\<close> of the buffer's bytes: a write
  that succeeds does what \<open>write_at\<close> says, and a successful creation leaves a buffer of the
  requested length.
\<close>

definition loader_writes ::
    "msg_ext \<Rightarrow> ('pc, 'x, 'st) db_ext \<Rightarrow> 'c history_ops \<Rightarrow> ('pc, 'st, 'c) handlers \<Rightarrow> address \<Rightarrow> address
      \<Rightarrow> (('pc, 'st, 'c) vm \<Rightarrow> bytes) \<Rightarrow> bool" where
  "loader_writes M X L Hs buffer payer content \<longleftrightarrow>
     (\<forall>v off chunk v' evs m.
        send_transaction X L Hs (signed_tx M [write_ix M buffer payer off chunk] payer [payer]
          (latest_blockhash (snd v))) v = Some (v', evs, Inr m) \<longrightarrow>
        content v' = write_at (unat off) chunk (content v))"

definition loader_creates ::
    "msg_ext \<Rightarrow> ('pc, 'x, 'st) db_ext \<Rightarrow> 'c history_ops \<Rightarrow> ('pc, 'st, 'c) handlers \<Rightarrow> address \<Rightarrow> address
      \<Rightarrow> (('pc, 'st, 'c) vm \<Rightarrow> bytes) \<Rightarrow> bool" where
  "loader_creates M X L Hs buffer payer content \<longleftrightarrow>
     (\<forall>v lamps n ixs v' evs m.
        create_buffer_ixs M payer buffer payer lamps n = Inr ixs \<longrightarrow>
        send_transaction X L Hs (signed_tx M ixs payer [payer, buffer] (latest_blockhash (snd v))) v =
          Some (v', evs, Inr m) \<longrightarrow>
        length (content v') = n)"

lemma u32_offset:
  assumes "off < 2 ^ 33" and "u32_try_from (of_nat off) = Some o32"
  shows "off < 2 ^ 32 \<and> unat o32 = off"
proof -
  have u: "unat (of_nat off :: u64) = off" using assms(1) by (simp add: unat_of_nat)
  then show ?thesis
    using assms(2) by (auto simp: u32_try_from_def unsigned_ucast_eq unsigned_take_bit_eq
        take_bit_nat_eq_self split: if_splits)
qed

lemma send_chunks_writes:
  assumes "loader_writes M X L Hs buffer payer content" and "off < 2 ^ 33"
    and "send_chunks M X L Hs buffer payer (of_nat off) chunks v = Some (v', evs, Inr ())"
  shows "content v' = write_all off chunks (content v) \<and>
     (chunks = [] \<or> off + chunk_size * (length chunks - 1) < 2 ^ 32)"
  using assms(2,3)
proof (induction chunks arbitrary: off v evs)
  case (Cons chunk rest)
  then obtain o32 where o32: "u32_try_from (of_nat off) = Some o32"
    by (cases "u32_try_from (of_nat off)") simp_all
  note off = u32_offset [OF Cons.prems(1) o32]
  let ?tx = "signed_tx M [write_ix M buffer payer o32 chunk] payer [payer] (latest_blockhash (snd v))"
  obtain v1 evs1 m evs2 where sent: "send_transaction X L Hs ?tx v = Some (v1, evs1, Inr m)"
    and rest: "send_chunks M X L Hs buffer payer (of_nat off + of_nat chunk_size) rest v1 =
      Some (v', evs2, Inr ())"
    using Cons.prems(2) o32 by (auto split: option.splits sum.splits)
  have "content v1 = write_at off chunk (content v)"
    using assms(1) sent off unfolding loader_writes_def by blast
  moreover have "of_nat off + of_nat chunk_size = (of_nat (off + chunk_size) :: u64)" by simp
  then have "content v' = write_all (off + chunk_size) rest (content v1) \<and>
      (rest = [] \<or> off + chunk_size + chunk_size * (length rest - 1) < 2 ^ 32)"
    using Cons.IH [of "off + chunk_size" v1 evs2] rest off by (simp add: chunk_size_def)
  ultimately show ?case using off by (cases rest) (auto simp: chunk_size_def)
qed simp

text \<open>
  C16. Deployment refines one assignment: when uploading a program succeeds, the buffer holds
  exactly the program's bytes, although they were written by one transaction per 512 bytes,
  and the program is at most \<open>2 ^ 32\<close> bytes long, so no write offset was truncated.
\<close>

theorem uploaded_buffer_is_program:
  assumes "loader_writes M X L Hs buffer payer content"
    and "loader_creates M X L Hs buffer payer content"
    and "load_upgradeable_buffer M X L Hs buffer payer program_bytes v = Some (v', evs, Inr b)"
  shows "b = buffer \<and> content v' = program_bytes \<and>
     length program_bytes \<le> 2 ^ 32"
proof -
  let ?lamps = "minimum_balance_for_rent_exemption X (vm_accounts (snd v))
      (size_of_buffer M (length program_bytes))"
  let ?chunks = "list_chunks chunk_size program_bytes"
  obtain ixs v1 evs1 m evs2 where
    c: "create_buffer_ixs M payer buffer payer ?lamps (length program_bytes) = Inr ixs"
    and sent: "send_transaction X L Hs
      (signed_tx M ixs payer [payer, buffer] (latest_blockhash (snd v))) v = Some (v1, evs1, Inr m)"
    and chunks: "send_chunks M X L Hs buffer payer (of_nat 0) ?chunks v1 = Some (v', evs2, Inr ())"
    and b: "b = buffer"
    using assms(3)
    by (auto simp: load_upgradeable_buffer_def Let_def map_ok_eq_Inr split: sum.splits option.splits)
  have len: "length (content v1) = length program_bytes"
    using assms(2) c sent unfolding loader_creates_def by blast
  have w: "content v' = write_all 0 ?chunks (content v1)"
    and bound: "?chunks = [] \<or> 0 + chunk_size * (length ?chunks - 1) < 2 ^ 32"
    using send_chunks_writes [OF assms(1) _ chunks] by simp_all
  have "content v' = program_bytes"
    using w write_all_chunks [of program_bytes "length program_bytes" 0 "content v1"] len
    by (simp add: list_chunks_def write_at_def)
  moreover have "length program_bytes \<le> 2 ^ 32"
  proof (cases "program_bytes = []")
    case False
    then have "?chunks \<noteq> []" "length program_bytes \<le> chunk_size * length ?chunks"
      using list_chunks_last [of program_bytes "length program_bytes"] by (simp_all add: list_chunks_def)
    then show ?thesis using bound by (cases ?chunks) (simp_all add: chunk_size_def)
  qed simp
  ultimately show ?thesis using b by simp
qed

end
