(* ===== verification/Example_Config.thy ===== *)
theory Example_Config
  imports Deploy_Props
begin

text \<open>
  A concrete instance of what the configuration code calls, with a byte-level clock
  encoding, and the configuration properties evaluated at it.
\<close>

section \<open>A clock encoding\<close>

definition ex_clock_bytes :: "clock \<Rightarrow> bytes" where
  "ex_clock_bytes ck =
     le_bytes 8 (unat (slot ck)) @ le_bytes 8 (unat (epoch_start_timestamp ck)) @
     le_bytes 8 (unat (epoch ck)) @ le_bytes 8 (unat (leader_schedule_epoch ck)) @
     le_bytes 8 (unat (unix_timestamp ck))"

definition ex_clock_of :: "bytes \<Rightarrow> clock" where
  "ex_clock_of bs =
     (let field = (\<lambda>i. of_nat (le_nat (take 8 (drop (8 * i) bs))))
      in \<lparr>slot = field 0, epoch_start_timestamp = field 1, epoch = field 2,
          leader_schedule_epoch = field 3, unix_timestamp = field 4\<rparr>)"

lemma u64_bytes [simp]: "of_nat (unat (x :: u64) mod 256 ^ 8) = x"
proof -
  have "unat x < 256 ^ 8" using unsigned_less [of x] by simp
  then show ?thesis by simp
qed

lemma ex_clock_of_bytes: "ex_clock_of (ex_clock_bytes ck) = ck"
  by (cases ck) (simp add: ex_clock_of_def ex_clock_bytes_def Let_def del: le_bytes.simps power_numeral)

section \<open>The example configuration\<close>

definition ex_sysvar :: "address \<Rightarrow> bytes \<Rightarrow> sysvar_value" where
  "ex_sysvar k bs = \<lparr>sv_id = k, sv_name = ''sysvar'', sv_size = length bs, sv_write = (\<lambda>n. Inr bs)\<rparr>"

definition ex_config :: vm_ext where
  "ex_config =
     \<lparr>clock_sysvar = (\<lambda>ck. ex_sysvar ClockSysvar (ex_clock_bytes ck)),
      clock_decode = (\<lambda>bs. Inr (ex_clock_of bs)), early_sysvars = [],
      blockhashes_sysvar = (\<lambda>h n. ex_sysvar RecentBlockhashesSysvar [1]), fees_default_lamports = 0,
      rent_sysvar = (\<lambda>b. ex_sysvar RentSysvar [1]), slot_hashes_sysvar = (\<lambda>n h. ex_sysvar SlotHashesSysvar [1]),
      slot_history_sysvar = ex_sysvar SlotHistorySysvar [1], stake_history_data = [1],
      create_blockhash = (\<lambda>h. h + 1), all_features = {Pubkey 900},
      active_features = (\<lambda>fs. []), feature_account = (\<lambda>n l. ex_account l), feature_size = 9,
      reserved_for = (\<lambda>fs. fs), builtin_name = (\<lambda>k. []), builtin_feature = (\<lambda>k. None),
      create_env = (\<lambda>fs b. Inr ()),
      register_syscall = (\<lambda>fs b reg name f. if name \<in> fst ` set reg then Inl ''duplicate'' else Inr ()),
      native_rows = [], key_order = ascending, b58 = (\<lambda>str. Pubkey (length str)),
      elf_file = (\<lambda>str. [1]), find_program_address = (\<lambda>k l. default_address),
      programdata_metadata = (\<lambda>n. [3]), program_state = (\<lambda>k. [2, 1]),
      entry_load_error = (\<lambda>bs. ''load'')\<rparr>"

text \<open>The example crates with the byte-level clock.\<close>

definition ex_clock_ext :: "(ex_cache, bytes, ex_store) db_ext" where
  "ex_clock_ext = ex_ext\<lparr>sysvar_fill := (\<lambda>f.
     (ex_fill f)\<lparr>get_clock := map_option ex_clock_of (f ClockSysvar)\<rparr>)\<rparr>"

interpretation ex_clk: db_crates ex_clock_ext ex_entries
  by unfold_locales (simp_all add: ex_clock_ext_def ex_ext_def)

lemma ex_clock_codec: "clock_codec ex_config ex_clock_ext ex_clock_bytes"
  by (auto simp: clock_codec_def ex_config_def ex_sysvar_def ex_clock_of_bytes ex_clock_ext_def
      ex_ext_def) (simp add: ex_clock_bytes_def)

definition ex_at_genesis :: "ex_history svm" where
  "ex_at_genesis = ex_svm (add_account_no_checks ClockSysvar
     (sysvar_account (ex_clock_bytes default_clock)) ex_db0)"

theorem warp_to_slot_visible_witness:
  "\<exists>w' s'. warp_to_slot ex_config ex_clock_ext 1000 (ex_world0, ex_at_genesis) = Some (w', s') \<and>
     try_get_clock ex_config s' = Inr (default_clock\<lparr>slot := 1000\<rparr>) \<and> block_slot s' = 1000"
proof -
  have "get_account_ref (vm_accounts ex_at_genesis) ClockSysvar =
      Some (sysvar_account (ex_clock_bytes default_clock))"
    by (simp add: ex_at_genesis_def get_account_ref_def add_account_no_checks_def db_simps)
  from warp_to_slot_visible [OF ex_clk.db_crates_axioms ex_clock_codec this, of 1000 ex_world0]
  show ?thesis by blast
qed

section \<open>Refused syscalls\<close>

definition ex_syscalls :: "ex_history svm" where
  "ex_syscalls = (ex_svm ex_db0)\<lparr>custom_syscalls := [(''sol_x'', 1)]\<rparr>"

theorem failed_syscall_poisons_witness:
  "\<exists>w' s' e. register_custom_syscall ex_config ex_exec ''sol_x'' 2 (ex_world0, ex_syscalls) =
       ((w', s'), Inl e) \<and>
     snd (register_custom_syscall ex_config ex_exec ''sol_y'' 3 (w', s')) = Inl e \<and>
     set_feature_set ex_config ex_exec (feature_set (vm_version ex_syscalls)) (w', s') = None"
proof -
  have "register_custom_syscall ex_config ex_exec ''sol_x'' 2 (ex_world0, ex_syscalls) =
      ((ex_world0, ex_syscalls\<lparr>custom_syscalls := [(''sol_x'', 1), (''sol_x'', 2)]\<rparr>),
       Inl (CustomSyscallRegistration ''sol_x'' ''runtime'' ''duplicate''))"
    by (simp add: register_custom_syscall_def try_refresh_runtime_environments_def ex_syscalls_def
        ex_svm_def ex_config_def Let_def)
  from failed_syscall_poisons [OF this, of "''sol_y''" 3] this show ?thesis by blast
qed

section \<open>Programs that do not load\<close>

definition ex_genesis :: "ex_history svm" where
  "ex_genesis = ex_svm ex_clocked"

abbreviation ex_refused :: "ex_history svm" where
  "ex_refused \<equiv> ex_genesis\<lparr>vm_accounts := add_account_no_checks (Pubkey 3)
     ((ex_program [])\<lparr>lamports := 10\<rparr>) ex_clocked\<rparr>"

lemma ex_genesis_fields [simp]:
  "vm_accounts ex_genesis = ex_clocked" "vm_version ex_genesis = ex_version"
  "materialized ex_genesis = default_materialized" "custom_syscalls ex_genesis = []"
  "standard_precompiles ex_genesis = False"
  by (simp_all add: ex_genesis_def ex_svm_def)

lemma ex_synced: "v_jit_policy ex_version = jit_policy ex_clocked"
  by (simp add: ex_version_def base_version_def ex_clocked_def accounts_default_def)

lemma ex_add_refused:
  "add_program_with_loader ex_config ex_ext (Pubkey 3) [] BpfLoader (ex_world0, ex_genesis) =
     ((ex_world0, ex_refused), Inl (ProgramLoad ''load''))"
proof -
  have p: "program_overlay ex_config ex_ext (Pubkey 3) [] BpfLoader ex_clocked =
      Inr (vm_accounts ex_refused)"
    by (simp add: program_overlay_def minimum_balance_for_rent_exemption_def ex_defs ex_rent_def)
  have r: "resolve_program_entry ex_config ex_ext BpfLoader [] (ex_world0, ex_refused) =
      (ex_world0, Inl (ProgramLoad ''load''))"
    by (simp add: resolve_program_entry_def Let_def store_eval ex_defs ex_synced ex_config_def
        requires_uncompiled_load_def default_jit_policy_def)
  show ?thesis
    by (simp add: add_program_with_loader_def add_program_internal_def Let_def p r
        svm_sync_jit_policy_def ex_synced)
qed

lemma ex_refused_rebuild:
  "rebuild_program_cache ex_ext (vm_accounts ex_refused) ex_world0 = (ex_world0, Inl InvalidAccountData)"
proof -
  let ?p = "(ex_program [])\<lparr>lamports := 10\<rparr>"
  have dom: "dom (inner (cache (vm_accounts ex_refused))) = {Pubkey 3}"
    by (auto simp: add_account_no_checks_def db_simps ex_defs)
  have "program_accounts ex_ext (vm_accounts ex_refused) = [(Pubkey 3, ?p)]"
    by (simp add: program_accounts_def ex_ext_def dom List.map_filter_simps)
      (simp add: add_account_no_checks_def db_simps is_cached_program_account_def ex_defs)
  moreover have "load_program ex_ext (vm_accounts ex_refused) ?p ex_world0 =
      (ex_world0, Inl InvalidAccountData)"
    by (simp add: load_program_def resolve_program_def load_elf_def Let_def store_eval db_simps
        add_account_no_checks_def requires_uncompiled_load_def default_jit_policy_def ex_defs)
  ultimately show ?thesis by (simp add: rebuild_program_cache_def)
qed

theorem failed_add_program_stays_witness:
  "\<exists>w' s' e acc. add_program_with_loader ex_config ex_ext (Pubkey 3) [] BpfLoader
       (ex_world0, ex_genesis) = ((w', s'), Inl e) \<and>
     get_account (vm_accounts s') (Pubkey 3) = Some acc \<and> executable acc \<and>
     snd (rebuild_program_cache ex_ext (vm_accounts s') w') = Inl InvalidAccountData"
  using failed_add_program_stays [OF ex_add_refused] ex_add_refused ex_refused_rebuild by fastforce

theorem set_feature_set_failure_restores_witness:
  "\<exists>w' s' e. set_feature_set ex_config ex_exec {Pubkey 900} (ex_world0, ex_refused) =
       Some ((w', s'), Inl e) \<and> vm_fixed s' = vm_fixed ex_refused"
proof -
  let ?fs = "{Pubkey 900}"
  let ?s1 = "ex_refused\<lparr>vm_version := ex_version\<lparr>feature_set := ?fs\<rparr>, reserved_keys := reserved_for ex_config ?fs\<rparr>"
  have sync: "svm_sync_jit_policy ?s1 = ?s1"
    by (simp add: svm_sync_jit_policy_def ex_synced add_account_no_checks_def db_simps)
  have "reconfigure_materialized_feature_state ex_config ex_exec old (ex_world0, ?s1) =
      Some ((ex_world0, ?s1), Inl (Instruction InvalidAccountData))" for old
    using ex_refused_rebuild
    by (simp add: reconfigure_materialized_feature_state_def default_materialized_def
        rebuild_programs_def sync ex_exec_def Let_def)
  then obtain w' s' where "set_feature_set ex_config ex_exec ?fs (ex_world0, ex_refused) =
      Some ((w', s'), Inl (Instruction InvalidAccountData))"
    by (simp add: set_feature_set_def Let_def) (metis prod.collapse)
  then show ?thesis using set_feature_set_failure_restores by blast
qed

end
