(* ===== verification/Example_Deploy.thy ===== *)
theory Example_Deploy
  imports Example_Config
begin

text \<open>
  A loader as a transaction handler: it creates and writes one buffer account. The
  deployment property is evaluated at it.
\<close>

abbreviation ex_buffer :: address where
  "ex_buffer \<equiv> Pubkey 50"

definition ex_loader_ix :: "nat \<Rightarrow> bytes \<Rightarrow> instruction" where
  "ex_loader_ix op bs = \<lparr>ix_program_id = Pubkey op, ix_accounts = [], ix_data = bs\<rparr>"

definition ex_loader_tx :: "instruction list \<Rightarrow> versioned_tx" where
  "ex_loader_tx ixs =
     \<lparr>vt_signatures = [7], vt_version = MessageLegacy,
      static_account_keys =
        concat (map (\<lambda>ix. ix_program_id ix # map (\<lambda>b. Pubkey (unat b)) (ix_data ix)) ixs),
      address_table_lookups = None, vt_body = 0\<rparr>"

definition ex_msg :: msg_ext where
  "ex_msg =
     \<lparr>unsigned_tx = (\<lambda>ixs p h. ex_loader_tx ixs), signed_tx = (\<lambda>ixs p sg h. ex_loader_tx ixs),
      transfer_ix = (\<lambda>a b n. ex_loader_ix 0 []),
      create_buffer_ixs = (\<lambda>p b auth l n. if n < 256 ^ 4 then Inr [ex_loader_ix 0 (le_bytes 4 n)]
        else Inl InvalidAccountData),
      write_ix = (\<lambda>b p off chunk. ex_loader_ix 2 (le_bytes 4 (unat off) @ chunk)),
      deploy_ixs = (\<lambda>a b c d l n. Inr []), set_authority_ix = (\<lambda>a b c. ex_loader_ix 4 []),
      size_of_buffer = (\<lambda>n. n + 37)\<rparr>"

definition ex_key_byte :: "address \<Rightarrow> u8" where
  "ex_key_byte k = (case k of Pubkey n \<Rightarrow> of_nat n | _ \<Rightarrow> 0)"

definition ex_written :: "versioned_tx \<Rightarrow> bytes \<Rightarrow> bytes" where
  "ex_written tx buf =
     (case static_account_keys tx of
        [] \<Rightarrow> buf
      | op # ks \<Rightarrow>
          let bs = map ex_key_byte ks; n = le_nat (take 4 bs)
          in if op = Pubkey 0 then replicate n 0 else write_at n (drop 4 bs) buf)"

definition ex_content :: "(ex_cache, ex_store, ex_history) vm \<Rightarrow> bytes" where
  "ex_content v = (case inner (cache (vm_accounts (snd v))) ex_buffer of Some acc \<Rightarrow> data acc | None \<Rightarrow> [])"

definition ex_buffer_account :: "bytes \<Rightarrow> account" where
  "ex_buffer_account bs = (ex_account 5)\<lparr>data := bs\<rparr>"

text \<open>The handler refuses to work on a buffer address that holds a program.\<close>

definition ex_loader :: "(ex_cache, ex_store, ex_history) handlers" where
  "ex_loader =
     \<lparr>handler_validate = (\<lambda>h tx s. Inr ()),
      handler_execute = (\<lambda>h tx s w.
        if is_some_and executable (inner (cache (vm_accounts s)) ex_buffer)
        then Some (w, [], Inr ((ex_detached [])\<lparr>status := Inl InvalidProgramForExecution\<rparr>))
        else Some (w, [], Inr (ex_detached
          [(ex_buffer, ex_buffer_account (ex_written tx (ex_content (w, s))))])))\<rparr>"

lemma ex_written_create:
  "n < 256 ^ 4 \<Longrightarrow> ex_written (ex_loader_tx [ex_loader_ix 0 (le_bytes 4 n)]) buf = replicate n 0"
  by (simp add: ex_written_def ex_loader_tx_def ex_loader_ix_def ex_key_byte_def Let_def comp_def
      del: le_bytes.simps)

lemma ex_written_write:
  "ex_written (ex_loader_tx [ex_loader_ix 2 (le_bytes 4 (unat (off :: u32)) @ chunk)]) buf =
     write_at (unat off) chunk buf"
proof -
  have "unat off < 256 ^ 4" using unsigned_less [of off] by simp
  then show ?thesis
    by (simp add: ex_written_def ex_loader_tx_def ex_loader_ix_def ex_key_byte_def Let_def comp_def
        del: le_bytes.simps)
qed

text \<open>One transaction on a VM with a usable buffer address.\<close>

definition ex_ready :: "ex_history svm \<Rightarrow> bool" where
  "ex_ready s \<longleftrightarrow> registry s TagLegacy \<noteq> None \<and>
     \<not> is_some_and executable (inner (cache (vm_accounts s)) ex_buffer)"

lemma ex_loader_send:
  assumes "ex_ready s" and "tag_of tx = TagLegacy"
  shows "\<exists>s' evs m. send_transaction ex_ext list_lru_ops ex_loader tx (w, s) = Some ((w, s'), evs, Inr m) \<and>
     ex_content (w, s') = ex_written tx (ex_content (w, s)) \<and> ex_ready s'"
proof -
  let ?s = "svm_sync_jit_policy s"
  let ?acc = "ex_buffer_account (ex_written tx (ex_content (w, s)))"
  let ?d = "ex_detached [(ex_buffer, ?acc)]"
  have same: "inner (cache (vm_accounts ?s)) = inner (cache (vm_accounts s))" "registry ?s = registry s"
    by (simp_all add: svm_sync_jit_policy_def sync_jit_policy_def Let_def)
  have d: "dispatch_detached ex_loader tx ?s w = Some (w, [], Inr ?d)"
    using assms by (auto simp: dispatch_detached_def registry_dispatch_def ex_loader_def same
        ex_ready_def map_outcome_def ex_content_def)
  have clean: "\<not> staging_touches_caches [(ex_buffer, ?acc)] (vm_accounts ?s)"
    using assms(1)
    by (auto simp: staging_touches_caches_def get_account_ref_def same ex_ready_def is_some_and_def
        is_managed_sysvar_account_def ex_buffer_account_def ex_account_def default_account_def
        split: option.splits)
  have p: "partition_programdata [(ex_buffer, ?acc)] = [(ex_buffer, ?acc)]"
    by (simp add: partition_programdata_def partition_step_def is_programdata_def
        ex_buffer_account_def ex_account_def default_account_def)
  have sy: "sync_accounts ex_ext (staged_post ?d) (w, vm_accounts ?s) =
      ((w, overlay_put ex_buffer ?acc (vm_accounts ?s)), Inr ())"
    using sync_clean [OF clean, of ex_ext w] by (simp add: p)
  let ?a = "overlay_put ex_buffer ?acc (vm_accounts ?s)"
  obtain et where st: "stage_detached ex_ext ?d (w, ?s) = ((w, ?s\<lparr>vm_accounts := ?a\<rparr>), Inr et)"
    and "et_result et = Inr (meta ?d)"
    by (simp add: stage_detached_unfold [OF _ sy] detached_into_result_and_delta_def Let_def)
      (simp add: ex_detached_def)
  then have sent: "send_transaction ex_ext list_lru_ops ex_loader tx (w, s) =
      Some ((w, ?s\<lparr>vm_accounts := ?a, vm_history := record_entry list_lru_ops (et_history_entry et)
        (vm_history ?s)\<rparr>), fire_changes et (?s\<lparr>vm_accounts := ?a\<rparr>), Inr (meta ?d))"
    by (simp add: send_transaction_def transact_core_def d commit_def Let_def)
  have "inner (cache ?a) ex_buffer = Some ?acc"
    by (simp add: overlay_put_def db_simps ex_buffer_account_def ex_account_def default_account_def)
  moreover have "\<not> executable ?acc"
    by (simp add: ex_buffer_account_def ex_account_def default_account_def)
  ultimately show ?thesis
    using sent assms(1)
    by (auto simp: ex_ready_def same is_some_and_def ex_content_def) (simp add: ex_buffer_account_def)
qed

lemma ex_loader_refuses:
  assumes "\<not> ex_ready s" and "tag_of tx = TagLegacy"
  shows "send_transaction ex_ext list_lru_ops ex_loader tx (w, s) \<noteq> Some (v', evs, Inr m)"
proof -
  let ?s = "svm_sync_jit_policy s" and ?d = "(ex_detached [])\<lparr>status := Inl InvalidProgramForExecution\<rparr>"
  have same: "inner (cache (vm_accounts ?s)) = inner (cache (vm_accounts s))" "registry ?s = registry s"
    by (simp_all add: svm_sync_jit_policy_def sync_jit_policy_def Let_def)
  consider "dispatch_detached ex_loader tx ?s w = Some (w, [], Inl (TxUnknownTag TagLegacy))"
    | "dispatch_detached ex_loader tx ?s w = Some (w, [], Inr ?d)"
    using assms by (cases "registry s TagLegacy") (simp_all add: dispatch_detached_def
        registry_dispatch_def ex_loader_def same ex_ready_def map_outcome_def)
  then show ?thesis
  proof cases
    case 1
    then show ?thesis
      by (simp add: send_transaction_def transact_core_def Let_def detached_into_result_and_delta_def
          for_dispatch_failure_def)
  next
    case 2
    have sy: "sync_accounts ex_ext (staged_post ?d) (w, vm_accounts ?s) = ((w, vm_accounts ?s), Inr ())"
      by (simp add: sync_accounts_def staged_post_def ex_detached_def partition_programdata_def)
    have "fatal_error ?d = None" by (simp add: ex_detached_def)
    from 2 stage_detached_unfold [OF this sy] show ?thesis
      by (simp add: send_transaction_def transact_core_def Let_def commit_def
          detached_into_result_and_delta_def)
  qed
qed

lemma ex_tag: "tag_of (signed_tx ex_msg ixs p sg h) = TagLegacy"
  by (simp add: ex_msg_def ex_loader_tx_def tag_of_def)

lemma ex_loader_effect:
  assumes "send_transaction ex_ext list_lru_ops ex_loader (signed_tx ex_msg ixs p sg h) (w, s) =
     Some (v', evs, Inr m)"
  shows "ex_content v' = ex_written (signed_tx ex_msg ixs p sg h) (ex_content (w, s))"
proof (cases "ex_ready s")
  case True
  from ex_loader_send [OF True ex_tag, of ixs p sg h w] assms show ?thesis by auto
next
  case False
  with ex_loader_refuses [OF False ex_tag] assms show ?thesis by blast
qed

lemma ex_loader_contract:
  "loader_writes ex_msg ex_ext list_lru_ops ex_loader ex_buffer payer ex_content"
  "loader_creates ex_msg ex_ext list_lru_ops ex_loader ex_buffer payer ex_content"
proof -
  show "loader_writes ex_msg ex_ext list_lru_ops ex_loader ex_buffer payer ex_content"
    unfolding loader_writes_def
    by (auto dest!: ex_loader_effect) (simp add: ex_msg_def ex_written_write del: le_bytes.simps)
  show "loader_creates ex_msg ex_ext list_lru_ops ex_loader ex_buffer payer ex_content"
    unfolding loader_creates_def
    by (auto dest!: ex_loader_effect)
      (auto simp: ex_msg_def ex_written_create simp del: le_bytes.simps split: if_split_asm)
qed

theorem uploaded_buffer_is_program_witness:
  "\<exists>v' evs. load_upgradeable_buffer ex_msg ex_ext list_lru_ops ex_loader ex_buffer (Pubkey 2)
       [1, 2, 3] (ex_world0, ex_svm ex_db0) = Some (v', evs, Inr ex_buffer) \<and>
     ex_content v' = [1, 2, 3]"
proof -
  let ?create = "signed_tx ex_msg [ex_loader_ix 0 (le_bytes 4 3)] (Pubkey 2) [Pubkey 2, ex_buffer] 0"
  have "ex_ready (ex_svm ex_db0)"
    by (simp add: ex_ready_def ex_svm_def registry_with_defaults_def registry_register_def
        registry_new_def accounts_default_def is_some_and_def)
  then obtain s1 evs1 m1 where 1: "send_transaction ex_ext list_lru_ops ex_loader ?create
      (ex_world0, ex_svm ex_db0) = Some ((ex_world0, s1), evs1, Inr m1)" and r1: "ex_ready s1"
    using ex_loader_send [OF _ ex_tag] by blast
  let ?upload = "signed_tx ex_msg [write_ix ex_msg ex_buffer (Pubkey 2) 0 [1, 2, 3]] (Pubkey 2) [Pubkey 2]
      (latest_blockhash s1)"
  obtain s2 evs2 m2 where 2: "send_transaction ex_ext list_lru_ops ex_loader ?upload (ex_world0, s1) =
      Some ((ex_world0, s2), evs2, Inr m2)"
    using ex_loader_send [OF r1 ex_tag] by blast
  have chunks: "list_chunks chunk_size [1, 2, 3 :: u8] = [[1, 2, 3]]"
    by (simp add: list_chunks_def chunk_size_def)
  have c: "create_buffer_ixs ex_msg p b q l (length [1, 2, 3 :: u8]) = Inr [ex_loader_ix 0 (le_bytes 4 3)]"
    for p b q l by (simp add: ex_msg_def numeral_3_eq_3 del: le_bytes.simps)
  have "latest_blockhash (ex_svm ex_db0) = 0" by (simp add: ex_svm_def)
  with 1 2 have up: "load_upgradeable_buffer ex_msg ex_ext list_lru_ops ex_loader ex_buffer (Pubkey 2)
      [1, 2, 3] (ex_world0, ex_svm ex_db0) = Some ((ex_world0, s2), evs1 @ evs2, Inr ex_buffer)"
    unfolding load_upgradeable_buffer_def Let_def c chunks snd_conv
    by (simp add: u32_try_from_def)
  have "ex_content (ex_world0, s2) = [1, 2, 3]"
    using uploaded_buffer_is_program [OF ex_loader_contract up] by (elim conjE)
  with up show ?thesis by (intro exI conjI)
qed

section \<open>Simulations share the program cache\<close>

text \<open>
  Simulating a chain with accounts is not free of side effects: here the second account
  is refused, the simulation reports that, and the program given as the first account is
  nevertheless in the live VM's program cache, where it was not before, while no account of
  the live VM has that address.
\<close>

theorem simulation_publishes_program:
  "\<exists>w' r. simulate_instruction_chain_with_accounts ex_msg ex_ext ex_loader []
       [(Pubkey 2, ex_program [7]), (ClockSysvar, ex_account 5)] (ex_world0, ex_genesis) =
       Some (w', [], Inl r) \<and>
     get_account (vm_accounts ex_genesis) (Pubkey 2) = None \<and>
     \<not> has_program_cache_entry ex_ext (vm_accounts ex_genesis) ex_world0 (Pubkey 2) \<and>
     has_program_cache_entry ex_ext (vm_accounts ex_genesis) w' (Pubkey 2)"
proof -
  obtain w1 where a: "add_account ex_ext (Pubkey 2) (ex_program [7]) (ex_world0, ex_clocked) =
       ((w1, overlay_put (Pubkey 2) (ex_program [7]) ex_clocked), Inr ())"
    and h: "has_program_cache_entry ex_ext ex_clocked w1 (Pubkey 2)"
    by (rule ex_add_program)
  let ?a = "overlay_put (Pubkey 2) (ex_program [7]) ex_clocked"
  let ?c = "svm_clone ex_genesis"
  have f: "vm_accounts ?c = ex_clocked" "vm_version ?c = ex_version"
    by (simp_all add: svm_clone_def clone_with_state_def accounts_clone_def)
  have "jit_policy ?a = jit_policy ex_clocked" by (simp add: overlay_put_def db_simps)
  with f a have "svm_set_account ex_ext (Pubkey 2) (ex_program [7]) (ex_world0, ?c) =
      ((w1, sync_block_env_slot (?c\<lparr>vm_accounts := ?a\<rparr>)), Inr ())"
    by (simp add: svm_set_account_def svm_sync_jit_policy_def ex_synced Let_def)
  moreover have "add_account ex_ext ClockSysvar (ex_account 5) (w1, ?a) =
      ((w1, ?a), Inl (InvalidSysvarData InvalidClock))"
    by (rule add_account_failed)
      (simp add: prepare_account_def Let_def is_managed_sysvar_account_def
        validate_sysvar_account_def sysvar_error_def ex_defs)
  then have "\<exists>s'. svm_set_account ex_ext ClockSysvar (ex_account 5)
      (w1, sync_block_env_slot (?c\<lparr>vm_accounts := ?a\<rparr>)) =
      ((w1, s'), Inl (InvalidSysvarData InvalidClock))"
    using f \<open>jit_policy ?a = _\<close>
    by (simp add: svm_set_account_def svm_sync_jit_policy_def ex_synced Let_def sync_block_env_slot_def)
  ultimately have "\<exists>r. simulate_instruction_chain_with_accounts ex_msg ex_ext ex_loader []
      [(Pubkey 2, ex_program [7]), (ClockSysvar, ex_account 5)] (ex_world0, ex_genesis) =
      Some (w1, [], Inl r)"
    by (auto simp: simulate_instruction_chain_with_accounts_def)
  moreover have "get_account ex_clocked (Pubkey 2) = None"
    by (simp add: get_account_def try_get_account_def get_account_ref_def ex_clocked_def
        accounts_default_def empty_account_source_def Let_def)
  moreover have "\<not> has_program_cache_entry ex_ext ex_clocked ex_world0 (Pubkey 2)"
    by (simp add: has_program_cache_entry_def ex_ext_def ex_world0_def)
  ultimately show ?thesis using h by auto
qed

end
