(* ===== verification/Fixture_Snapshot.thy ===== *)
theory Fixture_Snapshot
  imports Vm_Run
begin

text \<open>
  The fixture format (\<^verbatim>\<open>hpsvm-fixture/src/model.rs\<close>, \<^verbatim>\<open>snapshot.rs\<close>, \<^verbatim>\<open>error.rs\<close>): snapshots of
  executions and accounts, headers, inputs, runtime configuration and expectations, with the
  conversions from what the VM produces and into what it executes. How errors and predicates
  are rendered, and the codecs, are the record \<open>fixture_ext\<close>.
\<close>

section \<open>Snapshots\<close>

datatype execution_failure =
    ProgramResult "32 word"
  | CustomError u32
  | ProgramResultWithCustomError "32 word" u32
  | OtherFailure string string

datatype execution_status = ExecSuccess | ExecFailure execution_failure

record account_snapshot =
  as_address :: address
  as_lamports :: u64
  as_owner :: address
  as_executable :: bool
  as_rent_epoch :: u64
  as_data :: bytes

record return_data_snapshot =
  rds_program_id :: address
  rds_data :: bytes

record inner_instruction_snapshot =
  iis_stack_height :: u8
  iis_program_id_index :: u8
  iis_accounts :: "u8 list"
  iis_data :: bytes
  outer_instruction_index :: nat

record execution_snapshot =
  snap_status :: execution_status
  snap_included :: bool
  snap_compute_units :: u64
  snap_fee :: u64
  snap_logs :: "string list"
  snap_return_data :: "return_data_snapshot option"
  snap_inner :: "inner_instruction_snapshot list"
  snap_post_accounts :: "account_snapshot list"

text \<open>The text other crates render for errors and the derived \<open>Debug\<close> of predicates.\<close>

record ('cmp, 'chk) text_ext =
  error_debug :: "transaction_error \<Rightarrow> string"
  error_display :: "transaction_error \<Rightarrow> string"
  compare_debug :: "'cmp \<Rightarrow> string"
  check_debug :: "'chk \<Rightarrow> string"

definition status_from_error :: "('cmp, 'chk) text_ext \<Rightarrow> transaction_error \<Rightarrow> execution_status" where
  "status_from_error F e = ExecFailure (OtherFailure (error_debug F e) (error_display F e))"

definition status_from_result ::
    "('cmp, 'chk) text_ext \<Rightarrow> transaction_error + unit \<Rightarrow> execution_status" where
  "status_from_result F r = (case r of Inr _ \<Rightarrow> ExecSuccess | Inl e \<Rightarrow> status_from_error F e)"

definition account_from_readable :: "address \<Rightarrow> account \<Rightarrow> account_snapshot" where
  "account_from_readable addr acc =
     \<lparr>as_address = addr, as_lamports = lamports acc, as_owner = owner acc,
      as_executable = executable acc, as_rent_epoch = rent_epoch acc, as_data = data acc\<rparr>"

definition snapshot_from_account :: "address \<times> account \<Rightarrow> account_snapshot" where
  "snapshot_from_account p =
     (let (addr, acc) = p
      in \<lparr>as_address = addr, as_lamports = lamports acc, as_owner = owner acc,
          as_executable = executable acc, as_rent_epoch = rent_epoch acc, as_data = data acc\<rparr>)"

definition account_from_snapshot :: "account_snapshot \<Rightarrow> account" where
  "account_from_snapshot s =
     \<lparr>lamports = as_lamports s, data = as_data s, owner = as_owner s,
      executable = as_executable s, rent_epoch = as_rent_epoch s\<rparr>"

definition return_data_from_meta :: "return_data \<Rightarrow> return_data_snapshot option" where
  "return_data_from_meta rd =
     (if snd rd = [] then None else Some \<lparr>rds_program_id = fst rd, rds_data = snd rd\<rparr>)"

definition flatten_inner_instructions ::
    "inner_instructions_list \<Rightarrow> inner_instruction_snapshot list" where
  "flatten_inner_instructions groups =
     concat (map (\<lambda>(outer, group).
       map (\<lambda>inner. \<lparr>iis_stack_height = inner_stack_height inner,
                     iis_program_id_index = program_id_index (inner_ix inner),
                     iis_accounts = ci_accounts (inner_ix inner),
                     iis_data = ci_data (inner_ix inner), outer_instruction_index = outer\<rparr>) group)
       (enumerated groups))"

definition snapshot_from_outcome :: "('cmp, 'chk) text_ext \<Rightarrow> detached_tx \<Rightarrow> execution_snapshot" where
  "snapshot_from_outcome F d =
     \<lparr>snap_status = status_from_result F (status d), snap_included = included d,
      snap_compute_units = compute_units_consumed (meta d), snap_fee = meta_fee (meta d),
      snap_logs = logs (meta d), snap_return_data = return_data_from_meta (meta_return_data (meta d)),
      snap_inner = flatten_inner_instructions (inner_instructions (meta d)),
      snap_post_accounts = map (\<lambda>(addr, acc). account_from_readable addr acc) (det_post_accounts d)\<rparr>"

definition snapshot_from_simulation :: "transaction_metadata \<times> post_accounts \<Rightarrow> execution_snapshot" where
  "snapshot_from_simulation sim =
     (let (m, post) = sim
      in \<lparr>snap_status = ExecSuccess, snap_included = True,
          snap_compute_units = compute_units_consumed m, snap_fee = meta_fee m,
          snap_logs = logs m, snap_return_data = return_data_from_meta (meta_return_data m),
          snap_inner = flatten_inner_instructions (inner_instructions m),
          snap_post_accounts = map (\<lambda>(addr, acc). account_from_readable addr acc) post\<rparr>)"

definition snapshot_from_failed_simulation ::
    "('cmp, 'chk) text_ext \<Rightarrow> failed_transaction_metadata \<Rightarrow> execution_snapshot" where
  "snapshot_from_failed_simulation F e =
     \<lparr>snap_status = status_from_error F (failed_err e), snap_included = False,
      snap_compute_units = compute_units_consumed (failed_meta e), snap_fee = meta_fee (failed_meta e),
      snap_logs = logs (failed_meta e),
      snap_return_data = return_data_from_meta (meta_return_data (failed_meta e)),
      snap_inner = flatten_inner_instructions (inner_instructions (failed_meta e)),
      snap_post_accounts = []\<rparr>"

section \<open>Properties of the conversions\<close>

text \<open>
  Accounts survive the fixture format: an account and its address become a snapshot and come
  back unchanged, and a snapshot is determined by its address and the account it stands for.
\<close>

lemma account_snapshot_round_trip:
  "account_from_snapshot (snapshot_from_account (addr, acc)) = acc \<and>
   snapshot_from_account (as_address s, account_from_snapshot s) = s \<and>
   snapshot_from_account (addr, acc) = account_from_readable addr acc"
  by (simp add: account_from_snapshot_def snapshot_from_account_def account_from_readable_def)

lemma upt_step: "[n..<n + length (x # xs)] = n # [Suc n..<Suc n + length xs]"
  by (simp add: upt_conv_Cons del: upt_Suc)

lemma flatten_from:
  "filter (\<lambda>i. outer_instruction_index i = k)
     (concat (map (\<lambda>(outer, group). map (f outer) group) (zip [n..<n + length groups] groups))) =
   (if n \<le> k \<and> k < n + length groups then map (f k) (groups ! (k - n)) else [])"
  if "\<And>outer x. outer_instruction_index (f outer x) = outer" for f :: "nat \<Rightarrow> 'a \<Rightarrow> _"
proof (induction groups arbitrary: n)
  case (Cons g groups)
  have "filter (\<lambda>i. outer_instruction_index i = k) (map (f n) g) = (if n = k then map (f n) g else [])"
    by (simp add: filter_map comp_def that)
  then show ?case
    unfolding upt_step using Cons.IH [of "Suc n"]
    by (simp add: nth_Cons' del: upt_Suc)
qed auto

text \<open>
  Flattening inner instructions loses nothing: selecting the entries that name a top-level
  instruction gives back that instruction's group, in order and field by field, and entries
  name no other instruction.
\<close>

theorem flatten_regroups:
  "map (\<lambda>i. (iis_stack_height i, iis_program_id_index i, iis_accounts i, iis_data i))
     (filter (\<lambda>i. outer_instruction_index i = k) (flatten_inner_instructions groups)) =
   (if k < length groups
    then map (\<lambda>x. (inner_stack_height x, program_id_index (inner_ix x), ci_accounts (inner_ix x),
                   ci_data (inner_ix x))) (groups ! k)
    else []) \<and>
   length (flatten_inner_instructions groups) = sum_list (map length groups)"
proof -
  let ?f = "\<lambda>outer inner. \<lparr>iis_stack_height = inner_stack_height inner,
      iis_program_id_index = program_id_index (inner_ix inner),
      iis_accounts = ci_accounts (inner_ix inner),
      iis_data = ci_data (inner_ix inner), outer_instruction_index = outer\<rparr>"
  have e: "enumerated groups = zip [0..<0 + length groups] groups" by (simp add: enumerated_def enumerate_eq_zip)
  have l: "length (concat (map (\<lambda>(outer, group). map (?f outer) group) (zip [n..<n + length groups] groups)))
      = sum_list (map length groups)" for n
  proof (induction groups arbitrary: n)
    case (Cons g groups)
    show ?case
      unfolding upt_step using Cons.IH [of "Suc n"] by (simp del: upt_Suc)
  qed simp
  have m: "map (\<lambda>i. (iis_stack_height i, iis_program_id_index i, iis_accounts i, iis_data i))
      (map (?f k) g) = map (\<lambda>x. (inner_stack_height x, program_id_index (inner_ix x),
        ci_accounts (inner_ix x), ci_data (inner_ix x))) g" for g
    by simp
  show ?thesis
    unfolding flatten_inner_instructions_def e l
    by (subst flatten_from [of ?f k 0 groups]) (simp_all add: m del: map_map)
qed

section \<open>Fixtures\<close>

definition current_schema_version :: u16 where
  "current_schema_version = 2"

definition supported_schema_versions :: "u16 list" where
  "supported_schema_versions = [current_schema_version]"

datatype fixture_kind = TransactionKind | InstructionKind

record fixture_header =
  schema_version :: u16
  fixture_name :: string
  fixture_kind :: fixture_kind
  fixture_source :: "string option"
  tags :: "string list"

definition header_new :: "string \<Rightarrow> fixture_kind \<Rightarrow> fixture_header" where
  "header_new name k =
     \<lparr>schema_version = current_schema_version, fixture_name = name, fixture_kind = k,
      fixture_source = None, tags = []\<rparr>"

definition header_source :: "string \<Rightarrow> fixture_header \<Rightarrow> fixture_header" where
  "header_source src h = h\<lparr>fixture_source := Some src\<rparr>"

definition header_tag :: "string \<Rightarrow> fixture_header \<Rightarrow> fixture_header" where
  "header_tag t h = h\<lparr>tags := tags h @ [t]\<rparr>"

record runtime_fixture_config =
  rt_slot :: u64
  rt_log_bytes_limit :: "nat option"
  rt_sigverify :: bool
  rt_blockhash_check :: bool
  rt_compute_unit_limit :: "u64 option"

definition runtime_new :: "u64 \<Rightarrow> nat option \<Rightarrow> bool \<Rightarrow> bool \<Rightarrow> runtime_fixture_config" where
  "runtime_new sl lim sv bc =
     \<lparr>rt_slot = sl, rt_log_bytes_limit = lim, rt_sigverify = sv, rt_blockhash_check = bc,
      rt_compute_unit_limit = None\<rparr>"

definition with_compute_unit_limit :: "u64 \<Rightarrow> runtime_fixture_config \<Rightarrow> runtime_fixture_config" where
  "with_compute_unit_limit n rt = rt\<lparr>rt_compute_unit_limit := Some n\<rparr>"

record program_binding =
  pb_program_id :: address
  pb_loader_id :: address
  pb_role :: "string option"

record transaction_fixture =
  tf_runtime :: runtime_fixture_config
  tf_programs :: "program_binding list"
  tf_pre_accounts :: "account_snapshot list"
  transaction_bytes :: bytes

record instruction_account_meta =
  iam_pubkey :: address
  iam_is_signer :: bool
  iam_is_writable :: bool

definition to_account_meta :: "instruction_account_meta \<Rightarrow> account_meta" where
  "to_account_meta m =
     \<lparr>meta_pubkey = iam_pubkey m, is_signer = iam_is_signer m, is_writable_meta = iam_is_writable m\<rparr>"

record instruction_fixture =
  if_runtime :: runtime_fixture_config
  if_programs :: "program_binding list"
  if_pre_accounts :: "account_snapshot list"
  if_program_id :: address
  if_accounts :: "instruction_account_meta list"
  if_data :: bytes

definition fixture_instruction_case :: "instruction_fixture \<Rightarrow> instruction_case" where
  "fixture_instruction_case f =
     \<lparr>case_program_id = if_program_id f, case_accounts = map to_account_meta (if_accounts f), case_data = if_data f,
      pre_accounts = map (\<lambda>s. (as_address s,
        \<lparr>lamports = as_lamports s, data = as_data s, owner = as_owner s,
         executable = as_executable s, rent_epoch = as_rent_epoch s\<rparr>)) (if_pre_accounts f)\<rparr>"

datatype fixture_input = TransactionInput transaction_fixture | InstructionInput instruction_fixture

record 'cmp fixture_expectations =
  baseline :: execution_snapshot
  compares :: "'cmp list"

record 'cmp fixture =
  fx_header :: fixture_header
  fx_input :: fixture_input
  fx_expectations :: "'cmp fixture_expectations"

definition fixture_programs :: "'cmp fixture \<Rightarrow> program_binding list" where
  "fixture_programs fx =
     (case fx_input fx of TransactionInput t \<Rightarrow> tf_programs t | InstructionInput i \<Rightarrow> if_programs i)"

datatype fixture_format = JsonFormat | BinaryFormat

datatype io_error = NotFound | OtherIo string

datatype fixture_error =
    IoError io_error
  | JsonError string
  | EncodeFixture string
  | DecodeFixture string
  | EncodeTransaction string
  | DecodeTransaction string
  | CodecDisabled string
  | UnsupportedFormat string
  | UnsupportedRuntimeConfig string
  | MissingField string
  | MissingProgramElf address
  | UnsupportedSchemaVersion u16 u16
  | HpsvmFailure hpsvm_error

end
