(* ===== verification/Fixture_Compare.thy ===== *)
theory Fixture_Compare
  imports Fixture_Snapshot "HOL-Library.Sublist"
begin

text \<open>
  Comparing and checking snapshots (\<^verbatim>\<open>hpsvm-fixture/src/compare.rs\<close>, \<^verbatim>\<open>check.rs\<close>, \<^verbatim>\<open>config.rs\<close>,
  \<^verbatim>\<open>outcome.rs\<close>). A panic is \<open>None\<close>, a mismatch \<open>Some (Inl m)\<close>. Both evaluators stop at the first
  predicate that fails; the locale \<open>first_failure\<close> states that contract once.
\<close>

section \<open>Mismatches\<close>

record result_config =
  cfg_panic :: bool
  verbose :: bool

datatype mismatch_kind = ComparisonMismatch | CheckMismatch

primrec mismatch_label :: "mismatch_kind \<Rightarrow> string" where
  "mismatch_label ComparisonMismatch = ''comparison''"
| "mismatch_label CheckMismatch = ''check''"

record mismatch =
  mm_kind :: mismatch_kind
  mm_predicate :: string
  mm_message :: string

definition report_mismatch :: "result_config \<Rightarrow> mismatch_kind \<Rightarrow> string \<Rightarrow> mismatch option" where
  "report_mismatch cfg k p =
     (let msg = mismatch_label k @ '' failed: '' @ p
      in if cfg_panic cfg then None
         else Some \<lparr>mm_kind = k, mm_predicate = p, mm_message = msg\<rparr>)"

section \<open>Comparing two snapshots\<close>

datatype account_compare_scope =
  ScopeAll | ScopeOnly "address list" | ScopeAllExcept "address list"

datatype compare =
    CmpStatus
  | CmpIncluded
  | CmpComputeUnits
  | CmpFee
  | CmpReturnData
  | CmpLogs
  | CmpInnerInstructionCount
  | CmpAccounts account_compare_scope

definition everything :: "compare list" where
  "everything =
     [CmpStatus, CmpIncluded, CmpComputeUnits, CmpFee, CmpReturnData, CmpLogs,
      CmpInnerInstructionCount, CmpAccounts ScopeAll]"

definition everything_but_compute_units :: "compare list" where
  "everything_but_compute_units =
     [CmpStatus, CmpIncluded, CmpFee, CmpReturnData, CmpLogs, CmpInnerInstructionCount,
      CmpAccounts ScopeAll]"

primrec should_compare :: "account_compare_scope \<Rightarrow> address \<Rightarrow> bool" where
  "should_compare ScopeAll addr = True"
| "should_compare (ScopeOnly listed) addr = (addr \<in> set listed)"
| "should_compare (ScopeAllExcept listed) addr = (addr \<notin> set listed)"

fun compare_left ::
    "account_compare_scope \<Rightarrow> (address \<rightharpoonup> account_snapshot) \<Rightarrow> account_snapshot list \<Rightarrow> bool" where
  "compare_left sc right [] = True"
| "compare_left sc right (acc # rest) =
     (if \<not> should_compare sc (as_address acc) then compare_left sc right rest
      else case right (as_address acc) of
             None \<Rightarrow> False
           | Some other_account \<Rightarrow>
               if acc \<noteq> other_account then False else compare_left sc right rest)"

definition compare_accounts ::
    "execution_snapshot \<Rightarrow> execution_snapshot \<Rightarrow> account_compare_scope \<Rightarrow> bool" where
  "compare_accounts left right sc =
     (let right_by_address =
            fold (\<lambda>acc m. m(as_address acc \<mapsto> acc)) (snap_post_accounts right) Map.empty;
          left_addresses = set (map as_address (snap_post_accounts left))
      in compare_left sc right_by_address (snap_post_accounts left) \<and>
         \<not> list_ex (\<lambda>acc. should_compare sc (as_address acc) \<and> as_address acc \<notin> left_addresses)
             (snap_post_accounts right))"

fun compare_holds :: "execution_snapshot \<Rightarrow> execution_snapshot \<Rightarrow> compare \<Rightarrow> bool" where
  "compare_holds s t CmpStatus = (snap_status s = snap_status t)"
| "compare_holds s t CmpIncluded = (snap_included s = snap_included t)"
| "compare_holds s t CmpComputeUnits = (snap_compute_units s = snap_compute_units t)"
| "compare_holds s t CmpFee = (snap_fee s = snap_fee t)"
| "compare_holds s t CmpReturnData = (snap_return_data s = snap_return_data t)"
| "compare_holds s t CmpLogs = (snap_logs s = snap_logs t)"
| "compare_holds s t CmpInnerInstructionCount = (length (snap_inner s) = length (snap_inner t))"
| "compare_holds s t (CmpAccounts sc) = compare_accounts s t sc"

fun try_compare_with ::
    "(compare, 'chk) text_ext \<Rightarrow> execution_snapshot \<Rightarrow> execution_snapshot \<Rightarrow> compare list
      \<Rightarrow> result_config \<Rightarrow> (mismatch + unit) option" where
  "try_compare_with F s t [] cfg = Some (Inr ())"
| "try_compare_with F s t (c # cs) cfg =
     (if \<not> compare_holds s t c
      then map_option Inl (report_mismatch cfg ComparisonMismatch (compare_debug F c))
      else try_compare_with F s t cs cfg)"

definition compare_with ::
    "(compare, 'chk) text_ext \<Rightarrow> execution_snapshot \<Rightarrow> execution_snapshot \<Rightarrow> compare list
      \<Rightarrow> result_config \<Rightarrow> bool option" where
  "compare_with F s t cs cfg = map_option (\<lambda>r. \<not> isl r) (try_compare_with F s t cs cfg)"

section \<open>Checking one snapshot\<close>

record account_expectation =
  ae_address :: address
  ae_lamports :: "u64 option"
  ae_owner :: "address option"
  ae_executable :: "bool option"
  ae_data :: "bytes option"
  ae_data_slice :: "(u64 \<times> bytes) option"
  ae_closed :: "bool option"
  ae_rent_exempt :: "bool option"

datatype check =
    ChkSuccess
  | ChkFailure
  | ChkIncluded bool
  | ChkComputeUnits u64
  | ChkFee u64
  | ChkReturnData bytes
  | ChkLogContains string
  | ChkInnerInstructionCount nat
  | ChkAccount account_expectation
  | ChkAllRentExempt

definition check_account :: "address \<Rightarrow> account_expectation" where
  "check_account addr =
     \<lparr>ae_address = addr, ae_lamports = None, ae_owner = None, ae_executable = None,
      ae_data = None, ae_data_slice = None, ae_closed = None, ae_rent_exempt = None\<rparr>"

definition expect_lamports :: "u64 \<Rightarrow> account_expectation \<Rightarrow> account_expectation" where
  "expect_lamports l e = e\<lparr>ae_lamports := Some l\<rparr>"

definition expect_owner :: "address \<Rightarrow> account_expectation \<Rightarrow> account_expectation" where
  "expect_owner a e = e\<lparr>ae_owner := Some a\<rparr>"

definition expect_executable :: "bool \<Rightarrow> account_expectation \<Rightarrow> account_expectation" where
  "expect_executable b e = e\<lparr>ae_executable := Some b\<rparr>"

definition expect_data :: "bytes \<Rightarrow> account_expectation \<Rightarrow> account_expectation" where
  "expect_data d e = e\<lparr>ae_data := Some d\<rparr>"

definition expect_data_slice :: "u64 \<Rightarrow> bytes \<Rightarrow> account_expectation \<Rightarrow> account_expectation" where
  "expect_data_slice offset d e = e\<lparr>ae_data_slice := Some (offset, d)\<rparr>"

definition expect_closed :: "account_expectation \<Rightarrow> account_expectation" where
  "expect_closed e = e\<lparr>ae_closed := Some True\<rparr>"

definition expect_rent_exempt :: "account_expectation \<Rightarrow> account_expectation" where
  "expect_rent_exempt e = e\<lparr>ae_rent_exempt := Some True\<rparr>"

definition build_check :: "account_expectation \<Rightarrow> check" where
  "build_check e = ChkAccount e"

definition is_rent_exempt :: "rent \<Rightarrow> account_snapshot \<Rightarrow> bool" where
  "is_rent_exempt rent_def acc = is_exempt rent_def (as_lamports acc) (length (as_data acc))"

text \<open>\<open>xs[a..b]\<close> panics unless \<open>a \<le> b \<le> xs.len()\<close>; \<open>saturating_add\<close> on a 64-bit \<open>usize\<close>.\<close>

definition slice_range :: "'a list \<Rightarrow> nat \<Rightarrow> nat \<Rightarrow> 'a list option" where
  "slice_range xs a b = (if a \<le> b \<and> b \<le> length xs then Some (take (b - a) (drop a xs)) else None)"

definition usize_saturating_add :: "nat \<Rightarrow> nat \<Rightarrow> nat" where
  "usize_saturating_add a b = min (a + b) (2 ^ 64 - 1)"

definition slice_matches :: "bytes \<Rightarrow> (u64 \<times> bytes) option \<Rightarrow> bool option" where
  "slice_matches d expected =
     (case expected of
        None \<Rightarrow> Some True
      | Some (offset, part) \<Rightarrow>
          let e = usize_saturating_add (unat offset) (length part)
          in if length d < e then Some False
             else map_option (\<lambda>got. got = part) (slice_range d (unat offset) e))"

definition account_matches :: "rent \<Rightarrow> account_snapshot \<Rightarrow> account_expectation \<Rightarrow> bool option" where
  "account_matches rent_def acc e =
     (if is_some_and (\<lambda>l. as_lamports acc \<noteq> l) (ae_lamports e) then Some False
      else if is_some_and (\<lambda>a. as_owner acc \<noteq> a) (ae_owner e) then Some False
      else if is_some_and (\<lambda>b. as_executable acc \<noteq> b) (ae_executable e) then Some False
      else if is_some_and (\<lambda>d. as_data acc \<noteq> d) (ae_data e) then Some False
      else case slice_matches (as_data acc) (ae_data_slice e) of
             None \<Rightarrow> None
           | Some False \<Rightarrow> Some False
           | Some True \<Rightarrow>
               if is_some_and (\<lambda>c. c) (ae_closed e) \<and> \<not> (as_lamports acc = 0 \<and> as_data acc = [])
               then Some False
               else if is_some_and (\<lambda>b. is_rent_exempt rent_def acc \<noteq> b) (ae_rent_exempt e)
               then Some False
               else Some True)"

fun check_holds :: "rent \<Rightarrow> execution_snapshot \<Rightarrow> check \<Rightarrow> bool option" where
  "check_holds R s ChkSuccess = Some (snap_status s = ExecSuccess)"
| "check_holds R s ChkFailure = Some (snap_status s \<noteq> ExecSuccess)"
| "check_holds R s (ChkIncluded b) = Some (snap_included s = b)"
| "check_holds R s (ChkComputeUnits n) = Some (snap_compute_units s = n)"
| "check_holds R s (ChkFee n) = Some (snap_fee s = n)"
| "check_holds R s (ChkReturnData d) = Some (is_some_and (\<lambda>rd. rds_data rd = d) (snap_return_data s))"
| "check_holds R s (ChkLogContains p) = Some (list_ex (\<lambda>line. sublist p line) (snap_logs s))"
| "check_holds R s (ChkInnerInstructionCount n) = Some (length (snap_inner s) = n)"
| "check_holds R s (ChkAccount e) =
     (case List.find (\<lambda>acc. as_address acc = ae_address e) (snap_post_accounts s) of
        None \<Rightarrow> Some False
      | Some acc \<Rightarrow> account_matches R acc e)"
| "check_holds R s ChkAllRentExempt =
     Some (list_all (\<lambda>acc. as_lamports acc = 0 \<or> is_rent_exempt R acc) (snap_post_accounts s))"

fun try_run_checks ::
    "('cmp, check) text_ext \<Rightarrow> rent \<Rightarrow> execution_snapshot \<Rightarrow> check list
      \<Rightarrow> result_config \<Rightarrow> (mismatch + unit) option" where
  "try_run_checks F R s [] cfg = Some (Inr ())"
| "try_run_checks F R s (c # cs) cfg =
     (case check_holds R s c of
        None \<Rightarrow> None
      | Some pass \<Rightarrow>
          if \<not> pass then map_option Inl (report_mismatch cfg CheckMismatch (check_debug F c))
          else try_run_checks F R s cs cfg)"

definition run_checks ::
    "('cmp, check) text_ext \<Rightarrow> rent \<Rightarrow> execution_snapshot \<Rightarrow> check list \<Rightarrow> result_config \<Rightarrow> bool option" where
  "run_checks F R s cs cfg = map_option (\<lambda>r. \<not> isl r) (try_run_checks F R s cs cfg)"

section \<open>Evaluation stops at the first failure\<close>

locale first_failure =
  fixes evaluate :: "'p list \<Rightarrow> result_config \<Rightarrow> (mismatch + unit) option"
    and holds :: "'p \<Rightarrow> bool"
    and mkind :: mismatch_kind
    and render :: "'p \<Rightarrow> string"
  assumes evaluate_Nil: "evaluate [] cfg = Some (Inr ())"
    and evaluate_Cons: "evaluate (p # ps) cfg =
      (if holds p then evaluate ps cfg else map_option Inl (report_mismatch cfg mkind (render p)))"
begin

lemma evaluate_first:
  "evaluate ps cfg =
     (case List.find (\<lambda>p. \<not> holds p) ps of
        None \<Rightarrow> Some (Inr ())
      | Some p \<Rightarrow>
          if cfg_panic cfg then None
          else Some (Inl \<lparr>mm_kind = mkind, mm_predicate = render p,
                          mm_message = mismatch_label mkind @ '' failed: '' @ render p\<rparr>))"
  by (induction ps) (simp_all add: evaluate_Nil evaluate_Cons report_mismatch_def Let_def)

lemma evaluate_verdict:
  "map_option (\<lambda>r. \<not> isl r) (evaluate ps cfg) =
     (if \<forall>p \<in> set ps. holds p then Some True else if cfg_panic cfg then None else Some False)"
proof -
  have "(\<forall>p \<in> set ps. holds p) \<longleftrightarrow> List.find (\<lambda>p. \<not> holds p) ps = None"
    by (auto simp: find_None_iff)
  then show ?thesis by (simp only: evaluate_first) (simp split: option.split)
qed

end

interpretation compares: first_failure
  "try_compare_with F s t" "compare_holds s t" ComparisonMismatch "compare_debug F"
  by unfold_locales simp_all

section \<open>Comparison\<close>

definition account_at :: "execution_snapshot \<Rightarrow> address \<rightharpoonup> account_snapshot" where
  "account_at s = map_of (map (\<lambda>acc. (as_address acc, acc)) (snap_post_accounts s))"

abbreviation distinct_accounts :: "execution_snapshot \<Rightarrow> bool" where
  "distinct_accounts s \<equiv> distinct (map as_address (snap_post_accounts s))"

lemma fold_insert_accounts:
  assumes "distinct (map as_address xs)"
  shows "fold (\<lambda>acc m. m(as_address acc \<mapsto> acc)) xs m =
         m ++ map_of (map (\<lambda>acc. (as_address acc, acc)) xs)"
  using assms
proof (induction xs arbitrary: m)
  case (Cons x xs)
  then have "map_of (map (\<lambda>acc. (as_address acc, acc)) xs) (as_address x) = None"
    by (auto simp: map_of_eq_None_iff image_image)
  then have "m(as_address x \<mapsto> x) ++ map_of (map (\<lambda>acc. (as_address acc, acc)) xs) =
      m ++ (map_of (map (\<lambda>acc. (as_address acc, acc)) xs))(as_address x \<mapsto> x)"
    by (auto simp: fun_eq_iff map_add_def split: option.splits)
  then show ?case using Cons by (simp del: fun_upd_apply)
qed simp

lemma compare_left_iff:
  "compare_left sc m xs \<longleftrightarrow>
     (\<forall>acc \<in> set xs. should_compare sc (as_address acc) \<longrightarrow> m (as_address acc) = Some acc)"
  by (induction xs) (auto split: option.splits)

lemma account_at_Some:
  assumes "distinct_accounts s"
  shows "account_at s addr = Some acc \<longleftrightarrow> acc \<in> set (snap_post_accounts s) \<and> as_address acc = addr"
  using assms by (auto simp: account_at_def map_of_eq_Some_iff comp_def)

lemma account_at_None:
  "account_at s addr = None \<longleftrightarrow> addr \<notin> as_address ` set (snap_post_accounts s)"
  by (auto simp: account_at_def map_of_eq_None_iff image_image)

lemma option_eq_iff:
  "(\<forall>a. x = Some a \<longrightarrow> y = Some a) \<and> (x = None \<longrightarrow> y = None) \<longleftrightarrow> x = y"
  by (cases x) auto

lemma compare_accounts_iff:
  assumes l: "distinct_accounts left" and r: "distinct_accounts right"
  shows "compare_accounts left right sc \<longleftrightarrow>
         (\<forall>addr. should_compare sc addr \<longrightarrow> account_at left addr = account_at right addr)"
proof -
  have "compare_accounts left right sc \<longleftrightarrow>
      (\<forall>acc \<in> set (snap_post_accounts left). should_compare sc (as_address acc) \<longrightarrow>
         account_at right (as_address acc) = Some acc) \<and>
      (\<forall>acc \<in> set (snap_post_accounts right). should_compare sc (as_address acc) \<longrightarrow>
         account_at left (as_address acc) \<noteq> None)"
    using fold_insert_accounts [OF r, of Map.empty]
    by (auto simp: compare_accounts_def compare_left_iff account_at_None list_ex_iff Let_def
        simp flip: account_at_def)
  also have "\<dots> \<longleftrightarrow>
      (\<forall>addr. should_compare sc addr \<longrightarrow>
         (\<forall>acc. account_at left addr = Some acc \<longrightarrow> account_at right addr = Some acc) \<and>
         (account_at left addr = None \<longrightarrow> account_at right addr = None))"
    by (auto simp: account_at_Some [OF l] account_at_Some [OF r] account_at_None)
  also have "\<dots> \<longleftrightarrow>
      (\<forall>addr. should_compare sc addr \<longrightarrow> account_at left addr = account_at right addr)"
    by (simp only: option_eq_iff)
  finally show ?thesis .
qed

text \<open>
  C31. Comparing everything decides the equality of the two executions up to the order of their
  accounts: status, inclusion, compute units, fee, return data and logs are equal, both lists
  have the same number of inner instructions, and every address holds the same account or none
  in both. The content of inner instructions is not compared. The verdict is never a panic
  unless the configuration asks for one.
\<close>

theorem compare_everything_exact:
  assumes "distinct_accounts s" and "distinct_accounts t"
  shows "compare_with F s t everything cfg =
    (if snap_status s = snap_status t \<and> snap_included s = snap_included t \<and>
        snap_compute_units s = snap_compute_units t \<and> snap_fee s = snap_fee t \<and>
        snap_return_data s = snap_return_data t \<and> snap_logs s = snap_logs t \<and>
        length (snap_inner s) = length (snap_inner t) \<and> account_at s = account_at t
     then Some True else if cfg_panic cfg then None else Some False)"
proof -
  have "(\<forall>c \<in> set everything. compare_holds s t c) \<longleftrightarrow>
      snap_status s = snap_status t \<and> snap_included s = snap_included t \<and>
      snap_compute_units s = snap_compute_units t \<and> snap_fee s = snap_fee t \<and>
      snap_return_data s = snap_return_data t \<and> snap_logs s = snap_logs t \<and>
      length (snap_inner s) = length (snap_inner t) \<and> account_at s = account_at t"
    using compare_accounts_iff [OF assms] by (simp add: everything_def fun_eq_iff)
  then show ?thesis by (simp only: compare_with_def compares.evaluate_verdict)
qed

text \<open>
  A scoped account comparison is equality of the two account maps on the scope, whatever
  the order of the accounts in either snapshot.
\<close>

theorem compare_accounts_exact:
  assumes "distinct_accounts left" and "distinct_accounts right"
  shows "compare_accounts left right sc \<longleftrightarrow>
         (\<forall>addr. should_compare sc addr \<longrightarrow> account_at left addr = account_at right addr)"
  by (rule compare_accounts_iff [OF assms])

text \<open>Two accounts at one address make even a snapshot and itself differ: the last one wins.\<close>

lemma duplicate_accounts_differ:
  "\<exists>s. \<not> compare_accounts s s ScopeAll"
proof
  let ?a = "\<lparr>as_address = Pubkey 3, as_lamports = 4, as_owner = SystemProgram,
    as_executable = False, as_rent_epoch = 0, as_data = []\<rparr>"
  show "\<not> compare_accounts \<lparr>snap_status = ExecSuccess, snap_included = True, snap_compute_units = 0,
      snap_fee = 0, snap_logs = [], snap_return_data = None, snap_inner = [],
      snap_post_accounts = [?a, ?a\<lparr>as_lamports := 5\<rparr>]\<rparr>
    \<lparr>snap_status = ExecSuccess, snap_included = True, snap_compute_units = 0,
      snap_fee = 0, snap_logs = [], snap_return_data = None, snap_inner = [],
      snap_post_accounts = [?a, ?a\<lparr>as_lamports := 5\<rparr>]\<rparr> ScopeAll"
    by (simp add: compare_accounts_def)
qed

section \<open>Checks\<close>

lemma unat_lt: "unat (x :: u64) < 18446744073709551616"
  using unsigned_less [of x, where ?'a = nat] by simp

lemma slice_matches_total: "slice_matches d expected \<noteq> None"
proof (cases expected)
  case (Some p)
  obtain offset part where p: "p = (offset, part)" by (cases p)
  have "unat offset \<le> usize_saturating_add (unat offset) (length part)"
    using unat_lt [of offset] by (simp add: usize_saturating_add_def)
  then show ?thesis by (simp add: slice_matches_def Some p slice_range_def Let_def del: not_None_eq)
qed (simp add: slice_matches_def)

lemma slice_matches_iff:
  assumes "length d < 2 ^ 64 - 1"
  shows "slice_matches d (Some (offset, part)) =
    Some (unat offset + length part \<le> length d \<and>
          (\<forall>i < length part. d ! (unat offset + i) = part ! i))"
proof (cases "unat offset + length part \<le> length d")
  case True
  then have "usize_saturating_add (unat offset) (length part) = unat offset + length part"
    using assms by (simp add: usize_saturating_add_def)
  then show ?thesis
    using True by (auto simp: slice_matches_def slice_range_def list_eq_iff_nth_eq add.commute)
next
  case False
  then have "length d < usize_saturating_add (unat offset) (length part)"
    using assms by (simp add: usize_saturating_add_def)
  then show ?thesis using False by (simp add: slice_matches_def)
qed

lemma check_total: "check_holds R s c \<noteq> None"
proof (cases c)
  case (ChkAccount e)
  have "account_matches R acc e \<noteq> None" for acc
    using slice_matches_total [of "as_data acc" "ae_data_slice e"]
    by (auto simp: account_matches_def split: bool.splits)
  then show ?thesis by (cases "List.find (\<lambda>acc. as_address acc = ae_address e) (snap_post_accounts s)")
      (simp_all add: ChkAccount)
qed simp_all

interpretation checks: first_failure
  "try_run_checks F R s" "\<lambda>c. check_holds R s c = Some True" CheckMismatch "check_debug F"
proof
  fix p ps cfg
  show "try_run_checks F R s (p # ps) cfg =
      (if check_holds R s p = Some True then try_run_checks F R s ps cfg
       else map_option Inl (report_mismatch cfg CheckMismatch (check_debug F p)))"
    using check_total [of R s p] by auto
qed simp

text \<open>
  Running checks never panics by itself: the data-slice check clips a saturated end before
  it slices, so an offset at the top of the address space is a mismatch and not an abort. The
  evaluation reports exactly the first check that does not hold, and panics only then and only
  when the configuration asks for it.
\<close>

theorem checks_report_first_failure:
  "try_run_checks F R s cs cfg =
     (case List.find (\<lambda>c. check_holds R s c \<noteq> Some True) cs of
        None \<Rightarrow> Some (Inr ())
      | Some c \<Rightarrow>
          if cfg_panic cfg then None
          else Some (Inl \<lparr>mm_kind = CheckMismatch, mm_predicate = check_debug F c,
                          mm_message = ''check failed: '' @ check_debug F c\<rparr>)) \<and>
   check_holds R s c \<noteq> None"
  by (intro conjI check_total) (simp add: checks.evaluate_first split: option.split)

text \<open>
  An account check holds exactly when every expectation that was set holds: equal lamports,
  owner, executable flag and data, the expected bytes at every position of the slice, which
  lies inside the data, an account that is empty when it is expected closed, and the expected
  rent exemption. Account data is shorter than the largest \<open>usize\<close>, as every \<open>Vec\<close> is.
\<close>

theorem account_check_exact:
  assumes "length (as_data acc) < 2 ^ 64 - 1"
  shows "account_matches R acc e =
    Some ((\<forall>l. ae_lamports e = Some l \<longrightarrow> as_lamports acc = l) \<and>
          (\<forall>a. ae_owner e = Some a \<longrightarrow> as_owner acc = a) \<and>
          (\<forall>b. ae_executable e = Some b \<longrightarrow> as_executable acc = b) \<and>
          (\<forall>d. ae_data e = Some d \<longrightarrow> as_data acc = d) \<and>
          (\<forall>offset part. ae_data_slice e = Some (offset, part) \<longrightarrow>
             unat offset + length part \<le> length (as_data acc) \<and>
             (\<forall>i < length part. as_data acc ! (unat offset + i) = part ! i)) \<and>
          (ae_closed e = Some True \<longrightarrow> as_lamports acc = 0 \<and> as_data acc = []) \<and>
          (\<forall>b. ae_rent_exempt e = Some b \<longrightarrow> is_rent_exempt R acc = b))"
proof -
  define ok where "ok = (\<forall>offset part. ae_data_slice e = Some (offset, part) \<longrightarrow>
      unat offset + length part \<le> length (as_data acc) \<and>
      (\<forall>i < length part. as_data acc ! (unat offset + i) = part ! i))"
  have sl: "slice_matches (as_data acc) (ae_data_slice e) = Some ok"
  proof (cases "ae_data_slice e")
    case (Some p)
    then show ?thesis
      using slice_matches_iff [OF assms, of "fst p" "snd p"] by (cases p) (simp add: ok_def)
  qed (simp add: slice_matches_def ok_def)
  show ?thesis
    unfolding ok_def [symmetric] account_matches_def sl
    by (cases ok) (auto simp: is_some_and_def split: option.splits)
qed

end
