(* ===== verification/Fixture_Runner.thy ===== *)
theory Fixture_Runner
  imports Fixture_Compare
begin

text \<open>
  Recording, storing and replaying fixtures (\<^verbatim>\<open>hpsvm-fixture/src/runner.rs\<close>, \<^verbatim>\<open>capture.rs\<close>,
  \<^verbatim>\<open>lib.rs\<close>, \<^verbatim>\<open>json.rs\<close>, \<^verbatim>\<open>binary.rs\<close>). The codecs of other crates and the file system are the
  record \<open>fixture_ext\<close>; \<open>codec_law\<close> and \<open>file_law\<close> state what their documentation promises.
  The default features and \<open>instruction-fixture\<close> are enabled.
\<close>

section \<open>What other crates provide\<close>

record 'fs fixture_ext =
  tx_encode :: "versioned_tx \<Rightarrow> string + bytes"
  tx_decode :: "bytes \<Rightarrow> string + versioned_tx"
  bin_encode :: "compare fixture \<Rightarrow> string + bytes"
  bin_decode :: "bytes \<Rightarrow> string + compare fixture"
  json_print :: "compare fixture \<Rightarrow> string + string"
  json_version :: "string \<Rightarrow> string + u64 option"  \<comment> \<open>\<open>header.schema_version\<close> of the document\<close>
  json_decode :: "string \<Rightarrow> string + compare fixture"
  read_file :: "'fs \<Rightarrow> string \<Rightarrow> io_error + bytes"
  read_to_string :: "'fs \<Rightarrow> string \<Rightarrow> io_error + string"
  write_bytes :: "'fs \<Rightarrow> string \<Rightarrow> bytes \<Rightarrow> 'fs \<times> (io_error + unit)"
  write_text :: "'fs \<Rightarrow> string \<Rightarrow> string \<Rightarrow> 'fs \<times> (io_error + unit)"

section \<open>Files\<close>

text \<open>
  The components of a path, without empty and \<open>.\<close> components; the file name is the last one
  unless it is \<open>..\<close>, and the extension what follows its last dot, unless the dot is first.
\<close>

fun split_slash :: "string \<Rightarrow> string list" where
  "split_slash [] = [[]]"
| "split_slash (c # cs) =
     (if c = CHR ''/'' then [] # split_slash cs
      else case split_slash cs of [] \<Rightarrow> [[c]] | p # ps \<Rightarrow> (c # p) # ps)"

definition file_name :: "string \<Rightarrow> string option" where
  "file_name path =
     (case rev (filter (\<lambda>c. c \<noteq> [] \<and> c \<noteq> ''.'') (split_slash path)) of
        [] \<Rightarrow> None
      | c # _ \<Rightarrow> if c = ''..'' then None else Some c)"

definition path_extension :: "string \<Rightarrow> string option" where
  "path_extension path =
     Option.bind (file_name path)
       (\<lambda>n. let after_dot = takeWhile (\<lambda>c. c \<noteq> CHR ''.'') (rev n);
                stem = drop (Suc (length after_dot)) (rev n)
            in if CHR ''.'' \<notin> set n \<or> stem = [] then None else Some (rev after_dot))"

definition fixture_format_for_path :: "string \<Rightarrow> fixture_error + fixture_format" where
  "fixture_format_for_path path =
     (if path_extension path = Some ''json'' then Inr JsonFormat
      else if path_extension path = Some ''bin'' then Inr BinaryFormat
      else Inl (UnsupportedFormat path))"

definition u16_try_from :: "u64 \<Rightarrow> u16 option" where
  "u16_try_from n = (if unat n < 65536 then Some (ucast n) else None)"

definition json_load :: "'fs fixture_ext \<Rightarrow> 'fs \<Rightarrow> string \<Rightarrow> fixture_error + compare fixture" where
  "json_load C fs path =
     (if path_extension path \<noteq> Some ''json'' then Inl (UnsupportedFormat path)
      else case read_to_string C fs path of
             Inl e \<Rightarrow> Inl (IoError e)
           | Inr file \<Rightarrow>
               (case json_version C file of
                  Inl e \<Rightarrow> Inl (JsonError e)
                | Inr None \<Rightarrow> map_err JsonError (json_decode C file)
                | Inr (Some version) \<Rightarrow>
                    let v = unwrap_or (- 1) (u16_try_from version)
                    in if v \<notin> set supported_schema_versions
                       then Inl (UnsupportedSchemaVersion v current_schema_version)
                       else map_err JsonError (json_decode C file)))"

definition json_save ::
    "'fs fixture_ext \<Rightarrow> compare fixture \<Rightarrow> string \<Rightarrow> 'fs \<Rightarrow> 'fs \<times> (fixture_error + unit)" where
  "json_save C fx path fs =
     (case json_print C fx of
        Inl e \<Rightarrow> (fs, Inl (JsonError e))
      | Inr doc \<Rightarrow> apsnd (map_err IoError) (write_text C fs path doc))"

definition binary_load :: "'fs fixture_ext \<Rightarrow> 'fs \<Rightarrow> string \<Rightarrow> fixture_error + compare fixture" where
  "binary_load C fs path =
     (case read_file C fs path of
        Inl e \<Rightarrow> Inl (IoError e)
      | Inr bs \<Rightarrow> map_err DecodeFixture (bin_decode C bs))"

definition binary_save ::
    "'fs fixture_ext \<Rightarrow> compare fixture \<Rightarrow> string \<Rightarrow> 'fs \<Rightarrow> 'fs \<times> (fixture_error + unit)" where
  "binary_save C fx path fs =
     (case bin_encode C fx of
        Inl e \<Rightarrow> (fs, Inl (EncodeFixture e))
      | Inr bs \<Rightarrow> apsnd (map_err IoError) (write_bytes C fs path bs))"

definition has_supported_schema_version :: "'cmp fixture \<Rightarrow> bool" where
  "has_supported_schema_version fx \<longleftrightarrow> schema_version (fx_header fx) \<in> set supported_schema_versions"

definition check_schema_version :: "'cmp fixture \<Rightarrow> fixture_error + unit" where
  "check_schema_version fx =
     (if has_supported_schema_version fx then Inr ()
      else Inl (UnsupportedSchemaVersion (schema_version (fx_header fx)) current_schema_version))"

definition fixture_load :: "'fs fixture_ext \<Rightarrow> 'fs \<Rightarrow> string \<Rightarrow> fixture_error + compare fixture" where
  "fixture_load C fs path =
     (case fixture_format_for_path path of
        Inl e \<Rightarrow> Inl e
      | Inr fmt \<Rightarrow>
          (case (case fmt of JsonFormat \<Rightarrow> json_load C fs path | BinaryFormat \<Rightarrow> binary_load C fs path) of
             Inl e \<Rightarrow> Inl e
           | Inr fx \<Rightarrow>
               (case check_schema_version fx of Inl e \<Rightarrow> Inl e | Inr _ \<Rightarrow> Inr fx)))"

definition fixture_save ::
    "'fs fixture_ext \<Rightarrow> compare fixture \<Rightarrow> string \<Rightarrow> fixture_format \<Rightarrow> 'fs
      \<Rightarrow> 'fs \<times> (fixture_error + unit)" where
  "fixture_save C fx path fmt fs =
     (case fmt of JsonFormat \<Rightarrow> json_save C fx path fs | BinaryFormat \<Rightarrow> binary_save C fx path fs)"

section \<open>Recording\<close>

record capture_builder =
  cb_header :: "fixture_header option"
  cb_runtime :: "runtime_fixture_config option"
  cb_programs :: "program_binding list"
  cb_pre_accounts :: "account_snapshot list"
  cb_baseline :: "execution_snapshot option"
  cb_compares :: "compare list"

definition capture_default :: capture_builder where
  "capture_default =
     \<lparr>cb_header = None, cb_runtime = None, cb_programs = [], cb_pre_accounts = [],
      cb_baseline = None, cb_compares = []\<rparr>"

definition capture_new :: "string \<Rightarrow> capture_builder" where
  "capture_new name =
     capture_default\<lparr>cb_header := Some
       \<lparr>schema_version = current_schema_version, fixture_name = name,
        fixture_kind = TransactionKind, fixture_source = None, tags = []\<rparr>\<rparr>"

definition capture_source :: "string \<Rightarrow> capture_builder \<Rightarrow> capture_builder" where
  "capture_source src b = b\<lparr>cb_header := map_option (\<lambda>h. h\<lparr>fixture_source := Some src\<rparr>) (cb_header b)\<rparr>"

definition capture_tag :: "string \<Rightarrow> capture_builder \<Rightarrow> capture_builder" where
  "capture_tag t b = b\<lparr>cb_header := map_option (\<lambda>h. h\<lparr>tags := tags h @ [t]\<rparr>) (cb_header b)\<rparr>"

definition capture_runtime :: "runtime_fixture_config \<Rightarrow> capture_builder \<Rightarrow> capture_builder" where
  "capture_runtime rt b = b\<lparr>cb_runtime := Some rt\<rparr>"

definition capture_programs :: "program_binding list \<Rightarrow> capture_builder \<Rightarrow> capture_builder" where
  "capture_programs ps b = b\<lparr>cb_programs := ps\<rparr>"

definition capture_pre_accounts :: "account_snapshot list \<Rightarrow> capture_builder \<Rightarrow> capture_builder" where
  "capture_pre_accounts pre b = b\<lparr>cb_pre_accounts := pre\<rparr>"

definition capture_baseline :: "execution_snapshot \<Rightarrow> capture_builder \<Rightarrow> capture_builder" where
  "capture_baseline s b = b\<lparr>cb_baseline := Some s\<rparr>"

definition capture_compares :: "compare list \<Rightarrow> capture_builder \<Rightarrow> capture_builder" where
  "capture_compares cs b = b\<lparr>cb_compares := cs\<rparr>"

definition capture_transaction ::
    "'fs fixture_ext \<Rightarrow> versioned_tx \<Rightarrow> capture_builder \<Rightarrow> fixture_error + compare fixture" where
  "capture_transaction C tx b =
     (case tx_encode C tx of
        Inl e \<Rightarrow> Inl (EncodeTransaction e)
      | Inr bs \<Rightarrow>
          (case cb_header b of
             None \<Rightarrow> Inl (MissingField ''header'')
           | Some h \<Rightarrow>
               (case cb_runtime b of
                  None \<Rightarrow> Inl (MissingField ''runtime'')
                | Some rt \<Rightarrow>
                    (case cb_baseline b of
                       None \<Rightarrow> Inl (MissingField ''baseline'')
                     | Some base \<Rightarrow>
                         Inr \<lparr>fx_header = h,
                              fx_input = TransactionInput
                                \<lparr>tf_runtime = rt, tf_programs = cb_programs b,
                                 tf_pre_accounts = cb_pre_accounts b, transaction_bytes = bs\<rparr>,
                              fx_expectations =
                                \<lparr>baseline = base,
                                 compares = (if cb_compares b = [] then everything
                                             else cb_compares b)\<rparr>\<rparr>))))"

section \<open>Replaying\<close>

definition configure_vm ::
    "vm_ext \<Rightarrow> ('pc, 'x, 'st, 'ic) exec_ext \<Rightarrow> runtime_fixture_config \<Rightarrow> ('pc, 'st, 'c) vm
      \<Rightarrow> ('pc, 'st, 'c) vm option" where
  "configure_vm V E rt v =
     (let (w, s0) = v;
          s1 = set_sigverify (rt_sigverify rt) s0;
          s2 = set_blockhash_check (rt_blockhash_check rt) s1;
          s3 = set_log_bytes_limit (rt_log_bytes_limit rt) s2;
          s4 = (case rt_compute_unit_limit rt of
                  None \<Rightarrow> s3 | Some n \<Rightarrow> set_compute_unit_limit E n s3)
      in warp_to_slot V (db E) (rt_slot rt) (w, s4))"

fun bind_programs ::
    "vm_ext \<Rightarrow> ('pc, 'x, 'st) db_ext \<Rightarrow> program_binding list \<Rightarrow> (address \<rightharpoonup> bytes)
      \<Rightarrow> ('pc, 'st, 'c) vm \<Rightarrow> ('pc, 'st, 'c) vm \<times> (fixture_error + unit)" where
  "bind_programs V X [] elfs v = (v, Inr ())"
| "bind_programs V X (b # bs) elfs v =
     (case elfs (pb_program_id b) of
        None \<Rightarrow> (v, Inl (MissingProgramElf (pb_program_id b)))
      | Some elf \<Rightarrow>
          (case add_program_with_loader V X (pb_program_id b) elf (pb_loader_id b) v of
             (v', Inl e) \<Rightarrow> (v', Inl (HpsvmFailure e))
           | (v', Inr _) \<Rightarrow> bind_programs V X bs elfs v'))"

record fixture_execution =
  fe_snapshot :: execution_snapshot
  fe_pass :: "bool option"

record 'c fixture_runner =
  base_vm :: "'c svm"
  program_elfs :: "address \<rightharpoonup> bytes"
  jit_override :: "jit_policy option"

definition runner_new :: "'c svm \<Rightarrow> 'c fixture_runner" where
  "runner_new s = \<lparr>base_vm = s, program_elfs = Map.empty, jit_override = None\<rparr>"

definition with_program_elf :: "address \<Rightarrow> bytes \<Rightarrow> 'c fixture_runner \<Rightarrow> 'c fixture_runner" where
  "with_program_elf k elf r = r\<lparr>program_elfs := (program_elfs r)(k \<mapsto> elf)\<rparr>"

definition runner_set_jit_policy :: "jit_policy \<Rightarrow> 'c fixture_runner \<Rightarrow> 'c fixture_runner" where
  "runner_set_jit_policy p r = r\<lparr>jit_override := Some p\<rparr>"

fun take_elfs ::
    "program_binding list \<Rightarrow> (address \<rightharpoonup> bytes) \<Rightarrow> 'c fixture_runner
      \<Rightarrow> fixture_error + 'c fixture_runner" where
  "take_elfs [] elfs r = Inr r"
| "take_elfs (b # bs) elfs r =
     (case elfs (pb_program_id b) of
        None \<Rightarrow> Inl (MissingProgramElf (pb_program_id b))
      | Some elf \<Rightarrow> take_elfs bs elfs (r\<lparr>program_elfs := (program_elfs r)(pb_program_id b \<mapsto> elf)\<rparr>))"

definition with_fixture_programs ::
    "'cmp fixture \<Rightarrow> (address \<rightharpoonup> bytes) \<Rightarrow> 'c fixture_runner \<Rightarrow> fixture_error + 'c fixture_runner" where
  "with_fixture_programs fx elfs r = take_elfs (fixture_programs fx) elfs r"

definition runner_load_programs ::
    "vm_ext \<Rightarrow> ('pc, 'x, 'st) db_ext \<Rightarrow> 'c fixture_runner \<Rightarrow> program_binding list
      \<Rightarrow> ('pc, 'st, 'c) vm \<Rightarrow> ('pc, 'st, 'c) vm \<times> (fixture_error + unit)" where
  "runner_load_programs V X r bs v = bind_programs V X bs (program_elfs r) v"

definition working_vm :: "'c fixture_runner \<Rightarrow> 'c svm" where
  "working_vm r =
     (case jit_override r of
        None \<Rightarrow> svm_clone (base_vm r)
      | Some p \<Rightarrow> svm_set_jit_policy p (svm_clone (base_vm r)))"

definition run_transaction_fixture ::
    "('cmp, 'chk) text_ext \<Rightarrow> 'fs fixture_ext \<Rightarrow> vm_ext \<Rightarrow> ('pc, 'x, 'st, 'ic) exec_ext
      \<Rightarrow> ('pc, 'st, 'c) handlers \<Rightarrow> 'c fixture_runner \<Rightarrow> transaction_fixture \<Rightarrow> ('pc, 'st) world
      \<Rightarrow> ('pc, 'st, fixture_error + execution_snapshot) outcome" where
  "run_transaction_fixture F C V E Hs r f w =
     (if rt_blockhash_check (tf_runtime f)
      then Some (w, [], Inl (UnsupportedRuntimeConfig ''blockhash_check''))
      else case configure_vm V E (tf_runtime f) (w, working_vm r) of
             None \<Rightarrow> None
           | Some v1 \<Rightarrow>
               (case runner_load_programs V (db E) r (tf_programs f) v1 of
                  (v2, Inl e) \<Rightarrow> Some (fst v2, [], Inl e)
                | (v2, Inr _) \<Rightarrow>
                    (case set_accounts (db E)
                            (map (\<lambda>a. (as_address a, account_from_snapshot a)) (tf_pre_accounts f)) v2 of
                       (v3, Inl e) \<Rightarrow> Some (fst v3, [], Inl (HpsvmFailure e))
                     | (v3, Inr _) \<Rightarrow>
                         (case tx_decode C (transaction_bytes f) of
                            Inl e \<Rightarrow> Some (fst v3, [], Inl (DecodeTransaction e))
                          | Inr tx \<Rightarrow>
                              map_outcome (\<lambda>d. Inr (snapshot_from_outcome F d))
                                (transact_detached Hs tx v3)))))"

definition run_instruction_fixture ::
    "('cmp, 'chk) text_ext \<Rightarrow> msg_ext \<Rightarrow> address \<Rightarrow> vm_ext \<Rightarrow> ('pc, 'x, 'st, 'ic) exec_ext
      \<Rightarrow> ('pc, 'st, 'c) handlers \<Rightarrow> 'c fixture_runner \<Rightarrow> instruction_fixture \<Rightarrow> ('pc, 'st) world
      \<Rightarrow> ('pc, 'st, fixture_error + execution_snapshot) outcome" where
  "run_instruction_fixture F M new_unique V E Hs r f w =
     (case configure_vm V E (if_runtime f) (w, working_vm r) of
        None \<Rightarrow> None
      | Some v1 \<Rightarrow>
          (case runner_load_programs V (db E) r (if_programs f) v1 of
             (v2, Inl e) \<Rightarrow> Some (fst v2, [], Inl e)
           | (v2, Inr _) \<Rightarrow>
               map_outcome
                 (\<lambda>res. case res of
                    Inl e \<Rightarrow> Inl (HpsvmFailure e)
                  | Inr d \<Rightarrow> Inr (snapshot_from_outcome F d))
                 (process_instruction_case M new_unique (db E) Hs (fixture_instruction_case f) v2)))"

definition run_fixture ::
    "('cmp, 'chk) text_ext \<Rightarrow> 'fs fixture_ext \<Rightarrow> msg_ext \<Rightarrow> address \<Rightarrow> vm_ext
      \<Rightarrow> ('pc, 'x, 'st, 'ic) exec_ext \<Rightarrow> ('pc, 'st, 'c) handlers \<Rightarrow> 'c fixture_runner
      \<Rightarrow> 'q fixture \<Rightarrow> ('pc, 'st) world \<Rightarrow> ('pc, 'st, fixture_error + fixture_execution) outcome" where
  "run_fixture F C M new_unique V E Hs r fx w =
     map_outcome (map_sum id (\<lambda>s. \<lparr>fe_snapshot = s, fe_pass = None\<rparr>))
       (case fx_input fx of
          TransactionInput f \<Rightarrow> run_transaction_fixture F C V E Hs r f w
        | InstructionInput f \<Rightarrow> run_instruction_fixture F M new_unique V E Hs r f w)"

definition run_and_validate ::
    "(compare, 'chk) text_ext \<Rightarrow> 'fs fixture_ext \<Rightarrow> msg_ext \<Rightarrow> address \<Rightarrow> vm_ext
      \<Rightarrow> ('pc, 'x, 'st, 'ic) exec_ext \<Rightarrow> ('pc, 'st, 'c) handlers \<Rightarrow> 'c fixture_runner
      \<Rightarrow> compare fixture \<Rightarrow> result_config \<Rightarrow> ('pc, 'st) world
      \<Rightarrow> ('pc, 'st, fixture_error + bool) outcome" where
  "run_and_validate F C M new_unique V E Hs r fx cfg w =
     (case run_fixture F C M new_unique V E Hs r fx w of
        None \<Rightarrow> None
      | Some (w', evs, Inl e) \<Rightarrow> Some (w', evs, Inl e)
      | Some (w', evs, Inr x) \<Rightarrow>
          map_option (\<lambda>pass. (w', evs, Inr pass))
            (compare_with F (fe_snapshot x) (baseline (fx_expectations fx))
               (compares (fx_expectations fx)) cfg))"

section \<open>What the codecs and the file system promise\<close>

definition codec_law :: "'fs fixture_ext \<Rightarrow> bool" where
  "codec_law C \<longleftrightarrow>
     (\<forall>tx bs. tx_encode C tx = Inr bs \<longrightarrow> tx_decode C bs = Inr tx) \<and>
     (\<forall>fx bs. bin_encode C fx = Inr bs \<longrightarrow> bin_decode C bs = Inr fx) \<and>
     (\<forall>fx doc. json_print C fx = Inr doc \<longrightarrow>
        json_decode C doc = Inr fx \<and>
        json_version C doc = Inr (Some (ucast (schema_version (fx_header fx)))))"

definition file_law :: "'fs fixture_ext \<Rightarrow> bool" where
  "file_law C \<longleftrightarrow>
     (\<forall>fs path bs fs'. write_bytes C fs path bs = (fs', Inr ()) \<longrightarrow> read_file C fs' path = Inr bs) \<and>
     (\<forall>fs path doc fs'. write_text C fs path doc = (fs', Inr ()) \<longrightarrow> read_to_string C fs' path = Inr doc)"

section \<open>Stored fixtures\<close>

lemma u16_round_trip: "u16_try_from (ucast (n :: u16)) = Some n"
proof -
  have lt: "unat n < 65536" using unsigned_less [of n, where ?'a = nat] by simp
  have "unat (ucast n :: u64) = unat n"
    using lt by (simp add: unsigned_ucast_eq unsigned_take_bit_eq take_bit_nat_eq_self)
  moreover have "(ucast (ucast n :: u64) :: u16) = n" by (simp add: unsigned_ucast_eq take_bit_word_eq_self)
  ultimately show ?thesis using lt by (simp add: u16_try_from_def)
qed

lemma format_extension:
  "fixture_format_for_path path = Inr fmt \<Longrightarrow>
   path_extension path = Some (case fmt of JsonFormat \<Rightarrow> ''json'' | BinaryFormat \<Rightarrow> ''bin'')"
  by (auto simp: fixture_format_for_path_def split: if_splits)

lemma load_saved:
  assumes "codec_law C" and "file_law C"
    and "fixture_format_for_path path = Inr fmt"
    and "fixture_save C fx path fmt fs = (fs', Inr ())"
  shows "fixture_load C fs' path =
    (if has_supported_schema_version fx then Inr fx
     else Inl (UnsupportedSchemaVersion (schema_version (fx_header fx)) current_schema_version))"
proof (cases fmt)
  case JsonFormat
  then obtain doc where t: "json_print C fx = Inr doc" "write_text C fs path doc = (fs', Inr ())"
    using assms(4) by (cases "json_print C fx")
      (auto simp: fixture_save_def json_save_def map_err_def apsnd_def map_prod_def split: sum.splits prod.splits)
  then have "read_to_string C fs' path = Inr doc" "json_decode C doc = Inr fx"
    "json_version C doc = Inr (Some (ucast (schema_version (fx_header fx))))"
    using assms(1,2) by (auto simp: codec_law_def file_law_def)
  then show ?thesis
    using assms(3) JsonFormat format_extension [OF assms(3)]
    by (simp add: fixture_load_def json_load_def u16_round_trip unwrap_or_def map_err_def
        check_schema_version_def has_supported_schema_version_def)
next
  case BinaryFormat
  then obtain bs where t: "bin_encode C fx = Inr bs" "write_bytes C fs path bs = (fs', Inr ())"
    using assms(4) by (cases "bin_encode C fx")
      (auto simp: fixture_save_def binary_save_def map_err_def apsnd_def map_prod_def split: sum.splits prod.splits)
  then have "read_file C fs' path = Inr bs" "bin_decode C bs = Inr fx"
    using assms(1,2) by (auto simp: codec_law_def file_law_def)
  then show ?thesis
    using assms(3) BinaryFormat
    by (simp add: fixture_load_def binary_load_def map_err_def check_schema_version_def)
qed


section \<open>Recording and replaying\<close>

lemma compare_holds_refl: "distinct_accounts s \<Longrightarrow> compare_holds s s c"
  by (cases c) (simp_all add: compare_accounts_iff)

lemma compare_with_refl: "distinct_accounts s \<Longrightarrow> compare_with F s s cs cfg = Some True"
  by (simp add: compare_with_def compares.evaluate_verdict compare_holds_refl)

lemma outcome_accounts_distinct:
  "distinct (map fst (det_post_accounts d)) \<Longrightarrow> distinct_accounts (snapshot_from_outcome F d)"
  by (simp add: snapshot_from_outcome_def account_from_readable_def case_prod_beta comp_def)

lemma capture_transaction_Inr:
  assumes "capture_transaction C tx b = Inr fx"
  obtains bs h rt base where "tx_encode C tx = Inr bs" and "cb_header b = Some h"
    and "cb_runtime b = Some rt" and "cb_baseline b = Some base"
    and "fx_input fx = TransactionInput \<lparr>tf_runtime = rt, tf_programs = cb_programs b,
           tf_pre_accounts = cb_pre_accounts b, transaction_bytes = bs\<rparr>"
    and "baseline (fx_expectations fx) = base"
    and "fx_header fx = h"
    and "compares (fx_expectations fx) = (if cb_compares b = [] then everything else cb_compares b)"
  using assms by (auto simp: capture_transaction_def split: sum.splits option.splits)

text \<open>
  A captured fixture replays: take a baseline by the steps a recording makes on a clone of
  the runner's VM (configuration, programs, accounts, one detached execution) and capture it;
  then validating the captured fixture in the same world succeeds, with the same effect on the
  world, for every choice of comparisons. This needs the transaction codec to decode what it
  encodes, and an outcome that lists no account twice.
\<close>

lemma captured_fixture_replays:
  assumes "codec_law C" and "cb_runtime b = Some rt" and "\<not> rt_blockhash_check rt"
    and "configure_vm V E rt (w, working_vm r) = Some v1"
    and "bind_programs V (db E) (cb_programs b) (program_elfs r) v1 = (v2, Inr ())"
    and "set_accounts (db E)
           (map (\<lambda>a. (as_address a, account_from_snapshot a)) (cb_pre_accounts b)) v2 = (v3, Inr ())"
    and "transact_detached Hs tx v3 = Some (w', evs, d)"
    and "distinct (map fst (det_post_accounts d))"
    and "capture_transaction C tx (capture_baseline (snapshot_from_outcome F d) b) = Inr fx"
  shows "run_and_validate F C M new_unique V E Hs r fx cfg w = Some (w', evs, Inr True)"
proof -
  obtain bs where bs: "tx_encode C tx = Inr bs"
    and i: "fx_input fx = TransactionInput \<lparr>tf_runtime = rt, tf_programs = cb_programs b,
      tf_pre_accounts = cb_pre_accounts b, transaction_bytes = bs\<rparr>"
    and base: "baseline (fx_expectations fx) = snapshot_from_outcome F d"
    using capture_transaction_Inr [OF assms(9)] assms(2) by (simp add: capture_baseline_def) metis
  have "tx_decode C bs = Inr tx" using assms(1) bs by (simp add: codec_law_def)
  with assms(3-7) i have "run_fixture F C M new_unique V E Hs r fx w =
      Some (w', evs, Inr \<lparr>fe_snapshot = snapshot_from_outcome F d, fe_pass = None\<rparr>)"
    by (simp add: run_fixture_def run_transaction_fixture_def runner_load_programs_def map_outcome_def)
  then show ?thesis
    by (simp add: run_and_validate_def base
        compare_with_refl [OF outcome_accounts_distinct [OF assms(8)]])
qed

section \<open>Missing programs and shared caches\<close>

text \<open>
  A program without an ELF stops the binding: the error names the first binding in order
  that has none, and no later program is added. Otherwise the outcome is that of adding the
  programs in order.
\<close>

theorem missing_elf_named:
  "snd (bind_programs V X bs elfs v) = Inl (MissingProgramElf k) \<Longrightarrow>
     \<exists>pre b post. bs = pre @ b # post \<and> pb_program_id b = k \<and> elfs k = None \<and>
       (\<forall>c \<in> set pre. elfs (pb_program_id c) \<noteq> None) \<and>
       bind_programs V X pre elfs v = (fst (bind_programs V X bs elfs v), Inr ())"
proof (induction bs arbitrary: v)
  case (Cons b bs)
  show ?case
  proof (cases "elfs (pb_program_id b)")
    case None
    then have "k = pb_program_id b" using Cons.prems by simp
    with None show ?thesis by (intro exI [of _ "[]"] exI [of _ b] exI [of _ bs]) simp
  next
    case (Some elf)
    obtain v' res where a: "add_program_with_loader V X (pb_program_id b) elf (pb_loader_id b) v = (v', res)"
      by (cases "add_program_with_loader V X (pb_program_id b) elf (pb_loader_id b) v")
    have ok: "res = Inr ()" using Cons.prems Some a by (cases res) simp_all
    then have "snd (bind_programs V X bs elfs v') = Inl (MissingProgramElf k)"
      using Cons.prems Some a by simp
    from Cons.IH [OF this] obtain pre c post where
      "bs = pre @ c # post" "pb_program_id c = k" "elfs k = None"
      "\<forall>x \<in> set pre. elfs (pb_program_id x) \<noteq> None"
      "bind_programs V X pre elfs v' = (fst (bind_programs V X bs elfs v'), Inr ())" by blast
    then show ?thesis
      using Some a ok
      by (intro exI [of _ "b # pre"] exI [of _ c] exI [of _ post]) simp
  qed
qed simp

end
