(* ===== verification/Vm_Builder.thy ===== *)
theory Vm_Builder
  imports Vm_Props
begin

text \<open>
  Building a VM (\<^verbatim>\<open>builder.rs\<close>, and \<open>new_inner\<close>, \<open>new\<close> and \<open>new_with_defaults\<close> of \<^verbatim>\<open>vm.rs\<close>) with
  the \<^verbatim>\<open>precompiles\<close> feature. The phantom type parameter of the builder is the type parameter
  of \<open>hpsvm_builder\<close>: only an open builder accepts a feature set.
\<close>

section \<open>A fresh VM\<close>

text \<open>The defaults of other crates and the random airdrop key.\<close>

record build_ext =
  default_features :: "address set"
  genesis_blockhash :: hash
  default_lamports_per_signature :: u64
  fresh_airdrop_key :: address

definition new_inner ::
    "vm_ext \<Rightarrow> ('pc, 'x, 'st) db_ext \<Rightarrow> 'c history_ops \<Rightarrow> build_ext \<Rightarrow> ('pc, 'st) world
      \<Rightarrow> ('pc, 'st, 'c) vm" where
  "new_inner V X L B w =
     (let h = next_cache w; env = next_env w
      in ((write_cache h (pc_new X 0) w)\<lparr>next_cache := h + 1, next_env := env + 1\<rparr>,
          \<lparr>vm_accounts = accounts_default h env, vm_history = history_new L,
           vm_version =
             \<lparr>feature_set = default_features B,
              lamports_per_signature = default_lamports_per_signature B,
              v_compute_budget = None, v_rent = rent_default X, log_bytes_limit = Some 10000,
              cluster = \<lparr>spec_id = MainnetBeta, info_name = cluster_name MainnetBeta\<rparr>,
              sigverify = False, blockhash_check = False, compute_diagnostics = True,
              v_jit_policy = default_jit_policy\<rparr>,
           latest_blockhash = genesis_blockhash B, block_slot = 0, inspection_origin = User,
           vm_inspector = None, registry = registry_with_defaults,
           tier_policy = default_jit_policy, reserved_keys = reserved_for V (default_features B),
           materialized = default_materialized, airdrop_pubkey = fresh_airdrop_key B,
           custom_syscalls = [], standard_precompiles = False,
           precompiles = native_provider (key_order V) (native_rows V)\<rparr>))"

section \<open>Plans\<close>

datatype log_bytes_limit_plan = Inherit | Explicit "nat option"

record build_plan =
  plan_feature_set :: "address set option"
  plan_compute_budget :: "compute_budget option"
  plan_sigverify :: "bool option"
  plan_blockhash_check :: "bool option"
  plan_compute_diagnostics :: "bool option"
  plan_jit_policy :: "jit_policy option"
  plan_lamports :: "u64 option"
  include_sysvars :: bool
  include_feature_accounts :: bool
  include_builtins :: bool
  include_spl_programs :: bool
  include_default_programs :: bool
  include_precompiles :: bool
  plan_provider :: "precompile_provider option"
  plan_transaction_history :: "nat option"
  plan_account_source :: "account_source option"
  plan_log_bytes_limit :: log_bytes_limit_plan
  plan_inspector :: "inspector option"
  plan_custom_syscalls :: "(string \<times> nat) list"

definition plan_new :: build_plan where
  "plan_new =
     \<lparr>plan_feature_set = None, plan_compute_budget = None, plan_sigverify = None,
      plan_blockhash_check = None, plan_compute_diagnostics = None, plan_jit_policy = None,
      plan_lamports = None, include_sysvars = False, include_feature_accounts = False,
      include_builtins = False, include_spl_programs = False, include_default_programs = False,
      include_precompiles = False, plan_provider = None, plan_transaction_history = None,
      plan_account_source = None, plan_log_bytes_limit = Inherit, plan_inspector = None,
      plan_custom_syscalls = []\<rparr>"

definition get_or_insert :: "'a \<Rightarrow> 'a option \<Rightarrow> 'a option" where
  "get_or_insert x p = Some (unwrap_or x p)"

definition lamports_per_sol :: u64 where
  "lamports_per_sol = 1000000000"

definition apply_program_test_defaults :: "build_plan \<Rightarrow> build_plan" where
  "apply_program_test_defaults P =
     P\<lparr>plan_lamports := get_or_insert (1000000 * lamports_per_sol) (plan_lamports P),
       include_sysvars := True, include_feature_accounts := True, include_builtins := True,
       include_default_programs := True, include_precompiles := True,
       plan_sigverify := get_or_insert True (plan_sigverify P),
       plan_blockhash_check := get_or_insert True (plan_blockhash_check P)\<rparr>"

section \<open>Builders\<close>

datatype feature_config_open = FeatureConfigOpen
datatype feature_config_sealed = FeatureConfigSealed

datatype 'state hpsvm_builder = HpsvmBuilder (builder_plan: build_plan)

definition modify_plan :: "(build_plan \<Rightarrow> build_plan) \<Rightarrow> 'state hpsvm_builder \<Rightarrow> 'state hpsvm_builder" where
  "modify_plan f b = HpsvmBuilder (f (builder_plan b))"

definition builder_new :: "feature_config_open hpsvm_builder" where
  "builder_new = HpsvmBuilder plan_new"

definition seal :: "feature_config_open hpsvm_builder \<Rightarrow> feature_config_sealed hpsvm_builder" where
  "seal b = HpsvmBuilder (builder_plan b)"

definition with_feature_set ::
    "address set \<Rightarrow> feature_config_open hpsvm_builder \<Rightarrow> feature_config_open hpsvm_builder" where
  "with_feature_set fs = modify_plan (\<lambda>P. P\<lparr>plan_feature_set := Some fs\<rparr>)"

definition open_with_feature_accounts ::
    "feature_config_open hpsvm_builder \<Rightarrow> feature_config_sealed hpsvm_builder" where
  "open_with_feature_accounts b = seal (modify_plan (\<lambda>P. P\<lparr>include_feature_accounts := True\<rparr>) b)"

definition open_with_builtins ::
    "feature_config_open hpsvm_builder \<Rightarrow> feature_config_sealed hpsvm_builder" where
  "open_with_builtins b = seal (modify_plan (\<lambda>P. P\<lparr>include_builtins := True\<rparr>) b)"

definition open_with_default_programs ::
    "feature_config_open hpsvm_builder \<Rightarrow> feature_config_sealed hpsvm_builder" where
  "open_with_default_programs b = seal (modify_plan (\<lambda>P. P\<lparr>include_default_programs := True\<rparr>) b)"

definition open_with_spl_programs ::
    "feature_config_open hpsvm_builder \<Rightarrow> feature_config_sealed hpsvm_builder" where
  "open_with_spl_programs b = seal (modify_plan (\<lambda>P. P\<lparr>include_spl_programs := True\<rparr>) b)"

definition open_with_precompiles ::
    "feature_config_open hpsvm_builder \<Rightarrow> feature_config_sealed hpsvm_builder" where
  "open_with_precompiles b = seal (modify_plan (\<lambda>P. P\<lparr>include_precompiles := True\<rparr>) b)"

definition open_with_precompile_provider ::
    "precompile_provider \<Rightarrow> feature_config_open hpsvm_builder \<Rightarrow> feature_config_sealed hpsvm_builder" where
  "open_with_precompile_provider p b = seal (modify_plan (\<lambda>P. P\<lparr>plan_provider := Some p\<rparr>) b)"

definition open_with_program_test_defaults ::
    "vm_ext \<Rightarrow> feature_config_open hpsvm_builder \<Rightarrow> feature_config_sealed hpsvm_builder" where
  "open_with_program_test_defaults V b =
     seal (modify_plan (\<lambda>P. apply_program_test_defaults
       (P\<lparr>plan_feature_set := get_or_insert (all_features V) (plan_feature_set P)\<rparr>)) b)"

definition sealed_with_feature_accounts ::
    "feature_config_sealed hpsvm_builder \<Rightarrow> feature_config_sealed hpsvm_builder" where
  "sealed_with_feature_accounts = modify_plan (\<lambda>P. P\<lparr>include_feature_accounts := True\<rparr>)"

definition sealed_with_builtins ::
    "feature_config_sealed hpsvm_builder \<Rightarrow> feature_config_sealed hpsvm_builder" where
  "sealed_with_builtins = modify_plan (\<lambda>P. P\<lparr>include_builtins := True\<rparr>)"

definition sealed_with_default_programs ::
    "feature_config_sealed hpsvm_builder \<Rightarrow> feature_config_sealed hpsvm_builder" where
  "sealed_with_default_programs = modify_plan (\<lambda>P. P\<lparr>include_default_programs := True\<rparr>)"

definition sealed_with_spl_programs ::
    "feature_config_sealed hpsvm_builder \<Rightarrow> feature_config_sealed hpsvm_builder" where
  "sealed_with_spl_programs = modify_plan (\<lambda>P. P\<lparr>include_spl_programs := True\<rparr>)"

definition sealed_with_precompiles ::
    "feature_config_sealed hpsvm_builder \<Rightarrow> feature_config_sealed hpsvm_builder" where
  "sealed_with_precompiles = modify_plan (\<lambda>P. P\<lparr>include_precompiles := True\<rparr>)"

definition sealed_with_precompile_provider ::
    "precompile_provider \<Rightarrow> feature_config_sealed hpsvm_builder \<Rightarrow> feature_config_sealed hpsvm_builder" where
  "sealed_with_precompile_provider p = modify_plan (\<lambda>P. P\<lparr>plan_provider := Some p\<rparr>)"

definition sealed_with_program_test_defaults ::
    "feature_config_sealed hpsvm_builder \<Rightarrow> feature_config_sealed hpsvm_builder" where
  "sealed_with_program_test_defaults = modify_plan apply_program_test_defaults"

definition with_inspector :: "inspector \<Rightarrow> 'state hpsvm_builder \<Rightarrow> 'state hpsvm_builder" where
  "with_inspector i = modify_plan (\<lambda>P. P\<lparr>plan_inspector := Some i\<rparr>)"

definition with_compute_budget :: "compute_budget \<Rightarrow> 'state hpsvm_builder \<Rightarrow> 'state hpsvm_builder" where
  "with_compute_budget bud = modify_plan (\<lambda>P. P\<lparr>plan_compute_budget := Some bud\<rparr>)"

definition with_sigverify :: "bool \<Rightarrow> 'state hpsvm_builder \<Rightarrow> 'state hpsvm_builder" where
  "with_sigverify v = modify_plan (\<lambda>P. P\<lparr>plan_sigverify := Some v\<rparr>)"

definition with_blockhash_check :: "bool \<Rightarrow> 'state hpsvm_builder \<Rightarrow> 'state hpsvm_builder" where
  "with_blockhash_check v = modify_plan (\<lambda>P. P\<lparr>plan_blockhash_check := Some v\<rparr>)"

definition with_compute_diagnostics :: "bool \<Rightarrow> 'state hpsvm_builder \<Rightarrow> 'state hpsvm_builder" where
  "with_compute_diagnostics v = modify_plan (\<lambda>P. P\<lparr>plan_compute_diagnostics := Some v\<rparr>)"

definition with_jit_policy :: "jit_policy \<Rightarrow> 'state hpsvm_builder \<Rightarrow> 'state hpsvm_builder" where
  "with_jit_policy p = modify_plan (\<lambda>P. P\<lparr>plan_jit_policy := Some p\<rparr>)"

definition with_lamports :: "u64 \<Rightarrow> 'state hpsvm_builder \<Rightarrow> 'state hpsvm_builder" where
  "with_lamports l = modify_plan (\<lambda>P. P\<lparr>plan_lamports := Some l\<rparr>)"

definition with_sysvars :: "'state hpsvm_builder \<Rightarrow> 'state hpsvm_builder" where
  "with_sysvars = modify_plan (\<lambda>P. P\<lparr>include_sysvars := True\<rparr>)"

definition with_transaction_history :: "nat \<Rightarrow> 'state hpsvm_builder \<Rightarrow> 'state hpsvm_builder" where
  "with_transaction_history n = modify_plan (\<lambda>P. P\<lparr>plan_transaction_history := Some n\<rparr>)"

definition with_account_source :: "account_source \<Rightarrow> 'state hpsvm_builder \<Rightarrow> 'state hpsvm_builder" where
  "with_account_source src = modify_plan (\<lambda>P. P\<lparr>plan_account_source := Some src\<rparr>)"

definition with_log_bytes_limit :: "nat option \<Rightarrow> 'state hpsvm_builder \<Rightarrow> 'state hpsvm_builder" where
  "with_log_bytes_limit l = modify_plan (\<lambda>P. P\<lparr>plan_log_bytes_limit := Explicit l\<rparr>)"

definition with_custom_syscall :: "string \<Rightarrow> nat \<Rightarrow> 'state hpsvm_builder \<Rightarrow> 'state hpsvm_builder" where
  "with_custom_syscall name f =
     modify_plan (\<lambda>P. P\<lparr>plan_custom_syscalls := plan_custom_syscalls P @ [(name, f)]\<rparr>)"

section \<open>Building\<close>

definition if_some :: "'a option \<Rightarrow> ('a \<Rightarrow> 'b \<Rightarrow> 'b) \<Rightarrow> 'b \<Rightarrow> 'b" where
  "if_some x f y = (case x of None \<Rightarrow> y | Some a \<Rightarrow> f a y)"

definition needs_sysvars :: "build_plan \<Rightarrow> bool" where
  "needs_sysvars P \<longleftrightarrow>
     include_builtins P \<or> include_default_programs P \<or> include_spl_programs P \<or>
     include_precompiles P \<or> plan_sigverify P = Some True \<or> plan_blockhash_check P = Some True"

definition build_early :: "'c history_ops \<Rightarrow> build_plan \<Rightarrow> 'c svm \<Rightarrow> 'c svm" where
  "build_early L P s0 =
     (let s1 = if_some (plan_compute_budget P) set_compute_budget s0;
          s2 = if_some (plan_jit_policy P) svm_set_jit_policy s1;
          s3 = if_some (plan_transaction_history P) (set_transaction_history L) s2;
          s4 = if_some (plan_account_source P) svm_set_account_source s3;
          s5 = (case plan_log_bytes_limit P of Inherit \<Rightarrow> s4 | Explicit l \<Rightarrow> set_log_bytes_limit l s4)
      in s5\<lparr>custom_syscalls := custom_syscalls s5 @ plan_custom_syscalls P\<rparr>)"

definition build_refresh ::
    "vm_ext \<Rightarrow> ('pc, 'x, 'st, 'ic) exec_ext \<Rightarrow> build_plan \<Rightarrow> ('pc, 'st, 'c) vm
      \<Rightarrow> ('pc, 'st, 'c) vm \<times> (hpsvm_error + unit)" where
  "build_refresh V E P v =
     (if plan_custom_syscalls P \<noteq> [] \<and> \<not> include_builtins P
      then (case try_refresh_runtime_environments V E v of
              (v', Inl e) \<Rightarrow> (v', Inl e)
            | (v', Inr _) \<Rightarrow> rebuild_programs (db E) v')
      else (v, Inr ()))"

definition build_materialize ::
    "vm_ext \<Rightarrow> ('pc, 'x, 'st, 'ic) exec_ext \<Rightarrow> build_plan \<Rightarrow> ('pc, 'st, 'c) vm
      \<Rightarrow> ('pc, 'st, 'c) vm option" where
  "build_materialize V E P v =
     Option.bind (if include_builtins P then load_builtins V E v else Some v) (\<lambda>v1.
     Option.bind (let v2 = (fst v1, if_some (plan_lamports P) set_lamports (snd v1))
                  in if include_sysvars P then set_sysvars V E v2 else Some v2) (\<lambda>v2.
     Option.bind (let v3 = (fst v2, if include_feature_accounts P
                              then materialize_feature_accounts V (db E) (snd v2) else snd v2)
                  in if include_default_programs P then load_default_programs V E v3
                     else if include_spl_programs P then load_spl_programs V E v3
                     else Some v3) (\<lambda>v4.
     Option.bind (if include_precompiles P then set_precompiles (db E) v4 else Some v4) (\<lambda>v5.
       case plan_provider P of None \<Rightarrow> Some v5 | Some p \<Rightarrow> set_precompile_provider (db E) p v5))))"

definition build_late :: "build_plan \<Rightarrow> 'c svm \<Rightarrow> 'c svm" where
  "build_late P s =
     if_some (plan_inspector P) set_boxed_inspector
       (if_some (plan_compute_diagnostics P) set_compute_diagnostics
         (if_some (plan_blockhash_check P) set_blockhash_check
           (if_some (plan_sigverify P) set_sigverify s)))"

definition build ::
    "vm_ext \<Rightarrow> ('pc, 'x, 'st, 'ic) exec_ext \<Rightarrow> 'c history_ops \<Rightarrow> build_ext \<Rightarrow> 'state hpsvm_builder
      \<Rightarrow> ('pc, 'st) world \<Rightarrow> (('pc, 'st) world \<times> (hpsvm_error + 'c svm)) option" where
  "build V E L B b w =
     (let P = builder_plan b
      in if needs_sysvars P \<and> \<not> include_sysvars P
         then Some (w, Inl (MissingRuntimeComponent ''sysvars''))
         else case (case plan_feature_set P of
                      None \<Rightarrow> Some (new_inner V (db E) L B w, Inr ())
                    | Some fs \<Rightarrow> set_feature_set V E fs (new_inner V (db E) L B w)) of
                None \<Rightarrow> None
              | Some (v1, Inl e) \<Rightarrow> Some (fst v1, Inl e)
              | Some ((w1, s1), Inr _) \<Rightarrow>
                  (case build_refresh V E P (w1, build_early L P s1) of
                     (v2, Inl e) \<Rightarrow> Some (fst v2, Inl e)
                   | (v2, Inr _) \<Rightarrow>
                       map_option (\<lambda>(w3, s3). (w3, Inr (build_late P s3)))
                         (build_materialize V E P v2)))"

definition hpsvm_new ::
    "vm_ext \<Rightarrow> ('pc, 'x, 'st, 'ic) exec_ext \<Rightarrow> 'c history_ops \<Rightarrow> build_ext \<Rightarrow> ('pc, 'st) world
      \<Rightarrow> ('pc, 'st, 'c) vm option" where
  "hpsvm_new V E L B w =
     (case build V E L B (open_with_program_test_defaults V builder_new) w of
        Some (w', Inr s) \<Rightarrow> Some (w', s)
      | _ \<Rightarrow> None)"

definition new_with_defaults ::
    "vm_ext \<Rightarrow> ('pc, 'x, 'st, 'ic) exec_ext \<Rightarrow> 'c history_ops \<Rightarrow> build_ext \<Rightarrow> ('pc, 'st) world
      \<Rightarrow> ('pc, 'st, 'c) vm option" where
  "new_with_defaults V E L B w =
     (case set_feature_set V E (all_features V) (new_inner V (db E) L B w) of
        Some (v1, Inr _) \<Rightarrow>
          Option.bind (load_builtins V E v1) (\<lambda>(w2, s2).
          Option.bind (set_sysvars V E (w2, set_lamports (1000000 * lamports_per_sol) s2)) (\<lambda>(w3, s3).
          Option.bind (load_default_programs V E (w3, materialize_feature_accounts V (db E) s3)) (\<lambda>v4.
          map_option (\<lambda>(w5, s5). (w5, set_blockhash_check True (set_sigverify True s5)))
            (set_precompiles (db E) v4))))
      | _ \<Rightarrow> None)"

section \<open>The two constructors agree\<close>

lemma hpsvm_new_steps: "hpsvm_new V E L B w = new_with_defaults V E L B w"
proof -
  let ?P = "builder_plan (open_with_program_test_defaults V builder_new)"
  have P: "plan_feature_set ?P = Some (all_features V)" "plan_compute_budget ?P = None"
    "plan_jit_policy ?P = None" "plan_transaction_history ?P = None" "plan_account_source ?P = None"
    "plan_log_bytes_limit ?P = Inherit" "plan_custom_syscalls ?P = []" "include_sysvars ?P"
    "include_feature_accounts ?P" "include_builtins ?P" "include_default_programs ?P"
    "include_precompiles ?P" "plan_provider ?P = None" "plan_inspector ?P = None"
    "plan_compute_diagnostics ?P = None" "plan_sigverify ?P = Some True"
    "plan_blockhash_check ?P = Some True" "plan_lamports ?P = Some (1000000 * lamports_per_sol)"
    by (simp_all add: open_with_program_test_defaults_def seal_def modify_plan_def builder_new_def
        plan_new_def apply_program_test_defaults_def get_or_insert_def unwrap_or_def)
  have early: "build_early L ?P s = s" for s by (simp add: build_early_def P if_some_def)
  show ?thesis
    by (auto simp: new_with_defaults_def hpsvm_new_def build_def build_refresh_def build_materialize_def
        build_late_def early P if_some_def Let_def option.map_comp
        split: option.splits sum.splits prod.splits bind_splits)
qed

text \<open>
  C21. The builder with the program-test defaults and the constructor for custom type families
  build the same VM from the same world and airdrop key, and panic in the same cases.
\<close>

theorem new_with_defaults_mirrors_new:
  "new_with_defaults V E L B w = hpsvm_new V E L B w"
  by (rule hpsvm_new_steps [symmetric])

section \<open>What a built VM is\<close>

lemma set_sysvar_internal_fixed:
  "set_sysvar_internal X sv v = Some v' \<Longrightarrow> vm_fixed (snd v') = vm_fixed (snd v)"
  by (cases v) (auto simp: set_sysvar_internal_def try_set_sysvar_def Let_def
      split: prod.splits sum.splits)

lemma set_sysvars_internal_fixed:
  "set_sysvars_internal X svs v = Some v' \<Longrightarrow> vm_fixed (snd v') = vm_fixed (snd v)"
  by (induction svs arbitrary: v) (auto simp: bind_eq_Some_conv dest!: set_sysvar_internal_fixed)

lemma set_sysvars_fixed:
  "set_sysvars V E v = Some v' \<Longrightarrow> vm_fixed (snd v') = vm_fixed (snd v)"
  by (cases v) (auto simp: set_sysvars_def Let_def simp del: set_sysvars_internal.simps
      split: option.splits prod.splits sum.splits dest!: set_sysvars_internal_fixed)

lemma set_lamports_fixed [simp]: "vm_fixed (set_lamports l s) = vm_fixed s"
  by (simp add: set_lamports_def)

lemma set_feature_set_fixed:
  assumes "set_feature_set V E fs (w, s) = Some ((w', s'), Inr u)"
  shows "vm_fixed s' = vm_fixed (s\<lparr>vm_version := (vm_version s)\<lparr>feature_set := fs\<rparr>,
     reserved_keys := reserved_for V fs\<rparr>)"
  using assms
  by (auto simp: set_feature_set_def Let_def split: option.splits sum.splits dest!: reconfigure_fixed)

lemma build_refresh_fixed:
  "build_refresh V E P v = (v', r) \<Longrightarrow> vm_fixed (snd v') = vm_fixed (snd v)"
proof -
  assume a: "build_refresh V E P v = (v', r)"
  have t: "try_refresh_runtime_environments V E v = (u, q) \<Longrightarrow> vm_fixed (snd u) = vm_fixed (snd v)" for u q
    by (cases v) (auto simp: try_refresh_runtime_environments_def Let_def
        split: prod.splits sum.splits if_splits option.splits)
  have r: "rebuild_programs (db E) u = (v', q) \<Longrightarrow> vm_fixed (snd v') = vm_fixed (snd u)" for u q
    using rebuild_programs_fixed [of "db E" u] by simp
  show ?thesis
    using a by (auto simp: build_refresh_def split: if_splits prod.splits sum.splits dest!: t r)
qed

lemma set_precompiles_fixed:
  "set_precompiles X v = Some v' \<Longrightarrow>
     vm_fixed (snd v') = vm_fixed ((snd v)\<lparr>standard_precompiles := True\<rparr>)"
  "set_precompile_provider X p v = Some v' \<Longrightarrow> vm_fixed (snd v') = vm_fixed ((snd v)\<lparr>precompiles := p\<rparr>)"
  by (cases v; auto simp: set_precompiles_def set_precompile_provider_def load_precompiles_def Let_def
      dest!: install_precompiles_fixed)+

lemma build_materialize_fixed:
  assumes "build_materialize V E P v = Some v'"
  shows "vm_fixed (snd v') = vm_fixed ((snd v)\<lparr>
     standard_precompiles := standard_precompiles (snd v) \<or> include_precompiles P,
     precompiles := unwrap_or (precompiles (snd v)) (plan_provider P)\<rparr>)"
proof -
  obtain v1 v2 v4 v5 where
    1: "(if include_builtins P then load_builtins V E v else Some v) = Some v1" and
    2: "(if include_sysvars P then set_sysvars V E (fst v1, if_some (plan_lamports P) set_lamports (snd v1))
         else Some (fst v1, if_some (plan_lamports P) set_lamports (snd v1))) = Some v2" and
    4: "(let v3 = (fst v2, if include_feature_accounts P
                     then materialize_feature_accounts V (db E) (snd v2) else snd v2)
         in if include_default_programs P then load_default_programs V E v3
            else if include_spl_programs P then load_spl_programs V E v3 else Some v3) = Some v4" and
    5: "(if include_precompiles P then set_precompiles (db E) v4 else Some v4) = Some v5" and
    6: "(case plan_provider P of None \<Rightarrow> Some v5
         | Some p \<Rightarrow> set_precompile_provider (db E) p v5) = Some v'"
    using assms unfolding build_materialize_def Let_def bind_eq_Some_conv by blast
  have "vm_fixed (snd v1) = vm_fixed (snd v)"
    using 1 by (auto split: if_splits dest!: load_builtins_fixed)
  moreover have "vm_fixed (snd v2) = vm_fixed (snd v1)"
    using 2 by (auto simp: if_some_def split: if_splits option.splits dest!: set_sysvars_fixed)
  moreover have "vm_fixed (snd v4) = vm_fixed (snd v2)"
    using 4 by (auto simp: Let_def split: if_splits dest!: load_programs_fixed)
  moreover have "vm_fixed (snd v5) = vm_fixed ((snd v4)\<lparr>standard_precompiles :=
      standard_precompiles (snd v4) \<or> include_precompiles P\<rparr>)"
    using 5 by (cases "include_precompiles P") (auto dest!: set_precompiles_fixed)
  moreover have "vm_fixed (snd v') = vm_fixed ((snd v5)\<lparr>precompiles :=
      unwrap_or (precompiles (snd v5)) (plan_provider P)\<rparr>)"
    using 6 by (auto simp: unwrap_or_def split: option.splits dest!: set_precompiles_fixed)
  ultimately show ?thesis by (simp add: vm_fixed_def)
qed

lemma if_some_version:
  "vm_version (if_some b set_compute_budget s) =
     (vm_version s)\<lparr>v_compute_budget := if_some b (\<lambda>x _. Some x) (v_compute_budget (vm_version s))\<rparr>"
  "vm_version (if_some p svm_set_jit_policy s) =
     (vm_version s)\<lparr>v_jit_policy := unwrap_or (v_jit_policy (vm_version s)) p\<rparr>"
  "vm_version (if_some n (set_transaction_history L) s) = vm_version s"
  "vm_version (if_some src svm_set_account_source s) = vm_version s"
  "vm_version (if_some x set_sigverify s) =
     (vm_version s)\<lparr>sigverify := unwrap_or (sigverify (vm_version s)) x\<rparr>"
  "vm_version (if_some x set_blockhash_check s) =
     (vm_version s)\<lparr>blockhash_check := unwrap_or (blockhash_check (vm_version s)) x\<rparr>"
  "vm_version (if_some x set_compute_diagnostics s) =
     (vm_version s)\<lparr>compute_diagnostics := unwrap_or (compute_diagnostics (vm_version s)) x\<rparr>"
  "vm_version (if_some i set_boxed_inspector s) = vm_version s"
  by (simp_all add: if_some_def unwrap_or_def set_compute_budget_def svm_set_jit_policy_def
      set_transaction_history_def svm_set_account_source_def set_sigverify_def
      set_blockhash_check_def set_compute_diagnostics_def set_boxed_inspector_def split: option.split)

lemma build_early_fields:
  "vm_version (build_early L P s) = (vm_version s)
     \<lparr>v_compute_budget := if_some (plan_compute_budget P) (\<lambda>x _. Some x) (v_compute_budget (vm_version s)),
      v_jit_policy := unwrap_or (v_jit_policy (vm_version s)) (plan_jit_policy P),
      log_bytes_limit := (case plan_log_bytes_limit P of
        Inherit \<Rightarrow> log_bytes_limit (vm_version s) | Explicit l \<Rightarrow> l)\<rparr>"
  by (cases "plan_log_bytes_limit P")
    (simp_all add: build_early_def Let_def if_some_version set_log_bytes_limit_def)

lemma build_early_others:
  "vm_history (build_early L P s) =
     if_some (plan_transaction_history P) (\<lambda>n h. set_capacity L h n) (vm_history s)"
  "custom_syscalls (build_early L P s) = custom_syscalls s @ plan_custom_syscalls P"
  "vm_inspector (build_early L P s) = vm_inspector s"
  "standard_precompiles (build_early L P s) = standard_precompiles s"
  "precompiles (build_early L P s) = precompiles s"
  "reserved_keys (build_early L P s) = reserved_keys s"
  "registry (build_early L P s) = registry s"
  by (simp_all add: build_early_def Let_def if_some_def set_compute_budget_def svm_set_jit_policy_def
      set_transaction_history_def svm_set_account_source_def set_log_bytes_limit_def
      split: option.split log_bytes_limit_plan.split)

lemma build_late_fields:
  "vm_version (build_late P s) = (vm_version s)
     \<lparr>sigverify := unwrap_or (sigverify (vm_version s)) (plan_sigverify P),
      blockhash_check := unwrap_or (blockhash_check (vm_version s)) (plan_blockhash_check P),
      compute_diagnostics := unwrap_or (compute_diagnostics (vm_version s)) (plan_compute_diagnostics P)\<rparr>"
  "vm_history (build_late P s) = vm_history s"
  "custom_syscalls (build_late P s) = custom_syscalls s"
  "vm_inspector (build_late P s) = if_some (plan_inspector P) (\<lambda>i _. Some i) (vm_inspector s)"
  "standard_precompiles (build_late P s) = standard_precompiles s"
  "precompiles (build_late P s) = precompiles s"
  "reserved_keys (build_late P s) = reserved_keys s"
  "registry (build_late P s) = registry s"
  by (simp_all add: build_late_def if_some_version)
    (simp_all add: if_some_def set_sigverify_def set_blockhash_check_def set_compute_diagnostics_def
      set_boxed_inspector_def split: option.split)

lemma built_vm:
  assumes "build V E L B b w = Some (w', Inr s)"
  defines "P \<equiv> builder_plan b"
  shows "vm_version s =
      \<lparr>feature_set = unwrap_or (default_features B) (plan_feature_set P),
       lamports_per_signature = default_lamports_per_signature B,
       v_compute_budget = plan_compute_budget P, v_rent = rent_default (db E),
       log_bytes_limit = (case plan_log_bytes_limit P of Inherit \<Rightarrow> Some 10000 | Explicit l \<Rightarrow> l),
       cluster = \<lparr>spec_id = MainnetBeta, info_name = cluster_name MainnetBeta\<rparr>,
       sigverify = unwrap_or False (plan_sigverify P),
       blockhash_check = unwrap_or False (plan_blockhash_check P),
       compute_diagnostics = unwrap_or True (plan_compute_diagnostics P),
       v_jit_policy = unwrap_or default_jit_policy (plan_jit_policy P)\<rparr> \<and>
     vm_history s = if_some (plan_transaction_history P) (\<lambda>n h. set_capacity L h n) (history_new L) \<and>
     vm_inspector s = plan_inspector P \<and> custom_syscalls s = plan_custom_syscalls P \<and>
     standard_precompiles s = include_precompiles P \<and>
     precompiles s = unwrap_or (native_provider (key_order V) (native_rows V)) (plan_provider P) \<and>
     reserved_keys s = reserved_for V (feature_set (vm_version s)) \<and>
     registry s = registry_with_defaults \<and>
     (needs_sysvars P \<longrightarrow> include_sysvars P)"
proof -
  let ?s0 = "snd (new_inner V (db E) L B w)"
  have need: "needs_sysvars P \<longrightarrow> include_sysvars P"
    using assms by (auto simp: build_def Let_def split: if_splits)
  obtain w1 s1 v2 w3 s3 where
    1: "(case plan_feature_set P of None \<Rightarrow> Some (new_inner V (db E) L B w, Inr ())
         | Some fs \<Rightarrow> set_feature_set V E fs (new_inner V (db E) L B w)) = Some ((w1, s1), Inr ())" and
    2: "build_refresh V E P (w1, build_early L P s1) = (v2, Inr ())" and
    3: "build_materialize V E P v2 = Some (w3, s3)" and
    s: "s = build_late P s3"
    using assms by (auto simp: build_def Let_def split: if_splits option.splits sum.splits prod.splits)
  have f1: "vm_fixed s1 = vm_fixed (if_some (plan_feature_set P)
      (\<lambda>fs s. s\<lparr>vm_version := (vm_version s)\<lparr>feature_set := fs\<rparr>, reserved_keys := reserved_for V fs\<rparr>) ?s0)"
    using 1 set_feature_set_fixed [of V E _ "fst (new_inner V (db E) L B w)" ?s0]
    by (cases "plan_feature_set P") (auto simp: if_some_def)
  have f2: "vm_fixed (snd v2) = vm_fixed (build_early L P s1)"
    using build_refresh_fixed [OF 2] by simp
  have f3: "vm_fixed s3 = vm_fixed ((snd v2)\<lparr>
      standard_precompiles := standard_precompiles (snd v2) \<or> include_precompiles P,
      precompiles := unwrap_or (precompiles (snd v2)) (plan_provider P)\<rparr>)"
    using build_materialize_fixed [OF 3] by simp
  have v1: "vm_version s1 = (vm_version ?s0)\<lparr>feature_set := unwrap_or (default_features B) (plan_feature_set P)\<rparr>"
    "vm_history s1 = history_new L" "custom_syscalls s1 = []" "vm_inspector s1 = None"
    "standard_precompiles s1 = False"
    "reserved_keys s1 = reserved_for V (unwrap_or (default_features B) (plan_feature_set P))"
    "precompiles s1 = native_provider (key_order V) (native_rows V)"
    "registry s1 = registry_with_defaults"
    using f1 by (cases "plan_feature_set P";
        simp add: vm_fixed_def if_some_def unwrap_or_def new_inner_def Let_def)+
  have v3: "vm_version s3 = vm_version (build_early L P s1)"
    "vm_history s3 = vm_history (build_early L P s1)"
    "custom_syscalls s3 = custom_syscalls (build_early L P s1)"
    "vm_inspector s3 = vm_inspector (build_early L P s1)"
    "reserved_keys s3 = reserved_keys (build_early L P s1)"
    "registry s3 = registry (build_early L P s1)"
    "standard_precompiles s3 = (standard_precompiles (build_early L P s1) \<or> include_precompiles P)"
    "precompiles s3 = unwrap_or (precompiles (build_early L P s1)) (plan_provider P)"
    using f2 f3 by (simp_all add: vm_fixed_def)
  have o: "if_some x (\<lambda>i _. Some i) None = x" for x :: "'z option"
    by (simp add: if_some_def split: option.split)
  show ?thesis
    using need
    by (simp add: s build_late_fields v3 build_early_fields build_early_others v1 o new_inner_def Let_def
        split: log_bytes_limit_plan.split)
qed


section \<open>Sealed builders\<close>

text \<open>Every method a sealed builder has.\<close>

inductive sealed_step ::
    "feature_config_sealed hpsvm_builder \<Rightarrow> feature_config_sealed hpsvm_builder \<Rightarrow> bool" where
  "sealed_step b (sealed_with_feature_accounts b)"
| "sealed_step b (sealed_with_builtins b)"
| "sealed_step b (sealed_with_default_programs b)"
| "sealed_step b (sealed_with_spl_programs b)"
| "sealed_step b (sealed_with_precompiles b)"
| "sealed_step b (sealed_with_precompile_provider p b)"
| "sealed_step b (sealed_with_program_test_defaults b)"
| "sealed_step b (with_inspector i b)"
| "sealed_step b (with_compute_budget bud b)"
| "sealed_step b (with_sigverify flag b)"
| "sealed_step b (with_blockhash_check flag b)"
| "sealed_step b (with_compute_diagnostics flag b)"
| "sealed_step b (with_jit_policy pol b)"
| "sealed_step b (with_lamports l b)"
| "sealed_step b (with_sysvars b)"
| "sealed_step b (with_transaction_history n b)"
| "sealed_step b (with_account_source src b)"
| "sealed_step b (with_log_bytes_limit lim b)"
| "sealed_step b (with_custom_syscall name f b)"

lemma sealed_step_features:
  "sealed_step b b' \<Longrightarrow> plan_feature_set (builder_plan b') = plan_feature_set (builder_plan b)"
  by (induction rule: sealed_step.induct)
    (simp_all add: modify_plan_def apply_program_test_defaults_def sealed_with_feature_accounts_def
      sealed_with_builtins_def sealed_with_default_programs_def sealed_with_spl_programs_def
      sealed_with_precompiles_def sealed_with_precompile_provider_def
      sealed_with_program_test_defaults_def with_inspector_def with_compute_budget_def
      with_sigverify_def with_blockhash_check_def with_compute_diagnostics_def with_jit_policy_def
      with_lamports_def with_sysvars_def with_transaction_history_def with_account_source_def
      with_log_bytes_limit_def with_custom_syscall_def)

lemma sealed_steps_features:
  "sealed_step\<^sup>*\<^sup>* b b' \<Longrightarrow> plan_feature_set (builder_plan b') = plan_feature_set (builder_plan b)"
  by (induction rule: rtranclp_induct) (simp_all add: sealed_step_features)

text \<open>
  C19. A sealed builder's feature set is final: whatever methods are called on it, in whatever
  order, a VM it builds has the feature set chosen before sealing, and the default set if none
  was. Later program-test defaults do not change it, unlike on an open builder.
\<close>

theorem sealed_features_final:
  assumes "sealed_step\<^sup>*\<^sup>* b b'" and "build V E L B b' w = Some (w', Inr s)"
  shows "feature_set (vm_version s) = unwrap_or (default_features B) (plan_feature_set (builder_plan b))"
  using built_vm [OF assms(2)] sealed_steps_features [OF assms(1)] by simp

end
