(* ===== verification/Btree.thy ===== *)
theory Btree
  imports Svm_Base "HOL-Library.Char_ord" "HOL-Library.List_Lexorder"
begin

text \<open>
  The standard library's \<open>BTreeMap\<close> as the fixture tools use it: an association list in strictly
  ascending key order, which is the order of iteration. Strings compare byte by byte.
\<close>

type_synonym ('k, 'v) btree = "('k \<times> 'v) list"

fun btree_insert :: "'k::linorder \<Rightarrow> 'v \<Rightarrow> ('k, 'v) btree \<Rightarrow> ('k, 'v) btree \<times> 'v option" where
  "btree_insert k v [] = ([(k, v)], None)"
| "btree_insert k v ((k', v') # t) =
     (if k < k' then ((k, v) # (k', v') # t, None)
      else if k = k' then ((k, v) # t, Some v')
      else let (t', old) = btree_insert k v t in ((k', v') # t', old))"

definition btree_wf :: "('k::linorder, 'v) btree \<Rightarrow> bool" where
  "btree_wf t \<longleftrightarrow> sorted_wrt (<) (map fst t)"

lemma btree_wf_Nil [simp]: "btree_wf []"
  by (simp add: btree_wf_def)

lemma btree_insert_keys: "set (map fst (fst (btree_insert k v t))) = insert k (set (map fst t))"
  by (induction k v t rule: btree_insert.induct) (simp_all add: Let_def case_prod_beta insert_commute)

lemma btree_insert_wf: "btree_wf t \<Longrightarrow> btree_wf (fst (btree_insert k v t))"
proof (induction t)
  case (Cons p t)
  obtain k' v' where p: "p = (k', v')" by (cases p)
  have t: "btree_wf t" "\<forall>x \<in> set (map fst t). k' < x"
    using Cons.prems by (simp_all add: btree_wf_def p)
  consider "k < k'" | "k = k'" | "k' < k" by (rule linorder_cases)
  then show ?case
  proof cases
    case 1
    then show ?thesis using t by (auto simp: p btree_wf_def)
  next
    case 2
    then show ?thesis using t by (auto simp: p btree_wf_def)
  next
    case 3
    then show ?thesis
      using Cons.IH [OF t(1)] t(2) btree_insert_keys [of k v t]
      by (auto simp: p btree_wf_def Let_def case_prod_beta)
  qed
qed (simp add: btree_wf_def)

lemma btree_wf_distinct: "btree_wf t \<Longrightarrow> distinct (map fst t)"
  by (simp add: btree_wf_def strict_sorted_iff)

lemma btree_insert_old: "btree_wf t \<Longrightarrow> snd (btree_insert k v t) = map_of t k"
proof (induction t)
  case (Cons p t)
  obtain k' v' where p: "p = (k', v')" by (cases p)
  have t: "btree_wf t" "\<forall>x \<in> set (map fst t). k' < x"
    using Cons.prems by (simp_all add: btree_wf_def p)
  have "k < k' \<Longrightarrow> map_of t k = None"
    using t(2) by (auto simp: map_of_eq_None_iff)
  then show ?case using Cons.IH [OF t(1)] by (auto simp: p Let_def case_prod_beta)
qed simp

lemma btree_insert_get: "map_of (fst (btree_insert k v t)) = (map_of t)(k \<mapsto> v)"
  by (induction k v t rule: btree_insert.induct) (auto simp: Let_def case_prod_beta fun_eq_iff)

end
