(* ===== verification/Fixture_Bench.thy ===== *)
theory Fixture_Bench
  imports Fixture_Runner Vm_Builder Btree
begin

text \<open>
  Compute-unit benchmarks over fixtures (\<^verbatim>\<open>hpsvm-fixture-bench/src\<close>): reports and their baseline
  sidecar (\<^verbatim>\<open>report.rs\<close>), the bencher (\<^verbatim>\<open>single.rs\<close>) and the matrix of program variants
  (\<^verbatim>\<open>matrix.rs\<close>), with the features \<^verbatim>\<open>report-io\<close> and \<^verbatim>\<open>markdown\<close>. Floating point, the clock, the
  runtime version and the JSON codec are the record \<open>bench_ext\<close>.
\<close>

section \<open>Reports\<close>

record 'f cu_delta =
  delta_absolute :: int
  delta_percent :: 'f

record 'f cu_report_row =
  row_name :: string
  row_compute_units :: u64
  row_delta :: "'f cu_delta option"
  row_pass :: bool

record 'f cu_report =
  generated_at :: string
  solana_runtime_version :: string
  report_rows :: "'f cu_report_row list"

record ('f, 'fs) bench_ext =
  percent_zero :: 'f
  percent_hundred :: 'f
  percent_of :: "int \<Rightarrow> u64 \<Rightarrow> 'f"  \<comment> \<open>\<open>(absolute as f64 / baseline as f64) * 100.0\<close>\<close>
  show_percent :: "'f \<Rightarrow> string"  \<comment> \<open>\<open>{:+.2}\<close>\<close>
  generated_at_string :: string
  solana_runtime_version_string :: string
  report_encode :: "'f cu_report \<Rightarrow> string + bytes"
  report_decode :: "bytes \<Rightarrow> string + 'f cu_report"
  create_dir_all :: "'fs \<Rightarrow> string \<Rightarrow> 'fs \<times> (io_error + unit)"

datatype bench_error =
    MissingCases
  | FixtureFailed string fixture_error
  | ExpectationFailed string
  | DuplicateProgramName string
  | UnboundVariantProgram string string address
  | MissingVariantProgram string string address address
  | ProgramLoaderMismatch string address address address
  | CreateOutputDir string io_error
  | WriteReport string io_error
  | ReadBaseline string io_error
  | InvalidBaseline string string

definition report_new :: "('f, 'fs) bench_ext \<Rightarrow> 'f cu_report_row list \<Rightarrow> 'f cu_report" where
  "report_new B rows =
     \<lparr>generated_at = generated_at_string B,
      solana_runtime_version = solana_runtime_version_string B, report_rows = rows\<rparr>"

text \<open>\<open>i64::try_from\<close> of an \<open>i128\<close> difference.\<close>

definition i64_try_from :: "int \<Rightarrow> int option" where
  "i64_try_from d = (if - (2 ^ 63) \<le> d \<and> d < 2 ^ 63 then Some d else None)"

definition delta_between :: "('f, 'fs) bench_ext \<Rightarrow> u64 \<Rightarrow> u64 \<Rightarrow> 'f cu_delta" where
  "delta_between B base current =
     (let absolute = unwrap_or (if base \<le> current then 2 ^ 63 - 1 else - (2 ^ 63))
            (i64_try_from (uint current - uint base))
      in \<lparr>delta_absolute = absolute,
          delta_percent = (if base = 0 then if current = 0 then percent_zero B else percent_hundred B
                           else percent_of B absolute base)\<rparr>)"

section \<open>Rendering\<close>

definition show_signed :: "int \<Rightarrow> string" where
  "show_signed n = (if n < 0 then CHR ''-'' else CHR ''+'') # show_nat (nat \<bar>n\<bar>)"

definition replace_char :: "char \<Rightarrow> string \<Rightarrow> string \<Rightarrow> string" where
  "replace_char c r str = concat (map (\<lambda>x. if x = c then r else [x]) str)"

abbreviation backslash :: char where
  "backslash \<equiv> CHR 0x5C"

abbreviation newline :: char where
  "newline \<equiv> CHR 0x0A"

definition escape_markdown_cell :: "string \<Rightarrow> string" where
  "escape_markdown_cell str =
     replace_char (CHR ''|'') [backslash, CHR ''|''] (replace_char backslash [backslash, backslash] str)"

definition format_delta :: "('f, 'fs) bench_ext \<Rightarrow> 'f cu_delta option \<Rightarrow> string" where
  "format_delta B d =
     (case d of
        None \<Rightarrow> ''n/a''
      | Some d \<Rightarrow> show_signed (delta_absolute d) @ '' ('' @ show_percent B (delta_percent d) @ ''%)'')"

definition render_row :: "('f, 'fs) bench_ext \<Rightarrow> 'f cu_report_row \<Rightarrow> string" where
  "render_row B row =
     ''| '' @ escape_markdown_cell (row_name row) @ '' | '' @
     show_nat (unat (row_compute_units row)) @ '' | '' @ format_delta B (row_delta row) @ '' | '' @
     (if row_pass row then ''PASS'' else ''FAIL'') @ '' |'' @ [newline]"

definition render_table :: "('f, 'fs) bench_ext \<Rightarrow> 'f cu_report \<Rightarrow> string" where
  "render_table B r =
     ''| Name | Compute Units | Delta | Pass |'' @ [newline] @
     ''| --- | ---: | --- | --- |'' @ [newline] @ concat (map (render_row B) (report_rows r))"

definition report_render_markdown :: "('f, 'fs) bench_ext \<Rightarrow> 'f cu_report \<Rightarrow> string" where
  "report_render_markdown B r =
     ''# Compute Unit Report'' @ [newline, newline] @
     ''Generated at: '' @ generated_at r @ [newline] @
     ''Solana runtime version: '' @ solana_runtime_version r @ [newline, newline] @ render_table B r"

section \<open>Baselines\<close>

definition path_join :: "string \<Rightarrow> string \<Rightarrow> string" where
  "path_join dir name =
     (if dir = [] then name
      else if last dir = CHR ''/'' then dir @ name else dir @ ''/'' @ name)"

abbreviation baseline_report_file_name :: string where
  "baseline_report_file_name \<equiv> ''cu-report.baseline.json''"

abbreviation markdown_report_file_name :: string where
  "markdown_report_file_name \<equiv> ''cu-report.md''"

fun baseline_rows ::
    "string \<Rightarrow> 'f cu_report_row list \<Rightarrow> (string, u64) btree \<Rightarrow> bench_error + (string, u64) btree" where
  "baseline_rows path [] t = Inr t"
| "baseline_rows path (row # rows) t =
     (case btree_insert (row_name row) (row_compute_units row) t of
        (t', None) \<Rightarrow> baseline_rows path rows t'
      | (t', Some _) \<Rightarrow>
          Inl (InvalidBaseline path (''duplicate baseline row `'' @ row_name row @ ''`'')))"

definition load_baseline_rows ::
    "'fs fixture_ext \<Rightarrow> ('f, 'fs) bench_ext \<Rightarrow> 'fs \<Rightarrow> string \<Rightarrow> bench_error + (string, u64) btree" where
  "load_baseline_rows C B fs path =
     (let baseline_path = path_join path baseline_report_file_name
      in case read_file C fs baseline_path of
           Inl NotFound \<Rightarrow> Inr []
         | Inl e \<Rightarrow> Inl (ReadBaseline baseline_path e)
         | Inr bs \<Rightarrow>
             (case report_decode B bs of
                Inl e \<Rightarrow> Inl (InvalidBaseline baseline_path e)
              | Inr r \<Rightarrow> baseline_rows baseline_path (report_rows r) []))"

definition baseline_map ::
    "'fs fixture_ext \<Rightarrow> ('f, 'fs) bench_ext \<Rightarrow> 'fs \<Rightarrow> string option \<Rightarrow> bench_error + (string, u64) btree" where
  "baseline_map C B fs path = (case path of None \<Rightarrow> Inr [] | Some p \<Rightarrow> load_baseline_rows C B fs p)"

text \<open>A failed write leaves the files written before it.\<close>

definition write_report ::
    "'fs fixture_ext \<Rightarrow> ('f, 'fs) bench_ext \<Rightarrow> 'f cu_report \<Rightarrow> string \<Rightarrow> 'fs \<Rightarrow> 'fs \<times> (bench_error + unit)" where
  "write_report C B r path fs =
     (let baseline_path = path_join path baseline_report_file_name;
          report_path = path_join path markdown_report_file_name
      in case create_dir_all B fs path of
           (fs1, Inl e) \<Rightarrow> (fs1, Inl (CreateOutputDir path e))
         | (fs1, Inr _) \<Rightarrow>
             (case report_encode B r of
                Inl e \<Rightarrow> (fs1, Inl (InvalidBaseline baseline_path e))
              | Inr bs \<Rightarrow>
                  (case write_bytes C fs1 baseline_path bs of
                     (fs2, Inl e) \<Rightarrow> (fs2, Inl (WriteReport baseline_path e))
                   | (fs2, Inr _) \<Rightarrow>
                       apsnd (map_err (WriteReport report_path))
                         (write_text C fs2 report_path (report_render_markdown B r)))))"

definition write_to_dir ::
    "'fs fixture_ext \<Rightarrow> ('f, 'fs) bench_ext \<Rightarrow> 'f cu_report \<Rightarrow> string option \<Rightarrow> 'fs
      \<Rightarrow> 'fs \<times> (bench_error + unit)" where
  "write_to_dir C B r path fs =
     (case path of None \<Rightarrow> (fs, Inr ()) | Some p \<Rightarrow> write_report C B r p fs)"

section \<open>The host\<close>

text \<open>Everything outside the sources that running a fixture on a fresh VM depends on.\<close>

record ('pc, 'x, 'st, 'ic, 'c, 'fs, 'f) host =
  h_text :: "(compare, check) text_ext"
  h_codec :: "'fs fixture_ext"
  h_msg :: msg_ext
  h_unique :: address
  h_vm :: vm_ext
  h_exec :: "('pc, 'x, 'st, 'ic) exec_ext"
  h_handlers :: "('pc, 'st, 'c) handlers"
  h_history :: "'c history_ops"
  h_build :: build_ext
  h_bench :: "('f, 'fs) bench_ext"

abbreviation host_new ::
    "('pc, 'x, 'st, 'ic, 'c, 'fs, 'f) host \<Rightarrow> ('pc, 'st) world \<Rightarrow> ('pc, 'st, 'c) vm option" where
  "host_new H \<equiv> hpsvm_new (h_vm H) (h_exec H) (h_history H) (h_build H)"

abbreviation host_run ::
    "('pc, 'x, 'st, 'ic, 'c, 'fs, 'f) host \<Rightarrow> 'c fixture_runner \<Rightarrow> compare fixture \<Rightarrow> ('pc, 'st) world
      \<Rightarrow> ('pc, 'st, fixture_error + fixture_execution) outcome" where
  "host_run H \<equiv> run_fixture (h_text H) (h_codec H) (h_msg H) (h_unique H) (h_vm H) (h_exec H) (h_handlers H)"

section \<open>The bencher\<close>

record 'c cu_bencher =
  bencher_vm :: "'c svm"
  bencher_cases :: "(string \<times> compare fixture) list"
  must_pass :: bool
  baseline_dir :: "string option"
  output_dir :: "string option"
  bencher_elfs :: "address \<rightharpoonup> bytes"

definition bencher_new :: "'c svm \<Rightarrow> 'c cu_bencher" where
  "bencher_new s =
     \<lparr>bencher_vm = s, bencher_cases = [], must_pass = False, baseline_dir = None,
      output_dir = None, bencher_elfs = Map.empty\<rparr>"

definition bencher_with_program_elf :: "address \<Rightarrow> bytes \<Rightarrow> 'c cu_bencher \<Rightarrow> 'c cu_bencher" where
  "bencher_with_program_elf k elf b = b\<lparr>bencher_elfs := (bencher_elfs b)(k \<mapsto> elf)\<rparr>"

definition bencher_with_program_elfs :: "(address \<times> bytes) list \<Rightarrow> 'c cu_bencher \<Rightarrow> 'c cu_bencher" where
  "bencher_with_program_elfs elfs b =
     fold (\<lambda>(k, elf) b. b\<lparr>bencher_elfs := (bencher_elfs b)(k \<mapsto> elf)\<rparr>) elfs b"

definition bencher_case :: "string \<times> compare fixture \<Rightarrow> 'c cu_bencher \<Rightarrow> 'c cu_bencher" where
  "bencher_case c b = b\<lparr>bencher_cases := bencher_cases b @ [c]\<rparr>"

definition bencher_must_pass :: "bool \<Rightarrow> 'c cu_bencher \<Rightarrow> 'c cu_bencher" where
  "bencher_must_pass v b = b\<lparr>must_pass := v\<rparr>"

definition bencher_baseline_dir :: "string \<Rightarrow> 'c cu_bencher \<Rightarrow> 'c cu_bencher" where
  "bencher_baseline_dir p b = b\<lparr>baseline_dir := Some p\<rparr>"

definition bencher_output_dir :: "string \<Rightarrow> 'c cu_bencher \<Rightarrow> 'c cu_bencher" where
  "bencher_output_dir p b = b\<lparr>output_dir := Some p\<rparr>"

abbreviation bench_config :: result_config where
  "bench_config \<equiv> \<lparr>cfg_panic = False, verbose = True\<rparr>"

fun bench_cases ::
    "('pc, 'x, 'st, 'ic, 'c, 'fs, 'f) host \<Rightarrow> bool \<Rightarrow> (address \<rightharpoonup> bytes)
      \<Rightarrow> (string, u64) btree \<Rightarrow> (string \<times> compare fixture) list \<Rightarrow> 'c fixture_runner \<Rightarrow> ('pc, 'st) world
      \<Rightarrow> ('pc, 'st, bench_error + 'f cu_report_row list) outcome" where
  "bench_cases H must elfs bmap [] r w = Some (w, [], Inr [])"
| "bench_cases H must elfs bmap ((name, fx) # cases) r w =
     (case with_fixture_programs fx elfs r of
        Inl e \<Rightarrow> Some (w, [], Inl (FixtureFailed name e))
      | Inr r' \<Rightarrow>
          (case host_run H r' fx w of
             None \<Rightarrow> None
           | Some (w', evs, Inl e) \<Rightarrow> Some (w', evs, Inl (FixtureFailed name e))
           | Some (w', evs, Inr x) \<Rightarrow>
               (case compare_with (h_text H) (fe_snapshot x) (baseline (fx_expectations fx))
                       (compares (fx_expectations fx)) bench_config of
                  None \<Rightarrow> None
                | Some pass \<Rightarrow>
                    if must \<and> \<not> pass then Some (w', evs, Inl (ExpectationFailed name))
                    else let units = snap_compute_units (fe_snapshot x);
                             row = \<lparr>row_name = name, row_compute_units = units,
                                    row_delta = map_option (\<lambda>b. delta_between (h_bench H) b units) (map_of bmap name),
                                    row_pass = pass\<rparr>
                         in map_option (\<lambda>(w2, evs2, res). (w2, evs @ evs2, map_sum id ((#) row) res))
                              (bench_cases H must elfs bmap cases r' w'))))"

definition bencher_execute ::
    "('pc, 'x, 'st, 'ic, 'c, 'fs, 'f) host \<Rightarrow> 'c cu_bencher
      \<Rightarrow> ('pc, 'st) world \<Rightarrow> 'fs \<Rightarrow> ('pc, 'st, 'fs \<times> (bench_error + 'f cu_report)) outcome" where
  "bencher_execute H b w fs =
     (if bencher_cases b = [] then Some (w, [], fs, Inl MissingCases)
      else case baseline_map (h_codec H) (h_bench H) fs (baseline_dir b) of
             Inl e \<Rightarrow> Some (w, [], fs, Inl e)
           | Inr bmap \<Rightarrow>
               (case bench_cases H (must_pass b) (bencher_elfs b) bmap (bencher_cases b)
                       (runner_new (bencher_vm b)) w of
                  None \<Rightarrow> None
                | Some (w', evs, Inl e) \<Rightarrow> Some (w', evs, fs, Inl e)
                | Some (w', evs, Inr rows) \<Rightarrow>
                    let r = report_new (h_bench H) rows
                    in (case write_to_dir (h_codec H) (h_bench H) r (output_dir b) fs of
                          (fs', Inl e) \<Rightarrow> Some (w', evs, fs', Inl e)
                        | (fs', Inr _) \<Rightarrow> Some (w', evs, fs', Inr r))))"

section \<open>The matrix\<close>

record program_variant =
  pv_name :: string
  pv_loader_id :: address
  pv_program_id :: address
  pv_elf :: bytes

record program_variant_set =
  vs_name :: string
  vs_programs :: "(address, program_variant) btree"

record 'f matrix_report =
  mr_generated_at :: string
  mr_runtime_version :: string
  mr_reports :: "(string, 'f cu_report) btree"

record matrix_bencher =
  mb_programs :: "program_variant list"
  mb_cases :: "(string \<times> compare fixture) list"

definition matrix_new :: matrix_bencher where
  "matrix_new = \<lparr>mb_programs = [], mb_cases = []\<rparr>"

definition matrix_program ::
    "string \<Rightarrow> address \<Rightarrow> address \<Rightarrow> bytes \<Rightarrow> matrix_bencher \<Rightarrow> matrix_bencher" where
  "matrix_program name l p elf b =
     b\<lparr>mb_programs := mb_programs b @
       [\<lparr>pv_name = name, pv_loader_id = l, pv_program_id = p, pv_elf = elf\<rparr>]\<rparr>"

definition matrix_case :: "string \<times> compare fixture \<Rightarrow> matrix_bencher \<Rightarrow> matrix_bencher" where
  "matrix_case c b = b\<lparr>mb_cases := mb_cases b @ [c]\<rparr>"

fun group_variants ::
    "program_variant list \<Rightarrow> (string, (address, program_variant) btree) btree
      \<Rightarrow> bench_error + (string, (address, program_variant) btree) btree" where
  "group_variants [] t = Inr t"
| "group_variants (v # vs) t =
     (case btree_insert (pv_program_id v) v (unwrap_or [] (map_of t (pv_name v))) of
        (entry, Some _) \<Rightarrow> Inl (DuplicateProgramName (pv_name v))
      | (entry, None) \<Rightarrow> group_variants vs (fst (btree_insert (pv_name v) entry t)))"

definition group_variant_sets :: "program_variant list \<Rightarrow> bench_error + program_variant_set list" where
  "group_variant_sets vs =
     map_sum id (map (\<lambda>(name, ps). \<lparr>vs_name = name, vs_programs = ps\<rparr>)) (group_variants vs [])"

fun check_variant ::
    "string \<Rightarrow> string \<Rightarrow> (address, address) btree \<Rightarrow> program_variant list \<Rightarrow> bench_error + unit" where
  "check_variant case_name vname bound [] = Inr ()"
| "check_variant case_name vname bound (p # ps) =
     (case map_of bound (pv_program_id p) of
        None \<Rightarrow> Inl (UnboundVariantProgram case_name vname (pv_program_id p))
      | Some fixture_loader \<Rightarrow>
          if fixture_loader \<noteq> pv_loader_id p
          then Inl (ProgramLoaderMismatch case_name (pv_program_id p) fixture_loader (pv_loader_id p))
          else check_variant case_name vname bound ps)"

definition validate_variant_programs ::
    "string \<Rightarrow> 'cmp fixture \<Rightarrow> program_variant_set \<Rightarrow> bench_error + unit" where
  "validate_variant_programs case_name fx variant =
     (let bound = fold (\<lambda>b t. fst (btree_insert (pb_program_id b) (pb_loader_id b) t))
            (fixture_programs fx) []
      in case check_variant case_name (vs_name variant) bound (map snd (vs_programs variant)) of
           Inl e \<Rightarrow> Inl e
         | Inr _ \<Rightarrow>
             (case List.find (\<lambda>(k, l). map_of (vs_programs variant) k = None) bound of
                None \<Rightarrow> Inr ()
              | Some (k, l) \<Rightarrow> Inl (MissingVariantProgram case_name (vs_name variant) k l)))"

fun matrix_cases ::
    "('pc, 'x, 'st, 'ic, 'c, 'fs, 'f) host \<Rightarrow> program_variant_set option \<Rightarrow> (string \<times> compare fixture) list
      \<Rightarrow> 'c fixture_runner \<Rightarrow> ('pc, 'st) world \<Rightarrow> ('pc, 'st, bench_error + 'f cu_report_row list) outcome" where
  "matrix_cases H variant [] r w = Some (w, [], Inr [])"
| "matrix_cases H variant ((name, fx) # cases) r w =
     (case (case variant of None \<Rightarrow> Inr () | Some v \<Rightarrow> validate_variant_programs name fx v) of
        Inl e \<Rightarrow> Some (w, [], Inl e)
      | Inr _ \<Rightarrow>
          (case host_run H r fx w of
             None \<Rightarrow> None
           | Some (w', evs, Inl e) \<Rightarrow> Some (w', evs, Inl (FixtureFailed name e))
           | Some (w', evs, Inr x) \<Rightarrow>
               (case compare_with (h_text H) (fe_snapshot x) (baseline (fx_expectations fx))
                       (compares (fx_expectations fx)) bench_config of
                  None \<Rightarrow> None
                | Some pass \<Rightarrow>
                    let row = \<lparr>row_name = name,
                               row_compute_units = snap_compute_units (fe_snapshot x),
                               row_delta = None, row_pass = pass\<rparr>
                    in map_option (\<lambda>(w2, evs2, res). (w2, evs @ evs2, map_sum id ((#) row) res))
                         (matrix_cases H variant cases r w'))))"

definition execute_variant ::
    "('pc, 'x, 'st, 'ic, 'c, 'fs, 'f) host \<Rightarrow> (string \<times> compare fixture) list \<Rightarrow> program_variant_set option
      \<Rightarrow> ('pc, 'st) world \<Rightarrow> ('pc, 'st, bench_error + 'f cu_report) outcome" where
  "execute_variant H cases variant w =
     (case host_new H w of
        None \<Rightarrow> None
      | Some (w1, s) \<Rightarrow>
          let r = (case variant of
                     None \<Rightarrow> runner_new s
                   | Some v \<Rightarrow> fold (\<lambda>(_, p). with_program_elf (pv_program_id p) (pv_elf p))
                       (vs_programs v) (runner_new s))
          in map_outcome (map_sum id (report_new (h_bench H))) (matrix_cases H variant cases r w1))"

fun execute_variants ::
    "('pc, 'x, 'st, 'ic, 'c, 'fs, 'f) host \<Rightarrow> (string \<times> compare fixture) list \<Rightarrow> program_variant_set list
      \<Rightarrow> (string, 'f cu_report) btree \<Rightarrow> ('pc, 'st) world
      \<Rightarrow> ('pc, 'st, bench_error + (string, 'f cu_report) btree) outcome" where
  "execute_variants H cases [] reports w = Some (w, [], Inr reports)"
| "execute_variants H cases (v # vs) reports w =
     (case execute_variant H cases (Some v) w of
        None \<Rightarrow> None
      | Some (w', evs, Inl e) \<Rightarrow> Some (w', evs, Inl e)
      | Some (w', evs, Inr r) \<Rightarrow>
          map_option (\<lambda>(w2, evs2, res). (w2, evs @ evs2, res))
            (execute_variants H cases vs (fst (btree_insert (vs_name v) r reports)) w'))"

definition matrix_execute ::
    "('pc, 'x, 'st, 'ic, 'c, 'fs, 'f) host \<Rightarrow> matrix_bencher \<Rightarrow> ('pc, 'st) world
      \<Rightarrow> ('pc, 'st, bench_error + 'f matrix_report) outcome" where
  "matrix_execute H b w =
     (if mb_cases b = [] then Some (w, [], Inl MissingCases)
      else map_outcome
             (map_sum id (\<lambda>reports. \<lparr>mr_generated_at = generated_at_string (h_bench H),
                mr_runtime_version = solana_runtime_version_string (h_bench H), mr_reports = reports\<rparr>))
             (if mb_programs b = []
              then map_outcome (map_sum id (\<lambda>r. fst (btree_insert ''builtin'' r [])))
                     (execute_variant H (mb_cases b) None w)
              else case group_variant_sets (mb_programs b) of
                     Inl e \<Rightarrow> Some (w, [], Inl e)
                   | Inr sets \<Rightarrow> execute_variants H (mb_cases b) sets [] w))"

definition matrix_render_markdown :: "('f, 'fs) bench_ext \<Rightarrow> 'f matrix_report \<Rightarrow> string" where
  "matrix_render_markdown B r =
     ''# Compute Unit Matrix'' @ [newline, newline] @
     ''Generated at: '' @ mr_generated_at r @ [newline] @
     ''Solana runtime version: '' @ mr_runtime_version r @ [newline, newline] @
     concat (map (\<lambda>(name, rep). ''## '' @ name @ [newline, newline] @ render_table B rep @ [newline])
       (mr_reports r))"

end
