(* ===== verification/Cli.thy ===== *)
theory Cli
  imports Fixture_Bench
begin

text \<open>
  The command-line tool (\<^verbatim>\<open>bin/hpsvm-cli/src\<close>): recording, running and comparing fixtures and the
  compute-unit report, without the \<^verbatim>\<open>fd-compat\<close> feature. Argument parsing is left to its crate;
  what other crates parse and what the directory holds is the record \<open>cli_ext\<close>. A command
  returns the lines it prints to standard output.
\<close>

section \<open>What other crates provide\<close>

record record_account =
  ra_address :: address
  ra_lamports :: u64
  ra_owner :: address
  ra_executable :: bool
  ra_rent_epoch :: u64
  ra_data :: bytes

record 'fs cli_ext =
  parse_address :: "string \<Rightarrow> string + address"
  b64_decode :: "string \<Rightarrow> string + bytes"
  hex_decode :: "string \<Rightarrow> string + bytes"
  accounts_parse :: "bytes \<Rightarrow> string + record_account list"
  compares_parse :: "string \<Rightarrow> string + compare list"
  is_dir :: "'fs \<Rightarrow> string \<Rightarrow> bool"
  read_dir :: "'fs \<Rightarrow> string \<Rightarrow> io_error + (string \<times> bool) list"  \<comment> \<open>path, is a file\<close>
  program_order :: "(address \<rightharpoonup> bytes) \<Rightarrow> address list"  \<comment> \<open>iteration of a hash map\<close>

datatype cli_error =
    CliBench bench_error
  | CliHpsvm hpsvm_error
  | CliFixture fixture_error
  | CliIo io_error
  | CliJson string
  | ConfigParse string string
  | UnsupportedConfigFormat string
  | InvalidProgramMapping string
  | InvalidProgramId string string
  | AccountFile string string
  | TransactionEncoding string string string
  | NoFixturesInDirectory string
  | ComparisonFailed string
  | FiredancerCompatDisabled

section \<open>Transaction encodings\<close>

datatype fixture_format_arg = FormatHpsvm | FormatFiredancer

datatype transaction_encoding = EncodingRaw | EncodingBase64 | EncodingHex

primrec encoding_as_str :: "transaction_encoding \<Rightarrow> string" where
  "encoding_as_str EncodingRaw = ''raw''"
| "encoding_as_str EncodingBase64 = ''base64''"
| "encoding_as_str EncodingHex = ''hex''"

definition is_ascii_whitespace :: "char \<Rightarrow> bool" where
  "is_ascii_whitespace c \<longleftrightarrow> c \<in> {CHR '' '', CHR 0x09, CHR 0x0A, CHR 0x0C, CHR 0x0D}"

definition visible_text :: "bytes \<Rightarrow> string" where
  "visible_text bs = filter (\<lambda>c. \<not> is_ascii_whitespace c) (map (\<lambda>b. char_of (unat b)) bs)"

definition decode_base64 :: "'fs cli_ext \<Rightarrow> bytes \<Rightarrow> string + bytes" where
  "decode_base64 X bs = map_err (\<lambda>e. ''invalid base64 input: '' @ e) (b64_decode X (visible_text bs))"

definition decode_hex :: "'fs cli_ext \<Rightarrow> bytes \<Rightarrow> string + bytes" where
  "decode_hex X bs =
     (if \<not> list_all (\<lambda>b. b < 128) bs then Inl ''invalid hex input: non-ascii byte''
      else map_err (\<lambda>e. ''invalid hex input: '' @ e) (hex_decode X (visible_text bs)))"

primrec encoding_decode :: "'fs cli_ext \<Rightarrow> transaction_encoding \<Rightarrow> bytes \<Rightarrow> string + bytes" where
  "encoding_decode X EncodingRaw bs = Inr bs"
| "encoding_decode X EncodingBase64 bs = decode_base64 X bs"
| "encoding_decode X EncodingHex bs = decode_hex X bs"

section \<open>Program maps and comparison configurations\<close>

definition split_once :: "char \<Rightarrow> string \<Rightarrow> (string \<times> string) option" where
  "split_once c str =
     (case dropWhile (\<lambda>x. x \<noteq> c) str of
        [] \<Rightarrow> None
      | _ # rest \<Rightarrow> Some (takeWhile (\<lambda>x. x \<noteq> c) str, rest))"

fun parse_mappings ::
    "'fs cli_ext \<Rightarrow> 'fs fixture_ext \<Rightarrow> 'fs \<Rightarrow> string list \<Rightarrow> (address \<rightharpoonup> bytes)
      \<Rightarrow> cli_error + (address \<rightharpoonup> bytes)" where
  "parse_mappings X C fs [] parsed = Inr parsed"
| "parse_mappings X C fs (value # values) parsed =
     (case split_once (CHR ''='') value of
        None \<Rightarrow> Inl (InvalidProgramMapping value)
      | Some (program_id, path) \<Rightarrow>
          (case parse_address X program_id of
             Inl e \<Rightarrow> Inl (InvalidProgramId program_id e)
           | Inr k \<Rightarrow>
               (case read_file C fs path of
                  Inl e \<Rightarrow> Inl (CliIo e)
                | Inr elf \<Rightarrow> parse_mappings X C fs values (parsed(k \<mapsto> elf)))))"

definition parse_program_map ::
    "'fs cli_ext \<Rightarrow> 'fs fixture_ext \<Rightarrow> 'fs \<Rightarrow> string list \<Rightarrow> cli_error + (address \<rightharpoonup> bytes)" where
  "parse_program_map X C fs values = parse_mappings X C fs values Map.empty"

definition preload_runner ::
    "'c fixture_runner \<Rightarrow> 'cmp fixture \<Rightarrow> (address \<rightharpoonup> bytes) \<Rightarrow> fixture_error + 'c fixture_runner" where
  "preload_runner r fx programs = with_fixture_programs fx programs r"

definition load_compares ::
    "'fs cli_ext \<Rightarrow> 'fs fixture_ext \<Rightarrow> 'fs \<Rightarrow> string option \<Rightarrow> compare list \<Rightarrow> bool
      \<Rightarrow> cli_error + compare list" where
  "load_compares X C fs path fallback ignore_compute_units =
     (case (case path of
              None \<Rightarrow> Inr fallback
            | Some p \<Rightarrow>
                (case read_to_string C fs p of
                   Inl e \<Rightarrow> Inl (CliIo e)
                 | Inr file \<Rightarrow>
                     if path_extension p = Some ''json''
                     then map_err (ConfigParse p) (compares_parse X file)
                     else Inl (UnsupportedConfigFormat p))) of
        Inl e \<Rightarrow> Inl e
      | Inr cs \<Rightarrow> Inr (if ignore_compute_units then filter (\<lambda>c. c \<noteq> CmpComputeUnits) cs else cs))"

section \<open>Running fixtures\<close>

definition cli_load_fixture ::
    "'fs fixture_ext \<Rightarrow> 'fs \<Rightarrow> string \<Rightarrow> fixture_format_arg \<Rightarrow> cli_error + compare fixture" where
  "cli_load_fixture C fs path fmt =
     (case fmt of
        FormatHpsvm \<Rightarrow> map_err CliFixture (fixture_load C fs path)
      | FormatFiredancer \<Rightarrow> Inl FiredancerCompatDisabled)"

definition is_fixture_file :: "string \<Rightarrow> fixture_format_arg \<Rightarrow> bool" where
  "is_fixture_file path fmt =
     is_some_and (\<lambda>ext. case fmt of
        FormatHpsvm \<Rightarrow> ext = ''json'' \<or> ext = ''bin''
      | FormatFiredancer \<Rightarrow> ext = ''fix'' \<or> ext = ''json'') (path_extension path)"

definition fixture_paths ::
    "'fs cli_ext \<Rightarrow> 'fs \<Rightarrow> string \<Rightarrow> fixture_format_arg \<Rightarrow> cli_error + string list" where
  "fixture_paths X fs path fmt =
     (if \<not> is_dir X fs path then Inr [path]
      else case read_dir X fs path of
             Inl e \<Rightarrow> Inl (CliIo e)
           | Inr entries \<Rightarrow>
               let paths = sort (map fst (filter (\<lambda>(p, file). file \<and> is_fixture_file p fmt) entries))
               in if paths = [] then Inl (NoFixturesInDirectory path) else Inr paths)"

definition inspect_fixture ::
    "'fs fixture_ext \<Rightarrow> 'fs \<Rightarrow> string \<Rightarrow> fixture_format_arg \<Rightarrow> string list \<times> (cli_error + unit)" where
  "inspect_fixture C fs path fmt =
     (case cli_load_fixture C fs path fmt of
        Inl e \<Rightarrow> ([], Inl e)
      | Inr fx \<Rightarrow>
          (case json_print C fx of Inl e \<Rightarrow> ([], Inl (CliJson e)) | Inr doc \<Rightarrow> ([doc], Inr ())))"

abbreviation fx_name :: "'cmp fixture \<Rightarrow> string" where
  "fx_name fx \<equiv> fixture_name (fx_header fx)"

fun run_paths ::
    "('pc, 'x, 'st, 'ic, 'c, 'fs, 'f) host \<Rightarrow> 'fs \<Rightarrow> fixture_format_arg \<Rightarrow> (address \<rightharpoonup> bytes)
      \<Rightarrow> string list \<Rightarrow> ('pc, 'st) world
      \<Rightarrow> (('pc, 'st) world \<times> string list \<times> (cli_error + unit)) option" where
  "run_paths H fs fmt programs [] w = Some (w, [], Inr ())"
| "run_paths H fs fmt programs (path # paths) w =
     (case cli_load_fixture (h_codec H) fs path fmt of
        Inl e \<Rightarrow> Some (w, [], Inl e)
      | Inr fx \<Rightarrow>
          (case host_new H w of
             None \<Rightarrow> None
           | Some (w1, s) \<Rightarrow>
               (case preload_runner (runner_new s) fx programs of
                  Inl e \<Rightarrow> Some (w1, [], Inl (CliFixture e))
                | Inr r \<Rightarrow>
                    (case run_and_validate (h_text H) (h_codec H) (h_msg H) (h_unique H) (h_vm H)
                            (h_exec H) (h_handlers H) r fx bench_config w1 of
                       None \<Rightarrow> None
                     | Some (w2, _, Inl e) \<Rightarrow> Some (w2, [], Inl (CliFixture e))
                     | Some (w2, _, Inr pass) \<Rightarrow>
                         if pass
                         then map_option (\<lambda>(w3, out, res). (w3, (''PASS: '' @ fx_name fx) # out, res))
                                (run_paths H fs fmt programs paths w2)
                         else Some (w2, [], Inl (ComparisonFailed (fx_name fx)))))))"

definition cli_run_fixture ::
    "('pc, 'x, 'st, 'ic, 'c, 'fs, 'f) host \<Rightarrow> 'fs cli_ext \<Rightarrow> 'fs \<Rightarrow> string \<Rightarrow> fixture_format_arg
      \<Rightarrow> string list \<Rightarrow> ('pc, 'st) world
      \<Rightarrow> (('pc, 'st) world \<times> string list \<times> (cli_error + unit)) option" where
  "cli_run_fixture H X fs path fmt program_args w =
     (case parse_program_map X (h_codec H) fs program_args of
        Inl e \<Rightarrow> Some (w, [], Inl e)
      | Inr programs \<Rightarrow>
          (case fixture_paths X fs path fmt of
             Inl e \<Rightarrow> Some (w, [], Inl e)
           | Inr paths \<Rightarrow> run_paths H fs fmt programs paths w))"

fun compare_paths ::
    "('pc, 'x, 'st, 'ic, 'c, 'fs, 'f) host \<Rightarrow> 'fs cli_ext \<Rightarrow> 'fs \<Rightarrow> fixture_format_arg
      \<Rightarrow> (address \<rightharpoonup> bytes) \<Rightarrow> (address \<rightharpoonup> bytes) \<Rightarrow> string option \<Rightarrow> bool \<Rightarrow> string list
      \<Rightarrow> ('pc, 'st) world \<Rightarrow> (('pc, 'st) world \<times> string list \<times> (cli_error + unit)) option" where
  "compare_paths H X fs fmt base cand config ignore_cu [] w = Some (w, [], Inr ())"
| "compare_paths H X fs fmt base cand config ignore_cu (path # paths) w =
     (case cli_load_fixture (h_codec H) fs path fmt of
        Inl e \<Rightarrow> Some (w, [], Inl e)
      | Inr fx \<Rightarrow>
     (case load_compares X (h_codec H) fs config (compares (fx_expectations fx)) ignore_cu of
        Inl e \<Rightarrow> Some (w, [], Inl e)
      | Inr cs \<Rightarrow>
     (case host_new H w of
        None \<Rightarrow> None
      | Some (w1, s1) \<Rightarrow>
     (case preload_runner (runner_new s1) fx base of
        Inl e \<Rightarrow> Some (w1, [], Inl (CliFixture e))
      | Inr r1 \<Rightarrow>
     (case host_new H w1 of
        None \<Rightarrow> None
      | Some (w2, s2) \<Rightarrow>
     (case preload_runner (runner_new s2) fx cand of
        Inl e \<Rightarrow> Some (w2, [], Inl (CliFixture e))
      | Inr r2 \<Rightarrow>
     (case host_run H r1 fx w2 of
        None \<Rightarrow> None
      | Some (w3, _, Inl e) \<Rightarrow> Some (w3, [], Inl (CliFixture e))
      | Some (w3, _, Inr x1) \<Rightarrow>
     (case host_run H r2 fx w3 of
        None \<Rightarrow> None
      | Some (w4, _, Inl e) \<Rightarrow> Some (w4, [], Inl (CliFixture e))
      | Some (w4, _, Inr x2) \<Rightarrow>
     (case compare_with (h_text H) (fe_snapshot x1) (fe_snapshot x2) cs bench_config of
        None \<Rightarrow> None
      | Some pass \<Rightarrow>
          if pass
          then map_option (\<lambda>(w5, out, res). (w5, (''PASS: '' @ fx_name fx) # out, res))
                 (compare_paths H X fs fmt base cand config ignore_cu paths w4)
          else Some (w4, [], Inl (ComparisonFailed (fx_name fx))))))))))))"

definition compare_fixture ::
    "('pc, 'x, 'st, 'ic, 'c, 'fs, 'f) host \<Rightarrow> 'fs cli_ext \<Rightarrow> 'fs \<Rightarrow> string \<Rightarrow> fixture_format_arg
      \<Rightarrow> string list \<Rightarrow> string list \<Rightarrow> string option \<Rightarrow> bool \<Rightarrow> ('pc, 'st) world
      \<Rightarrow> (('pc, 'st) world \<times> string list \<times> (cli_error + unit)) option" where
  "compare_fixture H X fs path fmt baseline_args candidate_args config ignore_cu w =
     (case parse_program_map X (h_codec H) fs baseline_args of
        Inl e \<Rightarrow> Some (w, [], Inl e)
      | Inr base \<Rightarrow>
          (case parse_program_map X (h_codec H) fs candidate_args of
             Inl e \<Rightarrow> Some (w, [], Inl e)
           | Inr cand \<Rightarrow>
               (case fixture_paths X fs path fmt of
                  Inl e \<Rightarrow> Some (w, [], Inl e)
                | Inr paths \<Rightarrow> compare_paths H X fs fmt base cand config ignore_cu paths w)))"

definition report_compute_units ::
    "('pc, 'x, 'st, 'ic, 'c, 'fs, 'f) host \<Rightarrow> 'fs cli_ext \<Rightarrow> 'fs \<Rightarrow> string \<Rightarrow> fixture_format_arg
      \<Rightarrow> string \<Rightarrow> string option \<Rightarrow> string list \<Rightarrow> bool \<Rightarrow> ('pc, 'st) world
      \<Rightarrow> (('pc, 'st) world \<times> 'fs \<times> string list \<times> (cli_error + unit)) option" where
  "report_compute_units H X fs path fmt out_dir base_dir program_args must w =
     (case cli_load_fixture (h_codec H) fs path fmt of
        Inl e \<Rightarrow> Some (w, fs, [], Inl e)
      | Inr fx \<Rightarrow>
          (case parse_program_map X (h_codec H) fs program_args of
             Inl e \<Rightarrow> Some (w, fs, [], Inl e)
           | Inr programs \<Rightarrow>
               (case host_new H w of
                  None \<Rightarrow> None
                | Some (w1, s) \<Rightarrow>
                    let b0 = bencher_must_pass must (bencher_output_dir out_dir (bencher_case (fx_name fx, fx)
                          (bencher_with_program_elfs
                            (map (\<lambda>k. (k, the (programs k))) (program_order X programs)) (bencher_new s))));
                        b = (case base_dir of None \<Rightarrow> b0 | Some d \<Rightarrow> bencher_baseline_dir d b0)
                    in (case bencher_execute H b w1 fs of
                          None \<Rightarrow> None
                        | Some (w2, _, fs', Inl e) \<Rightarrow> Some (w2, fs', [], Inl (CliBench e))
                        | Some (w2, _, fs', Inr rep) \<Rightarrow>
                            if list_all row_pass (report_rows rep)
                            then Some (w2, fs', [''PASS: '' @ fx_name fx], Inr ())
                            else Some (w2, fs', [], Inl (ComparisonFailed (fx_name fx)))))))"

section \<open>Recording fixtures\<close>

record record_request =
  rq_transaction :: string
  rq_encoding :: transaction_encoding
  rq_accounts :: string
  rq_output :: string
  rq_name :: "string option"
  rq_tags :: "string list"
  rq_source :: "string option"
  rq_programs :: "string list"
  rq_loader :: "address option"
  rq_slot :: "u64 option"
  rq_sigverify :: bool
  rq_log_bytes_limit :: "nat option"
  rq_compute_unit_limit :: "u64 option"
  rq_ignore_compute_units :: bool

definition fixture_format_for_output :: "string \<Rightarrow> cli_error + fixture_format" where
  "fixture_format_for_output path =
     (if path_extension path = Some ''json'' then Inr JsonFormat
      else if path_extension path = Some ''bin'' then Inr BinaryFormat
      else Inl (CliFixture (UnsupportedFormat path)))"

definition record_load_transaction ::
    "'fs cli_ext \<Rightarrow> 'fs fixture_ext \<Rightarrow> 'fs \<Rightarrow> record_request \<Rightarrow> cli_error + versioned_tx" where
  "record_load_transaction X C fs rq =
     (case read_file C fs (rq_transaction rq) of
        Inl e \<Rightarrow> Inl (CliIo e)
      | Inr encoded \<Rightarrow>
          (case encoding_decode X (rq_encoding rq) encoded of
             Inl reason \<Rightarrow>
               Inl (TransactionEncoding (rq_transaction rq) (encoding_as_str (rq_encoding rq)) reason)
           | Inr bs \<Rightarrow> map_err (\<lambda>e. CliFixture (DecodeTransaction e)) (tx_decode C bs)))"

definition record_load_accounts ::
    "'fs cli_ext \<Rightarrow> 'fs fixture_ext \<Rightarrow> 'fs \<Rightarrow> string \<Rightarrow> cli_error + account_snapshot list" where
  "record_load_accounts X C fs path =
     (case read_file C fs path of
        Inl e \<Rightarrow> Inl (CliIo e)
      | Inr raw \<Rightarrow>
          (case accounts_parse X raw of
             Inl reason \<Rightarrow> Inl (AccountFile path reason)
           | Inr parsed \<Rightarrow>
               Inr (map (\<lambda>a. \<lparr>as_address = ra_address a, as_lamports = ra_lamports a,
                              as_owner = ra_owner a, as_executable = ra_executable a,
                              as_rent_epoch = ra_rent_epoch a, as_data = ra_data a\<rparr>) parsed)))"

definition file_stem :: "string \<Rightarrow> string option" where
  "file_stem path =
     map_option
       (\<lambda>n. let after_dot = takeWhile (\<lambda>c. c \<noteq> CHR ''.'') (rev n);
                stem = rev (drop (Suc (length after_dot)) (rev n))
            in if CHR ''.'' \<notin> set n \<or> stem = [] then n else stem)
       (file_name path)"

definition record_name :: "record_request \<Rightarrow> string" where
  "record_name rq =
     (case rq_name rq of Some n \<Rightarrow> n | None \<Rightarrow> unwrap_or ''fixture'' (file_stem (rq_output rq)))"

fun add_programs ::
    "vm_ext \<Rightarrow> ('pc, 'x, 'st) db_ext \<Rightarrow> address \<Rightarrow> (address \<times> bytes) list \<Rightarrow> ('pc, 'st, 'c) vm
      \<Rightarrow> ('pc, 'st, 'c) vm \<times> (hpsvm_error + program_binding list)" where
  "add_programs V X loader [] v = (v, Inr [])"
| "add_programs V X loader ((k, elf) # ps) v =
     (case add_program_with_loader V X k elf loader v of
        (v', Inl e) \<Rightarrow> (v', Inl e)
      | (v', Inr _) \<Rightarrow>
          (case add_programs V X loader ps v' of
             (v2, Inl e) \<Rightarrow> (v2, Inl e)
           | (v2, Inr bs) \<Rightarrow>
               (v2, Inr (\<lparr>pb_program_id = k, pb_loader_id = loader, pb_role = None\<rparr> # bs))))"

definition request_runtime :: "record_request \<Rightarrow> 'c svm \<Rightarrow> runtime_fixture_config" where
  "request_runtime rq s =
     (let sl = unwrap_or (block_slot s) (rq_slot rq);
          rt = runtime_new sl (rq_log_bytes_limit rq) (rq_sigverify rq) False
      in case rq_compute_unit_limit rq of None \<Rightarrow> rt | Some n \<Rightarrow> with_compute_unit_limit n rt)"

definition request_builder ::
    "record_request \<Rightarrow> runtime_fixture_config \<Rightarrow> program_binding list \<Rightarrow> account_snapshot list
      \<Rightarrow> execution_snapshot \<Rightarrow> capture_builder" where
  "request_builder rq rt bindings accs base =
     (let b = capture_compares
            (if rq_ignore_compute_units rq then everything_but_compute_units else everything)
            (capture_baseline base (capture_pre_accounts accs (capture_programs bindings
              (capture_runtime rt (capture_new (record_name rq))))));
          b' = fold capture_tag (rq_tags rq) b
      in case rq_source rq of None \<Rightarrow> b' | Some src \<Rightarrow> capture_source src b')"

definition record_fixture ::
    "('pc, 'x, 'st, 'ic, 'c, 'fs, 'f) host \<Rightarrow> 'fs cli_ext \<Rightarrow> record_request \<Rightarrow> ('pc, 'st) world \<Rightarrow> 'fs
      \<Rightarrow> (('pc, 'st) world \<times> 'fs \<times> string list \<times> (cli_error + unit)) option" where
  "record_fixture H X rq w fs =
     (case fixture_format_for_output (rq_output rq) of
        Inl e \<Rightarrow> Some (w, fs, [], Inl e)
      | Inr fmt \<Rightarrow>
     (case record_load_transaction X (h_codec H) fs rq of
        Inl e \<Rightarrow> Some (w, fs, [], Inl e)
      | Inr tx \<Rightarrow>
     (case record_load_accounts X (h_codec H) fs (rq_accounts rq) of
        Inl e \<Rightarrow> Some (w, fs, [], Inl e)
      | Inr accs \<Rightarrow>
     (case parse_program_map X (h_codec H) fs (rq_programs rq) of
        Inl e \<Rightarrow> Some (w, fs, [], Inl e)
      | Inr programs \<Rightarrow>
     (case host_new H w of
        None \<Rightarrow> None
      | Some (w1, s) \<Rightarrow>
     (case configure_vm (h_vm H) (h_exec H) (request_runtime rq s) (w1, s) of
        None \<Rightarrow> None
      | Some v2 \<Rightarrow>
     (case add_programs (h_vm H) (db (h_exec H)) (unwrap_or BpfLoaderUpgradeable (rq_loader rq))
             (map (\<lambda>k. (k, the (programs k))) (program_order X programs)) v2 of
        (v3, Inl e) \<Rightarrow> Some (fst v3, fs, [], Inl (CliHpsvm e))
      | (v3, Inr bindings) \<Rightarrow>
     (case set_accounts (db (h_exec H)) (map (\<lambda>a. (as_address a, account_from_snapshot a)) accs) v3 of
        (v4, Inl e) \<Rightarrow> Some (fst v4, fs, [], Inl (CliHpsvm e))
      | (v4, Inr _) \<Rightarrow>
     (case transact_detached (h_handlers H) tx v4 of
        None \<Rightarrow> None
      | Some (w5, _, d) \<Rightarrow>
     (case capture_transaction (h_codec H) tx
             (request_builder rq (request_runtime rq s) bindings accs (snapshot_from_outcome (h_text H) d)) of
        Inl e \<Rightarrow> Some (w5, fs, [], Inl (CliFixture e))
      | Inr fx \<Rightarrow>
          (case fixture_save (h_codec H) fx (rq_output rq) fmt fs of
             (fs', Inl e) \<Rightarrow> Some (w5, fs', [], Inl (CliFixture e))
           | (fs', Inr _) \<Rightarrow> Some (w5, fs', [''RECORDED: '' @ rq_output rq], Inr ()))))))))))))"

section \<open>Commands\<close>

text \<open>
  The parsed command line. A command may write files and returns the lines it printed; the
  process exits with 1 exactly when it failed, and is aborted by a panic.
\<close>

datatype cu_command =
  CuReport string fixture_format_arg string "string option" "string list" bool

datatype fixture_command =
    FixtureInspect string fixture_format_arg
  | FixtureRun string fixture_format_arg "string list"
  | FixtureCompare string fixture_format_arg "string list" "string list" "string option" bool
  | FixtureRecord record_request

datatype cli_command = CuArgs cu_command | FixtureArgs fixture_command

fun cli_run ::
    "('pc, 'x, 'st, 'ic, 'c, 'fs, 'f) host \<Rightarrow> 'fs cli_ext \<Rightarrow> cli_command \<Rightarrow> ('pc, 'st) world \<Rightarrow> 'fs
      \<Rightarrow> (('pc, 'st) world \<times> 'fs \<times> string list \<times> (cli_error + unit)) option" where
  "cli_run H X (CuArgs (CuReport path fmt out_dir base_dir programs must)) w fs =
     report_compute_units H X fs path fmt out_dir base_dir programs must w"
| "cli_run H X (FixtureArgs (FixtureInspect path fmt)) w fs =
     Some (w, fs, inspect_fixture (h_codec H) fs path fmt)"
| "cli_run H X (FixtureArgs (FixtureRun path fmt programs)) w fs =
     map_option (\<lambda>(w', out). (w', fs, out)) (cli_run_fixture H X fs path fmt programs w)"
| "cli_run H X (FixtureArgs (FixtureCompare path fmt base cand config ignore_cu)) w fs =
     map_option (\<lambda>(w', out). (w', fs, out)) (compare_fixture H X fs path fmt base cand config ignore_cu w)"
| "cli_run H X (FixtureArgs (FixtureRecord rq)) w fs = record_fixture H X rq w fs"

definition cli_main ::
    "('pc, 'x, 'st, 'ic, 'c, 'fs, 'f) host \<Rightarrow> 'fs cli_ext \<Rightarrow> cli_command \<Rightarrow> ('pc, 'st) world \<Rightarrow> 'fs
      \<Rightarrow> ('fs \<times> string list \<times> nat) option" where
  "cli_main H X cmd w fs =
     map_option (\<lambda>(w', fs', out, res). (fs', out, case res of Inl e \<Rightarrow> 1 | Inr _ \<Rightarrow> 0))
       (cli_run H X cmd w fs)"

section \<open>Recorded fixtures replay\<close>

lemma add_programs_bind:
  assumes "add_programs V X loader ps v = (v', Inr bs)"
    and "\<And>k elf. (k, elf) \<in> set ps \<Longrightarrow> elfs k = Some elf"
  shows "bind_programs V X bs elfs v = (v', Inr ()) \<and> map pb_program_id bs = map fst ps"
  using assms
proof (induction ps arbitrary: v bs)
  case (Cons p ps)
  obtain k elf where p: "p = (k, elf)" by (cases p)
  obtain v1 where 1: "add_program_with_loader V X k elf loader v = (v1, Inr ())"
    using Cons.prems(1) by (auto simp: p split: prod.splits sum.splits)
  then obtain bs' where 2: "add_programs V X loader ps v1 = (v', Inr bs')"
    and bs: "bs = \<lparr>pb_program_id = k, pb_loader_id = loader, pb_role = None\<rparr> # bs'"
    using Cons.prems(1) by (auto simp: p split: prod.splits sum.splits)
  from Cons.IH [OF 2] Cons.prems(2) have "bind_programs V X bs' elfs v1 = (v', Inr ())"
    "map pb_program_id bs' = map fst ps" by auto
  moreover have "elfs k = Some elf" using Cons.prems(2) by (simp add: p)
  ultimately show ?case using 1 by (simp add: bs p)
qed simp

lemma bind_programs_cong:
  "(\<And>b. b \<in> set bs \<Longrightarrow> elfs (pb_program_id b) = elfs' (pb_program_id b)) \<Longrightarrow>
     bind_programs V X bs elfs v = bind_programs V X bs elfs' v"
  by (induction bs arbitrary: v) (auto split: option.splits prod.splits sum.splits)

lemma take_elfs_found:
  assumes "\<forall>b \<in> set bs. elfs (pb_program_id b) \<noteq> None"
  shows "\<exists>r'. take_elfs bs elfs r = Inr r' \<and> base_vm r' = base_vm r \<and> jit_override r' = jit_override r \<and>
     (\<forall>k. program_elfs r' k = (if k \<in> pb_program_id ` set bs then elfs k else program_elfs r k))"
  using assms
proof (induction bs arbitrary: r)
  case (Cons b bs)
  obtain elf where e: "elfs (pb_program_id b) = Some elf" using Cons.prems by auto
  let ?r = "r\<lparr>program_elfs := (program_elfs r)(pb_program_id b \<mapsto> elf)\<rparr>"
  from Cons.IH [of ?r] Cons.prems obtain r' where "take_elfs bs elfs ?r = Inr r'"
    "base_vm r' = base_vm r" "jit_override r' = jit_override r"
    "\<forall>k. program_elfs r' k = (if k \<in> pb_program_id ` set bs then elfs k else program_elfs ?r k)" by auto
  then show ?case using e by auto
qed simp

lemma new_vm_plain:
  assumes "hpsvm_new V E L B w = Some (w', s)"
  shows "svm_clone s = s"
proof -
  have "build V E L B (open_with_program_test_defaults V builder_new) w = Some (w', Inr s)"
    using assms by (auto simp: hpsvm_new_def split: option.splits sum.splits prod.splits)
  from built_vm [OF this] have "vm_inspector s = None"
    by (simp add: open_with_program_test_defaults_def seal_def modify_plan_def
        builder_new_def plan_new_def apply_program_test_defaults_def)
  then show ?thesis by (simp add: svm_clone_def clone_with_state_def accounts_clone_def)
qed

lemma fold_tags:
  "fold capture_tag ts b = b\<lparr>cb_header := map_option (\<lambda>h. h\<lparr>tags := tags h @ ts\<rparr>) (cb_header b)\<rparr>"
  by (induction ts arbitrary: b) (simp_all add: capture_tag_def option.map_comp comp_def option.map_ident)

lemma request_builder_fields:
  "cb_runtime (request_builder rq rt bs accs base) = Some rt"
  "cb_programs (request_builder rq rt bs accs base) = bs"
  "cb_pre_accounts (request_builder rq rt bs accs base) = accs"
  "capture_baseline base (request_builder rq rt bs accs base) = request_builder rq rt bs accs base"
  "map_option fixture_name (cb_header (request_builder rq rt bs accs base)) = Some (record_name rq)"
  "map_option schema_version (cb_header (request_builder rq rt bs accs base)) = Some current_schema_version"
  by (simp_all add: request_builder_def Let_def fold_tags capture_source_def capture_compares_def
      capture_baseline_def capture_pre_accounts_def capture_programs_def capture_runtime_def
      capture_new_def capture_default_def split: option.split)

lemma format_for_output:
  "fixture_format_for_output path = Inr fmt \<Longrightarrow> fixture_format_for_path path = Inr fmt"
  by (auto simp: fixture_format_for_output_def fixture_format_for_path_def split: if_splits)

text \<open>What a successful recording did.\<close>

lemma record_fixture_steps:
  assumes "record_fixture H X rq w fs = Some (w5, fs', out, Inr ())"
    and "parse_program_map X (h_codec H) fs (rq_programs rq) = Inr programs"
  obtains fmt tx accs w1 s v2 v3 bindings v4 evs d fx where
    "fixture_format_for_path (rq_output rq) = Inr fmt" and
    "host_new H w = Some (w1, s)" and
    "configure_vm (h_vm H) (h_exec H) (request_runtime rq s) (w1, s) = Some v2" and
    "add_programs (h_vm H) (db (h_exec H)) (unwrap_or BpfLoaderUpgradeable (rq_loader rq))
       (map (\<lambda>k. (k, the (programs k))) (program_order X programs)) v2 = (v3, Inr bindings)" and
    "set_accounts (db (h_exec H)) (map (\<lambda>a. (as_address a, account_from_snapshot a)) accs) v3 = (v4, Inr ())" and
    "transact_detached (h_handlers H) tx v4 = Some (w5, evs, d)" and
    "capture_transaction (h_codec H) tx (request_builder rq (request_runtime rq s) bindings accs
       (snapshot_from_outcome (h_text H) d)) = Inr fx" and
    "fixture_save (h_codec H) fx (rq_output rq) fmt fs = (fs', Inr ())"
proof -
  obtain fmt where 1: "fixture_format_for_output (rq_output rq) = Inr fmt"
    using assms by (cases "fixture_format_for_output (rq_output rq)") (auto simp: record_fixture_def)
  obtain tx where 2: "record_load_transaction X (h_codec H) fs rq = Inr tx"
    using assms 1 by (cases "record_load_transaction X (h_codec H) fs rq") (auto simp: record_fixture_def)
  obtain accs where 3: "record_load_accounts X (h_codec H) fs (rq_accounts rq) = Inr accs"
    using assms 1 2 by (cases "record_load_accounts X (h_codec H) fs (rq_accounts rq)") (auto simp: record_fixture_def)
  note r = assms(1) [unfolded record_fixture_def 1 2 3 assms(2) sum.case]
  obtain w1 s where 4: "host_new H w = Some (w1, s)" using r by (auto split: option.splits)
  obtain v2 where 5: "configure_vm (h_vm H) (h_exec H) (request_runtime rq s) (w1, s) = Some v2"
    using r 4 by (auto split: option.splits)
  note r2 = r [unfolded 4 5 option.case prod.case]
  obtain v3 bindings where 6: "add_programs (h_vm H) (db (h_exec H))
      (unwrap_or BpfLoaderUpgradeable (rq_loader rq))
      (map (\<lambda>k. (k, the (programs k))) (program_order X programs)) v2 = (v3, Inr bindings)"
    using r2 by (auto split: prod.splits sum.splits)
  note r3 = r2 [unfolded 6 prod.case sum.case]
  obtain v4 where 7: "set_accounts (db (h_exec H))
      (map (\<lambda>a. (as_address a, account_from_snapshot a)) accs) v3 = (v4, Inr ())"
    using r3 by (auto split: prod.splits sum.splits)
  note r4 = r3 [unfolded 7 prod.case sum.case]
  obtain w evs d where 8: "transact_detached (h_handlers H) tx v4 = Some (w, evs, d)"
    using r4 by (auto split: option.splits)
  note r5 = r4 [unfolded 8 option.case prod.case]
  then obtain fx where 9: "capture_transaction (h_codec H) tx (request_builder rq (request_runtime rq s)
      bindings accs (snapshot_from_outcome (h_text H) d)) = Inr fx" by (auto split: sum.splits)
  with r5 have "w = w5" "fixture_save (h_codec H) fx (rq_output rq) fmt fs = (fs', Inr ())"
    by (auto split: prod.splits sum.splits)
  with that 4 5 6 7 8 9 format_for_output [OF 1] show thesis by blast
qed

text \<open>The programs a recording added are the ones its replay binds.\<close>

lemma recorded_bindings:
  assumes add: "add_programs V X loader (map (\<lambda>k. (k, the (programs k))) ks) v = (v', Inr bs)"
    and "set ks = dom programs" and "fixture_programs fx = bs"
  shows "\<exists>r. preload_runner (runner_new s) fx programs = Inr r \<and> base_vm r = s \<and> jit_override r = None \<and>
     bind_programs V X bs (program_elfs r) v = (v', Inr ())"
proof -
  have ordered: "programs k = Some elf" if "(k, elf) \<in> set (map (\<lambda>k. (k, the (programs k))) ks)" for k elf
  proof -
    have "k \<in> set ks" "elf = the (programs k)" using that by auto
    then show ?thesis unfolding assms(2) by auto
  qed
  have bound: "bind_programs V X bs programs v = (v', Inr ())" "map pb_program_id bs = ks"
    using add_programs_bind [OF add ordered] by (simp_all add: comp_def)
  have found: "\<forall>b \<in> set bs. programs (pb_program_id b) \<noteq> None"
  proof
    fix b assume "b \<in> set bs"
    then have "pb_program_id b \<in> set (map pb_program_id bs)" by simp
    then show "programs (pb_program_id b) \<noteq> None" unfolding bound(2) assms(2) by auto
  qed
  obtain r where r: "preload_runner (runner_new s) fx programs = Inr r" "base_vm r = s" "jit_override r = None"
    and elfs: "\<forall>k. program_elfs r k = (if k \<in> pb_program_id ` set bs then programs k else None)"
    using take_elfs_found [OF found, of "runner_new s"]
    unfolding preload_runner_def with_fixture_programs_def assms(3) by (auto simp: runner_new_def)
  have "bind_programs V X bs (program_elfs r) v = (v', Inr ())"
    using bind_programs_cong [of bs "program_elfs r" programs V X v] elfs bound(1) by simp
  with r show ?thesis by blast
qed

lemma recorded_fixture_shape:
  assumes "capture_transaction C tx (request_builder rq rt bs accs base) = Inr fx"
  shows "fixture_programs fx = bs" "fx_name fx = record_name rq" "has_supported_schema_version fx"
proof -
  let ?b = "request_builder rq rt bs accs base"
  obtain bytes h rt' where h: "cb_header ?b = Some h" "fx_header fx = h"
    and i: "fx_input fx = TransactionInput \<lparr>tf_runtime = rt', tf_programs = cb_programs ?b,
      tf_pre_accounts = cb_pre_accounts ?b, transaction_bytes = bytes\<rparr>"
    by (rule capture_transaction_Inr [OF assms])
  show "fixture_programs fx = bs" "fx_name fx = record_name rq" "has_supported_schema_version fx"
    using h request_builder_fields(5,6) [where rq = rq and rt = rt and bs = bs and accs = accs and base = base]
    by (simp_all add: fixture_programs_def i request_builder_fields has_supported_schema_version_def
        supported_schema_versions_def)
qed

text \<open>
  C11. What \<open>fixture record\<close> writes, \<open>fixture run\<close> passes: after a successful recording, running
  the written file with the same \<open>--program\<close> arguments, from the same initial world and airdrop
  key, prints \<open>PASS\<close> with the recorded name and exits successfully. The codecs decode what they
  encode, the file system returns what was written, the program files are still the same, a
  hash map is iterated over its keys, and outcomes list no account twice.
\<close>

theorem recorded_fixture_passes:
  assumes "codec_law (h_codec H)" and "file_law (h_codec H)"
    and "record_fixture H X rq w fs = Some (w5, fs', out, Inr ())"
    and "parse_program_map X (h_codec H) fs (rq_programs rq) = Inr programs"
    and "parse_program_map X (h_codec H) fs' (rq_programs rq) = Inr programs"
    and "set (program_order X programs) = dom programs"
    and "\<not> is_dir X fs' (rq_output rq)"
    and "\<And>tx v w evs d. transact_detached (h_handlers H) tx v = Some (w, evs, d) \<Longrightarrow>
           distinct (map fst (det_post_accounts d))"
  shows "cli_run_fixture H X fs' (rq_output rq) FormatHpsvm (rq_programs rq) w =
     Some (w5, [''PASS: '' @ record_name rq], Inr ())"
proof -
  obtain fmt tx accs w1 s v2 v3 bs v4 evs d fx where
    fmt: "fixture_format_for_path (rq_output rq) = Inr fmt" and
    new: "host_new H w = Some (w1, s)" and
    conf: "configure_vm (h_vm H) (h_exec H) (request_runtime rq s) (w1, s) = Some v2" and
    add: "add_programs (h_vm H) (db (h_exec H)) (unwrap_or BpfLoaderUpgradeable (rq_loader rq))
       (map (\<lambda>k. (k, the (programs k))) (program_order X programs)) v2 = (v3, Inr bs)" and
    accs: "set_accounts (db (h_exec H)) (map (\<lambda>a. (as_address a, account_from_snapshot a)) accs) v3 = (v4, Inr ())" and
    tx: "transact_detached (h_handlers H) tx v4 = Some (w5, evs, d)" and
    cap: "capture_transaction (h_codec H) tx (request_builder rq (request_runtime rq s) bs accs
       (snapshot_from_outcome (h_text H) d)) = Inr fx" and
    save: "fixture_save (h_codec H) fx (rq_output rq) fmt fs = (fs', Inr ())"
    by (rule record_fixture_steps [OF assms(3,4)])
  let ?b = "request_builder rq (request_runtime rq s) bs accs (snapshot_from_outcome (h_text H) d)"
  note fx = recorded_fixture_shape [OF cap]
  obtain r where r: "preload_runner (runner_new s) fx programs = Inr r" "base_vm r = s" "jit_override r = None"
    and bound': "bind_programs (h_vm H) (db (h_exec H)) bs (program_elfs r) v2 = (v3, Inr ())"
    using recorded_bindings [OF add assms(6) fx(1)] by blast
  have vm: "working_vm r = s" using r new_vm_plain [OF new] by (simp add: working_vm_def)
  have blockhash: "\<not> rt_blockhash_check (request_runtime rq s)"
    by (simp add: request_runtime_def runtime_new_def with_compute_unit_limit_def Let_def split: option.split)
  have replay: "run_and_validate (h_text H) (h_codec H) (h_msg H) (h_unique H) (h_vm H) (h_exec H)
      (h_handlers H) r fx bench_config w1 = Some (w5, evs, Inr True)"
  proof (rule captured_fixture_replays [OF assms(1) request_builder_fields(1) blockhash])
    show "configure_vm (h_vm H) (h_exec H) (request_runtime rq s) (w1, working_vm r) = Some v2"
      unfolding vm by (rule conf)
    show "bind_programs (h_vm H) (db (h_exec H)) (cb_programs ?b) (program_elfs r) v2 = (v3, Inr ())"
      unfolding request_builder_fields by (rule bound')
    show "set_accounts (db (h_exec H))
        (map (\<lambda>a. (as_address a, account_from_snapshot a)) (cb_pre_accounts ?b)) v3 = (v4, Inr ())"
      unfolding request_builder_fields by (rule accs)
    show "capture_transaction (h_codec H) tx (capture_baseline (snapshot_from_outcome (h_text H) d) ?b) = Inr fx"
      unfolding request_builder_fields by (rule cap)
  qed (rule tx, rule assms(8) [OF tx])
  have load: "cli_load_fixture (h_codec H) fs' (rq_output rq) FormatHpsvm = Inr fx"
    using load_saved [OF assms(1,2) fmt save] fx(3) by (simp add: cli_load_fixture_def map_err_def)
  show ?thesis
    using assms(5,7) load new r(1) replay fx(2)
    by (simp add: cli_run_fixture_def fixture_paths_def)
qed

end
