(* ===== verification/Bench_Props.thy ===== *)
theory Bench_Props
  imports Fixture_Bench
begin

text \<open>
  Properties of the benchmark tools: saturating deltas, baselines that can be read back, exact
  validation of program variants, reports that cover their cases, and escaped table cells.
\<close>

section \<open>Deltas\<close>

text \<open>
  A delta is the exact difference of the two measurements, clamped to a signed 64-bit
  integer, for all 64-bit inputs: nothing wraps and nothing panics.
\<close>

theorem delta_saturates:
  "delta_absolute (delta_between B base current) =
     max (- (2 ^ 63)) (min (2 ^ 63 - 1) (uint current - uint base))"
proof (cases "base \<le> current")
  case True
  then have "0 \<le> uint current - uint base" by (simp add: word_le_def)
  then show ?thesis using True by (simp add: delta_between_def i64_try_from_def unwrap_or_def Let_def)
next
  case False
  then have "uint current - uint base < 0" by (simp add: word_le_def)
  then show ?thesis using False by (simp add: delta_between_def i64_try_from_def unwrap_or_def Let_def)
qed

section \<open>Baselines\<close>

definition report_codec :: "('f, 'fs) bench_ext \<Rightarrow> bool" where
  "report_codec B \<longleftrightarrow> (\<forall>r bs. report_encode B r = Inr bs \<longrightarrow> report_decode B bs = Inr r)"

text \<open>Writing the one file does not change the other.\<close>

definition separate_files :: "'fs fixture_ext \<Rightarrow> string \<Rightarrow> string \<Rightarrow> bool" where
  "separate_files C p q \<longleftrightarrow>
     (\<forall>fs doc fs'. write_text C fs p doc = (fs', Inr ()) \<longrightarrow> read_file C fs' q = read_file C fs q)"

abbreviation row_units :: "'f cu_report_row list \<Rightarrow> (string \<times> u64) list" where
  "row_units \<equiv> map (\<lambda>row. (row_name row, row_compute_units row))"

lemma baseline_rows_fresh:
  assumes "btree_wf t" and "distinct (map row_name rows)"
    and "\<forall>row \<in> set rows. map_of t (row_name row) = None"
  shows "\<exists>t'. baseline_rows path rows t = Inr t' \<and> btree_wf t' \<and> map_of t' = map_of t ++ map_of (row_units rows)"
  using assms
proof (induction rows arbitrary: t)
  case (Cons row rows)
  obtain t1 old where i: "btree_insert (row_name row) (row_compute_units row) t = (t1, old)"
    by (cases "btree_insert (row_name row) (row_compute_units row) t")
  have t1: "btree_wf t1" "old = None" "map_of t1 = (map_of t)(row_name row \<mapsto> row_compute_units row)"
    using btree_insert_wf [OF Cons.prems(1), of "row_name row" "row_compute_units row"]
      btree_insert_old [OF Cons.prems(1), of "row_name row" "row_compute_units row"]
      btree_insert_get [of "row_name row" "row_compute_units row" t] Cons.prems(3) i by simp_all
  have new: "row_name row \<notin> set (map row_name rows)" using Cons.prems(2) by simp
  then have "row_name r \<noteq> row_name row" if "r \<in> set rows" for r
    using that by (metis image_eqI set_map)
  then have "\<forall>r \<in> set rows. map_of t1 (row_name r) = None" using Cons.prems(3) t1(3) by simp
  then obtain t' where "baseline_rows path rows t1 = Inr t'" "btree_wf t'"
    "map_of t' = map_of t1 ++ map_of (row_units rows)"
    using Cons.IH [OF t1(1)] Cons.prems(2) by auto
  moreover have "map_of (row_units rows) (row_name row) = None"
    using new by (auto simp: map_of_eq_None_iff image_image)
  then have "(map_of t)(row_name row \<mapsto> row_compute_units row) ++ map_of (row_units rows) =
      map_of t ++ (map_of (row_units rows))(row_name row \<mapsto> row_compute_units row)"
    by (auto simp: fun_eq_iff map_add_def split: option.splits)
  ultimately show ?case using i t1 by (simp del: fun_upd_apply)
qed simp

lemma baseline_rows_clash:
  assumes "btree_wf t"
    and "\<not> (distinct (map row_name rows) \<and> (\<forall>row \<in> set rows. map_of t (row_name row) = None))"
  shows "\<exists>reason. baseline_rows path rows t = Inl (InvalidBaseline path reason)"
  using assms
proof (induction rows arbitrary: t)
  case (Cons row rows)
  obtain t1 old where i: "btree_insert (row_name row) (row_compute_units row) t = (t1, old)"
    by (cases "btree_insert (row_name row) (row_compute_units row) t")
  have t1: "btree_wf t1" "old = map_of t (row_name row)"
    "map_of t1 = (map_of t)(row_name row \<mapsto> row_compute_units row)"
    using btree_insert_wf [OF Cons.prems(1), of "row_name row" "row_compute_units row"]
      btree_insert_old [OF Cons.prems(1), of "row_name row" "row_compute_units row"]
      btree_insert_get [of "row_name row" "row_compute_units row" t] i by simp_all
  show ?case
  proof (cases old)
    case None
    have "\<not> (distinct (map row_name rows) \<and> (\<forall>r \<in> set rows. map_of t1 (row_name r) = None))"
      using Cons.prems(2) t1 None by auto
    with Cons.IH [OF t1(1)] i None show ?thesis by simp
  qed (simp add: i)
qed simp


section \<open>Reports cover their cases\<close>

lemma map_sum_Inr: "map_sum id f x = Inr y \<longleftrightarrow> (\<exists>z. x = Inr z \<and> y = f z)"
  by (cases x) auto

lemma bench_cases_rows:
  assumes "bench_cases H must elfs bmap cases r w = Some (w', evs, Inr rows)"
  shows "map row_name rows = map fst cases \<and> (must \<longrightarrow> (\<forall>row \<in> set rows. row_pass row)) \<and>
     (\<forall>row \<in> set rows. row_delta row = map_option (\<lambda>b. delta_between (h_bench H) b (row_compute_units row))
        (map_of bmap (row_name row)))"
  using assms
proof (induction cases arbitrary: r w w' evs rows)
  case (Cons c cases)
  obtain name fx where c: "c = (name, fx)" by (cases c)
  obtain r' w1 evs1 x pass where 1: "with_fixture_programs fx elfs r = Inr r'"
    "host_run H r' fx w = Some (w1, evs1, Inr x)"
    "compare_with (h_text H) (fe_snapshot x) (baseline (fx_expectations fx))
       (compares (fx_expectations fx)) bench_config = Some pass" "must \<longrightarrow> pass"
    using Cons.prems by (auto simp: c split: sum.splits option.splits if_splits)
  let ?u = "snap_compute_units (fe_snapshot x)"
  let ?row = "\<lparr>row_name = name, row_compute_units = ?u,
      row_delta = map_option (\<lambda>b. delta_between (h_bench H) b ?u) (map_of bmap name), row_pass = pass\<rparr>"
  obtain evs2 rows' where 2: "bench_cases H must elfs bmap cases r' w1 = Some (w', evs2, Inr rows')"
    and rows: "rows = ?row # rows'"
    using Cons.prems 1 by (auto simp: c Let_def map_sum_Inr)
  from Cons.IH [OF 2] 1(4) show ?case by (simp add: c rows)
qed simp

text \<open>
  A finished bench reports every case, once and in order, even when cases share a name; with
  \<open>must_pass\<close> every row passed; and every row's delta is the one to the baseline's entry of
  its name, or none if the baseline has none.
\<close>

theorem bench_report_complete:
  assumes "bencher_execute H b w fs = Some (w', evs, fs', Inr rep)"
    and "baseline_map (h_codec H) (h_bench H) fs (baseline_dir b) = Inr bmap"
  shows "map row_name (report_rows rep) = map fst (bencher_cases b) \<and> bencher_cases b \<noteq> [] \<and>
     (must_pass b \<longrightarrow> (\<forall>row \<in> set (report_rows rep). row_pass row)) \<and>
     (\<forall>row \<in> set (report_rows rep). row_delta row =
        map_option (\<lambda>base. delta_between (h_bench H) base (row_compute_units row)) (map_of bmap (row_name row)))"
proof -
  obtain w1 evs1 rows where
    "bench_cases H (must_pass b) (bencher_elfs b) bmap (bencher_cases b) (runner_new (bencher_vm b)) w =
       Some (w1, evs1, Inr rows)"
    and "report_rows rep = rows" and "bencher_cases b \<noteq> []"
    using assms by (auto simp: bencher_execute_def report_new_def Let_def
        split: if_splits option.splits sum.splits prod.splits)
  then show ?thesis using bench_cases_rows by metis
qed

section \<open>Table cells\<close>

fun unescape_cell :: "string \<Rightarrow> string" where
  "unescape_cell [] = []"
| "unescape_cell [c] = [c]"
| "unescape_cell (c # d # cs) = (if c = backslash then d # unescape_cell cs else c # unescape_cell (d # cs))"

fun ends_cell :: "string \<Rightarrow> bool" where
  "ends_cell [] = False"
| "ends_cell [c] = (c = CHR ''|'')"
| "ends_cell (c # d # cs) = (if c = backslash then ends_cell cs else c = CHR ''|'' \<or> ends_cell (d # cs))"

lemma escape_Cons:
  "escape_markdown_cell (c # cs) =
     (if c = backslash then [backslash, backslash]
      else if c = CHR ''|'' then [backslash, CHR ''|''] else [c]) @ escape_markdown_cell cs"
  by (simp add: escape_markdown_cell_def replace_char_def)

lemma escape_Nil [simp]: "escape_markdown_cell [] = []"
  by (simp add: escape_markdown_cell_def replace_char_def)

lemma unescape_plain: "c \<noteq> backslash \<Longrightarrow> unescape_cell (c # cs) = c # unescape_cell cs"
  by (cases cs) simp_all

lemma ends_plain: "c \<noteq> backslash \<Longrightarrow> ends_cell (c # cs) \<longleftrightarrow> c = CHR ''|'' \<or> ends_cell cs"
  by (cases cs) simp_all

text \<open>
  An escaped name stays inside its table cell and can be read back: no unescaped bar is left
  in it, and removing the escapes gives the name.
\<close>

theorem escaped_cell_faithful:
  "unescape_cell (escape_markdown_cell str) = str \<and> \<not> ends_cell (escape_markdown_cell str)"
  by (induction str) (auto simp: escape_Cons unescape_plain ends_plain)

section \<open>Program variants\<close>

definition bound_loaders :: "'cmp fixture \<Rightarrow> address \<rightharpoonup> address" where
  "bound_loaders fx = map_of (rev (map (\<lambda>b. (pb_program_id b, pb_loader_id b)) (fixture_programs fx)))"

lemma fold_btree_insert:
  "map_of (fold (\<lambda>b t. fst (btree_insert (f b) (g b) t)) xs t) =
     map_of t ++ map_of (rev (map (\<lambda>b. (f b, g b)) xs)) \<and>
   (btree_wf t \<longrightarrow> btree_wf (fold (\<lambda>b t. fst (btree_insert (f b) (g b) t)) xs t))"
  by (induction xs arbitrary: t) (simp_all add: btree_insert_get btree_insert_wf)

lemma check_variant_iff:
  "check_variant c n bound ps = Inr () \<longleftrightarrow>
     (\<forall>p \<in> set ps. map_of bound (pv_program_id p) = Some (pv_loader_id p))"
  by (induction ps) (auto split: option.splits)

lemma option_image_iff:
  "(\<forall>x. m = Some x \<longrightarrow> b = Some (f x)) \<and> (\<forall>l. b = Some l \<longrightarrow> m \<noteq> None) \<longleftrightarrow> b = map_option f m"
  by (cases m; cases b) auto

lemma map_of_btree: "btree_wf t \<Longrightarrow> map_of t k = Some v \<longleftrightarrow> (k, v) \<in> set t"
  by (simp add: btree_wf_distinct map_of_eq_Some_iff)

text \<open>
  A variant is accepted for a fixture exactly when it supplies the programs the fixture binds,
  all of them and no others, each with the loader of its last binding.
\<close>

theorem variant_validation_exact:
  assumes "btree_wf (vs_programs v)" and "\<forall>(k, p) \<in> set (vs_programs v). pv_program_id p = k"
  shows "validate_variant_programs c fx v = Inr () \<longleftrightarrow>
     bound_loaders fx = (\<lambda>k. map_option pv_loader_id (map_of (vs_programs v) k))"
proof -
  let ?bound = "fold (\<lambda>b t. fst (btree_insert (pb_program_id b) (pb_loader_id b) t)) (fixture_programs fx) []"
  let ?prog = "map_of (vs_programs v)"
  have b: "map_of ?bound = bound_loaders fx" "btree_wf ?bound"
    using fold_btree_insert [of pb_program_id pb_loader_id "fixture_programs fx" "[]"]
    by (simp_all add: bound_loaders_def)
  have p: "?prog k = Some x \<longleftrightarrow> (k, x) \<in> set (vs_programs v)" for k x
    using map_of_btree [OF assms(1)] .
  have check: "check_variant c (vs_name v) ?bound (map snd (vs_programs v)) = Inr () \<longleftrightarrow>
      (\<forall>k x. ?prog k = Some x \<longrightarrow> bound_loaders fx k = Some (pv_loader_id x))"
  proof -
    have keyed: "pv_program_id x = k" if "(k, x) \<in> set (vs_programs v)" for k x
      using assms(2) that by auto
    then show ?thesis by (fastforce simp: check_variant_iff b(1) p)
  qed
  have rest: "List.find (\<lambda>(k, l). ?prog k = None) ?bound = None \<longleftrightarrow>
      (\<forall>k l. bound_loaders fx k = Some l \<longrightarrow> ?prog k \<noteq> None)"
    using map_of_btree [OF b(2)] b(1) by (auto simp: find_None_iff)
  have "validate_variant_programs c fx v = Inr () \<longleftrightarrow>
      check_variant c (vs_name v) ?bound (map snd (vs_programs v)) = Inr () \<and>
      List.find (\<lambda>(k, l). ?prog k = None) ?bound = None"
    by (auto simp: validate_variant_programs_def Let_def split: sum.split option.split)
  also have "\<dots> \<longleftrightarrow> (\<forall>k. bound_loaders fx k = map_option pv_loader_id (?prog k))"
    unfolding check rest by (simp only: option_image_iff [symmetric]) blast
  finally show ?thesis by (simp add: fun_eq_iff)
qed

definition lookup2 :: "(string, (address, program_variant) btree) btree \<Rightarrow> string \<Rightarrow> address \<rightharpoonup> program_variant" where
  "lookup2 t n k = Option.bind (map_of t n) (\<lambda>ps. map_of ps k)"

definition groups_wf :: "(string, (address, program_variant) btree) btree \<Rightarrow> bool" where
  "groups_wf t \<longleftrightarrow> btree_wf t \<and> (\<forall>n ps. map_of t n = Some ps \<longrightarrow> btree_wf ps \<and> ps \<noteq> [])"

abbreviation variant_key :: "program_variant \<Rightarrow> string \<times> address" where
  "variant_key v \<equiv> (pv_name v, pv_program_id v)"

lemma group_step:
  assumes "groups_wf t"
    and "btree_insert (pv_program_id v) v (unwrap_or [] (map_of t (pv_name v))) = (entry, old)"
    and "t' = fst (btree_insert (pv_name v) entry t)"
  shows "groups_wf t'" and "old = lookup2 t (pv_name v) (pv_program_id v)"
    and "lookup2 t' n k = (if (n, k) = variant_key v then Some v else lookup2 t n k)"
    and "dom (map_of t') = insert (pv_name v) (dom (map_of t))"
proof -
  let ?ps = "unwrap_or [] (map_of t (pv_name v))"
  have ps: "btree_wf ?ps" using assms(1) by (auto simp: groups_wf_def unwrap_or_def split: option.split)
  have e: "btree_wf entry" "old = map_of ?ps (pv_program_id v)"
    "map_of entry = (map_of ?ps)(pv_program_id v \<mapsto> v)"
    using btree_insert_wf [OF ps, of "pv_program_id v" v] btree_insert_old [OF ps, of "pv_program_id v" v]
      btree_insert_get [of "pv_program_id v" v ?ps] assms(2) by simp_all
  have t': "map_of t' = (map_of t)(pv_name v \<mapsto> entry)" "btree_wf t'"
    using assms(1,3) by (simp_all add: btree_insert_get btree_insert_wf groups_wf_def)
  have "entry \<noteq> []"
  proof
    assume "entry = []"
    then have "map_of entry (pv_program_id v) = None" by simp
    then show False by (simp add: e(3))
  qed
  then show "groups_wf t'" using assms(1) e(1) t' by (simp add: groups_wf_def)
  show "old = lookup2 t (pv_name v) (pv_program_id v)"
    by (simp add: e(2) lookup2_def unwrap_or_def split: option.split)
  show "lookup2 t' n k = (if (n, k) = variant_key v then Some v else lookup2 t n k)"
    by (auto simp: lookup2_def t'(1) e(3) unwrap_or_def split: option.splits)
  show "dom (map_of t') = insert (pv_name v) (dom (map_of t))" by (simp add: t'(1))
qed

lemma group_variants_outcome:
  assumes "groups_wf t"
  shows "case group_variants vs t of
      Inr t' \<Rightarrow> groups_wf t' \<and> distinct (map variant_key vs) \<and>
        (\<forall>v \<in> set vs. lookup2 t (pv_name v) (pv_program_id v) = None) \<and>
        (\<forall>n k p. lookup2 t' n k = Some p \<longleftrightarrow>
           lookup2 t n k = Some p \<or> p \<in> set vs \<and> variant_key p = (n, k)) \<and>
        dom (map_of t') = dom (map_of t) \<union> pv_name ` set vs
    | Inl e \<Rightarrow> \<not> (distinct (map variant_key vs) \<and>
        (\<forall>v \<in> set vs. lookup2 t (pv_name v) (pv_program_id v) = None)) \<and>
        (\<exists>n. e = DuplicateProgramName n)"
  using assms
proof (induction vs arbitrary: t)
  case (Cons v vs)
  obtain entry old where i: "btree_insert (pv_program_id v) v (unwrap_or [] (map_of t (pv_name v))) = (entry, old)"
    by (cases "btree_insert (pv_program_id v) v (unwrap_or [] (map_of t (pv_name v)))")
  let ?t = "fst (btree_insert (pv_name v) entry t)"
  note g = group_step [OF Cons.prems i refl]
  show ?case
  proof (cases old)
    case (Some x)
    then show ?thesis using g(2) i by auto
  next
    case None
    have r: "group_variants (v # vs) t = group_variants vs ?t" using i None by simp
    have v: "lookup2 t (pv_name v) (pv_program_id v) = None" using g(2) None by simp
    have fresh: "(\<forall>u \<in> set vs. lookup2 ?t (pv_name u) (pv_program_id u) = None) \<longleftrightarrow>
        variant_key v \<notin> variant_key ` set vs \<and> (\<forall>u \<in> set vs. lookup2 t (pv_name u) (pv_program_id u) = None)"
      by (auto simp: g(3) image_iff)
    note IH = Cons.IH [OF g(1), unfolded fresh]
    show ?thesis
    proof (cases "group_variants vs ?t")
      case (Inl e)
      then show ?thesis using IH v unfolding r by auto
    next
      case (Inr t')
      have dom: "dom (map_of t') = dom (map_of t) \<union> pv_name ` set (v # vs)"
        using IH Inr g(4) by simp
      have keys: "distinct (map variant_key (v # vs)) \<and>
          (\<forall>u \<in> set (v # vs). lookup2 t (pv_name u) (pv_program_id u) = None)"
        using IH Inr v by simp
      have "lookup2 t' n k = Some p \<longleftrightarrow>
          lookup2 t n k = Some p \<or> p \<in> set (v # vs) \<and> variant_key p = (n, k)" for n k p
        using IH Inr g(3) [of n k] v by (cases "(n, k) = variant_key v") auto
      then show ?thesis using IH keys dom unfolding r Inr by simp
    qed
  qed
qed simp

text \<open>
  Grouping succeeds exactly when no program is given twice under one name. The variants then
  come in ascending order of distinct names, one for every name used, and each holds exactly the
  programs given under its name.
\<close>

theorem group_variant_sets_exact:
  "case group_variant_sets vs of
     Inr sets \<Rightarrow> distinct (map variant_key vs) \<and> sorted_wrt (<) (map vs_name sets) \<and>
       set (map vs_name sets) = pv_name ` set vs \<and>
       (\<forall>s \<in> set sets. btree_wf (vs_programs s) \<and>
          (\<forall>k p. map_of (vs_programs s) k = Some p \<longleftrightarrow>
             p \<in> set vs \<and> pv_name p = vs_name s \<and> pv_program_id p = k))
   | Inl e \<Rightarrow> \<not> distinct (map variant_key vs) \<and> (\<exists>n. e = DuplicateProgramName n)"
proof -
  have "groups_wf []" by (simp add: groups_wf_def)
  note o = group_variants_outcome [OF this, of vs]
  show ?thesis
  proof (cases "group_variants vs []")
    case (Inl e)
    then show ?thesis using o by (simp add: group_variant_sets_def lookup2_def)
  next
    case (Inr t)
    then have t: "groups_wf t" "distinct (map variant_key vs)"
      "\<And>n k p. lookup2 t n k = Some p \<longleftrightarrow> p \<in> set vs \<and> variant_key p = (n, k)"
      "dom (map_of t) = pv_name ` set vs"
      using o by (simp_all add: lookup2_def)
    have m: "map_of t n = Some ps \<longleftrightarrow> (n, ps) \<in> set t" for n ps
      using t(1) by (simp add: groups_wf_def map_of_btree)
    have "btree_wf ps" "map_of ps k = Some p \<longleftrightarrow> p \<in> set vs \<and> pv_name p = n \<and> pv_program_id p = k"
      if "(n, ps) \<in> set t" for n ps k p
      using t(1) t(3) [of n k p] that m [of n ps] by (auto simp: groups_wf_def lookup2_def)
    then show ?thesis
      using t(1,2,4)
      by (auto simp: group_variant_sets_def Inr case_prod_beta comp_def groups_wf_def btree_wf_def dom_map_of_conv_image_fst)
  qed
qed

end
