(* ===== verification/Example_Fixture.thy ===== *)
theory Example_Fixture
  imports Vm_Builder Fixture_Runner Example_Deploy
begin

text \<open>Builders and fixtures evaluated: the hypotheses of their properties can hold.\<close>

section \<open>Builders\<close>

definition ex_build :: build_ext where
  "ex_build =
     \<lparr>default_features = {}, genesis_blockhash = 9, default_lamports_per_signature = 5000,
      fresh_airdrop_key = Pubkey 90\<rparr>"

definition ex_builder :: "feature_config_sealed hpsvm_builder" where
  "ex_builder = open_with_feature_accounts (with_feature_set {Pubkey 8} builder_new)"

lemma ex_fresh:
  "\<exists>v1. set_feature_set ex_config ex_exec fs (new_inner ex_config ex_ext list_lru_ops ex_build w) =
     Some (v1, Inr ())"
proof -
  let ?v = "new_inner ex_config ex_ext list_lru_ops ex_build w"
  let ?s = "(snd ?v)\<lparr>vm_version := (vm_version (snd ?v))\<lparr>feature_set := fs\<rparr>,
      reserved_keys := reserved_for ex_config fs\<rparr>"
  have m: "materialized ?s = default_materialized" "custom_syscalls ?s = []" "\<not> standard_precompiles ?s"
    "inner (cache (vm_accounts (svm_sync_jit_policy ?s))) = Map.empty"
    by (simp_all add: new_inner_def Let_def svm_sync_jit_policy_def accounts_default_def)
  then obtain w' where
    "rebuild_program_cache ex_ext (vm_accounts (svm_sync_jit_policy ?s)) (fst ?v) = (w', Inr ())"
    using ex_rebuild_empty by blast
  then show ?thesis
    using m by (cases ?v) (simp add: set_feature_set_def reconfigure_materialized_feature_state_def
        default_materialized_def rebuild_programs_def Let_def ex_exec_def map_err_def)
qed

lemma ex_builder_builds:
  "\<exists>w' s. build ex_config ex_exec list_lru_ops ex_build (with_lamports 5 ex_builder) w = Some (w', Inr s)"
proof -
  obtain v1 where "set_feature_set ex_config ex_exec {Pubkey 8}
      (new_inner ex_config ex_ext list_lru_ops ex_build w) = Some (v1, Inr ())"
    using ex_fresh by blast
  moreover have "db ex_exec = ex_ext" by (simp add: ex_exec_def)
  ultimately show ?thesis
    by (cases v1) (simp add: build_def ex_builder_def open_with_feature_accounts_def
        with_feature_set_def builder_new_def modify_plan_def seal_def plan_new_def
        needs_sysvars_def with_lamports_def build_refresh_def build_materialize_def Let_def)
qed


theorem sealed_features_final_witness:
  "\<exists>w' s. sealed_step\<^sup>*\<^sup>* ex_builder (with_lamports 5 ex_builder) \<and>
     build ex_config ex_exec list_lru_ops ex_build (with_lamports 5 ex_builder) ex_world0 =
       Some (w', Inr s) \<and>
     feature_set (vm_version s) = {Pubkey 8} \<and> default_features ex_build = {}"
proof -
  obtain w' s where b: "build ex_config ex_exec list_lru_ops ex_build (with_lamports 5 ex_builder)
      ex_world0 = Some (w', Inr s)" using ex_builder_builds by blast
  have st: "sealed_step\<^sup>*\<^sup>* ex_builder (with_lamports 5 ex_builder)"
    by (intro r_into_rtranclp sealed_step.intros)
  from sealed_features_final [OF st b] have "feature_set (vm_version s) = {Pubkey 8}"
    by (simp add: ex_builder_def open_with_feature_accounts_def with_feature_set_def builder_new_def
        modify_plan_def seal_def plan_new_def unwrap_or_def)
  with b st show ?thesis by (auto simp: ex_build_def)
qed

end
