(* ===== verification/Example_Cli.thy ===== *)
theory Example_Cli
  imports Cli Bench_Props Example_Fixture
begin

text \<open>
  A fresh VM over the example crates, built with the program-test defaults, and a recording and
  a benchmark on it: the properties of the fixture tools are evaluated here.
\<close>

section \<open>A fresh VM\<close>

definition ex_host_ext :: "(ex_cache, bytes, ex_store) db_ext" where
  "ex_host_ext = ex_clock_ext\<lparr>entry_owner_try_from := (\<lambda>k. Some OwnerLoaderV2)\<rparr>"

definition ex_host_exec :: "(ex_cache, bytes, ex_store, ex_ic) exec_ext" where
  "ex_host_exec = ex_exec\<lparr>db := ex_host_ext\<rparr>"

lemma ex_host_db [simp]: "db ex_host_exec = ex_host_ext"
  by (simp add: ex_host_exec_def)

definition no_programs :: "accounts \<Rightarrow> bool" where
  "no_programs a \<longleftrightarrow> (\<forall>k acc. inner (cache a) k = Some acc \<longrightarrow> \<not> executable acc)"

lemma ex_add_sysvar:
  assumes "bs \<noteq> []" and "\<not> is_some_and executable (inner (cache a) k)"
  shows "\<exists>w' a'. add_account ex_host_ext k (sysvar_account bs) (w, a) = ((w', a'), Inr ()) \<and>
     inner (cache a') = (inner (cache a))(k \<mapsto> sysvar_account bs)"
proof -
  let ?acc = "sysvar_account bs"
  have p: "prepare_account ex_host_ext k ?acc a w = (w, Inr None)"
    using assms(1)
    by (auto simp: prepare_account_def Let_def validate_sysvar_account_def sysvar_account_def
        default_account_def is_cached_program_account_def ex_host_ext_def ex_clock_ext_def ex_ext_def
        split: option.split)
  have h: "\<not> is_some_and (is_cached_program_account k) (inner (cache a) k)"
    using assms(2) by (auto simp: is_some_and_def is_cached_program_account_def split: option.splits)
  have "inner (cache (overlay_put k ?acc a)) = (inner (cache a))(k \<mapsto> ?acc)"
    by (simp add: overlay_put_def db_simps sysvar_account_def default_account_def)
  then show ?thesis
    by (simp add: add_account_unfold p h refresh_program_cache_def Let_def rebuild_sysvar_cache_def)
qed

lemma ex_set_sysvar:
  assumes "bs \<noteq> []" and "\<not> is_some_and executable (inner (cache (vm_accounts s)) k)"
  shows "\<exists>w' s'. set_sysvar_internal ex_host_ext (ex_sysvar k bs) (w, s) = Some (w', s') \<and>
     inner (cache (vm_accounts s')) = (inner (cache (vm_accounts s)))(k \<mapsto> sysvar_account bs)"
  using ex_add_sysvar [OF assms, of w]
  by (auto simp: set_sysvar_internal_def try_set_sysvar_def ex_sysvar_def sync_block_env_slot_def)

lemma no_programs_sysvar:
  "no_programs a \<Longrightarrow> \<not> is_some_and executable (inner (cache a) k)"
  by (auto simp: no_programs_def is_some_and_def split: option.split)

lemma ex_set_sysvars:
  assumes "no_programs (vm_accounts s)" and "\<And>sv. sv \<in> set svs \<Longrightarrow> \<exists>k bs. bs \<noteq> [] \<and> sv = (\<lambda>_. ex_sysvar k bs)"
  shows "\<exists>w' s'. set_sysvars_internal ex_host_ext svs (w, s) = Some (w', s') \<and>
     no_programs (vm_accounts s') \<and>
     (\<forall>k. (\<forall>sv \<in> set svs. sv_id (sv s) \<noteq> k) \<longrightarrow>
        inner (cache (vm_accounts s')) k = inner (cache (vm_accounts s)) k)"
  using assms
proof (induction svs arbitrary: w s)
  case (Cons sv svs)
  obtain k bs where sv: "bs \<noteq> []" "sv = (\<lambda>_. ex_sysvar k bs)" using Cons.prems(2) [of sv] by auto
  obtain w1 s1 where 1: "set_sysvar_internal ex_host_ext (ex_sysvar k bs) (w, s) = Some (w1, s1)"
    "inner (cache (vm_accounts s1)) = (inner (cache (vm_accounts s)))(k \<mapsto> sysvar_account bs)"
    using ex_set_sysvar [OF sv(1) no_programs_sysvar [OF Cons.prems(1)]] by blast
  have np: "no_programs (vm_accounts s1)"
    using Cons.prems(1) 1(2) by (auto simp: no_programs_def sysvar_account_def default_account_def)
  obtain w2 s2 where 2: "set_sysvars_internal ex_host_ext svs (w1, s1) = Some (w2, s2)"
    "no_programs (vm_accounts s2)"
    "\<forall>k. (\<forall>sv \<in> set svs. sv_id (sv s1) \<noteq> k) \<longrightarrow>
        inner (cache (vm_accounts s2)) k = inner (cache (vm_accounts s1)) k"
    using Cons.IH [OF np] Cons.prems(2) by (metis list.set_intros(2))
  have "sv' s1 = sv' s" if "sv' \<in> set svs" for sv'
    using Cons.prems(2) [of sv'] that by auto
  then have "(\<forall>sv \<in> set svs. sv_id (sv s1) \<noteq> x) \<longleftrightarrow> (\<forall>sv \<in> set svs. sv_id (sv s) \<noteq> x)" for x
    by metis
  with 2(3) have "\<forall>x. (\<forall>sv \<in> set svs. sv_id (sv s) \<noteq> x) \<longrightarrow>
      inner (cache (vm_accounts s2)) x = inner (cache (vm_accounts s1)) x" by simp
  with 1 2(1,2) show ?case by (auto simp: sv(2) ex_sysvar_def)
qed simp

lemma sync_custom_syscalls [simp]: "custom_syscalls (svm_sync_jit_policy s) = custom_syscalls s"
  by (simp add: svm_sync_jit_policy_def Let_def)

lemma ex_fresh_host:
  "\<exists>w' s'. set_feature_set ex_config ex_host_exec fs (new_inner ex_config ex_host_ext list_lru_ops ex_build w) =
     Some ((w', s'), Inr ()) \<and> inner (cache (vm_accounts s')) = Map.empty \<and> custom_syscalls s' = []"
proof -
  let ?v = "new_inner ex_config ex_host_ext list_lru_ops ex_build w"
  let ?s = "(snd ?v)\<lparr>vm_version := (vm_version (snd ?v))\<lparr>feature_set := fs\<rparr>,
      reserved_keys := reserved_for ex_config fs\<rparr>"
  have m: "materialized ?s = default_materialized" "custom_syscalls ?s = []" "\<not> standard_precompiles ?s"
    "inner (cache (vm_accounts (svm_sync_jit_policy ?s))) = Map.empty"
    by (simp_all add: new_inner_def Let_def svm_sync_jit_policy_def accounts_default_def)
  have "program_accounts ex_host_ext (vm_accounts (svm_sync_jit_policy ?s)) = []"
    using m(4) by (simp add: program_accounts_def ex_host_ext_def ex_clock_ext_def ex_ext_def
        List.map_filter_simps)
  then obtain w' where
    "rebuild_program_cache ex_host_ext (vm_accounts (svm_sync_jit_policy ?s)) (fst ?v) = (w', Inr ())"
    by (simp add: rebuild_program_cache_def)
  then show ?thesis
    using m by (cases ?v) (simp add: set_feature_set_def reconfigure_materialized_feature_state_def
        default_materialized_def rebuild_programs_def Let_def map_err_def)
qed

lemma ex_load_builtins:
  "\<exists>w' s'. load_builtins ex_config ex_host_exec (w, s) = Some (w', s') \<and>
     inner (cache (vm_accounts s')) = inner (cache (vm_accounts s))"
  if "custom_syscalls s = []"
  using that
  by (auto simp: load_builtins_def refresh_runtime_environments_def try_refresh_runtime_environments_def
      Let_def ex_host_ext_def ex_clock_ext_def ex_ext_def ex_config_def map_err_def set_runtime_environments_def
      split: option.split)

lemma ex_resolve:
  "elf \<noteq> [] \<Longrightarrow> hd elf \<noteq> 0 \<Longrightarrow> \<exists>w' e. resolve_program_entry ex_config ex_host_ext l elf v = (w', Inr e)"
  by (auto simp: resolve_program_entry_def Let_def ex_host_ext_def ex_clock_ext_def ex_ext_def
      load_program_uncompiled_def and_then_def ok_or_def map_err_def split: prod.split option.split)

lemma ex_add_program_clock:
  assumes "l \<in> {BpfLoader, BpfLoaderDeprecated, BpfLoaderUpgradeable}" and "k \<noteq> ClockSysvar"
  shows "\<exists>w' s'. add_program_internal ex_config ex_host_ext k [1] l (w, s) = ((w', s'), Inr ()) \<and>
     inner (cache (vm_accounts s')) ClockSysvar = inner (cache (vm_accounts s)) ClockSysvar"
proof -
  let ?s = "svm_sync_jit_policy s"
  have same: "inner (cache (vm_accounts ?s)) = inner (cache (vm_accounts s))"
    by (simp add: svm_sync_jit_policy_def sync_jit_policy_def Let_def)
  obtain a where a: "program_overlay ex_config ex_host_ext k [1] l (vm_accounts ?s) = Inr a"
    and c: "inner (cache a) ClockSysvar = inner (cache (vm_accounts s)) ClockSysvar"
    using assms same
    by (auto simp: program_overlay_def Let_def add_account_no_checks_def db_simps ex_config_def)
  obtain w' e where "resolve_program_entry ex_config ex_host_ext l [1] (w, ?s\<lparr>vm_accounts := a\<rparr>) = (w', Inr e)"
    using ex_resolve [of "[1]"] by force
  with a c show ?thesis by (simp add: add_program_internal_def)
qed

lemma ex_add_programs_clock:
  assumes "\<forall>(k, f, l) \<in> set ps. l \<in> {BpfLoader, BpfLoaderDeprecated, BpfLoaderUpgradeable} \<and> k \<noteq> ClockSysvar"
  shows "\<exists>w' s'. add_programs_preverified ex_config ex_host_ext ps (w, s) = Some (w', s') \<and>
     inner (cache (vm_accounts s')) ClockSysvar = inner (cache (vm_accounts s)) ClockSysvar"
  using assms
proof (induction ps arbitrary: w s)
  case (Cons p ps)
  obtain k f l where p: "p = (k, f, l)" by (cases p)
  have elf: "elf_file ex_config f = [1]" by (simp add: ex_config_def)
  obtain w1 s1 where 1: "add_program_internal ex_config ex_host_ext k [1] l (w, s) = ((w1, s1), Inr ())"
    "inner (cache (vm_accounts s1)) ClockSysvar = inner (cache (vm_accounts s)) ClockSysvar"
    using ex_add_program_clock [of l k w s] Cons.prems by (auto simp: p)
  then show ?case using Cons.IH [of w1 s1] Cons.prems by (simp add: p elf)
qed simp

lemma ex_default_programs:
  "\<exists>w' s'. load_default_programs ex_config ex_host_exec (w, s) = Some (w', s') \<and>
     inner (cache (vm_accounts s')) ClockSysvar = inner (cache (vm_accounts s)) ClockSysvar"
proof -
  let ?s = "s\<lparr>materialized := (materialized s)\<lparr>m_default_programs := True\<rparr>\<rparr>"
  let ?sound = "\<lambda>ps. \<forall>(k, f, l) \<in> set ps.
      l \<in> {BpfLoader, BpfLoaderDeprecated, BpfLoaderUpgradeable} \<and> k \<noteq> ClockSysvar"
  have spl: "?sound (spl_programs ex_config p)" "?sound (non_spl_default_programs ex_config)" for p
    by (simp_all add: spl_programs_def non_spl_default_programs_def ex_config_def token_id_def
        token_2022_id_def associated_token_id_def memo_v1_id_def memo_id_def)
  let ?spl = "spl_programs ex_config (flag_enabled
      (load_flags (gate_id ex_host_exec) (feature_set (vm_version s))) ReplaceSplTokenWithPToken)"
  obtain w1 s1 where 1: "add_programs_preverified ex_config ex_host_ext ?spl (w, ?s) = Some (w1, s1)"
    "inner (cache (vm_accounts s1)) ClockSysvar = inner (cache (vm_accounts ?s)) ClockSysvar"
    using ex_add_programs_clock [OF spl(1)] by blast
  obtain w2 s2 where 2: "add_programs_preverified ex_config ex_host_ext (non_spl_default_programs ex_config)
      (w1, s1) = Some (w2, s2)"
    "inner (cache (vm_accounts s2)) ClockSysvar = inner (cache (vm_accounts s1)) ClockSysvar"
    using ex_add_programs_clock [OF spl(2)] by blast
  show ?thesis using 1 2 by (simp add: load_default_programs_def Let_def)
qed

abbreviation ex_clock_account :: "clock \<Rightarrow> account" where
  "ex_clock_account ck \<equiv> sysvar_account (ex_clock_bytes ck)"

lemma ex_sysvars:
  fixes s :: "ex_history svm"
  assumes "no_programs (vm_accounts s)"
  shows "\<exists>w' s'. set_sysvars ex_config ex_host_exec (w, s) = Some (w', s') \<and>
     inner (cache (vm_accounts s')) ClockSysvar = Some (ex_clock_account default_clock)"
proof -
  let ?s = "s\<lparr>materialized := (materialized s)\<lparr>m_sysvars := True\<rparr>\<rparr>"
  let ?rest = "[\<lambda>_. ex_sysvar RecentBlockhashesSysvar [1], \<lambda>_. ex_sysvar RentSysvar [1],
      \<lambda>_. ex_sysvar SlotHashesSysvar [1], \<lambda>_. ex_sysvar SlotHistorySysvar [1]] :: (ex_history svm \<Rightarrow> sysvar_value) list"
  have ne: "ex_clock_bytes default_clock \<noteq> []" by (simp add: ex_clock_bytes_def)
  obtain w1 s1 where 1: "set_sysvar_internal ex_host_ext (ex_sysvar ClockSysvar (ex_clock_bytes default_clock)) (w, ?s)
      = Some (w1, s1)"
    "inner (cache (vm_accounts s1)) = (inner (cache (vm_accounts s)))(ClockSysvar \<mapsto> ex_clock_account default_clock)"
    using ex_set_sysvar [OF ne, of ?s ClockSysvar w] no_programs_sysvar [OF assms] by auto
  have np: "no_programs (vm_accounts s1)"
    using assms 1(2) by (auto simp: no_programs_def sysvar_account_def default_account_def)
  have rest: "\<And>sv. sv \<in> set ?rest \<Longrightarrow> \<exists>k bs. bs \<noteq> [] \<and> sv = (\<lambda>_. ex_sysvar k bs)"
    by auto
  have "\<forall>sv \<in> set ?rest. sv_id (sv s1) \<noteq> ClockSysvar" by (simp add: ex_sysvar_def)
  then obtain w2 s2 where 2: "set_sysvars_internal ex_host_ext ?rest (w1, s1) = Some (w2, s2)"
    "no_programs (vm_accounts s2)"
    "inner (cache (vm_accounts s2)) ClockSysvar = inner (cache (vm_accounts s1)) ClockSysvar"
    using ex_set_sysvars [where svs = ?rest and w = w1, OF np rest] by blast
  obtain w3 a3 where 3: "add_account ex_host_ext StakeHistorySysvar (sysvar_account [1]) (w2, vm_accounts s2) =
      ((w3, a3), Inr ())"
    "inner (cache a3) = (inner (cache (vm_accounts s2)))(StakeHistorySysvar \<mapsto> sysvar_account [1])"
    using ex_add_sysvar [of "[1]" "vm_accounts s2" StakeHistorySysvar w2] no_programs_sysvar [OF 2(2)] by auto
  have "set_sysvars_internal ex_host_ext ((\<lambda>_. ex_sysvar ClockSysvar (ex_clock_bytes default_clock)) # ?rest)
      (w, ?s) = Some (w2, s2)"
    by (subst set_sysvars_internal.simps(2)) (simp only: snd_conv 1(1) bind.bind_lunit 2(1))
  then have "set_sysvars ex_config ex_host_exec (w, s) = Some (w3, s2\<lparr>vm_accounts := a3\<rparr>)"
    using 3(1) by (simp add: set_sysvars_def ex_config_def Let_def del: set_sysvars_internal.simps(2))
  with 1(2) 2(3) 3(2) show ?thesis by auto
qed

lemma ex_new:
  "\<exists>w' s. hpsvm_new ex_config ex_host_exec list_lru_ops ex_build w = Some (w', s) \<and>
     inner (cache (vm_accounts s)) ClockSysvar = Some (ex_clock_account default_clock)"
proof -
  let ?v = "new_inner ex_config ex_host_ext list_lru_ops ex_build w"
  obtain w1 s1 where 1: "set_feature_set ex_config ex_host_exec (all_features ex_config) ?v = Some ((w1, s1), Inr ())"
    "inner (cache (vm_accounts s1)) = Map.empty" "custom_syscalls s1 = []"
    using ex_fresh_host by blast
  obtain w2 s2 where 2: "load_builtins ex_config ex_host_exec (w1, s1) = Some (w2, s2)"
    "inner (cache (vm_accounts s2)) = inner (cache (vm_accounts s1))"
    using ex_load_builtins [OF 1(3)] by blast
  let ?s2 = "set_lamports (1000000 * lamports_per_sol) s2"
  have "no_programs (vm_accounts ?s2)"
    by (auto simp: no_programs_def set_lamports_def add_account_no_checks_def db_simps 2(2) 1(2)
        default_account_def split: if_splits)
  then obtain w3 s3 where 3: "set_sysvars ex_config ex_host_exec (w2, ?s2) = Some (w3, s3)"
    "inner (cache (vm_accounts s3)) ClockSysvar = Some (ex_clock_account default_clock)"
    using ex_sysvars by blast
  let ?s3 = "materialize_feature_accounts ex_config ex_host_ext s3"
  have same: "inner (cache (vm_accounts ?s3)) = inner (cache (vm_accounts s3))"
    by (simp add: materialize_feature_accounts_def Let_def ex_config_def)
  obtain w4 s4 where 4: "load_default_programs ex_config ex_host_exec (w3, ?s3) = Some (w4, s4)"
    "inner (cache (vm_accounts s4)) ClockSysvar = inner (cache (vm_accounts s3)) ClockSysvar"
    using ex_default_programs [of w3 ?s3] same by metis
  have "vm_fixed s4 = vm_fixed s1"
    using load_builtins_fixed [OF 2(1)] set_sysvars_fixed [OF 3(1)] load_programs_fixed(1) [OF 4(1)] by simp
  moreover have "precompiles s1 = native_provider (key_order ex_config) (native_rows ex_config)"
    using set_feature_set_fixed [of ex_config ex_host_exec _ "fst ?v" "snd ?v" w1 s1] 1(1)
    by (simp add: vm_fixed_def new_inner_def Let_def)
  ultimately have "prov_program_ids (precompiles s4) = []"
    by (simp add: vm_fixed_def native_provider_def native_precompiles_new_def precompile_ids_def
        precompile_set_new_def ex_config_def ascending_def)
  then have 5: "set_precompiles ex_host_ext (w4, s4) = Some (w4, s4\<lparr>standard_precompiles := True\<rparr>)"
    by (simp add: set_precompiles_def load_precompiles_def)
  show ?thesis
    using 3(2) 4(2)
    by (simp add: hpsvm_new_steps new_with_defaults_def 1(1) 2(1) 3(1) 4(1) 5 set_sigverify_def
        set_blockhash_check_def)
qed

section \<open>A recording\<close>

definition ex_handlers :: "(ex_cache, ex_store, ex_history) handlers" where
  "ex_handlers =
     \<lparr>handler_validate = (\<lambda>h tx s. Inr ()),
      handler_execute = (\<lambda>h tx s w. Some (w, [], Inr ex_transfer))\<rparr>"

definition ex_text :: "(compare, check) text_ext" where
  "ex_text = \<lparr>error_debug = (\<lambda>e. []), error_display = (\<lambda>e. []), compare_debug = (\<lambda>c. []), check_debug = (\<lambda>c. [])\<rparr>"

definition ex_request :: record_request where
  "ex_request =
     \<lparr>rq_transaction = ''t'', rq_encoding = EncodingRaw, rq_accounts = ''a'', rq_output = ''f.bin'',
      rq_name = None, rq_tags = [''smoke''], rq_source = None, rq_programs = [], rq_loader = None,
      rq_slot = Some 7, rq_sigverify = False, rq_log_bytes_limit = None, rq_compute_unit_limit = None,
      rq_ignore_compute_units = False\<rparr>"

definition ex_fixture :: "compare fixture" where
  "ex_fixture =
     \<lparr>fx_header = (header_new ''f'' TransactionKind)\<lparr>tags := [''smoke'']\<rparr>,
      fx_input = TransactionInput \<lparr>tf_runtime = runtime_new 7 None False False, tf_programs = [],
        tf_pre_accounts = [], transaction_bytes = [1]\<rparr>,
      fx_expectations = \<lparr>baseline = snapshot_from_outcome ex_text ex_transfer, compares = everything\<rparr>\<rparr>"

text \<open>A file system of bytes, and codecs that know one transaction and one fixture.\<close>

definition ex_codec :: "(string \<rightharpoonup> bytes) fixture_ext" where
  "ex_codec =
     \<lparr>tx_encode = (\<lambda>tx. if tx = ex_tx 2 then Inr [1] else Inl ''transaction''),
      tx_decode = (\<lambda>bs. if bs = [1] then Inr (ex_tx 2) else Inl ''transaction''),
      bin_encode = (\<lambda>fx. if fx = ex_fixture then Inr [2] else Inl ''fixture''),
      bin_decode = (\<lambda>bs. if bs = [2] then Inr ex_fixture else Inl ''fixture''),
      json_print = (\<lambda>fx. Inl ''fixture''), json_version = (\<lambda>doc. Inl ''fixture''),
      json_decode = (\<lambda>doc. Inl ''fixture''),
      read_file = (\<lambda>fs p. case fs p of Some bs \<Rightarrow> Inr bs | None \<Rightarrow> Inl NotFound),
      read_to_string = (\<lambda>fs p. case fs p of Some bs \<Rightarrow> Inr (map (\<lambda>b. char_of (unat b)) bs) | None \<Rightarrow> Inl NotFound),
      write_bytes = (\<lambda>fs p bs. (fs(p \<mapsto> bs), Inr ())),
      write_text = (\<lambda>fs p doc. (fs(p \<mapsto> map (\<lambda>c. of_nat (of_char c)) doc), Inr ()))\<rparr>"

definition ex_cli :: "(string \<rightharpoonup> bytes) cli_ext" where
  "ex_cli =
     \<lparr>parse_address = (\<lambda>str. Inl ''address''), b64_decode = (\<lambda>str. Inl ''base64''),
      hex_decode = (\<lambda>str. Inl ''hex''), accounts_parse = (\<lambda>bs. Inr []),
      compares_parse = (\<lambda>doc. Inr everything), is_dir = (\<lambda>fs p. False), read_dir = (\<lambda>fs p. Inl NotFound),
      program_order = (\<lambda>m. [])\<rparr>"

definition ex_report :: "int cu_report" where
  "ex_report = \<lparr>generated_at = ''now'', solana_runtime_version = ''3'', report_rows =
     [\<lparr>row_name = ''swap'', row_compute_units = 900, row_delta = None, row_pass = True\<rparr>,
      \<lparr>row_name = ''mint'', row_compute_units = 400, row_delta = None, row_pass = True\<rparr>]\<rparr>"

definition ex_bench :: "(int, string \<rightharpoonup> bytes) bench_ext" where
  "ex_bench =
     \<lparr>percent_zero = 0, percent_hundred = 100, percent_of = (\<lambda>d n. d * 100 div uint n),
      show_percent = (\<lambda>f. show_signed f), generated_at_string = ''now'',
      solana_runtime_version_string = ''3'',
      report_encode = (\<lambda>r. if r = ex_report then Inr [3] else Inl ''report''),
      report_decode = (\<lambda>bs. if bs = [3] then Inr ex_report else Inl ''report''),
      create_dir_all = (\<lambda>fs p. (fs, Inr ()))\<rparr>"

definition ex_host :: "(ex_cache, bytes, ex_store, ex_ic, ex_history, string \<rightharpoonup> bytes, int) host" where
  "ex_host =
     \<lparr>h_text = ex_text, h_codec = ex_codec, h_msg = ex_msg, h_unique = Pubkey 77, h_vm = ex_config,
      h_exec = ex_host_exec, h_handlers = ex_handlers, h_history = list_lru_ops, h_build = ex_build,
      h_bench = ex_bench\<rparr>"

lemma ex_char_byte: "char_of (unat (of_nat (of_char c) :: u8)) = c"
  by (simp add: unat_of_nat)

lemma ex_codec_laws: "codec_law ex_codec" "file_law ex_codec"
  by (simp_all add: codec_law_def file_law_def ex_codec_def comp_def ex_char_byte)

lemma new_registry:
  assumes "hpsvm_new V E L B w = Some (w', s)"
  shows "registry s = registry_with_defaults"
proof -
  have "build V E L B (open_with_program_test_defaults V builder_new) w = Some (w', Inr s)"
    using assms by (auto simp: hpsvm_new_def split: option.splits sum.splits prod.splits)
  from built_vm [OF this] show ?thesis by blast
qed

lemma ex_configured:
  assumes "inner (cache (vm_accounts s)) ClockSysvar = Some (ex_clock_account default_clock)"
    and "rt_compute_unit_limit rt = None"
  shows "\<exists>w' s'. configure_vm ex_config ex_host_exec rt (w, s) = Some (w', s') \<and> registry s' = registry s"
proof -
  let ?s = "set_log_bytes_limit (rt_log_bytes_limit rt)
      (set_blockhash_check (rt_blockhash_check rt) (set_sigverify (rt_sigverify rt) s))"
  let ?ck = "default_clock\<lparr>slot := rt_slot rt\<rparr>"
  have a: "vm_accounts ?s = vm_accounts s" "registry ?s = registry s"
    by (simp_all add: set_log_bytes_limit_def set_blockhash_check_def set_sigverify_def)
  have "get_account_ref (vm_accounts ?s) ClockSysvar = Some (ex_clock_account default_clock)"
    using assms(1) by (simp add: get_account_ref_def a)
  then have ck: "try_get_clock ex_config ?s = Inr default_clock"
    by (simp add: try_get_clock_def sysvar_account_def ex_config_def ex_clock_of_bytes map_err_def)
  have ne: "ex_clock_bytes ?ck \<noteq> []" by (simp add: ex_clock_bytes_def)
  have "\<not> is_some_and executable (inner (cache (vm_accounts ?s)) ClockSysvar)"
    using assms(1) by (simp add: a is_some_and_def sysvar_account_def default_account_def)
  then obtain w' s' where 1: "set_sysvar_internal ex_host_ext (ex_sysvar ClockSysvar (ex_clock_bytes ?ck)) (w, ?s)
      = Some (w', s')"
    using ex_set_sysvar [OF ne] by blast
  then have "configure_vm ex_config ex_host_exec rt (w, s) = Some (w', s')"
    using assms(2) ck by (simp add: configure_vm_def warp_to_slot_def ex_config_def Let_def)
  moreover have "registry s' = registry s"
    using set_sysvar_internal_fixed [OF 1] a(2) by (simp add: vm_fixed_def)
  ultimately show ?thesis by blast
qed

abbreviation ex_files :: "string \<rightharpoonup> bytes" where
  "ex_files \<equiv> [''t'' \<mapsto> [1], ''a'' \<mapsto> []]"

lemma ex_recorded:
  "\<exists>w' out. record_fixture ex_host ex_cli ex_request ex_world0 ex_files =
     Some (w', ex_files(''f.bin'' \<mapsto> [2]), out, Inr ())"
proof -
  obtain w1 s where 1: "hpsvm_new ex_config ex_host_exec list_lru_ops ex_build ex_world0 = Some (w1, s)"
    "inner (cache (vm_accounts s)) ClockSysvar = Some (ex_clock_account default_clock)"
    using ex_new by blast
  have reg: "registry s = registry_with_defaults" by (rule new_registry [OF 1(1)])
  have rt: "request_runtime ex_request s = runtime_new 7 None False False"
    by (simp add: request_runtime_def ex_request_def unwrap_or_def Let_def)
  obtain w2 s2 where 2: "configure_vm ex_config ex_host_exec (runtime_new 7 None False False) (w1, s) = Some (w2, s2)"
    "registry s2 = registry s"
    using ex_configured [OF 1(2), of "runtime_new 7 None False False" w1] by (auto simp: runtime_new_def)
  have 3: "transact_detached ex_handlers (ex_tx 2) (w2, s2) = Some (w2, [], ex_transfer)"
    using reg 2(2) by (simp add: transact_detached_def dispatch_detached_def registry_dispatch_def
        ex_handlers_def map_outcome_def map_err_def registry_with_defaults_def registry_register_def
        registry_new_def tag_of_def ex_tx_def)
  have 4: "capture_transaction ex_codec (ex_tx 2) (request_builder ex_request (runtime_new 7 None False False) [] []
      (snapshot_from_outcome ex_text ex_transfer)) = Inr ex_fixture"
    by (simp add: capture_transaction_def request_builder_def ex_request_def ex_codec_def capture_tag_def
        capture_compares_def capture_baseline_def capture_pre_accounts_def capture_programs_def
        capture_runtime_def capture_new_def capture_default_def ex_fixture_def record_name_def
        file_stem_def file_name_def unwrap_or_def everything_def header_new_def)
  have 5: "fixture_format_for_output (rq_output ex_request) = Inr BinaryFormat"
    by (simp add: fixture_format_for_output_def ex_request_def path_extension_def file_name_def)
  have 6: "record_load_transaction ex_cli ex_codec ex_files ex_request = Inr (ex_tx 2)"
    "record_load_accounts ex_cli ex_codec ex_files (rq_accounts ex_request) = Inr []"
    "parse_program_map ex_cli ex_codec ex_files (rq_programs ex_request) = Inr Map.empty"
    "fixture_save ex_codec ex_fixture ''f.bin'' BinaryFormat ex_files = (ex_files(''f.bin'' \<mapsto> [2]), Inr ())"
    "program_order ex_cli = (\<lambda>m. [])" "rq_output ex_request = ''f.bin''"
    by (simp_all add: record_load_transaction_def record_load_accounts_def parse_program_map_def ex_request_def ex_cli_def
        ex_codec_def map_err_def fixture_save_def binary_save_def)
  show ?thesis
    using 5 6
    by (simp add: record_fixture_def ex_host_def 1(1) rt 2(1) 3 4 del: fun_upd_apply)
qed

theorem recorded_fixture_passes_witness:
  "\<exists>w' out. record_fixture ex_host ex_cli ex_request ex_world0 ex_files =
       Some (w', ex_files(''f.bin'' \<mapsto> [2]), out, Inr ()) \<and>
     cli_run_fixture ex_host ex_cli (ex_files(''f.bin'' \<mapsto> [2])) ''f.bin'' FormatHpsvm [] ex_world0 =
       Some (w', [''PASS: f''], Inr ())"
proof -
  have c: "h_codec ex_host = ex_codec" "rq_output ex_request = ''f.bin''" "rq_programs ex_request = []"
    "record_name ex_request = ''f''" "h_handlers ex_host = ex_handlers"
    "program_order ex_cli = (\<lambda>m. [])" "is_dir ex_cli = (\<lambda>fs p. False)"
    by (simp_all add: ex_host_def ex_cli_def ex_request_def record_name_def file_stem_def file_name_def unwrap_or_def)
  have p: "parse_program_map ex_cli ex_codec fs [] = Inr Map.empty" for fs
    by (simp add: parse_program_map_def)
  have d: "distinct (map fst (det_post_accounts d))"
    if "transact_detached ex_handlers tx v = Some (w, evs, d)" for tx v w evs d
    using that by (auto simp: transact_detached_def dispatch_detached_def registry_dispatch_def
        ex_handlers_def map_outcome_def map_err_def ex_detached_def for_dispatch_failure_def split: option.splits)
  obtain w' out where r: "record_fixture ex_host ex_cli ex_request ex_world0 ex_files =
      Some (w', ex_files(''f.bin'' \<mapsto> [2]), out, Inr ())" using ex_recorded by blast
  have "cli_run_fixture ex_host ex_cli (ex_files(''f.bin'' \<mapsto> [2])) (rq_output ex_request) FormatHpsvm
      (rq_programs ex_request) ex_world0 = Some (w', [''PASS: '' @ record_name ex_request], Inr ())"
    by (rule recorded_fixture_passes [OF _ _ r, where programs = Map.empty])
      (simp_all add: c ex_codec_laws p d del: fun_upd_apply)
  with r show ?thesis by (simp add: c del: fun_upd_apply)
qed

section \<open>Files, baselines and comparisons\<close>



abbreviation ex_snapshot :: "account_snapshot list \<Rightarrow> execution_snapshot" where
  "ex_snapshot accs \<equiv>
     \<lparr>snap_status = ExecSuccess, snap_included = True, snap_compute_units = 10, snap_fee = 5,
      snap_logs = [], snap_return_data = None, snap_inner = [], snap_post_accounts = accs\<rparr>"

abbreviation ex_holding :: "nat \<Rightarrow> u64 \<Rightarrow> account_snapshot" where
  "ex_holding n l \<equiv>
     \<lparr>as_address = Pubkey n, as_lamports = l, as_owner = SystemProgram, as_executable = False,
      as_rent_epoch = 0, as_data = [1, 2, 3]\<rparr>"

text \<open>Two executions that list the same two accounts in another order, and one that differs.\<close>

theorem compare_everything_exact_witness:
  "compare_with ex_text (ex_snapshot [ex_holding 1 5, ex_holding 2 6])
     (ex_snapshot [ex_holding 2 6, ex_holding 1 5]) everything bench_config = Some True \<and>
   compare_with ex_text (ex_snapshot [ex_holding 1 5]) (ex_snapshot [ex_holding 1 7]) everything bench_config =
     Some False"
proof -
  have "account_at (ex_snapshot [ex_holding 1 5, ex_holding 2 6]) =
      account_at (ex_snapshot [ex_holding 2 6, ex_holding 1 5])"
    by (auto simp: fun_eq_iff account_at_def)
  moreover have "account_at (ex_snapshot [ex_holding 1 5]) (Pubkey 1) \<noteq>
      account_at (ex_snapshot [ex_holding 1 7]) (Pubkey 1)" by (simp add: account_at_def)
  then have "account_at (ex_snapshot [ex_holding 1 5]) \<noteq> account_at (ex_snapshot [ex_holding 1 7])" by metis
  ultimately show ?thesis
    using compare_everything_exact [of "ex_snapshot [ex_holding 1 5, ex_holding 2 6]"
        "ex_snapshot [ex_holding 2 6, ex_holding 1 5]" ex_text bench_config]
      compare_everything_exact [of "ex_snapshot [ex_holding 1 5]" "ex_snapshot [ex_holding 1 7]" ex_text bench_config]
    by simp
qed

definition ex_variants :: "program_variant list" where
  "ex_variants =
     [\<lparr>pv_name = ''new'', pv_loader_id = BpfLoader, pv_program_id = Pubkey 1, pv_elf = [1]\<rparr>,
      \<lparr>pv_name = ''base'', pv_loader_id = BpfLoader, pv_program_id = Pubkey 1, pv_elf = [2]\<rparr>]"

theorem group_variant_sets_exact_witness:
  "(\<exists>sets. group_variant_sets ex_variants = Inr sets \<and> set (map vs_name sets) = {''base'', ''new''} \<and>
     sorted_wrt (<) (map vs_name sets)) \<and>
   (\<exists>n. group_variant_sets (hd ex_variants # ex_variants) = Inl (DuplicateProgramName n))"
proof -
  have d: "distinct (map variant_key ex_variants)"
    "\<not> distinct (map variant_key (hd ex_variants # ex_variants))" by (simp_all add: ex_variants_def)
  have "\<exists>sets. group_variant_sets ex_variants = Inr sets \<and> set (map vs_name sets) = {''base'', ''new''} \<and>
     sorted_wrt (<) (map vs_name sets)"
    using group_variant_sets_exact [of ex_variants] d(1)
    by (auto simp: ex_variants_def split: sum.splits)
  moreover have "\<exists>n. group_variant_sets (hd ex_variants # ex_variants) = Inl (DuplicateProgramName n)"
    using group_variant_sets_exact [of "hd ex_variants # ex_variants"] d(2)
    by (cases "group_variant_sets (hd ex_variants # ex_variants)") auto
  ultimately show ?thesis by blast
qed

theorem account_check_exact_witness:
  "account_matches (rent_default ex_ext) (ex_holding 1 50)
     \<lparr>ae_address = Pubkey 1, ae_lamports = Some 50, ae_owner = None, ae_executable = Some False, ae_data = None,
      ae_data_slice = Some (1, [2, 3]), ae_closed = None, ae_rent_exempt = None\<rparr> = Some True"
proof -
  have "i < 2 \<Longrightarrow> [1, 2, 3 :: u8] ! Suc i = [2, 3] ! i" for i by simp
  then show ?thesis
    using account_check_exact [of "ex_holding 1 50" "rent_default ex_ext"
        "\<lparr>ae_address = Pubkey 1, ae_lamports = Some 50, ae_owner = None, ae_executable = Some False,
          ae_data = None, ae_data_slice = Some (1, [2, 3]), ae_closed = None, ae_rent_exempt = None\<rparr>"]
    by simp
qed

text \<open>A variant with the program the fixture binds, and one without it.\<close>

definition ex_bound_fixture :: "compare fixture" where
  "ex_bound_fixture = ex_fixture\<lparr>fx_input := TransactionInput
     \<lparr>tf_runtime = runtime_new 7 None False False,
      tf_programs = [\<lparr>pb_program_id = Pubkey 1, pb_loader_id = BpfLoader, pb_role = None\<rparr>],
      tf_pre_accounts = [], transaction_bytes = [1]\<rparr>\<rparr>"

theorem variant_validation_exact_witness:
  "validate_variant_programs ''case'' ex_bound_fixture
     \<lparr>vs_name = ''new'', vs_programs = [(Pubkey 1, hd ex_variants)]\<rparr> = Inr () \<and>
   validate_variant_programs ''case'' ex_bound_fixture \<lparr>vs_name = ''new'', vs_programs = []\<rparr> \<noteq> Inr ()"
proof -
  have b: "bound_loaders ex_bound_fixture = [Pubkey 1 \<mapsto> BpfLoader]"
    by (simp add: bound_loaders_def ex_bound_fixture_def fixture_programs_def)
  have wf: "btree_wf [(Pubkey 1, hd ex_variants)]" "btree_wf ([] :: (address, program_variant) btree)"
    by (simp_all add: btree_wf_def)
  show ?thesis
    using variant_validation_exact [of "\<lparr>vs_name = ''new'', vs_programs = [(Pubkey 1, hd ex_variants)]\<rparr>" "''case''"
        ex_bound_fixture]
      variant_validation_exact [of "\<lparr>vs_name = ''new'', vs_programs = []\<rparr>" "''case''" ex_bound_fixture] wf
    by (auto simp: b ex_variants_def fun_eq_iff)
qed

end
