(* ===== verification/Fd_Fixture.thy ===== *)
theory Fd_Fixture
  imports Fixture_Snapshot
begin

text \<open>
  The vendored FireDancer fixture crate (\<open>src/vendor/hpsvm-fd-fixture\<close>): the messages of its
  protobuf schema, its own model of a fixture, the conversions between the two, which panic on
  malformed messages, and the byte stream its hash is computed over. Addresses as 32 bytes, the
  feature table, Keccak and the protobuf codec come from other crates: the record \<open>fd_ext\<close>.
\<close>

section \<open>Messages\<close>

record seed_address =
  seed_base :: bytes
  seed_path :: bytes
  seed_owner :: bytes

record acct_state =
  acct_address :: bytes
  acct_lamports :: u64
  acct_data :: bytes
  acct_executable :: bool
  acct_rent_epoch :: u64
  acct_owner :: bytes
  acct_seed :: "seed_address option"

record instr_acct =
  ia_index :: u32
  ia_is_writable :: bool
  ia_is_signer :: bool

record instr_context =
  ctx_program_id :: bytes
  ctx_accounts :: "acct_state list"
  ctx_instr_accounts :: "instr_acct list"
  ctx_data :: bytes
  ctx_cu_avail :: u64
  ctx_slot :: "u64 option"  \<comment> \<open>\<open>SlotContext\<close> has one field\<close>
  ctx_epoch :: "u64 list option option"  \<comment> \<open>\<open>EpochContext\<close> holds an optional \<open>FeatureSet\<close>\<close>

record instr_effects =
  ie_result :: "32 word"
  ie_custom_err :: u32
  ie_modified_accounts :: "acct_state list"
  ie_cu_avail :: u64
  ie_return_data :: bytes

record instr_fixture =
  if_metadata :: "string option"  \<comment> \<open>\<open>FixtureMetadata\<close> has one field, the entry point\<close>
  if_input :: "instr_context option"
  if_output :: "instr_effects option"

section \<open>What other crates provide\<close>

record runtime_features =
  rf_active :: "address \<rightharpoonup> u64"
  rf_inactive :: "address set"

record fd_ext =
  to_bytes :: "address \<Rightarrow> bytes"
  new_from_array :: "bytes \<Rightarrow> address"
  show_address :: "address \<Rightarrow> string"
  feature_ids :: "address set"
  omitted_features :: "address list"
  set_order :: "address set \<Rightarrow> address list"  \<comment> \<open>iteration of a hash set\<close>
  keccak :: "bytes \<Rightarrow> bytes"
  fd_encode :: "instr_fixture \<Rightarrow> bytes"
  fd_decode :: "bytes \<Rightarrow> string + instr_fixture"
  fd_json_print :: "instr_fixture \<Rightarrow> string + bytes"
  fd_json_parse :: "bytes \<Rightarrow> string + instr_fixture"
  show_io :: "io_error \<Rightarrow> string"

definition features_default :: "fd_ext \<Rightarrow> runtime_features" where
  "features_default F = \<lparr>rf_active = Map.empty, rf_inactive = feature_ids F\<rparr>"

definition features_activate :: "address \<Rightarrow> u64 \<Rightarrow> runtime_features \<Rightarrow> runtime_features" where
  "features_activate k sl fs =
     \<lparr>rf_active = (rf_active fs)(k \<mapsto> sl), rf_inactive = rf_inactive fs - {k}\<rparr>"

section \<open>The crate's own model\<close>

type_synonym fd_account = "address \<times> account \<times> seed_address option"

record fd_instruction_account =
  index_in_transaction :: u16
  fia_is_signer :: bool
  fia_is_writable :: bool

record fd_context =
  fc_program_id :: address
  fc_accounts :: "fd_account list"
  fc_instruction_accounts :: "fd_instruction_account list"
  fc_instruction_data :: bytes
  fc_compute_units_available :: u64
  fc_slot :: u64
  fc_features :: runtime_features

record fd_effects =
  fe_program_result :: "32 word"
  fe_program_custom_code :: u32
  fe_modified_accounts :: "fd_account list"
  fe_compute_units_available :: u64
  fe_return_data :: bytes

record fd_fixture =
  ff_metadata :: "string option"
  ff_input :: fd_context
  ff_output :: fd_effects

section \<open>Conversions\<close>

text \<open>\<open>expect("Invalid bytes for ...")\<close> panics unless there are exactly 32 bytes.\<close>

definition array_32 :: "fd_ext \<Rightarrow> bytes \<Rightarrow> address option" where
  "array_32 F bs = (if length bs = 32 then Some (new_from_array F bs) else None)"

definition fd_account_from_proto :: "fd_ext \<Rightarrow> acct_state \<Rightarrow> fd_account option" where
  "fd_account_from_proto F a =
     Option.bind (array_32 F (acct_address a)) (\<lambda>pubkey.
     Option.bind (array_32 F (acct_owner a)) (\<lambda>own.
       Some (pubkey, \<lparr>lamports = acct_lamports a, data = acct_data a, owner = own,
         executable = acct_executable a, rent_epoch = acct_rent_epoch a\<rparr>, acct_seed a)))"

fun fd_account_to_proto :: "fd_ext \<Rightarrow> fd_account \<Rightarrow> acct_state" where
  "fd_account_to_proto F (pubkey, acc, seed) =
     \<lparr>acct_address = to_bytes F pubkey, acct_lamports = lamports acc, acct_data = data acc,
      acct_executable = executable acc, acct_rent_epoch = rent_epoch acc,
      acct_owner = to_bytes F (owner acc), acct_seed = seed\<rparr>"

text \<open>\<open>index as u16\<close> keeps the low 16 bits.\<close>

definition fd_instr_account_from_proto :: "instr_acct \<Rightarrow> fd_instruction_account" where
  "fd_instr_account_from_proto a =
     \<lparr>index_in_transaction = ucast (ia_index a), fia_is_signer = ia_is_signer a,
      fia_is_writable = ia_is_writable a\<rparr>"

definition fd_instr_account_to_proto :: "fd_instruction_account \<Rightarrow> instr_acct" where
  "fd_instr_account_to_proto a =
     \<lparr>ia_index = ucast (index_in_transaction a), ia_is_writable = fia_is_writable a,
      ia_is_signer = fia_is_signer a\<rparr>"

text \<open>A feature goes by the first eight bytes of its id, read as a little-endian integer.\<close>

definition discriminator :: "fd_ext \<Rightarrow> address \<Rightarrow> u64" where
  "discriminator F k = of_nat (le_nat (take 8 (to_bytes F k)))"

definition feature_step :: "fd_ext \<Rightarrow> address set \<Rightarrow> u64 \<Rightarrow> runtime_features \<Rightarrow> runtime_features" where
  "feature_step F inactive int_id fs =
     (case List.find (\<lambda>k. discriminator F k = int_id) (set_order F inactive) of
        None \<Rightarrow> fs
      | Some k \<Rightarrow> features_activate k 0 fs)"

definition fd_features_from_proto :: "fd_ext \<Rightarrow> u64 list \<Rightarrow> runtime_features" where
  "fd_features_from_proto F features =
     (let fs = features_default F; inactive = rf_inactive fs - set (omitted_features F)
      in fold (feature_step F inactive) features fs)"

definition fd_features_to_proto :: "fd_ext \<Rightarrow> runtime_features \<Rightarrow> u64 list" where
  "fd_features_to_proto F fs =
     map (discriminator F)
       (filter (\<lambda>k. k \<notin> set (omitted_features F)) (set_order F (dom (rf_active fs))))"

definition fd_context_from_proto :: "fd_ext \<Rightarrow> instr_context \<Rightarrow> fd_context option" where
  "fd_context_from_proto F c =
     Option.bind (array_32 F (ctx_program_id c)) (\<lambda>pid.
     Option.bind (those (map (fd_account_from_proto F) (ctx_accounts c))) (\<lambda>accs.
       Some \<lparr>fc_program_id = pid, fc_accounts = accs,
             fc_instruction_accounts = map fd_instr_account_from_proto (ctx_instr_accounts c),
             fc_instruction_data = ctx_data c, fc_compute_units_available = ctx_cu_avail c,
             fc_slot = unwrap_or 0 (ctx_slot c),
             fc_features = (case ctx_epoch c of
                Some (Some features) \<Rightarrow> fd_features_from_proto F features
              | _ \<Rightarrow> features_default F)\<rparr>))"

definition fd_context_to_proto :: "fd_ext \<Rightarrow> fd_context \<Rightarrow> instr_context" where
  "fd_context_to_proto F c =
     \<lparr>ctx_program_id = to_bytes F (fc_program_id c),
      ctx_accounts = map (fd_account_to_proto F) (fc_accounts c),
      ctx_instr_accounts = map fd_instr_account_to_proto (fc_instruction_accounts c),
      ctx_data = fc_instruction_data c, ctx_cu_avail = fc_compute_units_available c,
      ctx_slot = Some (fc_slot c), ctx_epoch = Some (Some (fd_features_to_proto F (fc_features c)))\<rparr>"

definition fd_effects_from_proto :: "fd_ext \<Rightarrow> instr_effects \<Rightarrow> fd_effects option" where
  "fd_effects_from_proto F e =
     map_option (\<lambda>accs.
       \<lparr>fe_program_result = ie_result e, fe_program_custom_code = ie_custom_err e,
        fe_modified_accounts = accs, fe_compute_units_available = ie_cu_avail e,
        fe_return_data = ie_return_data e\<rparr>)
       (those (map (fd_account_from_proto F) (ie_modified_accounts e)))"

definition fd_effects_to_proto :: "fd_ext \<Rightarrow> fd_effects \<Rightarrow> instr_effects" where
  "fd_effects_to_proto F e =
     \<lparr>ie_result = fe_program_result e, ie_custom_err = fe_program_custom_code e,
      ie_modified_accounts = map (fd_account_to_proto F) (fe_modified_accounts e),
      ie_cu_avail = fe_compute_units_available e, ie_return_data = fe_return_data e\<rparr>"

definition fd_fixture_from_proto :: "fd_ext \<Rightarrow> instr_fixture \<Rightarrow> fd_fixture option" where
  "fd_fixture_from_proto F p =
     Option.bind (if_input p) (\<lambda>i. Option.bind (fd_context_from_proto F i) (\<lambda>c.
     Option.bind (if_output p) (\<lambda>out. Option.bind (fd_effects_from_proto F out) (\<lambda>e.
       Some \<lparr>ff_metadata = if_metadata p, ff_input = c, ff_output = e\<rparr>))))"

definition fd_fixture_to_proto :: "fd_ext \<Rightarrow> fd_fixture \<Rightarrow> instr_fixture" where
  "fd_fixture_to_proto F m =
     \<lparr>if_metadata = ff_metadata m, if_input = Some (fd_context_to_proto F (ff_input m)),
      if_output = Some (fd_effects_to_proto F (ff_output m))\<rparr>"

section \<open>Hashes\<close>

text \<open>The bytes fed to the hasher, in order; hashing in pieces is hashing their concatenation.\<close>

abbreviation le64 :: "u64 \<Rightarrow> bytes" where
  "le64 n \<equiv> le_bytes 8 (unat n)"

abbreviation le32 :: "u32 \<Rightarrow> bytes" where
  "le32 n \<equiv> le_bytes 4 (unat n)"

definition hash_proto_accounts :: "acct_state list \<Rightarrow> bytes" where
  "hash_proto_accounts accs = concat (map (\<lambda>a.
     acct_address a @ acct_owner a @ le64 (acct_lamports a) @ acct_data a @
     [of_bool (acct_executable a)] @ le64 (acct_rent_epoch a) @
     (case acct_seed a of None \<Rightarrow> [] | Some s \<Rightarrow> seed_base s @ seed_path s @ seed_owner s)) accs)"

definition hash_proto_instr_accounts :: "instr_acct list \<Rightarrow> bytes" where
  "hash_proto_instr_accounts accs = concat (map (\<lambda>a.
     le32 (ia_index a) @ [of_bool (ia_is_signer a)] @ [of_bool (ia_is_writable a)]) accs)"

definition hash_proto_feature_set :: "u64 list \<Rightarrow> bytes" where
  "hash_proto_feature_set features = concat (map le64 (sort features))"

definition hash_proto_context :: "instr_context \<Rightarrow> bytes" where
  "hash_proto_context c =
     ctx_program_id c @ hash_proto_accounts (ctx_accounts c) @
     hash_proto_instr_accounts (ctx_instr_accounts c) @ ctx_data c @ le64 (ctx_cu_avail c) @
     (case ctx_slot c of None \<Rightarrow> [] | Some sl \<Rightarrow> le64 sl) @
     (case ctx_epoch c of Some (Some features) \<Rightarrow> hash_proto_feature_set features | _ \<Rightarrow> [])"

definition hash_proto_effects :: "instr_effects \<Rightarrow> bytes" where
  "hash_proto_effects e =
     le32 (ie_result e) @ le32 (ie_custom_err e) @ hash_proto_accounts (ie_modified_accounts e) @
     le64 (ie_cu_avail e) @ ie_return_data e"

definition hash_proto_fixture :: "fd_ext \<Rightarrow> (string \<Rightarrow> bytes) \<Rightarrow> instr_fixture \<Rightarrow> bytes" where
  "hash_proto_fixture F utf8 p =
     keccak F
       ((case if_metadata p of None \<Rightarrow> [] | Some name \<Rightarrow> utf8 name) @
        (case if_input p of None \<Rightarrow> [] | Some c \<Rightarrow> hash_proto_context c) @
        (case if_output p of None \<Rightarrow> [] | Some e \<Rightarrow> hash_proto_effects e))"

section \<open>Laws of the other crates\<close>

text \<open>An address is its 32 bytes.\<close>

definition address_law :: "fd_ext \<Rightarrow> address set \<Rightarrow> bool" where
  "address_law F A \<longleftrightarrow> (\<forall>k \<in> A. length (to_bytes F k) = 32 \<and> new_from_array F (to_bytes F k) = k)"

text \<open>
  A hash set is iterated over its elements, and no two features of the table but the omitted
  ones share a discriminator.
\<close>

definition feature_law :: "fd_ext \<Rightarrow> bool" where
  "feature_law F \<longleftrightarrow>
     finite (feature_ids F) \<and> (\<forall>S. finite S \<longrightarrow> set (set_order F S) = S) \<and>
     inj_on (discriminator F) (feature_ids F - set (omitted_features F))"

text \<open>Every feature of the table is either active or inactive.\<close>

definition features_wf :: "fd_ext \<Rightarrow> runtime_features \<Rightarrow> bool" where
  "features_wf F fs \<longleftrightarrow> dom (rf_active fs) \<subseteq> feature_ids F \<and> rf_inactive fs = feature_ids F - dom (rf_active fs)"

section \<open>Round trips\<close>

lemma array_32_bytes: "address_law F A \<Longrightarrow> k \<in> A \<Longrightarrow> array_32 F (to_bytes F k) = Some k"
  by (simp add: address_law_def array_32_def)

definition account_addresses :: "fd_account list \<Rightarrow> address set" where
  "account_addresses accs = fst ` set accs \<union> (\<lambda>a. owner (fst (snd a))) ` set accs"

lemma fd_accounts_round_trip:
  assumes "address_law F (account_addresses accs)"
  shows "those (map (fd_account_from_proto F) (map (fd_account_to_proto F) accs)) = Some accs"
  using assms
proof (induction accs)
  case (Cons a accs)
  obtain k acc seed where a: "a = (k, acc, seed)" by (cases a)
  have "address_law F (account_addresses accs)"
    using Cons.prems by (auto simp: address_law_def account_addresses_def)
  moreover have "array_32 F (to_bytes F k) = Some k" "array_32 F (to_bytes F (owner acc)) = Some (owner acc)"
    using Cons.prems by (auto intro!: array_32_bytes simp: account_addresses_def a)
  ultimately show ?case using Cons.IH by (simp add: a fd_account_from_proto_def)
qed simp

lemma fd_instr_accounts_round_trip: "fd_instr_account_from_proto (fd_instr_account_to_proto a) = a"
proof -
  have "ucast (ucast i :: u32) = i" for i :: u16
    by (rule word_unat_eq_iff [THEN iffD2])
      (use unsigned_less [of i, where ?'a = nat] in \<open>simp add: unsigned_ucast_eq take_bit_word_eq_self\<close>)
  then show ?thesis by (simp add: fd_instr_account_from_proto_def fd_instr_account_to_proto_def)
qed

lemma feature_step_finds:
  assumes "inj_on (discriminator F) S" and "set (set_order F S) = S" and "k \<in> S"
  shows "feature_step F S (discriminator F k) fs = features_activate k 0 fs"
proof -
  obtain x where x: "List.find (\<lambda>x. discriminator F x = discriminator F k) (set_order F S) = Some x"
    using assms(2,3) by (cases "List.find (\<lambda>x. discriminator F x = discriminator F k) (set_order F S)")
      (auto simp: find_None_iff)
  then have "x \<in> S" "discriminator F x = discriminator F k"
    using assms(2) by (auto simp: find_Some_iff)
  then have "x = k" using assms(1,3) by (auto dest: inj_onD)
  with x show ?thesis by (simp add: feature_step_def)
qed

lemma features_activated:
  "fold (\<lambda>k. features_activate k 0) ks fs =
     \<lparr>rf_active = (\<lambda>k. if k \<in> set ks then Some 0 else rf_active fs k), rf_inactive = rf_inactive fs - set ks\<rparr>"
  by (induction ks arbitrary: fs) (auto simp: features_activate_def fun_eq_iff)

definition exported_features :: "fd_ext \<Rightarrow> runtime_features \<Rightarrow> runtime_features" where
  "exported_features F fs =
     (let keep = dom (rf_active fs) - set (omitted_features F)
      in \<lparr>rf_active = (\<lambda>k. if k \<in> keep then Some 0 else None), rf_inactive = feature_ids F - keep\<rparr>)"

lemma fd_features_round_trip:
  assumes "feature_law F" and "features_wf F fs"
  shows "fd_features_from_proto F (fd_features_to_proto F fs) = exported_features F fs"
proof -
  let ?S = "feature_ids F - set (omitted_features F)"
  let ?ks = "filter (\<lambda>k. k \<notin> set (omitted_features F)) (set_order F (dom (rf_active fs)))"
  have "finite (dom (rf_active fs))"
    using assms by (auto simp: feature_law_def features_wf_def intro: finite_subset)
  then have ks: "set ?ks = dom (rf_active fs) - set (omitted_features F)"
    using assms(1) by (auto simp: feature_law_def)
  then have sub: "set ?ks \<subseteq> ?S" using assms(2) by (auto simp: features_wf_def)
  have step: "feature_step F ?S (discriminator F k) g = features_activate k 0 g" if "k \<in> set ?ks" for k g
    using assms(1) sub that by (intro feature_step_finds) (auto simp: feature_law_def)
  have "fold (feature_step F ?S) (map (discriminator F) ks) g = fold (\<lambda>k. features_activate k 0) ks g"
    if "set ks \<subseteq> set ?ks" for ks g
    using that by (induction ks arbitrary: g) (auto simp: step)
  then have all: "fold (feature_step F ?S) (map (discriminator F) ?ks) (features_default F) =
      fold (\<lambda>k. features_activate k 0) ?ks (features_default F)" by blast
  have "fold (\<lambda>k. features_activate k 0) ?ks (features_default F) = exported_features F fs"
    unfolding features_activated ks by (simp add: exported_features_def features_default_def fun_eq_iff)
  with all show ?thesis by (simp add: fd_features_from_proto_def fd_features_to_proto_def features_default_def)
qed

definition fixture_addresses :: "fd_fixture \<Rightarrow> address set" where
  "fixture_addresses m = insert (fc_program_id (ff_input m))
     (account_addresses (fc_accounts (ff_input m)) \<union> account_addresses (fe_modified_accounts (ff_output m)))"

text \<open>
  Writing a FireDancer model as protobuf and reading it back panics nowhere and changes the
  feature set alone: the active features are kept but for the omitted ones, and all activation
  slots become 0.
\<close>

theorem fd_model_round_trip:
  assumes "address_law F (fixture_addresses m)" and "feature_law F"
    and "features_wf F (fc_features (ff_input m))"
  shows "fd_fixture_from_proto F (fd_fixture_to_proto F m) =
     Some (m\<lparr>ff_input := (ff_input m)\<lparr>fc_features := exported_features F (fc_features (ff_input m))\<rparr>\<rparr>)"
proof -
  have "address_law F (account_addresses (fc_accounts (ff_input m)))"
    "address_law F (account_addresses (fe_modified_accounts (ff_output m)))"
    using assms(1) by (auto simp: address_law_def fixture_addresses_def)
  note accs = this [THEN fd_accounts_round_trip]
  have pid: "array_32 F (to_bytes F (fc_program_id (ff_input m))) = Some (fc_program_id (ff_input m))"
    by (rule array_32_bytes [OF assms(1)]) (simp add: fixture_addresses_def)
  show ?thesis
    using fd_features_round_trip [OF assms(2,3)] accs pid
    by (simp add: fd_fixture_from_proto_def fd_fixture_to_proto_def fd_context_from_proto_def
        fd_context_to_proto_def fd_effects_from_proto_def fd_effects_to_proto_def comp_def
        fd_instr_accounts_round_trip unwrap_or_def)
qed

text \<open>
  The crate's model holds 16-bit account indices: two messages that differ by a multiple of
  65536 select the same account.
\<close>

lemma fd_index_wraps:
  "index_in_transaction (fd_instr_account_from_proto a) = index_in_transaction (fd_instr_account_from_proto b) \<longleftrightarrow>
     unat (ia_index a) mod 2 ^ 16 = unat (ia_index b) mod 2 ^ 16"
  by (simp add: fd_instr_account_from_proto_def word_unat_eq_iff unsigned_ucast_eq take_bit_eq_mod
      unsigned_take_bit_eq)

text \<open>The hash of a feature set does not depend on the order its features are listed in.\<close>

lemma feature_hash_canonical:
  assumes "mset features = mset features'"
  shows "hash_proto_feature_set features = hash_proto_feature_set features'"
proof -
  have "sort features = sort features'"
    using assms by (intro properties_for_sort) simp_all
  then show ?thesis by (simp add: hash_proto_feature_set_def)
qed

end
