(* ===== verification/Firedancer.thy ===== *)
theory Firedancer
  imports Fd_Fixture Fixture_Runner
begin

text \<open>
  The FireDancer adapter (\<open>hpsvm-fixture-firedancer/src/fd.rs\<close>): files in the FireDancer
  formats, and the conversions between FireDancer instruction fixtures and fixtures of this
  project in both directions, with every error they report.
\<close>

section \<open>Errors and files\<close>

datatype adapter_error =
    AdapterIo io_error
  | AdapterJson string
  | AdapterDecode string
  | AdapterUnsupportedFormat string
  | AdapterMissingField string
  | InvalidAddressLength string nat
  | InvalidInstructionAccountIndex nat nat
  | MissingInstructionAccount string
  | UnsupportedSeedAddress string
  | InconsistentComputeUnits u64 u64
  | ComputeUnitsExceedBudget u64 u64
  | InconsistentExecutionStatus "32 word" u32
  | UnsupportedExecutionStatus string
  | UnsupportedReturnDataProgram string string
  | UnsupportedFixtureKind string string
  | MissingComputeUnitBudget

datatype fd_format = FdBinary | FdJson

definition fd_format_for_path :: "string \<Rightarrow> adapter_error + fd_format" where
  "fd_format_for_path path =
     (if path_extension path = Some ''fix'' then Inr FdBinary
      else if path_extension path = Some ''json'' then Inr FdJson
      else Inl (AdapterUnsupportedFormat path))"

definition fd_load :: "fd_ext \<Rightarrow> 'fs fixture_ext \<Rightarrow> 'fs \<Rightarrow> string \<Rightarrow> adapter_error + instr_fixture" where
  "fd_load F C fs path =
     and_then (fd_format_for_path path) (\<lambda>fmt.
     and_then (map_err AdapterIo (read_file C fs path)) (\<lambda>bs.
       case fmt of
         FdBinary \<Rightarrow> map_err AdapterDecode (fd_decode F bs)
       | FdJson \<Rightarrow> map_err AdapterJson (fd_json_parse F bs)))"

text \<open>
  The JSON file is created before it is rendered, so a failed rendering leaves it empty. The
  buffered writer (8192 bytes) is dropped without a flush: an error when the buffered rest is
  written then is lost.
\<close>

definition buffer_capacity :: nat where
  "buffer_capacity = 8192"

definition fd_save ::
    "fd_ext \<Rightarrow> 'fs fixture_ext \<Rightarrow> instr_fixture \<Rightarrow> string \<Rightarrow> 'fs \<Rightarrow> 'fs \<times> (adapter_error + unit)" where
  "fd_save F C p path fs =
     (case fd_format_for_path path of
        Inl e \<Rightarrow> (fs, Inl e)
      | Inr FdBinary \<Rightarrow> apsnd (map_err AdapterIo) (write_bytes C fs path (fd_encode F p))
      | Inr FdJson \<Rightarrow>
          (case write_bytes C fs path [] of
             (fs1, Inl e) \<Rightarrow> (fs1, Inl (AdapterIo e))
           | (fs1, Inr _) \<Rightarrow>
               (case fd_json_print F p of
                  Inl e \<Rightarrow> (fs1, Inl (AdapterJson e))
                | Inr bs \<Rightarrow>
                    if length bs \<le> buffer_capacity then (fst (write_bytes C fs1 path bs), Inr ())
                    else apsnd (map_err (\<lambda>e. AdapterJson (show_io F e))) (write_bytes C fs1 path bs))))"

section \<open>Reading FireDancer fixtures\<close>

definition address_from_bytes :: "fd_ext \<Rightarrow> bytes \<Rightarrow> string \<Rightarrow> adapter_error + address" where
  "address_from_bytes F bs field =
     ok_or (InvalidAddressLength field (length bs)) (array_32 F bs)"

definition account_snapshot_from_proto ::
    "fd_ext \<Rightarrow> string \<Rightarrow> acct_state \<Rightarrow> adapter_error + account_snapshot" where
  "account_snapshot_from_proto F field a =
     (if acct_seed a \<noteq> None then Inl (UnsupportedSeedAddress field)
      else
        and_then (address_from_bytes F (acct_address a) ''account.address'') (\<lambda>k.
        and_then (address_from_bytes F (acct_owner a) ''account.owner'') (\<lambda>own.
          Inr \<lparr>as_address = k, as_lamports = acct_lamports a, as_owner = own,
               as_executable = acct_executable a, as_rent_epoch = acct_rent_epoch a,
               as_data = acct_data a\<rparr>)))"

definition instruction_account_from_proto ::
    "account_snapshot list \<Rightarrow> instr_acct \<Rightarrow> adapter_error + instruction_account_meta" where
  "instruction_account_from_proto accs a =
     (let index = unat (ia_index a)
      in map_ok (\<lambda>acc. \<lparr>iam_pubkey = as_address acc, iam_is_signer = ia_is_signer a,
                        iam_is_writable = ia_is_writable a\<rparr>)
           (ok_or (InvalidInstructionAccountIndex index (length accs)) (list_get accs index)))"

definition status_from_output :: "32 word \<Rightarrow> u32 \<Rightarrow> adapter_error + execution_status" where
  "status_from_output r c =
     (if r = 0 then if c = 0 then Inr ExecSuccess else Inl (InconsistentExecutionStatus r c)
      else if c = 0 then Inr (ExecFailure (ProgramResult r))
      else Inr (ExecFailure (ProgramResultWithCustomError r c)))"

definition return_data_from_output :: "address \<Rightarrow> bytes \<Rightarrow> return_data_snapshot option" where
  "return_data_from_output k bs =
     (if bs = [] then None else Some \<lparr>rds_program_id = k, rds_data = bs\<rparr>)"

definition compares_for_post_accounts :: "account_snapshot list \<Rightarrow> compare list" where
  "compares_for_post_accounts accs =
     [CmpStatus, CmpIncluded, CmpComputeUnits, CmpReturnData] @
     (if accs = [] then []
      else [CmpAccounts (ScopeOnly
              (fold (\<lambda>a ks. if as_address a \<in> set ks then ks else ks @ [as_address a]) accs []))])"

definition firedancer_source :: string where
  "firedancer_source = ''firedancer''"

definition firedancer_tag :: string where
  "firedancer_tag = ''external:firedancer''"

definition fd_header :: "fd_ext \<Rightarrow> string option \<Rightarrow> address \<Rightarrow> fixture_header" where
  "fd_header F metadata program_id =
     header_tag firedancer_tag (header_source firedancer_source
       (header_new
         (case metadata of
            Some name \<Rightarrow> if name = [] then ''firedancer-'' @ show_address F program_id else name
          | None \<Rightarrow> ''firedancer-'' @ show_address F program_id)
         InstructionKind))"

definition fd_import :: "fd_ext \<Rightarrow> instr_fixture \<Rightarrow> adapter_error + compare fixture" where
  "fd_import F p =
     and_then (ok_or (AdapterMissingField ''input'') (if_input p)) (\<lambda>inp.
     and_then (ok_or (AdapterMissingField ''output'') (if_output p)) (\<lambda>out.
     and_then (collect_results (map (account_snapshot_from_proto F ''input.accounts'') (ctx_accounts inp))) (\<lambda>pre.
     and_then (collect_results (map (instruction_account_from_proto pre) (ctx_instr_accounts inp))) (\<lambda>metas.
     and_then (collect_results
       (map (account_snapshot_from_proto F ''output.modified_accounts'') (ie_modified_accounts out))) (\<lambda>post.
     and_then (address_from_bytes F (ctx_program_id inp) ''input.program_id'') (\<lambda>program_id.
     and_then (ok_or (InconsistentComputeUnits (ctx_cu_avail inp) (ie_cu_avail out))
       (checked_sub (ctx_cu_avail inp) (ie_cu_avail out))) (\<lambda>consumed.
     and_then (status_from_output (ie_result out) (ie_custom_err out)) (\<lambda>st.
       Inr \<lparr>fx_header = fd_header F (if_metadata p) program_id,
            fx_input = InstructionInput
              \<lparr>if_runtime = with_compute_unit_limit (ctx_cu_avail inp)
                 (runtime_new (unwrap_or 0 (ctx_slot inp)) None False False),
               if_programs = [], if_pre_accounts = pre, if_program_id = program_id,
               if_accounts = metas, if_data = ctx_data inp\<rparr>,
            fx_expectations =
              \<lparr>baseline =
                 \<lparr>snap_status = st, snap_included = True, snap_compute_units = consumed, snap_fee = 0,
                  snap_logs = [], snap_return_data = return_data_from_output program_id (ie_return_data out),
                  snap_inner = [], snap_post_accounts = post\<rparr>,
               compares = compares_for_post_accounts post\<rparr>\<rparr>))))))))"

section \<open>Writing FireDancer fixtures\<close>

definition account_snapshot_to_proto :: "fd_ext \<Rightarrow> account_snapshot \<Rightarrow> acct_state" where
  "account_snapshot_to_proto F a =
     \<lparr>acct_address = to_bytes F (as_address a), acct_lamports = as_lamports a, acct_data = as_data a,
      acct_executable = as_executable a, acct_rent_epoch = as_rent_epoch a,
      acct_owner = to_bytes F (as_owner a), acct_seed = None\<rparr>"

fun list_position :: "('a \<Rightarrow> bool) \<Rightarrow> 'a list \<Rightarrow> nat option" where
  "list_position P [] = None"
| "list_position P (x # xs) = (if P x then Some 0 else map_option Suc (list_position P xs))"

definition instruction_account_to_proto ::
    "fd_ext \<Rightarrow> account_snapshot list \<Rightarrow> instruction_account_meta \<Rightarrow> adapter_error + instr_acct" where
  "instruction_account_to_proto F accs m =
     and_then (ok_or (MissingInstructionAccount (show_address F (iam_pubkey m)))
       (list_position (\<lambda>candidate. as_address candidate = iam_pubkey m) accs)) (\<lambda>index.
       if index < 2 ^ 32
       then Inr \<lparr>ia_index = of_nat index, ia_is_writable = iam_is_writable m, ia_is_signer = iam_is_signer m\<rparr>
       else Inl (InvalidInstructionAccountIndex index (length accs)))"

fun status_to_output :: "execution_status \<Rightarrow> adapter_error + 32 word \<times> u32" where
  "status_to_output ExecSuccess = Inr (0, 0)"
| "status_to_output (ExecFailure (ProgramResult r)) = Inr (r, 0)"
| "status_to_output (ExecFailure (CustomError c)) = Inr (1, c)"
| "status_to_output (ExecFailure (ProgramResultWithCustomError r c)) = Inr (r, c)"
| "status_to_output (ExecFailure (OtherFailure k msg)) = Inl (UnsupportedExecutionStatus k)"

definition snapshot_to_proto_effects ::
    "fd_ext \<Rightarrow> execution_snapshot \<Rightarrow> address \<Rightarrow> u64 \<Rightarrow> adapter_error + instr_effects" where
  "snapshot_to_proto_effects F s program_id cu =
     and_then (status_to_output (snap_status s)) (\<lambda>(r, c).
     and_then
       (case snap_return_data s of
          None \<Rightarrow> Inr []
        | Some rd \<Rightarrow>
            if rds_program_id rd = program_id then Inr (rds_data rd)
            else Inl (UnsupportedReturnDataProgram (show_address F (rds_program_id rd))
                        (show_address F program_id))) (\<lambda>ret.
       Inr \<lparr>ie_result = r, ie_custom_err = c,
            ie_modified_accounts = map (account_snapshot_to_proto F) (snap_post_accounts s),
            ie_cu_avail = cu, ie_return_data = ret\<rparr>))"

definition fd_export_instruction ::
    "fd_ext \<Rightarrow> string \<Rightarrow> execution_snapshot \<Rightarrow> instruction_fixture \<Rightarrow> adapter_error + instr_fixture" where
  "fd_export_instruction F name base i =
     and_then (ok_or MissingComputeUnitBudget (rt_compute_unit_limit (if_runtime i))) (\<lambda>budget.
     and_then (ok_or (ComputeUnitsExceedBudget budget (snap_compute_units base))
       (checked_sub budget (snap_compute_units base))) (\<lambda>left_cu.
     and_then (collect_results (map (instruction_account_to_proto F (if_pre_accounts i)) (if_accounts i))) (\<lambda>accs.
     and_then (snapshot_to_proto_effects F base (if_program_id i) left_cu) (\<lambda>out.
       Inr \<lparr>if_metadata = Some name,
            if_input = Some
              \<lparr>ctx_program_id = to_bytes F (if_program_id i),
               ctx_accounts = map (account_snapshot_to_proto F) (if_pre_accounts i),
               ctx_instr_accounts = accs, ctx_data = if_data i, ctx_cu_avail = budget,
               ctx_slot = Some (rt_slot (if_runtime i)), ctx_epoch = None\<rparr>,
            if_output = Some out\<rparr>))))"

definition fd_export :: "fd_ext \<Rightarrow> compare fixture \<Rightarrow> adapter_error + instr_fixture" where
  "fd_export F fx =
     (case fx_input fx of
        InstructionInput i \<Rightarrow>
          fd_export_instruction F (fixture_name (fx_header fx)) (baseline (fx_expectations fx)) i
      | TransactionInput t \<Rightarrow> Inl (UnsupportedFixtureKind ''transaction'' ''instruction''))"

section \<open>Round trips\<close>

lemma address_round_trip:
  "address_law F A \<Longrightarrow> k \<in> A \<Longrightarrow> address_from_bytes F (to_bytes F k) field = Inr k"
  by (simp add: address_from_bytes_def array_32_bytes)

definition snapshot_addresses :: "account_snapshot list \<Rightarrow> address set" where
  "snapshot_addresses accs = as_address ` set accs \<union> as_owner ` set accs"

lemma account_snapshots_round_trip:
  assumes "address_law F (snapshot_addresses accs)"
  shows "collect_results (map (account_snapshot_from_proto F field) (map (account_snapshot_to_proto F) accs)) =
     Inr accs"
proof -
  have "account_snapshot_from_proto F field (account_snapshot_to_proto F a) = Inr a" if "a \<in> set accs" for a
    using that address_round_trip [OF assms, of "as_address a"] address_round_trip [OF assms, of "as_owner a"]
    by (simp add: account_snapshot_from_proto_def account_snapshot_to_proto_def snapshot_addresses_def)
  then have "map (account_snapshot_from_proto F field) (map (account_snapshot_to_proto F) accs) = map Inr accs"
    by simp
  then show ?thesis by (simp only: collect_results_map_Inr)
qed

lemma list_position_Some:
  "list_position P xs = Some i \<Longrightarrow> i < length xs \<and> P (xs ! i)"
  by (induction xs arbitrary: i) (auto split: if_splits)

lemma list_position_le:
  "j < length xs \<Longrightarrow> P (xs ! j) \<Longrightarrow> \<exists>i. list_position P xs = Some i \<and> i \<le> j"
proof (induction xs arbitrary: j)
  case (Cons x xs)
  show ?case
  proof (cases j)
    case (Suc k)
    then obtain i where "list_position P xs = Some i" "i \<le> k" using Cons by force
    then show ?thesis using Suc by auto
  qed (use Cons.prems in simp)
qed simp

lemma instruction_account_round_trip:
  assumes "instruction_account_to_proto F accs m = Inr a"
  shows "instruction_account_from_proto accs a = Inr m"
proof -
  obtain i where i: "list_position (\<lambda>candidate. as_address candidate = iam_pubkey m) accs = Some i"
    "i < 2 ^ 32"
    "a = \<lparr>ia_index = of_nat i, ia_is_writable = iam_is_writable m, ia_is_signer = iam_is_signer m\<rparr>"
    using assms by (auto simp: instruction_account_to_proto_def and_then_def ok_or_def
        split: option.splits if_splits)
  from list_position_Some [OF i(1)] have "list_get accs i = Some (accs ! i)" "as_address (accs ! i) = iam_pubkey m"
    by (simp_all add: list_get_def)
  moreover have "unat (of_nat i :: u32) = i" using i(2) by (simp add: unat_of_nat)
  ultimately show ?thesis by (simp add: instruction_account_from_proto_def i(3))
qed

lemma instruction_accounts_round_trip:
  assumes "collect_results (map (instruction_account_to_proto F accs) ms) = Inr ias"
  shows "collect_results (map (instruction_account_from_proto accs) ias) = Inr ms"
proof -
  have "map (instruction_account_to_proto F accs) ms = map Inr ias"
    using assms by (simp add: collect_results_Inr_iff)
  then have "map (instruction_account_from_proto accs) ias = map Inr ms"
    by (induction ms arbitrary: ias) (auto simp: instruction_account_round_trip)
  then show ?thesis by (simp add: collect_results_Inr_iff)
qed

text \<open>What a fixture is after a trip through the FireDancer format.\<close>

definition fd_image :: "fd_ext \<Rightarrow> execution_status \<Rightarrow> u64 \<Rightarrow> compare fixture \<Rightarrow> instruction_fixture \<Rightarrow> compare fixture" where
  "fd_image F st budget fx i =
     (let base = baseline (fx_expectations fx)
      in \<lparr>fx_header = fd_header F (Some (fixture_name (fx_header fx))) (if_program_id i),
          fx_input = InstructionInput (i
            \<lparr>if_runtime := with_compute_unit_limit budget (runtime_new (rt_slot (if_runtime i)) None False False),
             if_programs := []\<rparr>),
          fx_expectations =
            \<lparr>baseline = base
               \<lparr>snap_status := st, snap_included := True, snap_fee := 0, snap_logs := [],
                snap_return_data := (case snap_return_data base of
                   None \<Rightarrow> None | Some rd \<Rightarrow> if rds_data rd = [] then None else Some rd),
                snap_inner := []\<rparr>,
             compares = compares_for_post_accounts (snap_post_accounts base)\<rparr>\<rparr>)"

definition exported_addresses :: "compare fixture \<Rightarrow> instruction_fixture \<Rightarrow> address set" where
  "exported_addresses fx i = insert (if_program_id i)
     (snapshot_addresses (if_pre_accounts i) \<union> snapshot_addresses (snap_post_accounts (baseline (fx_expectations fx))))"

lemma exported_reads_back:
  assumes "fx_input fx = InstructionInput i" and "fd_export F fx = Inr p"
    and "address_law F (exported_addresses fx i)"
  shows "\<exists>budget r c. rt_compute_unit_limit (if_runtime i) = Some budget \<and>
     status_to_output (snap_status (baseline (fx_expectations fx))) = Inr (r, c) \<and>
     fd_import F p = map_ok (\<lambda>st. fd_image F st budget fx i) (status_from_output r c)"
proof -
  let ?base = "baseline (fx_expectations fx)"
  obtain budget rest ias out where b: "rt_compute_unit_limit (if_runtime i) = Some budget"
    and cu: "checked_sub budget (snap_compute_units ?base) = Some rest"
    and ias: "collect_results (map (instruction_account_to_proto F (if_pre_accounts i)) (if_accounts i)) = Inr ias"
    and out: "snapshot_to_proto_effects F ?base (if_program_id i) rest = Inr out"
    and p: "p = \<lparr>if_metadata = Some (fixture_name (fx_header fx)), if_input = Some
      \<lparr>ctx_program_id = to_bytes F (if_program_id i),
       ctx_accounts = map (account_snapshot_to_proto F) (if_pre_accounts i),
       ctx_instr_accounts = ias, ctx_data = if_data i, ctx_cu_avail = budget,
       ctx_slot = Some (rt_slot (if_runtime i)), ctx_epoch = None\<rparr>, if_output = Some out\<rparr>"
    using assms(1,2) by (auto simp: fd_export_def fd_export_instruction_def and_then_def ok_or_def
        split: sum.splits option.splits)
  obtain r c where rc: "status_to_output (snap_status ?base) = Inr (r, c)"
    and o: "ie_result out = r" "ie_custom_err out = c" "ie_cu_avail out = rest"
      "ie_modified_accounts out = map (account_snapshot_to_proto F) (snap_post_accounts ?base)"
      "return_data_from_output (if_program_id i) (ie_return_data out) = (case snap_return_data ?base of
         None \<Rightarrow> None | Some rd \<Rightarrow> if rds_data rd = [] then None else Some rd)"
    using out by (auto simp: snapshot_to_proto_effects_def and_then_def return_data_from_output_def
        split: sum.splits option.splits if_splits)
  have law: "address_law F (snapshot_addresses (if_pre_accounts i))"
    "address_law F (snapshot_addresses (snap_post_accounts ?base))"
    using assms(3) by (auto simp: address_law_def exported_addresses_def)
  have pid: "address_from_bytes F (to_bytes F (if_program_id i)) field = Inr (if_program_id i)" for field
    by (rule address_round_trip [OF assms(3)]) (simp add: exported_addresses_def)
  have consumed: "checked_sub budget rest = Some (snap_compute_units ?base)"
    using cu by (auto simp: checked_sub_Some_iff word_le_nat_alt unat_sub_if')
  have "fd_import F p = map_ok (\<lambda>st. fd_image F st budget fx i) (status_from_output r c)"
    using account_snapshots_round_trip [OF law(1)] account_snapshots_round_trip [OF law(2)]
      instruction_accounts_round_trip [OF ias] pid consumed
    by (simp add: fd_import_def p o fd_image_def Let_def and_then_def unwrap_or_def map_ok_def
        del: map_map split: sum.split)
  with b rc show ?thesis by blast
qed

text \<open>
  Reading back an exported fixture never fails on its addresses, account indices or compute
  units, and gives the fixture with what the format cannot carry replaced: the status is the one
  the two codes stand for, and the codes alone can be refused.
\<close>

theorem fd_export_import:
  assumes "fx_input fx = InstructionInput i" and "fd_export F fx = Inr p"
    and "address_law F (exported_addresses fx i)"
  shows "\<exists>budget r c. rt_compute_unit_limit (if_runtime i) = Some budget \<and>
     status_to_output (snap_status (baseline (fx_expectations fx))) = Inr (r, c) \<and>
     fd_import F p = map_ok (\<lambda>st. fd_image F st budget fx i) (status_from_output r c)"
  by (rule exported_reads_back [OF assms])

lemma collect_results_total:
  "(\<And>x. x \<in> set xs \<Longrightarrow> \<exists>y. f x = Inr y) \<Longrightarrow> \<exists>ys. collect_results (map f xs) = Inr ys"
  by (induction xs) (fastforce simp: map_ok_def)+

lemma imported_accounts_exported:
  assumes "collect_results (map (instruction_account_from_proto accs) ias) = Inr ms"
  shows "\<exists>out. collect_results (map (instruction_account_to_proto F accs) ms) = Inr out"
proof (rule collect_results_total)
  fix m assume "m \<in> set ms"
  moreover have "map (instruction_account_from_proto accs) ias = map Inr ms"
    using assms by (simp add: collect_results_Inr_iff)
  then have "Inr ` set ms = instruction_account_from_proto accs ` set ias"
    by (metis list.set_map)
  ultimately obtain a where "instruction_account_from_proto accs a = Inr m" by (metis image_eqI imageE)
  then have j: "unat (ia_index a) < length accs" "as_address (accs ! unat (ia_index a)) = iam_pubkey m"
    by (auto simp: instruction_account_from_proto_def Let_def map_ok_def ok_or_def list_get_def
        split: option.splits sum.splits if_splits)
  then obtain i where i: "list_position (\<lambda>candidate. as_address candidate = iam_pubkey m) accs = Some i"
    "i \<le> unat (ia_index a)"
    using list_position_le [of "unat (ia_index a)" accs "\<lambda>candidate. as_address candidate = iam_pubkey m"] by blast
  have "unat (ia_index a) < 2 ^ 32" using unsigned_less [of "ia_index a", where ?'a = nat] by simp
  with i show "\<exists>y. instruction_account_to_proto F accs m = Inr y"
    by (simp add: instruction_account_to_proto_def)
qed

lemma status_output_round_trip: "status_from_output r c = Inr st \<Longrightarrow> status_to_output st = Inr (r, c)"
  by (auto simp: status_from_output_def split: if_splits)

lemma fd_header_stable:
  "fd_header F (Some (fixture_name (fd_header F metadata k))) k = fd_header F metadata k"
  by (simp add: fd_header_def header_new_def header_source_def header_tag_def split: option.split)

lemma and_then_eq_Inr: "and_then r f = Inr y \<longleftrightarrow> (\<exists>x. r = Inr x \<and> f x = Inr y)"
  by (cases r) simp_all

lemma ok_or_eq_Inr: "ok_or e m = Inr x \<longleftrightarrow> m = Some x"
  by (cases m) simp_all

lemma fd_import_Inr:
  assumes "fd_import F p = Inr fx"
  obtains inp :: instr_context and out :: instr_effects and pre metas post k consumed st where
    "collect_results (map (instruction_account_from_proto pre) (ctx_instr_accounts inp)) = Inr metas" and
    "checked_sub (ctx_cu_avail inp) (ie_cu_avail out) = Some consumed" and
    "status_from_output (ie_result out) (ie_custom_err out) = Inr st" and
    "fx = \<lparr>fx_header = fd_header F (if_metadata p) k,
       fx_input = InstructionInput
         \<lparr>if_runtime = with_compute_unit_limit (ctx_cu_avail inp)
            (runtime_new (unwrap_or 0 (ctx_slot inp)) None False False),
          if_programs = [], if_pre_accounts = pre, if_program_id = k, if_accounts = metas, if_data = ctx_data inp\<rparr>,
       fx_expectations =
         \<lparr>baseline =
            \<lparr>snap_status = st, snap_included = True, snap_compute_units = consumed, snap_fee = 0,
             snap_logs = [], snap_return_data = return_data_from_output k (ie_return_data out),
             snap_inner = [], snap_post_accounts = post\<rparr>,
          compares = compares_for_post_accounts post\<rparr>\<rparr>"
proof -
  note bindings = assms [unfolded fd_import_def and_then_eq_Inr ok_or_eq_Inr]
  then show thesis by (elim exE conjE) (rule that, assumption+, drule Inr_inject, erule sym)
qed

text \<open>
  C36. Every FireDancer fixture that can be read can be written again, and reading that gives the
  very same fixture: one trip through this project's model normalizes a FireDancer fixture, and
  a second one changes nothing.
\<close>

theorem fd_import_export_stable:
  assumes "fd_import F p = Inr fx" and "fx_input fx = InstructionInput i"
    and "address_law F (exported_addresses fx i)"
  shows "\<exists>q. fd_export F fx = Inr q \<and> fd_import F q = Inr fx"
proof -
  obtain inp :: instr_context and out :: instr_effects and pre metas post k consumed st where
    m: "collect_results (map (instruction_account_from_proto pre) (ctx_instr_accounts inp)) = Inr metas" and
    cu: "checked_sub (ctx_cu_avail inp) (ie_cu_avail out) = Some consumed" and
    st: "status_from_output (ie_result out) (ie_custom_err out) = Inr st" and
    fx: "fx = \<lparr>fx_header = fd_header F (if_metadata p) k,
       fx_input = InstructionInput
         \<lparr>if_runtime = with_compute_unit_limit (ctx_cu_avail inp)
            (runtime_new (unwrap_or 0 (ctx_slot inp)) None False False),
          if_programs = [], if_pre_accounts = pre, if_program_id = k, if_accounts = metas, if_data = ctx_data inp\<rparr>,
       fx_expectations =
         \<lparr>baseline =
            \<lparr>snap_status = st, snap_included = True, snap_compute_units = consumed, snap_fee = 0,
             snap_logs = [], snap_return_data = return_data_from_output k (ie_return_data out),
             snap_inner = [], snap_post_accounts = post\<rparr>,
          compares = compares_for_post_accounts post\<rparr>\<rparr>"
    by (rule fd_import_Inr [OF assms(1)])
  obtain ias where ias: "collect_results (map (instruction_account_to_proto F pre) metas) = Inr ias"
    using imported_accounts_exported [OF m] by blast
  have rest: "checked_sub (ctx_cu_avail inp) consumed = Some (ie_cu_avail out)"
    using cu by (auto simp: checked_sub_Some_iff word_le_nat_alt unat_sub_if')
  note codes = status_output_round_trip [OF st]
  obtain q where q: "fd_export F fx = Inr q"
    using ias rest codes
    by (cases "ie_return_data out") (auto simp: fx fd_export_def fd_export_instruction_def
        with_compute_unit_limit_def snapshot_to_proto_effects_def return_data_from_output_def)
  have "fd_import F q = Inr (fd_image F st (ctx_cu_avail inp) fx i)"
    using exported_reads_back [OF assms(2) q assms(3)] codes st assms(2)
    by (auto simp: fx with_compute_unit_limit_def)
  also have "fd_image F st (ctx_cu_avail inp) fx i = fx"
    using assms(2) by (auto simp: fx fd_image_def fd_header_stable with_compute_unit_limit_def runtime_new_def
        return_data_from_output_def)
  finally show ?thesis using q by blast
qed

text \<open>A JSON fixture that fits the writer's buffer is reported as saved even if writing it failed.\<close>

lemma fd_save_json_hides_failure:
  assumes "fd_format_for_path path = Inr FdJson" and "write_bytes C fs path [] = (fs1, Inr ())"
    and "fd_json_print F p = Inr bs" and "length bs \<le> buffer_capacity"
    and "write_bytes C fs1 path bs = (fs2, Inl e)"
  shows "fd_save F C p path fs = (fs2, Inr ())"
  using assms by (simp add: fd_save_def)

end
