(* ===== verification/Example_Firedancer.thy ===== *)
theory Example_Firedancer
  imports Firedancer Example_Fixture
begin

text \<open>FireDancer fixtures evaluated: the hypotheses of their round trips can hold.\<close>

definition ex_fd :: fd_ext where
  "ex_fd =
     \<lparr>to_bytes = (\<lambda>k. case k of Pubkey n \<Rightarrow> le_bytes 32 n | _ \<Rightarrow> []),
      new_from_array = (\<lambda>bs. Pubkey (le_nat bs)), show_address = (\<lambda>k. ''key''),
      feature_ids = {Pubkey 10, Pubkey 11}, omitted_features = [Pubkey 11],
      set_order = sorted_list_of_set, keccak = (\<lambda>bs. bs), fd_encode = (\<lambda>p. []),
      fd_decode = (\<lambda>bs. Inl ''decode''), fd_json_print = (\<lambda>p. Inl ''print''),
      fd_json_parse = (\<lambda>bs. Inl ''parse''), show_io = (\<lambda>e. ''io'')\<rparr>"

lemma ex_fd_address: "n < 256 ^ 32 \<Longrightarrow> length (to_bytes ex_fd (Pubkey n)) = 32 \<and>
    new_from_array ex_fd (to_bytes ex_fd (Pubkey n)) = Pubkey n"
  by (simp add: ex_fd_def)

lemma ex_fd_law: "(\<And>k. k \<in> A \<Longrightarrow> k \<in> {Pubkey 1, Pubkey 2, Pubkey 3}) \<Longrightarrow> address_law ex_fd A"
  unfolding address_law_def
proof
  fix k assume "\<And>k. k \<in> A \<Longrightarrow> k \<in> {Pubkey 1, Pubkey 2, Pubkey 3}" "k \<in> A"
  then have "k \<in> {Pubkey 1, Pubkey 2, Pubkey 3}" by blast
  then show "length (to_bytes ex_fd k) = 32 \<and> new_from_array ex_fd (to_bytes ex_fd k) = k"
    using ex_fd_address [of 1] ex_fd_address [of 2] ex_fd_address [of 3] by auto
qed

definition ex_acct :: acct_state where
  "ex_acct =
     \<lparr>acct_address = le_bytes 32 2, acct_lamports = 5, acct_data = [7], acct_executable = False,
      acct_rent_epoch = 0, acct_owner = le_bytes 32 3, acct_seed = None\<rparr>"

text \<open>The instruction names the same account twice, by two indices.\<close>

definition ex_proto :: instr_fixture where
  "ex_proto =
     \<lparr>if_metadata = None,
      if_input = Some
        \<lparr>ctx_program_id = le_bytes 32 1, ctx_accounts = [ex_acct, ex_acct],
         ctx_instr_accounts = [\<lparr>ia_index = 1, ia_is_writable = True, ia_is_signer = False\<rparr>],
         ctx_data = [1, 2], ctx_cu_avail = 1000, ctx_slot = None, ctx_epoch = None\<rparr>,
      if_output = Some
        \<lparr>ie_result = 26, ie_custom_err = 7, ie_modified_accounts = [], ie_cu_avail = 900,
         ie_return_data = [4]\<rparr>\<rparr>"

definition ex_imported :: instruction_fixture where
  "ex_imported =
     (let acc = \<lparr>as_address = Pubkey 2, as_lamports = 5, as_owner = Pubkey 3, as_executable = False,
                as_rent_epoch = 0, as_data = [7]\<rparr>
      in \<lparr>if_runtime = with_compute_unit_limit 1000 (runtime_new 0 None False False), if_programs = [],
          if_pre_accounts = [acc, acc], if_program_id = Pubkey 1,
          if_accounts = [\<lparr>iam_pubkey = Pubkey 2, iam_is_signer = False, iam_is_writable = True\<rparr>],
          if_data = [1, 2]\<rparr>)"

definition ex_fd_baseline :: "execution_status \<Rightarrow> execution_snapshot" where
  "ex_fd_baseline st =
     \<lparr>snap_status = st, snap_included = True, snap_compute_units = 100, snap_fee = 0, snap_logs = [],
      snap_return_data = Some \<lparr>rds_program_id = Pubkey 1, rds_data = [4]\<rparr>, snap_inner = [],
      snap_post_accounts = []\<rparr>"

definition ex_fd_fixture :: "execution_status \<Rightarrow> compare fixture" where
  "ex_fd_fixture st =
     \<lparr>fx_header = fd_header ex_fd None (Pubkey 1), fx_input = InstructionInput ex_imported,
      fx_expectations = \<lparr>baseline = ex_fd_baseline st, compares = compares_for_post_accounts []\<rparr>\<rparr>"

lemma ex_fd_addresses: "address_law ex_fd (exported_addresses (ex_fd_fixture st) ex_imported)"
  by (rule ex_fd_law) (auto simp: exported_addresses_def snapshot_addresses_def ex_fd_fixture_def
      ex_fd_baseline_def ex_imported_def Let_def)

lemma ex_fd_import:
  "fd_import ex_fd ex_proto = Inr (ex_fd_fixture (ExecFailure (ProgramResultWithCustomError 26 7)))"
proof -
  have a: "address_from_bytes ex_fd (le_bytes 32 n) field = Inr (Pubkey n)" if "n < 256 ^ 32" for n field
    using that by (simp add: address_from_bytes_def array_32_def ex_fd_def)
  have "account_snapshot_from_proto ex_fd field ex_acct =
      Inr \<lparr>as_address = Pubkey 2, as_lamports = 5, as_owner = Pubkey 3, as_executable = False,
           as_rent_epoch = 0, as_data = [7]\<rparr>" for field
    using a [of 2] a [of 3] by (simp add: account_snapshot_from_proto_def ex_acct_def)
  moreover have "checked_sub 1000 900 = Some 100" by (simp add: checked_sub_def)
  ultimately show ?thesis
    using a [of 1]
    by (simp add: fd_import_def ex_proto_def ex_fd_fixture_def ex_imported_def ex_fd_baseline_def Let_def
        instruction_account_from_proto_def list_get_def status_from_output_def return_data_from_output_def
        unwrap_or_def)
qed

theorem fd_import_export_stable_witness:
  "\<exists>fx q. fd_import ex_fd ex_proto = Inr fx \<and> fd_export ex_fd fx = Inr q \<and> fd_import ex_fd q = Inr fx"
proof -
  have "fx_input (ex_fd_fixture st) = InstructionInput ex_imported" for st
    by (simp add: ex_fd_fixture_def)
  from fd_import_export_stable [OF ex_fd_import this ex_fd_addresses] ex_fd_import show ?thesis by blast
qed

theorem fd_export_import_witness:
  "\<exists>p. fd_export ex_fd (ex_fd_fixture (ExecFailure (CustomError 7))) = Inr p \<and>
     fd_import ex_fd p = Inr (fd_image ex_fd (ExecFailure (ProgramResultWithCustomError 1 7)) 1000
       (ex_fd_fixture (ExecFailure (CustomError 7))) ex_imported)"
proof -
  let ?fx = "ex_fd_fixture (ExecFailure (CustomError 7))"
  have i: "fx_input ?fx = InstructionInput ex_imported" by (simp add: ex_fd_fixture_def)
  have "checked_sub 1000 100 = Some 900" by (simp add: checked_sub_def)
  then obtain p where p: "fd_export ex_fd ?fx = Inr p"
    by (simp add: fd_export_def ex_fd_fixture_def fd_export_instruction_def ex_imported_def Let_def
        with_compute_unit_limit_def ex_fd_baseline_def instruction_account_to_proto_def
        snapshot_to_proto_effects_def)
  from fd_export_import [OF i p ex_fd_addresses] have
    "fd_import ex_fd p = Inr (fd_image ex_fd (ExecFailure (ProgramResultWithCustomError 1 7)) 1000 ?fx ex_imported)"
    by (auto simp: ex_fd_fixture_def ex_fd_baseline_def ex_imported_def Let_def with_compute_unit_limit_def
        status_from_output_def)
  with p show ?thesis by blast
qed

definition ex_model :: fd_fixture where
  "ex_model =
     \<lparr>ff_metadata = Some ''main'',
      ff_input =
        \<lparr>fc_program_id = Pubkey 1, fc_accounts = [(Pubkey 2, (ex_account 5)\<lparr>owner := Pubkey 3\<rparr>, None)],
         fc_instruction_accounts = [\<lparr>index_in_transaction = 0, fia_is_signer = True, fia_is_writable = True\<rparr>],
         fc_instruction_data = [1], fc_compute_units_available = 10, fc_slot = 3,
         fc_features = \<lparr>rf_active = [Pubkey 10 \<mapsto> 5], rf_inactive = {Pubkey 11}\<rparr>\<rparr>,
      ff_output =
        \<lparr>fe_program_result = 0, fe_program_custom_code = 0, fe_modified_accounts = [],
         fe_compute_units_available = 4, fe_return_data = []\<rparr>\<rparr>"

theorem fd_model_round_trip_witness:
  "fd_fixture_from_proto ex_fd (fd_fixture_to_proto ex_fd ex_model) =
     Some (ex_model\<lparr>ff_input := (ff_input ex_model)\<lparr>fc_features :=
       \<lparr>rf_active = [Pubkey 10 \<mapsto> 0], rf_inactive = {Pubkey 11}\<rparr>\<rparr>\<rparr>)"
proof -
  have law: "address_law ex_fd (fixture_addresses ex_model)"
    by (rule ex_fd_law) (auto simp: fixture_addresses_def account_addresses_def ex_model_def)
  have fl: "feature_law ex_fd"
    by (auto simp: feature_law_def ex_fd_def inj_on_def)
  have wf: "features_wf ex_fd (fc_features (ff_input ex_model))"
    by (auto simp: features_wf_def ex_model_def ex_fd_def)
  have "exported_features ex_fd (fc_features (ff_input ex_model)) =
      \<lparr>rf_active = [Pubkey 10 \<mapsto> 0], rf_inactive = {Pubkey 11}\<rparr>"
    by (auto simp: exported_features_def ex_model_def ex_fd_def fun_eq_iff)
  with fd_model_round_trip [OF law fl wf] show ?thesis by simp
qed

end
