(* ===== verification/Vm_Host.thy ===== *)
theory Vm_Host
  imports Vm_Run Accounts_Props
begin

text \<open>
  The host boundary (\<open>host.rs\<close>): the reads and writes of a VM that a type family sees, with
  failures projected onto the host layer of the error taxonomy, and the typed sysvar reads of
  \<open>vm.rs\<close>. A sysvar type is its name, its address and its decoder. The log hook of the
  boundary only emits a trace event.
\<close>

section \<open>Sysvar reads\<close>

definition try_get_sysvar ::
    "string \<Rightarrow> address \<Rightarrow> (bytes \<Rightarrow> string + 'a) \<Rightarrow> 'c svm \<Rightarrow> hpsvm_error + 'a" where
  "try_get_sysvar name key decode s =
     (case get_account_ref (vm_accounts s) key of
        None \<Rightarrow> Inl (MissingRuntimeComponent ''sysvars'')
      | Some acc \<Rightarrow> map_err (SysvarSerialization name) (decode (data acc)))"

definition get_sysvar :: "string \<Rightarrow> address \<Rightarrow> (bytes \<Rightarrow> string + 'a) \<Rightarrow> 'c svm \<Rightarrow> 'a option" where
  "get_sysvar name key decode s =
     (case try_get_sysvar name key decode s of Inl _ \<Rightarrow> None | Inr x \<Rightarrow> Some x)"

section \<open>The host of a VM\<close>

fun host_error_of :: "hpsvm_error \<Rightarrow> host_error" where
  "host_error_of (Execution e) = HostExecution e"
| "host_error_of (Database e) = HostExecution (ExecDatabase e)"
| "host_error_of other = HostExecution (execution_from_hpsvm other)"

definition host_account :: "('pc, 'st, 'c) vm \<Rightarrow> address \<Rightarrow> account option" where
  "host_account v addr = get_account (vm_accounts (snd v)) addr"

definition host_set_account ::
    "('pc, 'x, 'st) db_ext \<Rightarrow> address \<Rightarrow> account \<Rightarrow> ('pc, 'st, 'c) vm
      \<Rightarrow> ('pc, 'st, 'c) vm \<times> (host_error + unit)" where
  "host_set_account X addr acc v =
     (case svm_set_account X addr acc v of (v', r) \<Rightarrow> (v', map_err host_error_of r))"

definition host_set_sysvar ::
    "('pc, 'x, 'st) db_ext \<Rightarrow> sysvar_value \<Rightarrow> ('pc, 'st, 'c) vm
      \<Rightarrow> ('pc, 'st, 'c) vm \<times> (host_error + unit)" where
  "host_set_sysvar X sv v = (case set_sysvar X sv v of (v', r) \<Rightarrow> (v', map_err host_error_of r))"

definition host_has_program :: "('pc, 'x, 'st) db_ext \<Rightarrow> ('pc, 'st, 'c) vm \<Rightarrow> address \<Rightarrow> bool" where
  "host_has_program X v program_id =
     has_program_cache_entry X (vm_accounts (snd v)) (fst v) program_id"

section \<open>Properties\<close>

lemma host_error_projects: "host_error_of e = HostExecution (execution_from_hpsvm e)"
  by (cases e) simp_all

text \<open>
  The host projection keeps what the outer error says: the classification is that of the
  execution layer, an execution failure comes back unchanged, and any other error can be
  recovered from the erased failure.
\<close>

theorem host_error_faithful:
  "host_error_is_fatal (host_error_of e) = execution_error_is_fatal (execution_from_hpsvm e) \<and>
   host_error_of (hpsvm_from_execution x) = HostExecution x \<and>
   (\<exists>a. host_error_of e = HostExecution (ExecFatal a) \<and> downcast_hpsvm a = Some e) \<noteq>
   ((\<exists>x. e = Execution x) \<or> (\<exists>d. e = Database d) \<or> (\<exists>k src. e = AccountSource k src))"
proof -
  have "host_error_of (hpsvm_from_execution x) = HostExecution x"
    by (cases x) (simp_all add: host_error_projects)
  moreover have "(\<exists>a. host_error_of e = HostExecution (ExecFatal a) \<and> downcast_hpsvm a = Some e) \<noteq>
     ((\<exists>x. e = Execution x) \<or> (\<exists>d. e = Database d) \<or> (\<exists>k src. e = AccountSource k src))"
  proof (cases e)
    case (Execution x)
    have "\<not> (\<exists>a. x = ExecFatal a \<and> downcast_hpsvm a = Some (Execution x))"
    proof
      assume "\<exists>a. x = ExecFatal a \<and> downcast_hpsvm a = Some (Execution x)"
      then obtain a where a: "x = ExecFatal a" "downcast_hpsvm a = Some (Execution x)" by blast
      then have "a = AnyHpsvm (Execution (ExecFatal a))" by (cases a) simp_all
      then have "size a = size (AnyHpsvm (Execution (ExecFatal a)))" by (rule arg_cong)
      then show False by simp
    qed
    then show ?thesis using Execution by simp
  qed simp_all
  ultimately show ?thesis by (simp add: host_error_projects)
qed

text \<open>A write through the boundary is read back through it.\<close>

lemma host_set_account_read:
  assumes "host_set_account X k acc v = (v', Inr ())"
  shows "host_account v' k = (if lamports acc = 0 then None else Some acc)"
proof -
  obtain w s where v: "v = (w, s)" by (cases v)
  obtain w' a' where "add_account X k acc (w, vm_accounts (svm_sync_jit_policy s)) = ((w', a'), Inr ())"
    and "vm_accounts (snd v') = a'"
    using assms by (auto simp: v host_set_account_def svm_set_account_def Let_def map_err_def
        sync_block_env_slot_def split: prod.splits sum.splits)
  then show ?thesis
    using add_account_overlay [of X k acc] put_like_lookup
    by (fastforce simp: host_account_def get_account_def)
qed

end
