(* ===== verification/Token_Ops.thy ===== *)
theory Token_Ops
  imports Vm_Host
begin

text \<open>
  The SPL token helpers of \<open>token/mod.rs\<close>, \<open>token/error.rs\<close> and \<open>token/accounts.rs\<close>: typed
  account reads, the signer list of an authority, signing and sending one instruction, the
  error conversions and the account snapshots. The token crates (instruction constructors,
  packing of state) and the transaction type are the record \<open>token_ext\<close>; a key pair is its
  public key and a fresh one an argument. The build has \<open>token\<close> and not \<open>token-2022\<close>.
\<close>

section \<open>Code of other crates\<close>

record spl_mint =
  mint_authority :: "address option"
  mint_supply :: u64
  mint_decimals :: u8
  mint_is_initialized :: bool
  mint_freeze_authority :: "address option"

record 'ts spl_token =
  tok_mint :: address
  tok_owner :: address
  tok_amount :: u64
  tok_delegate :: "address option"
  tok_state :: 'ts
  tok_is_native :: "u64 option"
  tok_delegated_amount :: u64
  tok_close_authority :: "address option"

record ('pe, 'tx, 'ts) token_ext =
  program_error_code :: "'pe \<Rightarrow> u64"
  associated_token_address :: "address \<Rightarrow> address \<Rightarrow> address \<Rightarrow> address"
  mint_len :: nat
  mint_pack :: "spl_mint \<Rightarrow> bytes \<Rightarrow> 'pe + bytes"
  mint_unpack :: "bytes \<Rightarrow> 'pe + spl_mint"
  token_len :: nat
  token_pack :: "'ts spl_token \<Rightarrow> bytes \<Rightarrow> 'pe + bytes"
  token_unpack :: "bytes \<Rightarrow> 'pe + 'ts spl_token"
  multisig_len :: nat
  token_default :: "'ts spl_token"
  state_initialized :: 'ts
  native_mint_id :: address
  native_mint_decimals :: u8
  rent_decode :: "bytes \<Rightarrow> string + rent"
  new_with_payer :: "instruction list \<Rightarrow> address \<Rightarrow> 'tx"
  partial_sign :: "address list \<Rightarrow> hash \<Rightarrow> 'tx \<Rightarrow> 'tx option"
  into_versioned :: "'tx \<Rightarrow> versioned_tx"

definition default_token_program :: address where
  "default_token_program = TokenProgram"

section \<open>Errors\<close>

datatype 'pe token_error =
    TokenAccountNotFound address
  | AccountDataTooSmallFor nat nat
  | UnpackError 'pe
  | TransactionFailed failed_transaction_metadata

definition failed_from_program_error ::
    "('pe, 'tx, 'ts) token_ext \<Rightarrow> 'pe \<Rightarrow> failed_transaction_metadata" where
  "failed_from_program_error T e =
     \<lparr>failed_err = InstructionError 0 (Custom (ucast (program_error_code T e))),
      failed_meta = default_metadata\<rparr>"

definition failed_from_token_error ::
    "('pe, 'tx, 'ts) token_ext \<Rightarrow> 'pe token_error \<Rightarrow> failed_transaction_metadata" where
  "failed_from_token_error T e =
     (case e of
        TokenAccountNotFound _ \<Rightarrow>
          \<lparr>failed_err = transaction_error.AccountNotFound, failed_meta = default_metadata\<rparr>
      | AccountDataTooSmallFor _ _ \<Rightarrow>
          \<lparr>failed_err = InstructionError 0 AccountDataTooSmall, failed_meta = default_metadata\<rparr>
      | UnpackError e \<Rightarrow> failed_from_program_error T e
      | TransactionFailed m \<Rightarrow> m)"

definition token_error_from_failed :: "failed_transaction_metadata \<Rightarrow> 'pe token_error" where
  "token_error_from_failed m = TransactionFailed m"

section \<open>Helpers\<close>

text \<open>The account type a caller reads is its length and its unpacking.\<close>

definition get_spl_account ::
    "nat \<Rightarrow> (bytes \<Rightarrow> 'pe + 'a) \<Rightarrow> 'c svm \<Rightarrow> address \<Rightarrow> 'pe token_error + 'a" where
  "get_spl_account len unpack s addr =
     and_then (ok_or (TokenAccountNotFound addr) (get_account (vm_accounts s) addr)) (\<lambda>acc.
       if len \<le> length (data acc) then map_err UnpackError (unpack (take len (data acc)))
       else Inl (AccountDataTooSmallFor len (length (data acc))))"

definition get_multisig_signers :: "address \<Rightarrow> address list \<Rightarrow> address list" where
  "get_multisig_signers authority signing_pubkeys =
     (if signing_pubkeys = [authority] then [] else signing_pubkeys)"

type_synonym ('pc, 'st, 'c, 'r) token_run =
  "('pc, 'st, 'c) vm
    \<Rightarrow> (('pc, 'st, 'c) vm \<times> hook_event list \<times> (failed_transaction_metadata + 'r)) option"

definition sign_and_send ::
    "('pe, 'tx, 'ts) token_ext \<Rightarrow> ('pc, 'x, 'st) db_ext \<Rightarrow> 'c history_ops \<Rightarrow> ('pc, 'st, 'c) handlers
      \<Rightarrow> address \<Rightarrow> address list \<Rightarrow> instruction \<Rightarrow> ('pc, 'st, 'c, unit) token_run" where
  "sign_and_send T X L Hs payer signers ix v =
     (let block_hash = latest_blockhash (snd v);
          tx = new_with_payer T [ix] payer
      in case Option.bind (partial_sign T [payer] block_hash tx) (partial_sign T signers block_hash) of
           None \<Rightarrow> None
         | Some tx' \<Rightarrow>
             map_option (\<lambda>(v', evs, r). (v', evs, map_ok (\<lambda>_. ()) r))
               (send_transaction X L Hs (into_versioned T tx') v))"

section \<open>Account snapshots\<close>

definition system_account :: "u64 \<Rightarrow> account" where
  "system_account l = default_account\<lparr>lamports := l, owner := SystemProgram\<rparr>"

definition keyed_system_account :: "address \<Rightarrow> u64 \<Rightarrow> address \<times> account" where
  "keyed_system_account addr l = (addr, system_account l)"

text \<open>\<open>expect\<close> on a packing that does not fit its buffer panics: no value.\<close>

definition packed_account ::
    "rent \<Rightarrow> nat \<Rightarrow> (bytes \<Rightarrow> 'pe + bytes) \<Rightarrow> address \<Rightarrow> account option" where
  "packed_account r len pack prog =
     (case pack (replicate len 0) of
        Inl _ \<Rightarrow> None
      | Inr bs \<Rightarrow> Some (default_account\<lparr>lamports := minimum_balance r len, data := bs, owner := prog\<rparr>))"

definition mint_account_with_program ::
    "('pe, 'tx, 'ts) token_ext \<Rightarrow> ('pc, 'x, 'st) db_ext \<Rightarrow> spl_mint \<Rightarrow> address \<Rightarrow> account option" where
  "mint_account_with_program T X m prog =
     packed_account (rent_default X) (mint_len T) (mint_pack T m) prog"

definition mint_account ::
    "('pe, 'tx, 'ts) token_ext \<Rightarrow> ('pc, 'x, 'st) db_ext \<Rightarrow> spl_mint \<Rightarrow> account option" where
  "mint_account T X m = mint_account_with_program T X m default_token_program"

definition keyed_mint_account ::
    "('pe, 'tx, 'ts) token_ext \<Rightarrow> ('pc, 'x, 'st) db_ext \<Rightarrow> address \<Rightarrow> spl_mint
      \<Rightarrow> (address \<times> account) option" where
  "keyed_mint_account T X addr m = map_option (Pair addr) (mint_account T X m)"

definition keyed_mint_account_with_program ::
    "('pe, 'tx, 'ts) token_ext \<Rightarrow> ('pc, 'x, 'st) db_ext \<Rightarrow> address \<Rightarrow> spl_mint \<Rightarrow> address
      \<Rightarrow> (address \<times> account) option" where
  "keyed_mint_account_with_program T X addr m prog =
     map_option (Pair addr) (mint_account_with_program T X m prog)"

definition token_account_with_program ::
    "('pe, 'tx, 'ts) token_ext \<Rightarrow> ('pc, 'x, 'st) db_ext \<Rightarrow> 'ts spl_token \<Rightarrow> address
      \<Rightarrow> account option" where
  "token_account_with_program T X t prog =
     packed_account (rent_default X) (token_len T) (token_pack T t) prog"

definition token_account ::
    "('pe, 'tx, 'ts) token_ext \<Rightarrow> ('pc, 'x, 'st) db_ext \<Rightarrow> 'ts spl_token \<Rightarrow> account option" where
  "token_account T X t = token_account_with_program T X t default_token_program"

definition keyed_token_account ::
    "('pe, 'tx, 'ts) token_ext \<Rightarrow> ('pc, 'x, 'st) db_ext \<Rightarrow> address \<Rightarrow> 'ts spl_token
      \<Rightarrow> (address \<times> account) option" where
  "keyed_token_account T X addr t = map_option (Pair addr) (token_account T X t)"

definition keyed_token_account_with_program ::
    "('pe, 'tx, 'ts) token_ext \<Rightarrow> ('pc, 'x, 'st) db_ext \<Rightarrow> address \<Rightarrow> 'ts spl_token \<Rightarrow> address
      \<Rightarrow> (address \<times> account) option" where
  "keyed_token_account_with_program T X addr t prog =
     map_option (Pair addr) (token_account_with_program T X t prog)"

definition keyed_associated_token_account_with_program ::
    "('pe, 'tx, 'ts) token_ext \<Rightarrow> ('pc, 'x, 'st) db_ext \<Rightarrow> address \<Rightarrow> address \<Rightarrow> u64 \<Rightarrow> address
      \<Rightarrow> (address \<times> account) option" where
  "keyed_associated_token_account_with_program T X wallet mint_key qty prog =
     keyed_token_account_with_program T X (associated_token_address T wallet mint_key prog)
       ((token_default T)\<lparr>tok_mint := mint_key, tok_owner := wallet, tok_amount := qty,
          tok_state := state_initialized T\<rparr>) prog"

definition keyed_associated_token_account ::
    "('pe, 'tx, 'ts) token_ext \<Rightarrow> ('pc, 'x, 'st) db_ext \<Rightarrow> address \<Rightarrow> address \<Rightarrow> u64
      \<Rightarrow> (address \<times> account) option" where
  "keyed_associated_token_account T X wallet mint_key qty =
     keyed_associated_token_account_with_program T X wallet mint_key qty default_token_program"

definition set_keyed_account ::
    "('pc, 'x, 'st) db_ext \<Rightarrow> address \<times> account \<Rightarrow> ('pc, 'st, 'c) vm
      \<Rightarrow> ('pc, 'st, 'c) vm \<times> (hpsvm_error + unit)" where
  "set_keyed_account X ka v = svm_set_account X (fst ka) (snd ka) v"

section \<open>The native mint\<close>

definition native_mint :: "('pe, 'tx, 'ts) token_ext \<Rightarrow> spl_mint" where
  "native_mint T =
     \<lparr>mint_authority = None, mint_supply = 0, mint_decimals = native_mint_decimals T,
      mint_is_initialized = True, mint_freeze_authority = None\<rparr>"

definition create_native_mint ::
    "('pe, 'tx, 'ts) token_ext \<Rightarrow> ('pc, 'x, 'st) db_ext \<Rightarrow> ('pc, 'st, 'c) vm
      \<Rightarrow> ('pc, 'st, 'c) vm option" where
  "create_native_mint T X v =
     (case mint_pack T (native_mint T) (replicate (mint_len T) 0) of
        Inl _ \<Rightarrow> None
      | Inr bs \<Rightarrow>
          (case get_sysvar ''Rent'' RentSysvar (rent_decode T) (snd v) of
             None \<Rightarrow> None
           | Some r \<Rightarrow>
               (case svm_set_account X (native_mint_id T)
                       \<lparr>lamports = minimum_balance r (length bs), data = bs, owner = TokenProgram,
                        executable = False, rent_epoch = 0\<rparr> v of
                  (v', Inl _) \<Rightarrow> None
                | (v', Inr _) \<Rightarrow> Some v')))"

end
