(* ===== verification/Token_Builders.thy ===== *)
theory Token_Builders
  imports Token_Ops
begin

text \<open>
  The token instruction builders (one file of \<open>token/\<close> each). A builder is a record: the ones that
  act with an authority extend \<open>token_op\<close>, whose setters they share. Sending consumes the builder
  and the VM it borrows. The instruction constructors of the token crates are \<open>token_ixs\<close>, with
  the arguments in the order of the crate.
\<close>

section \<open>Instruction constructors\<close>

record ('pe, 'aty) token_ixs =
  approve_ix :: "address \<Rightarrow> address \<Rightarrow> address \<Rightarrow> address \<Rightarrow> address list \<Rightarrow> u64 \<Rightarrow> 'pe + instruction"
  approve_checked_ix :: "address \<Rightarrow> address \<Rightarrow> address \<Rightarrow> address \<Rightarrow> address \<Rightarrow> address list \<Rightarrow> u64 \<Rightarrow> u8 \<Rightarrow> 'pe + instruction"
  burn_ix :: "address \<Rightarrow> address \<Rightarrow> address \<Rightarrow> address \<Rightarrow> address list \<Rightarrow> u64 \<Rightarrow> 'pe + instruction"
  burn_checked_ix :: "address \<Rightarrow> address \<Rightarrow> address \<Rightarrow> address \<Rightarrow> address list \<Rightarrow> u64 \<Rightarrow> u8 \<Rightarrow> 'pe + instruction"
  close_account_ix :: "address \<Rightarrow> address \<Rightarrow> address \<Rightarrow> address \<Rightarrow> address list \<Rightarrow> 'pe + instruction"
  freeze_account_ix :: "address \<Rightarrow> address \<Rightarrow> address \<Rightarrow> address \<Rightarrow> address list \<Rightarrow> 'pe + instruction"
  thaw_account_ix :: "address \<Rightarrow> address \<Rightarrow> address \<Rightarrow> address \<Rightarrow> address list \<Rightarrow> 'pe + instruction"
  mint_to_ix :: "address \<Rightarrow> address \<Rightarrow> address \<Rightarrow> address \<Rightarrow> address list \<Rightarrow> u64 \<Rightarrow> 'pe + instruction"
  mint_to_checked_ix :: "address \<Rightarrow> address \<Rightarrow> address \<Rightarrow> address \<Rightarrow> address list \<Rightarrow> u64 \<Rightarrow> u8 \<Rightarrow> 'pe + instruction"
  revoke_ix :: "address \<Rightarrow> address \<Rightarrow> address \<Rightarrow> address list \<Rightarrow> 'pe + instruction"
  spl_set_authority_ix :: "address \<Rightarrow> address \<Rightarrow> address option \<Rightarrow> 'aty \<Rightarrow> address \<Rightarrow> address list \<Rightarrow> 'pe + instruction"
  spl_transfer_ix :: "address \<Rightarrow> address \<Rightarrow> address \<Rightarrow> address \<Rightarrow> address list \<Rightarrow> u64 \<Rightarrow> 'pe + instruction"
  transfer_checked_ix :: "address \<Rightarrow> address \<Rightarrow> address \<Rightarrow> address \<Rightarrow> address \<Rightarrow> address list \<Rightarrow> u64 \<Rightarrow> u8 \<Rightarrow> 'pe + instruction"
  sync_native_ix :: "address \<Rightarrow> address \<Rightarrow> 'pe + instruction"
  initialize_account3_ix :: "address \<Rightarrow> address \<Rightarrow> address \<Rightarrow> address \<Rightarrow> 'pe + instruction"
  initialize_mint2_ix :: "address \<Rightarrow> address \<Rightarrow> address \<Rightarrow> address option \<Rightarrow> u8 \<Rightarrow> 'pe + instruction"
  initialize_multisig2_ix :: "address \<Rightarrow> address \<Rightarrow> address list \<Rightarrow> u8 \<Rightarrow> 'pe + instruction"
  create_native_mint_ix :: "address \<Rightarrow> address \<Rightarrow> 'pe + instruction"
  create_account_ix :: "address \<Rightarrow> address \<Rightarrow> u64 \<Rightarrow> u64 \<Rightarrow> address \<Rightarrow> instruction"
  create_ata_ix :: "address \<Rightarrow> address \<Rightarrow> address \<Rightarrow> address \<Rightarrow> instruction"
  create_ata_idempotent_ix :: "address \<Rightarrow> address \<Rightarrow> address \<Rightarrow> address \<Rightarrow> instruction"

section \<open>Builders with an authority\<close>

record token_op =
  op_payer :: address
  op_signers :: "address list"
  op_owner :: "address option"
  op_program :: "address option"

definition op_set_owner :: "address \<Rightarrow> 'b token_op_scheme \<Rightarrow> 'b token_op_scheme" where
  "op_set_owner k b = b\<lparr>op_owner := Some k, op_signers := [k]\<rparr>"

definition op_set_multisig ::
    "address \<Rightarrow> address list \<Rightarrow> 'b token_op_scheme \<Rightarrow> 'b token_op_scheme" where
  "op_set_multisig multisig ks b = b\<lparr>op_owner := Some multisig, op_signers := ks\<rparr>"

definition op_set_program :: "address \<Rightarrow> 'b token_op_scheme \<Rightarrow> 'b token_op_scheme" where
  "op_set_program p b = b\<lparr>op_program := Some p\<rparr>"

definition op_token_program :: "'b token_op_scheme \<Rightarrow> address" where
  "op_token_program b = unwrap_or default_token_program (op_program b)"

definition op_authority :: "'b token_op_scheme \<Rightarrow> address" where
  "op_authority b = unwrap_or (op_payer b) (op_owner b)"

definition op_signer_keys :: "'b token_op_scheme \<Rightarrow> address list" where
  "op_signer_keys b = get_multisig_signers (op_authority b) (op_signers b)"

text \<open>The account an operation falls back to: the associated account of its authority.\<close>

definition op_account ::
    "('pe, 'tx, 'ts) token_ext \<Rightarrow> 'b token_op_scheme \<Rightarrow> address \<Rightarrow> address option \<Rightarrow> address" where
  "op_account T b mint_key given =
     unwrap_or (associated_token_address T (op_authority b) mint_key (op_token_program b)) given"

definition mint_of ::
    "('pe, 'tx, 'ts) token_ext \<Rightarrow> 'c svm \<Rightarrow> address \<Rightarrow> failed_transaction_metadata + spl_mint" where
  "mint_of T s mint_key =
     map_err (failed_from_token_error T) (get_spl_account (mint_len T) (mint_unpack T) s mint_key)"

text \<open>A failure of the constructor is converted and returned before anything is signed.\<close>

definition op_send ::
    "('pe, 'tx, 'ts) token_ext \<Rightarrow> ('pc, 'x, 'st) db_ext \<Rightarrow> 'c history_ops \<Rightarrow> ('pc, 'st, 'c) handlers
      \<Rightarrow> 'b token_op_scheme \<Rightarrow> failed_transaction_metadata + instruction
      \<Rightarrow> ('pc, 'st, 'c, unit) token_run" where
  "op_send T X L Hs b r v =
     (case r of
        Inl failure \<Rightarrow> Some (v, [], Inl failure)
      | Inr ix \<Rightarrow> sign_and_send T X L Hs (op_payer b) (op_signers b) ix v)"


subsection \<open>Approve\<close>

record approve_op = token_op +
  apv_delegate :: address
  apv_source :: address
  apv_amount :: u64

definition approve_new :: "address \<Rightarrow> address \<Rightarrow> address \<Rightarrow> u64 \<Rightarrow> approve_op" where
  "approve_new payer delegate src qty =
     \<lparr>op_payer = payer, op_signers = [payer], op_owner = None, op_program = None,
      apv_delegate = delegate, apv_source = src, apv_amount = qty\<rparr>"

definition approve_send ::
    "('pe, 'tx, 'ts) token_ext \<Rightarrow> ('pe, 'aty) token_ixs \<Rightarrow> ('pc, 'x, 'st) db_ext \<Rightarrow> 'c history_ops
      \<Rightarrow> ('pc, 'st, 'c) handlers \<Rightarrow> approve_op \<Rightarrow> ('pc, 'st, 'c, unit) token_run" where
  "approve_send T I X L Hs b v =
     op_send T X L Hs b
       (map_err (failed_from_program_error T)
         (approve_ix I (op_token_program b) (apv_source b) (apv_delegate b)
           (op_authority b) (op_signer_keys b) (apv_amount b))) v"

subsection \<open>Approve checked\<close>

record approve_checked_op = token_op +
  apc_delegate :: address
  apc_mint :: address
  apc_source :: "address option"
  apc_amount :: u64
  apc_decimals :: "u8 option"

definition approve_checked_new :: "address \<Rightarrow> address \<Rightarrow> address \<Rightarrow> u64 \<Rightarrow> approve_checked_op" where
  "approve_checked_new payer delegate mint_key qty =
     \<lparr>op_payer = payer, op_signers = [payer], op_owner = None, op_program = None,
      apc_delegate = delegate, apc_mint = mint_key, apc_source = None, apc_amount = qty, apc_decimals = None\<rparr>"

definition approve_checked_set_source :: "address \<Rightarrow> approve_checked_op \<Rightarrow> approve_checked_op" where
  "approve_checked_set_source x b = b\<lparr>apc_source := Some x\<rparr>"

definition approve_checked_send ::
    "('pe, 'tx, 'ts) token_ext \<Rightarrow> ('pe, 'aty) token_ixs \<Rightarrow> ('pc, 'x, 'st) db_ext \<Rightarrow> 'c history_ops
      \<Rightarrow> ('pc, 'st, 'c) handlers \<Rightarrow> approve_checked_op \<Rightarrow> ('pc, 'st, 'c, unit) token_run" where
  "approve_checked_send T I X L Hs b v =
     op_send T X L Hs b (and_then (mint_of T (snd v) (apc_mint b)) (\<lambda>m.
       map_err (failed_from_program_error T)
         (approve_checked_ix I (op_token_program b) (op_account T b (apc_mint b) (apc_source b)) (apc_mint b) (apc_delegate b)
           (op_authority b) (op_signer_keys b) (apc_amount b) (unwrap_or (mint_decimals m) (apc_decimals b))))) v"

subsection \<open>Burn\<close>

record burn_op = token_op +
  brn_mint :: address
  brn_account :: address
  brn_amount :: u64

definition burn_new :: "address \<Rightarrow> address \<Rightarrow> address \<Rightarrow> u64 \<Rightarrow> burn_op" where
  "burn_new payer mint_key account qty =
     \<lparr>op_payer = payer, op_signers = [payer], op_owner = None, op_program = None,
      brn_mint = mint_key, brn_account = account, brn_amount = qty\<rparr>"

definition burn_send ::
    "('pe, 'tx, 'ts) token_ext \<Rightarrow> ('pe, 'aty) token_ixs \<Rightarrow> ('pc, 'x, 'st) db_ext \<Rightarrow> 'c history_ops
      \<Rightarrow> ('pc, 'st, 'c) handlers \<Rightarrow> burn_op \<Rightarrow> ('pc, 'st, 'c, unit) token_run" where
  "burn_send T I X L Hs b v =
     op_send T X L Hs b
       (map_err (failed_from_program_error T)
         (burn_ix I (op_token_program b) (brn_account b) (brn_mint b)
           (op_authority b) (op_signer_keys b) (brn_amount b))) v"

subsection \<open>Burn checked\<close>

record burn_checked_op = token_op +
  brc_mint :: address
  brc_account :: address
  brc_amount :: u64
  brc_decimals :: "u8 option"

definition burn_checked_new :: "address \<Rightarrow> address \<Rightarrow> address \<Rightarrow> u64 \<Rightarrow> burn_checked_op" where
  "burn_checked_new payer mint_key account qty =
     \<lparr>op_payer = payer, op_signers = [payer], op_owner = None, op_program = None,
      brc_mint = mint_key, brc_account = account, brc_amount = qty, brc_decimals = None\<rparr>"

definition burn_checked_set_decimals :: "u8 \<Rightarrow> burn_checked_op \<Rightarrow> burn_checked_op" where
  "burn_checked_set_decimals x b = b\<lparr>brc_decimals := Some x\<rparr>"

definition burn_checked_send ::
    "('pe, 'tx, 'ts) token_ext \<Rightarrow> ('pe, 'aty) token_ixs \<Rightarrow> ('pc, 'x, 'st) db_ext \<Rightarrow> 'c history_ops
      \<Rightarrow> ('pc, 'st, 'c) handlers \<Rightarrow> burn_checked_op \<Rightarrow> ('pc, 'st, 'c, unit) token_run" where
  "burn_checked_send T I X L Hs b v =
     op_send T X L Hs b (and_then (mint_of T (snd v) (brc_mint b)) (\<lambda>m.
       map_err (failed_from_program_error T)
         (burn_checked_ix I (op_token_program b) (brc_account b) (brc_mint b)
           (op_authority b) (op_signer_keys b) (brc_amount b) (unwrap_or (mint_decimals m) (brc_decimals b))))) v"

subsection \<open>Close account\<close>

record close_account_op = token_op +
  cla_account :: address
  cla_destination :: address

definition close_account_new :: "address \<Rightarrow> address \<Rightarrow> address \<Rightarrow> close_account_op" where
  "close_account_new payer account destination =
     \<lparr>op_payer = payer, op_signers = [payer], op_owner = None, op_program = None,
      cla_account = account, cla_destination = destination\<rparr>"

definition close_account_send ::
    "('pe, 'tx, 'ts) token_ext \<Rightarrow> ('pe, 'aty) token_ixs \<Rightarrow> ('pc, 'x, 'st) db_ext \<Rightarrow> 'c history_ops
      \<Rightarrow> ('pc, 'st, 'c) handlers \<Rightarrow> close_account_op \<Rightarrow> ('pc, 'st, 'c, unit) token_run" where
  "close_account_send T I X L Hs b v =
     op_send T X L Hs b
       (map_err (failed_from_program_error T)
         (close_account_ix I (op_token_program b) (cla_account b)
           (cla_destination b) (op_authority b) (op_signer_keys b))) v"

subsection \<open>Freeze account\<close>

record freeze_account_op = token_op +
  frz_mint :: address
  frz_account :: "address option"

definition freeze_account_new :: "address \<Rightarrow> address \<Rightarrow> freeze_account_op" where
  "freeze_account_new payer mint_key =
     \<lparr>op_payer = payer, op_signers = [payer], op_owner = None, op_program = None,
      frz_mint = mint_key, frz_account = None\<rparr>"

definition freeze_account_send ::
    "('pe, 'tx, 'ts) token_ext \<Rightarrow> ('pe, 'aty) token_ixs \<Rightarrow> ('pc, 'x, 'st) db_ext \<Rightarrow> 'c history_ops
      \<Rightarrow> ('pc, 'st, 'c) handlers \<Rightarrow> freeze_account_op \<Rightarrow> ('pc, 'st, 'c, unit) token_run" where
  "freeze_account_send T I X L Hs b v =
     op_send T X L Hs b
       (map_err (failed_from_program_error T)
         (freeze_account_ix I (op_token_program b) (op_account T b (frz_mint b) (frz_account b))
           (frz_mint b) (op_authority b) (op_signer_keys b))) v"

subsection \<open>Thaw account\<close>

record thaw_account_op = token_op +
  thw_mint :: address
  thw_account :: "address option"

definition thaw_account_new :: "address \<Rightarrow> address \<Rightarrow> thaw_account_op" where
  "thaw_account_new payer mint_key =
     \<lparr>op_payer = payer, op_signers = [payer], op_owner = None, op_program = None,
      thw_mint = mint_key, thw_account = None\<rparr>"

definition thaw_account_send ::
    "('pe, 'tx, 'ts) token_ext \<Rightarrow> ('pe, 'aty) token_ixs \<Rightarrow> ('pc, 'x, 'st) db_ext \<Rightarrow> 'c history_ops
      \<Rightarrow> ('pc, 'st, 'c) handlers \<Rightarrow> thaw_account_op \<Rightarrow> ('pc, 'st, 'c, unit) token_run" where
  "thaw_account_send T I X L Hs b v =
     op_send T X L Hs b
       (map_err (failed_from_program_error T)
         (thaw_account_ix I (op_token_program b) (op_account T b (thw_mint b) (thw_account b))
           (thw_mint b) (op_authority b) (op_signer_keys b))) v"

subsection \<open>Mint to\<close>

record mint_to_op = token_op +
  mto_mint :: address
  mto_destination :: address
  mto_amount :: u64

definition mint_to_new :: "address \<Rightarrow> address \<Rightarrow> address \<Rightarrow> u64 \<Rightarrow> mint_to_op" where
  "mint_to_new payer mint_key destination qty =
     \<lparr>op_payer = payer, op_signers = [payer], op_owner = None, op_program = None,
      mto_mint = mint_key, mto_destination = destination, mto_amount = qty\<rparr>"

definition mint_to_send ::
    "('pe, 'tx, 'ts) token_ext \<Rightarrow> ('pe, 'aty) token_ixs \<Rightarrow> ('pc, 'x, 'st) db_ext \<Rightarrow> 'c history_ops
      \<Rightarrow> ('pc, 'st, 'c) handlers \<Rightarrow> mint_to_op \<Rightarrow> ('pc, 'st, 'c, unit) token_run" where
  "mint_to_send T I X L Hs b v =
     op_send T X L Hs b
       (map_err (failed_from_program_error T)
         (mint_to_ix I (op_token_program b) (mto_mint b) (mto_destination b)
           (op_authority b) (op_signer_keys b) (mto_amount b))) v"

subsection \<open>Mint to checked\<close>

record mint_to_checked_op = token_op +
  mtc_mint :: address
  mtc_destination :: address
  mtc_amount :: u64
  mtc_decimals :: "u8 option"

definition mint_to_checked_new :: "address \<Rightarrow> address \<Rightarrow> address \<Rightarrow> u64 \<Rightarrow> mint_to_checked_op" where
  "mint_to_checked_new payer mint_key destination qty =
     \<lparr>op_payer = payer, op_signers = [payer], op_owner = None, op_program = None,
      mtc_mint = mint_key, mtc_destination = destination, mtc_amount = qty, mtc_decimals = None\<rparr>"

definition mint_to_checked_set_decimals :: "u8 \<Rightarrow> mint_to_checked_op \<Rightarrow> mint_to_checked_op" where
  "mint_to_checked_set_decimals x b = b\<lparr>mtc_decimals := Some x\<rparr>"

definition mint_to_checked_send ::
    "('pe, 'tx, 'ts) token_ext \<Rightarrow> ('pe, 'aty) token_ixs \<Rightarrow> ('pc, 'x, 'st) db_ext \<Rightarrow> 'c history_ops
      \<Rightarrow> ('pc, 'st, 'c) handlers \<Rightarrow> mint_to_checked_op \<Rightarrow> ('pc, 'st, 'c, unit) token_run" where
  "mint_to_checked_send T I X L Hs b v =
     op_send T X L Hs b (and_then (mint_of T (snd v) (mtc_mint b)) (\<lambda>m.
       map_err (failed_from_program_error T)
         (mint_to_checked_ix I (op_token_program b) (mtc_mint b) (mtc_destination b)
           (op_authority b) (op_signer_keys b) (mtc_amount b) (unwrap_or (mint_decimals m) (mtc_decimals b))))) v"

subsection \<open>Revoke\<close>

record revoke_op = token_op +
  rev_source :: address

definition revoke_new :: "address \<Rightarrow> address \<Rightarrow> revoke_op" where
  "revoke_new payer src =
     \<lparr>op_payer = payer, op_signers = [payer], op_owner = None, op_program = None,
      rev_source = src\<rparr>"

definition revoke_send ::
    "('pe, 'tx, 'ts) token_ext \<Rightarrow> ('pe, 'aty) token_ixs \<Rightarrow> ('pc, 'x, 'st) db_ext \<Rightarrow> 'c history_ops
      \<Rightarrow> ('pc, 'st, 'c) handlers \<Rightarrow> revoke_op \<Rightarrow> ('pc, 'st, 'c, unit) token_run" where
  "revoke_send T I X L Hs b v =
     op_send T X L Hs b
       (map_err (failed_from_program_error T)
         (revoke_ix I (op_token_program b) (rev_source b) (op_authority b) (op_signer_keys b))) v"

subsection \<open>Set authority\<close>

record 'aty set_authority_op = token_op +
  sau_account :: address
  sau_authority_type :: "'aty"
  sau_new_authority :: "address option"

definition set_authority_new :: "address \<Rightarrow> address \<Rightarrow> 'aty \<Rightarrow> 'aty set_authority_op" where
  "set_authority_new payer account authority_type =
     \<lparr>op_payer = payer, op_signers = [payer], op_owner = None, op_program = None,
      sau_account = account, sau_authority_type = authority_type, sau_new_authority = None\<rparr>"

definition set_authority_set_new_authority :: "address \<Rightarrow> 'aty set_authority_op \<Rightarrow> 'aty set_authority_op" where
  "set_authority_set_new_authority x b = b\<lparr>sau_new_authority := Some x\<rparr>"

definition set_authority_send ::
    "('pe, 'tx, 'ts) token_ext \<Rightarrow> ('pe, 'aty) token_ixs \<Rightarrow> ('pc, 'x, 'st) db_ext \<Rightarrow> 'c history_ops
      \<Rightarrow> ('pc, 'st, 'c) handlers \<Rightarrow> 'aty set_authority_op \<Rightarrow> ('pc, 'st, 'c, unit) token_run" where
  "set_authority_send T I X L Hs b v =
     op_send T X L Hs b
       (map_err (failed_from_program_error T)
         (spl_set_authority_ix I (op_token_program b) (sau_account b) (sau_new_authority b)
           (sau_authority_type b) (op_authority b) (op_signer_keys b))) v"

subsection \<open>Transfer\<close>

record transfer_op = token_op +
  tra_mint :: address
  tra_source :: "address option"
  tra_destination :: address
  tra_amount :: u64

definition transfer_new :: "address \<Rightarrow> address \<Rightarrow> address \<Rightarrow> u64 \<Rightarrow> transfer_op" where
  "transfer_new payer mint_key destination qty =
     \<lparr>op_payer = payer, op_signers = [payer], op_owner = None, op_program = None,
      tra_mint = mint_key, tra_source = None, tra_destination = destination, tra_amount = qty\<rparr>"

definition transfer_set_source :: "address \<Rightarrow> transfer_op \<Rightarrow> transfer_op" where
  "transfer_set_source x b = b\<lparr>tra_source := Some x\<rparr>"

definition transfer_send ::
    "('pe, 'tx, 'ts) token_ext \<Rightarrow> ('pe, 'aty) token_ixs \<Rightarrow> ('pc, 'x, 'st) db_ext \<Rightarrow> 'c history_ops
      \<Rightarrow> ('pc, 'st, 'c) handlers \<Rightarrow> transfer_op \<Rightarrow> ('pc, 'st, 'c, unit) token_run" where
  "transfer_send T I X L Hs b v =
     op_send T X L Hs b
       (map_err (failed_from_program_error T)
         (spl_transfer_ix I (op_token_program b) (op_account T b (tra_mint b) (tra_source b)) (tra_destination b)
           (op_authority b) (op_signer_keys b) (tra_amount b))) v"

subsection \<open>Transfer checked\<close>

record transfer_checked_op = token_op +
  trc_mint :: address
  trc_source :: "address option"
  trc_destination :: address
  trc_amount :: u64
  trc_decimals :: "u8 option"

definition transfer_checked_new :: "address \<Rightarrow> address \<Rightarrow> address \<Rightarrow> u64 \<Rightarrow> transfer_checked_op" where
  "transfer_checked_new payer mint_key destination qty =
     \<lparr>op_payer = payer, op_signers = [payer], op_owner = None, op_program = None,
      trc_mint = mint_key, trc_source = None, trc_destination = destination, trc_amount = qty, trc_decimals = None\<rparr>"

definition transfer_checked_set_decimals :: "u8 \<Rightarrow> transfer_checked_op \<Rightarrow> transfer_checked_op" where
  "transfer_checked_set_decimals x b = b\<lparr>trc_decimals := Some x\<rparr>"

definition transfer_checked_set_source :: "address \<Rightarrow> transfer_checked_op \<Rightarrow> transfer_checked_op" where
  "transfer_checked_set_source x b = b\<lparr>trc_source := Some x\<rparr>"

definition transfer_checked_send ::
    "('pe, 'tx, 'ts) token_ext \<Rightarrow> ('pe, 'aty) token_ixs \<Rightarrow> ('pc, 'x, 'st) db_ext \<Rightarrow> 'c history_ops
      \<Rightarrow> ('pc, 'st, 'c) handlers \<Rightarrow> transfer_checked_op \<Rightarrow> ('pc, 'st, 'c, unit) token_run" where
  "transfer_checked_send T I X L Hs b v =
     op_send T X L Hs b (and_then (mint_of T (snd v) (trc_mint b)) (\<lambda>m.
       map_err (failed_from_program_error T)
         (transfer_checked_ix I (op_token_program b) (op_account T b (trc_mint b) (trc_source b)) (trc_mint b) (trc_destination b)
           (op_authority b) (op_signer_keys b) (trc_amount b) (unwrap_or (mint_decimals m) (trc_decimals b))))) v"

section \<open>Builders signed by the payer alone\<close>

record sync_native_op =
  syn_payer :: address
  syn_account :: address
  syn_program :: "address option"

definition sync_native_new :: "address \<Rightarrow> address \<Rightarrow> sync_native_op" where
  "sync_native_new payer account = \<lparr>syn_payer = payer, syn_account = account, syn_program = None\<rparr>"

definition sync_native_set_program :: "address \<Rightarrow> sync_native_op \<Rightarrow> sync_native_op" where
  "sync_native_set_program x b = b\<lparr>syn_program := Some x\<rparr>"

definition sync_native_send ::
    "('pe, 'tx, 'ts) token_ext \<Rightarrow> ('pe, 'aty) token_ixs \<Rightarrow> ('pc, 'x, 'st) db_ext \<Rightarrow> 'c history_ops
      \<Rightarrow> ('pc, 'st, 'c) handlers \<Rightarrow> sync_native_op \<Rightarrow> ('pc, 'st, 'c, unit) token_run" where
  "sync_native_send T I X L Hs b v =
     (case sync_native_ix I (unwrap_or default_token_program (syn_program b)) (syn_account b) of
        Inl e \<Rightarrow> Some (v, [], Inl (failed_from_program_error T e))
      | Inr ix \<Rightarrow> sign_and_send T X L Hs (syn_payer b) [] ix v)"

record create_ata_op =
  ata_payer :: address
  ata_mint :: address
  ata_program :: "address option"
  ata_owner :: "address option"

definition create_ata_new :: "address \<Rightarrow> address \<Rightarrow> create_ata_op" where
  "create_ata_new payer mint_key =
     \<lparr>ata_payer = payer, ata_mint = mint_key, ata_program = None, ata_owner = None\<rparr>"

definition create_ata_set_owner :: "address \<Rightarrow> create_ata_op \<Rightarrow> create_ata_op" where
  "create_ata_set_owner k b = b\<lparr>ata_owner := Some k\<rparr>"

definition create_ata_set_program :: "address \<Rightarrow> create_ata_op \<Rightarrow> create_ata_op" where
  "create_ata_set_program p b = b\<lparr>ata_program := Some p\<rparr>"

text \<open>The idempotent builder differs in the constructor it calls.\<close>

definition ata_send_with ::
    "('pe, 'tx, 'ts) token_ext \<Rightarrow> (address \<Rightarrow> address \<Rightarrow> address \<Rightarrow> address \<Rightarrow> instruction)
      \<Rightarrow> ('pc, 'x, 'st) db_ext \<Rightarrow> 'c history_ops \<Rightarrow> ('pc, 'st, 'c) handlers \<Rightarrow> create_ata_op
      \<Rightarrow> ('pc, 'st, 'c, address) token_run" where
  "ata_send_with T ctor X L Hs b v =
     (let prog = unwrap_or default_token_program (ata_program b);
          authority = unwrap_or (ata_payer b) (ata_owner b)
      in map_option (\<lambda>(v', evs, r).
             (v', evs, map_ok (\<lambda>_. associated_token_address T authority (ata_mint b) prog) r))
           (sign_and_send T X L Hs (ata_payer b) []
             (ctor (ata_payer b) authority (ata_mint b) prog) v))"

definition create_ata_send ::
    "('pe, 'tx, 'ts) token_ext \<Rightarrow> ('pe, 'aty) token_ixs \<Rightarrow> ('pc, 'x, 'st) db_ext \<Rightarrow> 'c history_ops
      \<Rightarrow> ('pc, 'st, 'c) handlers \<Rightarrow> create_ata_op \<Rightarrow> ('pc, 'st, 'c, address) token_run" where
  "create_ata_send T I X L Hs b v = ata_send_with T (create_ata_ix I) X L Hs b v"

definition create_ata_idempotent_send ::
    "('pe, 'tx, 'ts) token_ext \<Rightarrow> ('pe, 'aty) token_ixs \<Rightarrow> ('pc, 'x, 'st) db_ext \<Rightarrow> 'c history_ops
      \<Rightarrow> ('pc, 'st, 'c) handlers \<Rightarrow> create_ata_op \<Rightarrow> ('pc, 'st, 'c, address) token_run" where
  "create_ata_idempotent_send T I X L Hs b v = ata_send_with T (create_ata_idempotent_ix I) X L Hs b v"

record native_mint_op =
  nat_payer :: address
  nat_program :: "address option"

definition native_mint_2022_new :: "address \<Rightarrow> native_mint_op" where
  "native_mint_2022_new payer = \<lparr>nat_payer = payer, nat_program = None\<rparr>"

definition native_mint_2022_set_program :: "address \<Rightarrow> native_mint_op \<Rightarrow> native_mint_op" where
  "native_mint_2022_set_program x b = b\<lparr>nat_program := Some x\<rparr>"

definition native_mint_2022_send ::
    "('pe, 'tx, 'ts) token_ext \<Rightarrow> ('pe, 'aty) token_ixs \<Rightarrow> ('pc, 'x, 'st) db_ext \<Rightarrow> 'c history_ops
      \<Rightarrow> ('pc, 'st, 'c) handlers \<Rightarrow> native_mint_op \<Rightarrow> ('pc, 'st, 'c, unit) token_run" where
  "native_mint_2022_send T I X L Hs b v =
     (case create_native_mint_ix I (unwrap_or Token2022Program (nat_program b)) (nat_payer b) of
        Inl e \<Rightarrow> Some (v, [], Inl (failed_from_program_error T e))
      | Inr ix \<Rightarrow> sign_and_send T X L Hs (nat_payer b) [] ix v)"

section \<open>Builders that create an account\<close>

text \<open>
  The account is created rent exempt and initialized in one transaction, signed by the payer and
  the key of the account, whose address is returned.
\<close>

definition create_send ::
    "('pe, 'tx, 'ts) token_ext \<Rightarrow> ('pe, 'aty) token_ixs \<Rightarrow> msg_ext \<Rightarrow> ('pc, 'x, 'st) db_ext
      \<Rightarrow> 'c history_ops \<Rightarrow> ('pc, 'st, 'c) handlers \<Rightarrow> address \<Rightarrow> address \<Rightarrow> nat \<Rightarrow> address
      \<Rightarrow> 'pe + instruction \<Rightarrow> ('pc, 'st, 'c, address) token_run" where
  "create_send T I M X L Hs payer key len prog init v =
     (case init of
        Inl e \<Rightarrow> Some (v, [], Inl (failed_from_program_error T e))
      | Inr ix2 \<Rightarrow>
          (let ix1 = create_account_ix I payer key
                 (minimum_balance_for_rent_exemption X (vm_accounts (snd v)) len) (of_nat len) prog
           in map_option (\<lambda>(v', evs, r). (v', evs, map_ok (\<lambda>_. key) r))
                (send_transaction X L Hs
                  (signed_tx M [ix1, ix2] payer [payer, key] (latest_blockhash (snd v))) v)))"

record create_account_op =
  cac_payer :: address
  cac_mint :: address
  cac_owner :: "address option"
  cac_account_kp :: "address option"
  cac_program :: "address option"

definition create_account_new :: "address \<Rightarrow> address \<Rightarrow> create_account_op" where
  "create_account_new payer mint_key =
     \<lparr>cac_payer = payer, cac_mint = mint_key, cac_owner = None, cac_account_kp = None,
      cac_program = None\<rparr>"

definition create_account_set_owner :: "address \<Rightarrow> create_account_op \<Rightarrow> create_account_op" where
  "create_account_set_owner x b = b\<lparr>cac_owner := Some x\<rparr>"

definition create_account_set_account_kp :: "address \<Rightarrow> create_account_op \<Rightarrow> create_account_op" where
  "create_account_set_account_kp x b = b\<lparr>cac_account_kp := Some x\<rparr>"

definition create_account_set_program :: "address \<Rightarrow> create_account_op \<Rightarrow> create_account_op" where
  "create_account_set_program x b = b\<lparr>cac_program := Some x\<rparr>"

definition create_account_send ::
    "('pe, 'tx, 'ts) token_ext \<Rightarrow> ('pe, 'aty) token_ixs \<Rightarrow> msg_ext \<Rightarrow> ('pc, 'x, 'st) db_ext \<Rightarrow> 'c history_ops
      \<Rightarrow> ('pc, 'st, 'c) handlers \<Rightarrow> address \<Rightarrow> create_account_op \<Rightarrow> ('pc, 'st, 'c, address) token_run" where
  "create_account_send T I M X L Hs fresh b v =
     (let key = unwrap_or fresh (cac_account_kp b);
          prog = unwrap_or default_token_program (cac_program b)
      in create_send T I M X L Hs (cac_payer b) key (token_len T) prog
           (initialize_account3_ix I prog key (cac_mint b) (unwrap_or (cac_payer b) (cac_owner b))) v)"

record create_mint_op =
  cmi_payer :: address
  cmi_authority :: "address option"
  cmi_freeze_authority :: "address option"
  cmi_decimals :: "u8 option"
  cmi_program :: "address option"

definition create_mint_new :: "address \<Rightarrow> create_mint_op" where
  "create_mint_new payer =
     \<lparr>cmi_payer = payer, cmi_authority = None, cmi_freeze_authority = None, cmi_decimals = None,
      cmi_program = None\<rparr>"

definition create_mint_set_authority :: "address \<Rightarrow> create_mint_op \<Rightarrow> create_mint_op" where
  "create_mint_set_authority x b = b\<lparr>cmi_authority := Some x\<rparr>"

definition create_mint_set_freeze_authority :: "address \<Rightarrow> create_mint_op \<Rightarrow> create_mint_op" where
  "create_mint_set_freeze_authority x b = b\<lparr>cmi_freeze_authority := Some x\<rparr>"

definition create_mint_set_decimals :: "u8 \<Rightarrow> create_mint_op \<Rightarrow> create_mint_op" where
  "create_mint_set_decimals x b = b\<lparr>cmi_decimals := Some x\<rparr>"

definition create_mint_set_program :: "address \<Rightarrow> create_mint_op \<Rightarrow> create_mint_op" where
  "create_mint_set_program x b = b\<lparr>cmi_program := Some x\<rparr>"

definition create_mint_send ::
    "('pe, 'tx, 'ts) token_ext \<Rightarrow> ('pe, 'aty) token_ixs \<Rightarrow> msg_ext \<Rightarrow> ('pc, 'x, 'st) db_ext \<Rightarrow> 'c history_ops
      \<Rightarrow> ('pc, 'st, 'c) handlers \<Rightarrow> address \<Rightarrow> create_mint_op \<Rightarrow> ('pc, 'st, 'c, address) token_run" where
  "create_mint_send T I M X L Hs fresh b v =
     (let prog = unwrap_or default_token_program (cmi_program b)
      in create_send T I M X L Hs (cmi_payer b) fresh (mint_len T) prog
           (initialize_mint2_ix I prog fresh (unwrap_or (cmi_payer b) (cmi_authority b))
             (cmi_freeze_authority b) (unwrap_or 8 (cmi_decimals b))) v)"

record create_multisig_op =
  cms_payer :: address
  cms_signers :: "address list"
  cms_required_signatures :: u8
  cms_multisig_kp :: "address option"
  cms_program :: "address option"

definition create_multisig_new :: "address \<Rightarrow> address list \<Rightarrow> u8 \<Rightarrow> create_multisig_op" where
  "create_multisig_new payer keys required =
     \<lparr>cms_payer = payer, cms_signers = keys, cms_required_signatures = required,
      cms_multisig_kp = None, cms_program = None\<rparr>"

definition create_multisig_set_program :: "address \<Rightarrow> create_multisig_op \<Rightarrow> create_multisig_op" where
  "create_multisig_set_program x b = b\<lparr>cms_program := Some x\<rparr>"

definition create_multisig_send ::
    "('pe, 'tx, 'ts) token_ext \<Rightarrow> ('pe, 'aty) token_ixs \<Rightarrow> msg_ext \<Rightarrow> ('pc, 'x, 'st) db_ext \<Rightarrow> 'c history_ops
      \<Rightarrow> ('pc, 'st, 'c) handlers \<Rightarrow> address \<Rightarrow> create_multisig_op \<Rightarrow> ('pc, 'st, 'c, address) token_run" where
  "create_multisig_send T I M X L Hs fresh b v =
     (let prog = unwrap_or default_token_program (cms_program b);
          key = unwrap_or fresh (cms_multisig_kp b)
      in create_send T I M X L Hs (cms_payer b) key (multisig_len T) prog
           (initialize_multisig2_ix I prog key (cms_signers b) (cms_required_signatures b)) v)"

end
