(* ===== verification/Token_Props.thy ===== *)
theory Token_Props
  imports Token_Builders
begin

text \<open>
  Properties of the token helpers: every builder either leaves the VM alone or sends one
  transaction that is signed by exactly the keys it needs, and the account snapshots read back.
\<close>

section \<open>Signatures\<close>

definition ix_signers :: "instruction \<Rightarrow> address set" where
  "ix_signers ix = meta_pubkey ` set (filter is_signer (ix_accounts ix))"

text \<open>
  Signing as the transaction crate documents it: a transaction requires its payer and the signers
  of its instructions; signing with required keys succeeds and adds their signatures, and a new
  block hash drops the old ones.
\<close>

definition signing_law ::
    "('pe, 'tx, 'ts) token_ext \<Rightarrow> ('tx \<Rightarrow> address set) \<Rightarrow> ('tx \<Rightarrow> address set) \<Rightarrow> ('tx \<Rightarrow> hash) \<Rightarrow> bool" where
  "signing_law T req sig_of bh \<longleftrightarrow>
     (\<forall>ixs p. req (new_with_payer T ixs p) = insert p (\<Union> (ix_signers ` set ixs)) \<and>
        sig_of (new_with_payer T ixs p) = {}) \<and>
     (\<forall>ks h tx. set ks \<subseteq> req tx \<longrightarrow>
        (\<exists>tx'. partial_sign T ks h tx = Some tx' \<and> req tx' = req tx \<and> bh tx' = h \<and>
           sig_of tx' = set ks \<union> (if bh tx = h then sig_of tx else {})))"

text \<open>An authority signs itself unless signers of a multisig are named.\<close>

definition authority_law :: "(address \<Rightarrow> address list \<Rightarrow> 'pe + instruction) \<Rightarrow> bool" where
  "authority_law ctor \<longleftrightarrow>
     (\<forall>a ks ix. ctor a ks = Inr ix \<longrightarrow> ix_signers ix = (if ks = [] then {a} else set ks))"

definition spl_law :: "('pe, 'aty) token_ixs \<Rightarrow> bool" where
  "spl_law I \<longleftrightarrow>
     (\<forall>p s d n. authority_law (\<lambda>a ks. approve_ix I p s d a ks n)) \<and>
     (\<forall>p s m d n dec. authority_law (\<lambda>a ks. approve_checked_ix I p s m d a ks n dec)) \<and>
     (\<forall>p acc m n. authority_law (\<lambda>a ks. burn_ix I p acc m a ks n)) \<and>
     (\<forall>p acc m n dec. authority_law (\<lambda>a ks. burn_checked_ix I p acc m a ks n dec)) \<and>
     (\<forall>p acc d. authority_law (\<lambda>a ks. close_account_ix I p acc d a ks)) \<and>
     (\<forall>p acc m. authority_law (\<lambda>a ks. freeze_account_ix I p acc m a ks)) \<and>
     (\<forall>p acc m. authority_law (\<lambda>a ks. thaw_account_ix I p acc m a ks)) \<and>
     (\<forall>p m d n. authority_law (\<lambda>a ks. mint_to_ix I p m d a ks n)) \<and>
     (\<forall>p m d n dec. authority_law (\<lambda>a ks. mint_to_checked_ix I p m d a ks n dec)) \<and>
     (\<forall>p s. authority_law (\<lambda>a ks. revoke_ix I p s a ks)) \<and>
     (\<forall>p acc new ty. authority_law (\<lambda>a ks. spl_set_authority_ix I p acc new ty a ks)) \<and>
     (\<forall>p s d n. authority_law (\<lambda>a ks. spl_transfer_ix I p s d a ks n)) \<and>
     (\<forall>p s m d n dec. authority_law (\<lambda>a ks. transfer_checked_ix I p s m d a ks n dec))"

definition signed_or_untouched ::
    "('pe, 'tx, 'ts) token_ext \<Rightarrow> ('tx \<Rightarrow> address set) \<Rightarrow> ('tx \<Rightarrow> address set) \<Rightarrow> ('pc, 'x, 'st) db_ext
      \<Rightarrow> 'c history_ops \<Rightarrow> ('pc, 'st, 'c) handlers \<Rightarrow> 'b token_op_scheme
      \<Rightarrow> (('pc, 'st, 'c) vm \<times> hook_event list \<times> (failed_transaction_metadata + unit)) option
      \<Rightarrow> ('pc, 'st, 'c) vm \<Rightarrow> bool" where
  "signed_or_untouched T req sig_of X L Hs b out v \<longleftrightarrow>
     (\<exists>failure. out = Some (v, [], Inl failure)) \<or>
     (\<exists>tx. sig_of tx = insert (op_payer b) (set (op_signers b)) \<and>
        (op_signers b \<noteq> [] \<longrightarrow> sig_of tx = req tx) \<and>
        out = map_option (\<lambda>(v', evs, r). (v', evs, map_ok (\<lambda>_. ()) r))
                (send_transaction X L Hs (into_versioned T tx) v))"

lemma sign_and_send_signed:
  assumes "signing_law T req sig_of bh" and "set signers \<subseteq> insert payer (ix_signers ix)"
  shows "\<exists>tx. sig_of tx = insert payer (set signers) \<and> req tx = insert payer (ix_signers ix) \<and>
     sign_and_send T X L Hs payer signers ix v =
       map_option (\<lambda>(v', evs, r). (v', evs, map_ok (\<lambda>_. ()) r))
         (send_transaction X L Hs (into_versioned T tx) v)"
proof -
  let ?h = "latest_blockhash (snd v)" and ?tx = "new_with_payer T [ix] payer"
  have new: "req ?tx = insert payer (ix_signers ix)" using assms(1) by (auto simp: signing_law_def)
  then obtain tx1 where 1: "partial_sign T [payer] ?h ?tx = Some tx1" "req tx1 = req ?tx" "bh tx1 = ?h"
    "sig_of tx1 = {payer}"
    using assms(1) [unfolded signing_law_def, THEN conjunct2, rule_format, of "[payer]" ?tx ?h]
      assms(1) [unfolded signing_law_def, THEN conjunct1] by auto
  obtain tx2 where "partial_sign T signers ?h tx1 = Some tx2" "req tx2 = req tx1"
    "sig_of tx2 = set signers \<union> {payer}"
    using assms(1) [unfolded signing_law_def, THEN conjunct2, rule_format, of signers tx1 ?h] 1 new assms(2)
    by auto
  then show ?thesis using 1 new by (intro exI [of _ tx2]) (simp add: sign_and_send_def Let_def)
qed

lemma op_send_signed:
  assumes "signing_law T req sig_of bh"
    and "\<And>ix. r = Inr ix \<Longrightarrow>
      ix_signers ix = (if op_signer_keys b = [] then {op_authority b} else set (op_signer_keys b))"
  shows "signed_or_untouched T req sig_of X L Hs b (op_send T X L Hs b r v) v"
proof (cases r)
  case (Inl failure)
  then show ?thesis by (simp add: signed_or_untouched_def op_send_def)
next
  case (Inr ix)
  note req = assms(2) [OF Inr]
  then have "set (op_signers b) \<subseteq> ix_signers ix" "op_signers b \<noteq> [] \<Longrightarrow> ix_signers ix = set (op_signers b)"
    by (auto simp: op_signer_keys_def get_multisig_signers_def split: if_splits)
  moreover from this(1) obtain tx where "sig_of tx = insert (op_payer b) (set (op_signers b))"
    "req tx = insert (op_payer b) (ix_signers ix)"
    "op_send T X L Hs b r v = map_option (\<lambda>(v', evs, r). (v', evs, map_ok (\<lambda>_. ()) r))
       (send_transaction X L Hs (into_versioned T tx) v)"
    using sign_and_send_signed [OF assms(1), of "op_signers b" "op_payer b" ix X L Hs v]
    by (auto simp: op_send_def Inr)
  ultimately show ?thesis unfolding signed_or_untouched_def by (intro disjI2 exI [of _ tx]) auto
qed

lemma converted_constructor:
  assumes "authority_law ctor" and "map_err f (ctor a ks) = Inr ix"
  shows "ix_signers ix = (if ks = [] then {a} else set ks)"
  using assms by (simp add: authority_law_def)


section \<open>Snapshots\<close>

definition mint_packs :: "('pe, 'tx, 'ts) token_ext \<Rightarrow> spl_mint \<Rightarrow> bool" where
  "mint_packs T m \<longleftrightarrow>
     (\<exists>bs. mint_pack T m (replicate (mint_len T) 0) = Inr bs \<and> length bs = mint_len T \<and>
        mint_unpack T bs = Inr m)"

lemma svm_set_account_read:
  assumes "svm_set_account X k acc v = (v', Inr ())" and "lamports acc \<noteq> 0"
  shows "get_account (vm_accounts (snd v')) k = Some acc"
  using host_set_account_read [of X k acc v v'] assms by (simp add: host_set_account_def host_account_def)

text \<open>
  C35. A mint snapshot installed in a VM is a mint to every helper: it reads back as it was given, and
  a checked transfer with default settings takes its decimals from it, moves tokens out of the
  associated account of the payer and names no multisig signers.
\<close>

theorem installed_mint_used:
  assumes "mint_packs T m" and "minimum_balance (rent_default X) (mint_len T) \<noteq> 0"
    and "keyed_mint_account T X k m = Some ka" and "set_keyed_account X ka v = (v', Inr ())"
  shows "get_spl_account (mint_len T) (mint_unpack T) (snd v') k = Inr m \<and>
     transfer_checked_send T I X L Hs (transfer_checked_new payer k dest n) v' =
       op_send T X L Hs (transfer_checked_new payer k dest n)
         (map_err (failed_from_program_error T)
           (transfer_checked_ix I TokenProgram (associated_token_address T payer k TokenProgram) k dest
             payer [] n (mint_decimals m))) v'"
proof -
  obtain bs where bs: "mint_pack T m (replicate (mint_len T) 0) = Inr bs" "length bs = mint_len T"
    "mint_unpack T bs = Inr m"
    using assms(1) by (auto simp: mint_packs_def)
  let ?acc = "default_account\<lparr>lamports := minimum_balance (rent_default X) (mint_len T), data := bs,
    owner := TokenProgram\<rparr>"
  have "ka = (k, ?acc)"
    using assms(3) bs by (simp add: keyed_mint_account_def mint_account_def mint_account_with_program_def
        packed_account_def default_token_program_def)
  then have "get_account (vm_accounts (snd v')) k = Some ?acc"
    using assms(2,4) svm_set_account_read [of X k ?acc v v'] by (simp add: set_keyed_account_def)
  then have read: "get_spl_account (mint_len T) (mint_unpack T) (snd v') k = Inr m"
    using bs by (simp add: get_spl_account_def)
  then show ?thesis
    by (simp add: transfer_checked_send_def transfer_checked_new_def mint_of_def op_account_def
        op_authority_def op_signer_keys_def op_token_program_def get_multisig_signers_def default_token_program_def)
qed

section \<open>Errors\<close>

lemma token_error_round_trip: "failed_from_token_error T (token_error_from_failed m) = m"
  by (simp add: failed_from_token_error_def token_error_from_failed_def)

text \<open>
  The program error crate puts its own errors into the upper half of the code. The conversion keeps
  the lower half: all of them become the same custom error.
\<close>

lemma builtin_errors_collapse:
  assumes "program_error_code T e = push_bit 32 n"
  shows "failed_err (failed_from_program_error T e) = InstructionError 0 (Custom 0)"
proof -
  have "(ucast (push_bit 32 n) :: u32) = 0"
    by (rule bit_word_eqI) (simp add: bit_simps)
  then show ?thesis by (simp add: failed_from_program_error_def assms)
qed

end
