(* ===== verification/Example_Token.thy ===== *)
theory Example_Token
  imports Token_Props Example_Deploy
begin

text \<open>Token crates that satisfy the signing laws: the token properties are evaluated at them.\<close>

record ex_token_tx =
  et_ixs :: "instruction list"
  et_payer :: address
  et_signed :: "address set"
  et_hash :: hash

definition et_required :: "ex_token_tx \<Rightarrow> address set" where
  "et_required tx = insert (et_payer tx) (\<Union> (ix_signers ` set (et_ixs tx)))"

text \<open>A mint is packed as its decimals.\<close>

definition ex_mint :: "u8 \<Rightarrow> spl_mint" where
  "ex_mint d =
     \<lparr>mint_authority = None, mint_supply = 0, mint_decimals = d, mint_is_initialized = True,
      mint_freeze_authority = None\<rparr>"

definition ex_token :: "(unit, ex_token_tx, unit) token_ext" where
  "ex_token =
     \<lparr>program_error_code = (\<lambda>_. 1), associated_token_address = (\<lambda>w m p. Pubkey 40), mint_len = 1,
      mint_pack = (\<lambda>m buf. Inr [mint_decimals m]), mint_unpack = (\<lambda>bs. Inr (ex_mint (hd bs))),
      token_len = 0, token_pack = (\<lambda>t buf. Inr buf), token_unpack = (\<lambda>bs. Inl ()), multisig_len = 0,
      token_default = \<lparr>tok_mint = SystemProgram, tok_owner = SystemProgram, tok_amount = 0,
        tok_delegate = None, tok_state = (), tok_is_native = None, tok_delegated_amount = 0,
        tok_close_authority = None\<rparr>,
      state_initialized = (), native_mint_id = Pubkey 41, native_mint_decimals = 9,
      rent_decode = (\<lambda>bs. Inr ex_rent),
      new_with_payer = (\<lambda>ixs p. \<lparr>et_ixs = ixs, et_payer = p, et_signed = {}, et_hash = 0\<rparr>),
      partial_sign = (\<lambda>ks h tx. if set ks \<subseteq> et_required tx
        then Some (tx\<lparr>et_signed := set ks \<union> (if et_hash tx = h then et_signed tx else {}), et_hash := h\<rparr>)
        else None),
      into_versioned = (\<lambda>tx. ex_loader_tx (et_ixs tx))\<rparr>"

definition ex_token_ix :: "address \<Rightarrow> address list \<Rightarrow> unit + instruction" where
  "ex_token_ix a ks =
     Inr \<lparr>ix_program_id = TokenProgram,
          ix_accounts =
            map (\<lambda>k. \<lparr>meta_pubkey = k, is_signer = True, is_writable_meta = False\<rparr>)
              (if ks = [] then [a] else ks),
          ix_data = []\<rparr>"

definition ex_token_ixs :: "(unit, unit) token_ixs" where
  "ex_token_ixs =
     \<lparr>approve_ix = (\<lambda>_ _ _ a ks _. ex_token_ix a ks),
      approve_checked_ix = (\<lambda>_ _ _ _ a ks _ _. ex_token_ix a ks),
      burn_ix = (\<lambda>_ _ _ a ks _. ex_token_ix a ks),
      burn_checked_ix = (\<lambda>_ _ _ a ks _ _. ex_token_ix a ks),
      close_account_ix = (\<lambda>_ _ _ a ks. ex_token_ix a ks),
      freeze_account_ix = (\<lambda>_ _ _ a ks. ex_token_ix a ks),
      thaw_account_ix = (\<lambda>_ _ _ a ks. ex_token_ix a ks),
      mint_to_ix = (\<lambda>_ _ _ a ks _. ex_token_ix a ks),
      mint_to_checked_ix = (\<lambda>_ _ _ a ks _ _. ex_token_ix a ks),
      revoke_ix = (\<lambda>_ _ a ks. ex_token_ix a ks),
      spl_set_authority_ix = (\<lambda>_ _ _ _ a ks. ex_token_ix a ks),
      spl_transfer_ix = (\<lambda>_ _ _ a ks _. ex_token_ix a ks),
      transfer_checked_ix = (\<lambda>_ _ _ _ a ks _ _. ex_token_ix a ks),
      sync_native_ix = (\<lambda>_ _. Inl ()),
      initialize_account3_ix = (\<lambda>_ _ _ _. Inl ()),
      initialize_mint2_ix = (\<lambda>_ _ _ _ _. Inl ()),
      initialize_multisig2_ix = (\<lambda>_ _ _ _. Inl ()),
      create_native_mint_ix = (\<lambda>_ _. Inl ()),
      create_account_ix = (\<lambda>_ _ _ _ _. ex_loader_ix 0 []),
      create_ata_ix = (\<lambda>_ _ _ _. ex_loader_ix 0 []),
      create_ata_idempotent_ix = (\<lambda>_ _ _ _. ex_loader_ix 0 [])\<rparr>"

lemma ex_token_signing: "signing_law ex_token et_required et_signed et_hash"
  by (auto simp: signing_law_def ex_token_def et_required_def)

lemma ex_token_ix_authority: "authority_law (\<lambda>a ks. ex_token_ix a ks)"
proof -
  have sig: "ix_signers \<lparr>ix_program_id = p,
      ix_accounts = map (\<lambda>k. \<lparr>meta_pubkey = k, is_signer = True, is_writable_meta = False\<rparr>) ks,
      ix_data = bs\<rparr> = set ks" for p ks bs
    by (auto simp: ix_signers_def image_iff)
  show ?thesis by (auto simp: authority_law_def ex_token_ix_def sig)
qed

lemma ex_token_spl: "spl_law ex_token_ixs"
  using ex_token_ix_authority by (simp add: spl_law_def ex_token_ixs_def)


theorem installed_mint_used_witness:
  "\<exists>ka v'. keyed_mint_account ex_token ex_ext (Pubkey 2) (ex_mint 6) = Some ka \<and>
     set_keyed_account ex_ext ka (ex_world0, ex_svm ex_db0) = (v', Inr ()) \<and>
     get_spl_account (mint_len ex_token) (mint_unpack ex_token) (snd v') (Pubkey 2) = Inr (ex_mint 6)"
proof -
  have packs: "mint_packs ex_token (ex_mint 6)" by (simp add: mint_packs_def ex_token_def ex_mint_def)
  have rent: "minimum_balance (rent_default ex_ext) (mint_len ex_token) \<noteq> 0"
    by (simp add: ex_ext_def ex_rent_def)
  obtain ka where ka: "keyed_mint_account ex_token ex_ext (Pubkey 2) (ex_mint 6) = Some ka"
    and addr: "fst ka = Pubkey 2" and acc: "snd ka = default_account\<lparr>lamports := 10, data := [6], owner := TokenProgram\<rparr>"
    by (simp add: keyed_mint_account_def mint_account_def mint_account_with_program_def packed_account_def
        ex_token_def ex_mint_def default_token_program_def ex_ext_def ex_rent_def)
  have add: "add_account ex_ext (Pubkey 2) (snd ka) (ex_world0, ex_db0) =
      ((ex_world0, overlay_put (Pubkey 2) (snd ka) ex_db0), Inr ())"
    by (simp add: acc add_account_def prepare_account_def refresh_program_cache_def
        is_managed_sysvar_account_def is_cached_program_account_def Let_def ex_defs)
  have "v_jit_policy ex_version = jit_policy ex_db0"
    by (simp add: ex_version_def base_version_def accounts_default_def)
  then obtain v' where set: "set_keyed_account ex_ext ka (ex_world0, ex_svm ex_db0) = (v', Inr ())"
    by (simp add: set_keyed_account_def addr svm_set_account_def svm_sync_jit_policy_def add Let_def)
  show ?thesis using installed_mint_used [OF packs rent ka set] ka set by blast
qed

end
