(* ===== verification/Instr_Ctx.thy ===== *)
theory Instr_Ctx
  imports Svm_Base
begin

text \<open>
  The owned instruction context of macro-declared builtins (\<open>svm_instruction.rs\<close>): copying the
  accounts of the running instruction out of the runtime's invoke context and writing a handler's
  changes back. The invoke context is a parameter; its checked setters may refuse.
\<close>

section \<open>The invoke context\<close>

record borrowed_account =
  ba_is_signer :: bool
  ba_is_writable :: bool
  ba_lamports :: u64
  ba_data :: bytes
  ba_owner :: address

record 'ic ictx_ext =
  ic_current :: "'ic \<Rightarrow> instruction_error + unit"
  ic_program_key :: "'ic \<Rightarrow> instruction_error + address"
  ic_instruction_data :: "'ic \<Rightarrow> bytes"
  ic_count :: "'ic \<Rightarrow> nat"
  ic_borrow :: "'ic \<Rightarrow> nat \<Rightarrow> instruction_error + borrowed_account"
  ic_key :: "'ic \<Rightarrow> nat \<Rightarrow> instruction_error + address"
  ic_index :: "'ic \<Rightarrow> nat \<Rightarrow> instruction_error + u16"
  ic_set_lamports :: "nat \<Rightarrow> u64 \<Rightarrow> 'ic \<Rightarrow> instruction_error + 'ic"
  ic_set_data :: "nat \<Rightarrow> bytes \<Rightarrow> 'ic \<Rightarrow> instruction_error + 'ic"
  ic_set_owner :: "nat \<Rightarrow> address \<Rightarrow> 'ic \<Rightarrow> instruction_error + 'ic"

section \<open>The owned context\<close>

record svm_instruction_account =
  sia_key :: address
  sia_is_signer :: bool
  sia_is_writable :: bool
  sia_lamports :: u64
  sia_data :: bytes
  sia_owner :: address
  sia_index_in_transaction :: u16

record svm_instruction_ctx =
  sic_program_id :: address
  sic_accounts :: "svm_instruction_account list"
  sic_data :: bytes

definition snapshot_account ::
    "'ic ictx_ext \<Rightarrow> 'ic \<Rightarrow> nat \<Rightarrow> instruction_error + svm_instruction_account" where
  "snapshot_account R ic i =
     and_then (ic_borrow R ic i) (\<lambda>borrowed.
     and_then (ic_key R ic i) (\<lambda>key.
     and_then (ic_index R ic i) (\<lambda>index.
       Inr \<lparr>sia_key = key, sia_is_signer = ba_is_signer borrowed,
            sia_is_writable = ba_is_writable borrowed, sia_lamports = ba_lamports borrowed,
            sia_data = ba_data borrowed, sia_owner = ba_owner borrowed,
            sia_index_in_transaction = index\<rparr>)))"

definition from_invoke_context :: "'ic ictx_ext \<Rightarrow> 'ic \<Rightarrow> instruction_error + svm_instruction_ctx" where
  "from_invoke_context R ic =
     and_then (ic_current R ic) (\<lambda>_.
     and_then (ic_program_key R ic) (\<lambda>program_id.
     map_ok (\<lambda>accounts. \<lparr>sic_program_id = program_id, sic_accounts = accounts,
                         sic_data = ic_instruction_data R ic\<rparr>)
       (collect_results (map (snapshot_account R ic) [0..<ic_count R ic]))))"

text \<open>One field: nothing is called for a field that still has the value of the copy.\<close>

definition set_changed :: "bool \<Rightarrow> ('ic \<Rightarrow> instruction_error + 'ic) \<Rightarrow> 'ic \<Rightarrow> 'ic \<times> (instruction_error + unit)" where
  "set_changed changed setter ic =
     (if changed then (case setter ic of Inl e \<Rightarrow> (ic, Inl e) | Inr ic' \<Rightarrow> (ic', Inr ()))
      else (ic, Inr ()))"

definition then_set ::
    "'ic \<times> (instruction_error + unit) \<Rightarrow> ('ic \<Rightarrow> 'ic \<times> (instruction_error + unit))
      \<Rightarrow> 'ic \<times> (instruction_error + unit)" where
  "then_set r f = (case r of (ic, Inl e) \<Rightarrow> (ic, Inl e) | (ic, Inr _) \<Rightarrow> f ic)"

definition write_account ::
    "'ic ictx_ext \<Rightarrow> nat \<Rightarrow> svm_instruction_account \<Rightarrow> 'ic \<Rightarrow> 'ic \<times> (instruction_error + unit)" where
  "write_account R i acc ic =
     (case ic_borrow R ic i of
        Inl e \<Rightarrow> (ic, Inl e)
      | Inr b \<Rightarrow>
          then_set (set_changed (ba_lamports b \<noteq> sia_lamports acc) (ic_set_lamports R i (sia_lamports acc)) ic)
            (\<lambda>ic. then_set (set_changed (ba_data b \<noteq> sia_data acc) (ic_set_data R i (sia_data acc)) ic)
            (set_changed (ba_owner b \<noteq> sia_owner acc) (ic_set_owner R i (sia_owner acc)))))"

fun write_from ::
    "'ic ictx_ext \<Rightarrow> nat \<Rightarrow> nat \<Rightarrow> svm_instruction_account list \<Rightarrow> 'ic
      \<Rightarrow> 'ic \<times> (instruction_error + unit)" where
  "write_from R i 0 accs ic = (ic, Inr ())"
| "write_from R i (Suc n) [] ic = (ic, Inl MissingAccount)"
| "write_from R i (Suc n) (acc # accs) ic =
     then_set (write_account R i acc ic) (write_from R (Suc i) n accs)"

definition write_back ::
    "'ic ictx_ext \<Rightarrow> svm_instruction_ctx \<Rightarrow> 'ic \<Rightarrow> 'ic \<times> (instruction_error + unit)" where
  "write_back R ctx ic =
     (case ic_current R ic of
        Inl e \<Rightarrow> (ic, Inl e)
      | Inr _ \<Rightarrow> write_from R 0 (ic_count R ic) (sic_accounts ctx) ic)"

section \<open>Untouched copies\<close>

lemma then_set_simps [simp]:
  "then_set (ic, Inl e) f = (ic, Inl e)" "then_set (ic, Inr u) f = f ic"
  by (simp_all add: then_set_def)

lemma collect_results_nth:
  "collect_results rs = Inr xs \<Longrightarrow> length xs = length rs \<and> (\<forall>i < length rs. rs ! i = Inr (xs ! i))"
proof (induction rs arbitrary: xs)
  case (Cons r rs)
  then obtain x ys where "r = Inr x" "collect_results rs = Inr ys" "xs = x # ys"
    by (auto simp: map_ok_eq_Inr split: sum.splits)
  then show ?case using Cons.IH [of ys] by (auto simp: nth_Cons split: nat.split)
qed simp

lemma snapshot_accountD:
  assumes "snapshot_account R ic i = Inr acc"
  shows "ic_index R ic i = Inr (sia_index_in_transaction acc) \<and>
     (\<exists>b. ic_borrow R ic i = Inr b \<and> ba_lamports b = sia_lamports acc \<and> ba_data b = sia_data acc \<and>
        ba_owner b = sia_owner acc)"
  using assms by (auto simp: snapshot_account_def and_then_def split: sum.splits)

lemma write_unchanged:
  assumes "\<And>j. j < length accs \<Longrightarrow> snapshot_account R ic (i + j) = Inr (accs ! j)"
  shows "write_from R i (length accs) accs ic = (ic, Inr ())"
  using assms
proof (induction accs arbitrary: i)
  case (Cons acc accs)
  have "snapshot_account R ic i = Inr acc" using Cons.prems [of 0] by simp
  from snapshot_accountD [OF this] obtain b where "ic_borrow R ic i = Inr b" "ba_lamports b = sia_lamports acc"
    "ba_data b = sia_data acc" "ba_owner b = sia_owner acc"
    by blast
  then have "write_account R i acc ic = (ic, Inr ())"
    by (simp add: write_account_def set_changed_def)
  moreover have "write_from R (Suc i) (length accs) accs ic = (ic, Inr ())"
    using Cons.prems [of "Suc j" for j] by (intro Cons.IH) simp
  ultimately show ?case by simp
qed simp

text \<open>
  Writing an unmodified copy back calls no setter: it succeeds and leaves the invoke context as it
  is, so a handler that only reads never trips a write guard, whatever the runtime's guards are.
\<close>

theorem write_back_unmodified:
  assumes "from_invoke_context R ic = Inr ctx"
  shows "write_back R ctx ic = (ic, Inr ())"
proof -
  have cur: "\<exists>u. ic_current R ic = Inr u"
    and col: "collect_results (map (snapshot_account R ic) [0..<ic_count R ic]) = Inr (sic_accounts ctx)"
    using assms by (auto simp: from_invoke_context_def and_then_def map_ok_def split: sum.splits)
  from collect_results_nth [OF col] have "length (sic_accounts ctx) = ic_count R ic"
    and "\<And>j. j < length (sic_accounts ctx) \<Longrightarrow> snapshot_account R ic (0 + j) = Inr (sic_accounts ctx ! j)"
    by simp_all
  then show ?thesis using cur write_unchanged [of "sic_accounts ctx" R ic 0] by (auto simp: write_back_def)
qed

section \<open>Modified copies\<close>

text \<open>
  What the runtime documents of its accounts: an instruction account is a reference into the
  accounts of the transaction, a setter that succeeds changes that field of that account, and
  nothing about the instruction itself.
\<close>

record tx_account =
  txa_lamports :: u64
  txa_data :: bytes
  txa_owner :: address

definition store_law :: "'ic ictx_ext \<Rightarrow> ('ic \<Rightarrow> u16 \<Rightarrow> tx_account) \<Rightarrow> bool" where
  "store_law R at \<longleftrightarrow>
     (\<forall>ic i b j. ic_borrow R ic i = Inr b \<and> ic_index R ic i = Inr j \<longrightarrow>
        ba_lamports b = txa_lamports (at ic j) \<and> ba_data b = txa_data (at ic j) \<and>
        ba_owner b = txa_owner (at ic j)) \<and>
     (\<forall>ic i x ic' j. ic_set_lamports R i x ic = Inr ic' \<and> ic_index R ic i = Inr j \<longrightarrow>
        at ic' = (at ic)(j := (at ic j)\<lparr>txa_lamports := x\<rparr>) \<and> ic_index R ic' = ic_index R ic) \<and>
     (\<forall>ic i x ic' j. ic_set_data R i x ic = Inr ic' \<and> ic_index R ic i = Inr j \<longrightarrow>
        at ic' = (at ic)(j := (at ic j)\<lparr>txa_data := x\<rparr>) \<and> ic_index R ic' = ic_index R ic) \<and>
     (\<forall>ic i x ic' j. ic_set_owner R i x ic = Inr ic' \<and> ic_index R ic i = Inr j \<longrightarrow>
        at ic' = (at ic)(j := (at ic j)\<lparr>txa_owner := x\<rparr>) \<and> ic_index R ic' = ic_index R ic)"

definition working_copy :: "svm_instruction_account \<Rightarrow> tx_account" where
  "working_copy acc =
     \<lparr>txa_lamports = sia_lamports acc, txa_data = sia_data acc, txa_owner = sia_owner acc\<rparr>"

lemma store_set_changed:
  assumes "set_changed (x \<noteq> y) setter ic = (ic', Inr ())" and "ic_index R ic i = Inr j"
    and "x = sel (at ic j)" and "upd (\<lambda>_. sel (at ic j)) (at ic j) = at ic j"
    and "\<And>ic''. setter ic = Inr ic'' \<Longrightarrow>
      at ic'' = (at ic)(j := upd (\<lambda>_. y) (at ic j)) \<and> ic_index R ic'' = ic_index R ic"
  shows "at ic' = (at ic)(j := upd (\<lambda>_. y) (at ic j)) \<and> ic_index R ic' = ic_index R ic"
proof (cases "x = y")
  case True
  then have "upd (\<lambda>_. y) (at ic j) = at ic j" using assms(3,4) by simp
  then show ?thesis using True assms(1) by (simp add: set_changed_def)
next
  case False
  then show ?thesis using assms(1,5) by (auto simp: set_changed_def split: sum.splits)
qed

lemma write_account_stores:
  assumes "store_law R at" and "ic_index R ic i = Inr j" and "write_account R i acc ic = (ic', Inr ())"
  shows "at ic' = (at ic)(j := working_copy acc) \<and> ic_index R ic' = ic_index R ic"
proof -
  note law = assms(1) [unfolded store_law_def]
  obtain b where b: "ic_borrow R ic i = Inr b" using assms(3) by (auto simp: write_account_def split: sum.splits)
  have read: "ba_lamports b = txa_lamports (at ic j)" "ba_data b = txa_data (at ic j)"
    "ba_owner b = txa_owner (at ic j)"
    using law [THEN conjunct1] assms(2) b by blast+
  obtain ic1 ic2 where
    1: "set_changed (ba_lamports b \<noteq> sia_lamports acc) (ic_set_lamports R i (sia_lamports acc)) ic = (ic1, Inr ())"
    and 2: "set_changed (ba_data b \<noteq> sia_data acc) (ic_set_data R i (sia_data acc)) ic1 = (ic2, Inr ())"
    and 3: "set_changed (ba_owner b \<noteq> sia_owner acc) (ic_set_owner R i (sia_owner acc)) ic2 = (ic', Inr ())"
    using assms(3) b by (auto simp: write_account_def then_set_def split: prod.splits sum.splits)
  have l1: "at ic1 = (at ic)(j := txa_lamports_update (\<lambda>_. sia_lamports acc) (at ic j)) \<and> ic_index R ic1 = ic_index R ic"
    by (rule store_set_changed [where sel = txa_lamports and upd = txa_lamports_update and at = at, OF 1 assms(2) read(1)])
      (simp, use law assms(2) in blast)
  have 12: "ic_index R ic1 i = Inr j" "ba_data b = txa_data (at ic1 j)" "ba_owner b = txa_owner (at ic1 j)"
    using l1 assms(2) read by simp_all
  have l2: "at ic2 = (at ic1)(j := txa_data_update (\<lambda>_. sia_data acc) (at ic1 j)) \<and> ic_index R ic2 = ic_index R ic1"
    by (rule store_set_changed [where sel = txa_data and upd = txa_data_update and at = at, OF 2 12(1,2)]) (simp, use law 12(1) in blast)
  have 22: "ic_index R ic2 i = Inr j" "ba_owner b = txa_owner (at ic2 j)" using l2 12 by simp_all
  have l3: "at ic' = (at ic2)(j := txa_owner_update (\<lambda>_. sia_owner acc) (at ic2 j)) \<and> ic_index R ic' = ic_index R ic2"
    by (rule store_set_changed [where sel = txa_owner and upd = txa_owner_update and at = at, OF 3 22]) (simp, use law 22(1) in blast)
  moreover have "txa_owner_update (\<lambda>_. sia_owner acc) (txa_data_update (\<lambda>_. sia_data acc)
      (txa_lamports_update (\<lambda>_. sia_lamports acc) (at ic j))) = working_copy acc"
    by (cases "at ic j") (simp add: working_copy_def)
  ultimately show ?thesis using l1 l2 by simp
qed

lemma write_from_stores:
  assumes "store_law R at" and "\<forall>k < length accs. ic_index R ic (i + k) = Inr (js ! k)"
    and "length js = length accs" and "write_from R i (length accs) accs ic = (ic', Inr ())"
  shows "at ic' = foldl (\<lambda>f (j, acc). f(j := working_copy acc)) (at ic) (zip js accs)"
  using assms(2-4)
proof (induction accs arbitrary: i js ic)
  case (Cons acc accs)
  obtain j js' where js: "js = j # js'" using Cons.prems(2) by (cases js) auto
  obtain ic1 where 1: "write_account R i acc ic = (ic1, Inr ())"
    and rest: "write_from R (Suc i) (length accs) accs ic1 = (ic', Inr ())"
    using Cons.prems(3) by (auto simp: then_set_def split: prod.splits sum.splits)
  have "ic_index R ic i = Inr j" using Cons.prems(1) by (auto simp: js dest: spec [of _ 0])
  note w = write_account_stores [OF assms(1) this 1]
  have "\<forall>k < length accs. ic_index R ic1 (Suc i + k) = Inr (js' ! k)"
    using Cons.prems(1) w by (auto simp: js dest: spec [of _ "Suc k" for k])
  from Cons.IH [OF this _ rest] Cons.prems(2) show ?case using w by (simp add: js)
qed simp

lemma foldl_last_write:
  "foldl (\<lambda>f (j, acc). f(j := g acc)) f0 (map (\<lambda>acc. (idx acc, acc)) accs) j =
     (let copies = filter (\<lambda>acc. idx acc = j) accs in if copies = [] then f0 j else g (last copies))"
  by (induction accs rule: rev_induct) (auto simp: Let_def)

lemma write_back_stores:
  assumes "store_law R at" and "from_invoke_context R ic = Inr ctx0"
    and "map sia_index_in_transaction (sic_accounts ctx) = map sia_index_in_transaction (sic_accounts ctx0)"
    and "write_back R ctx ic = (ic', Inr ())"
  shows "at ic' = foldl (\<lambda>f (j, acc). f(j := working_copy acc)) (at ic)
     (map (\<lambda>acc. (sia_index_in_transaction acc, acc)) (sic_accounts ctx))"
proof -
  let ?js = "map sia_index_in_transaction (sic_accounts ctx)"
  have len: "length (sic_accounts ctx) = length (sic_accounts ctx0)" using assms(3) map_eq_imp_length_eq by blast
  have col: "collect_results (map (snapshot_account R ic) [0..<ic_count R ic]) = Inr (sic_accounts ctx0)"
    using assms(2) by (auto simp: from_invoke_context_def and_then_def map_ok_def split: sum.splits)
  note snap = collect_results_nth [OF col]
  have idx: "\<forall>k < length (sic_accounts ctx). ic_index R ic (0 + k) = Inr (?js ! k)"
  proof (intro allI impI)
    fix k assume k: "k < length (sic_accounts ctx)"
    then have "snapshot_account R ic k = Inr (sic_accounts ctx0 ! k)" using snap len by simp
    from snapshot_accountD [OF this]
    have "ic_index R ic k = Inr (sia_index_in_transaction (sic_accounts ctx0 ! k))" by simp
    moreover have "sia_index_in_transaction (sic_accounts ctx0 ! k) = ?js ! k" using k len assms(3) by simp
    ultimately show "ic_index R ic (0 + k) = Inr (?js ! k)" by simp
  qed
  have "write_from R 0 (length (sic_accounts ctx)) (sic_accounts ctx) ic = (ic', Inr ())"
    using assms(4) snap len by (auto simp: write_back_def split: sum.splits)
  from write_from_stores [OF assms(1) idx _ this]
  have "at ic' = foldl (\<lambda>f (j, acc). f(j := working_copy acc)) (at ic) (zip ?js (sic_accounts ctx))" by simp
  also have "zip ?js (sic_accounts ctx) =
      map (\<lambda>acc. (sia_index_in_transaction acc, acc)) (sic_accounts ctx)"
    by (simp add: zip_map1 zip_same_conv_map)
  finally show ?thesis .
qed

text \<open>
  C27. What a handler leaves in its copies is what the transaction sees, field by field: after a
  successful write-back every account of the instruction has the lamports, data and owner of its
  copy, of the last one when the instruction lists the account more than once, and every other
  account of the transaction is untouched. A change made to an earlier copy only is lost.
\<close>

theorem write_back_exact:
  assumes "store_law R at" and "from_invoke_context R ic = Inr ctx0"
    and "map sia_index_in_transaction (sic_accounts ctx) = map sia_index_in_transaction (sic_accounts ctx0)"
    and "write_back R ctx ic = (ic', Inr ())"
  shows "at ic' j =
     (let copies = filter (\<lambda>acc. sia_index_in_transaction acc = j) (sic_accounts ctx)
      in if copies = [] then at ic j else working_copy (last copies))"
  unfolding write_back_stores [OF assms] by (rule foldl_last_write)

section \<open>A concrete invoke context\<close>

text \<open>Accounts of a transaction and the indices an instruction refers to; every setter succeeds.\<close>

definition ex_ictx :: "(u16 list \<times> (u16 \<Rightarrow> tx_account)) ictx_ext" where
  "ex_ictx =
     \<lparr>ic_current = (\<lambda>_. Inr ()), ic_program_key = (\<lambda>_. Inr (Pubkey 9)),
      ic_instruction_data = (\<lambda>_. []), ic_count = (\<lambda>ic. length (fst ic)),
      ic_borrow = (\<lambda>ic i. if i < length (fst ic)
        then (let a = snd ic (fst ic ! i)
              in Inr \<lparr>ba_is_signer = True, ba_is_writable = True, ba_lamports = txa_lamports a,
                      ba_data = txa_data a, ba_owner = txa_owner a\<rparr>)
        else Inl MissingAccount),
      ic_key = (\<lambda>ic i. Inr (Pubkey (unat (fst ic ! i)))),
      ic_index = (\<lambda>ic i. if i < length (fst ic) then Inr (fst ic ! i) else Inl MissingAccount),
      ic_set_lamports = (\<lambda>i x ic. let j = fst ic ! i
        in Inr (fst ic, (snd ic)(j := (snd ic j)\<lparr>txa_lamports := x\<rparr>))),
      ic_set_data = (\<lambda>i x ic. let j = fst ic ! i
        in Inr (fst ic, (snd ic)(j := (snd ic j)\<lparr>txa_data := x\<rparr>))),
      ic_set_owner = (\<lambda>i x ic. let j = fst ic ! i
        in Inr (fst ic, (snd ic)(j := (snd ic j)\<lparr>txa_owner := x\<rparr>)))\<rparr>"

lemma ex_ictx_law: "store_law ex_ictx snd"
  by (auto simp: store_law_def ex_ictx_def Let_def split: if_splits)

definition ex_ic :: "u16 list \<times> (u16 \<Rightarrow> tx_account)" where
  "ex_ic = ([3, 3], \<lambda>_. \<lparr>txa_lamports = 5, txa_data = [], txa_owner = SystemProgram\<rparr>)"

definition ex_copy :: "u64 \<Rightarrow> svm_instruction_account" where
  "ex_copy n =
     \<lparr>sia_key = Pubkey 3, sia_is_signer = True, sia_is_writable = True, sia_lamports = n,
      sia_data = [], sia_owner = SystemProgram, sia_index_in_transaction = 3\<rparr>"

definition ex_ctx :: "u64 \<Rightarrow> svm_instruction_ctx" where
  "ex_ctx n = \<lparr>sic_program_id = Pubkey 9, sic_accounts = [ex_copy n, ex_copy 5], sic_data = []\<rparr>"

text \<open>An account listed twice: the stale second copy takes the handler's change back.\<close>

theorem write_back_exact_witness:
  "\<exists>ic'. from_invoke_context ex_ictx ex_ic = Inr (ex_ctx 5) \<and>
     write_back ex_ictx (ex_ctx 9) ex_ic = (ic', Inr ()) \<and> txa_lamports (snd ic' 3) = 5"
proof -
  have 0: "from_invoke_context ex_ictx ex_ic = Inr (ex_ctx 5)"
    by (simp add: from_invoke_context_def snapshot_account_def ex_ictx_def ex_ic_def ex_ctx_def
        ex_copy_def upt_rec)
  have "(5 :: u64) \<noteq> 9" "(9 :: u64) \<noteq> 5" by simp_all
  then obtain ic' where w: "write_back ex_ictx (ex_ctx 9) ex_ic = (ic', Inr ())"
    by (simp add: write_back_def write_account_def set_changed_def ex_ictx_def ex_ic_def ex_ctx_def
        ex_copy_def numeral_2_eq_2 Let_def)
  have "snd ic' 3 = working_copy (ex_copy 5)"
    using write_back_exact [OF ex_ictx_law 0 _ w, of 3] by (simp add: ex_ctx_def ex_copy_def)
  then show ?thesis using 0 w by (simp add: working_copy_def ex_copy_def)
qed

end
