(* ===== verification/Svm_Macro.thy ===== *)
theory Svm_Macro
  imports Instr_Ctx
begin

text \<open>
  The attribute macro \<open>svm_instruction\<close> (\<open>hpsvm-macros/src/lib.rs\<close>): the checks of its arguments and
  of the decorated function on the syntax tree that the parsing crate produces, the expansion, and
  what the generated entrypoint does. Identifiers are ASCII; the base-58 decoder and the number and
  identifier parsers of other crates are arguments. A compile error is a value.
\<close>

section \<open>Syntax trees\<close>

datatype syn_type =
    TypePath "path_segment list"
  | TypeReference bool syn_type
  | TypeTuple "syn_type list"
  | OtherType
and path_segment = Segment (seg_ident: string) (seg_arguments: path_arguments)
and path_arguments = NoArguments | AngleBracketed "generic_argument list" | Parenthesized
and generic_argument = ArgumentType syn_type | OtherArgument

datatype fn_arg = Receiver | Typed syn_type

datatype return_type = DefaultReturn | ReturnType syn_type

record item_fn =
  fn_ident :: string
  fn_async :: bool
  fn_unsafe :: bool
  fn_generic :: bool
  fn_where :: bool
  fn_abi :: bool
  fn_variadic :: bool
  fn_inputs :: "fn_arg list"
  fn_output :: return_type

text \<open>An argument of the attribute; a path of more than one segment is no identifier.\<close>

datatype meta_value = StrLit string | IntLit string | OtherLit | OtherExpr

datatype meta_item = NameValue "string option" meta_value | OtherMeta

datatype macro_error =
    ExpectedPairs | DuplicateProgramId | ProgramIdNotString | InvalidProgramId string
  | DuplicateComputeUnits | ComputeUnitsNotInteger | InvalidComputeUnits string
  | UnknownArgument | MissingProgramId | MissingComputeUnits
  | NotAFunction | AsyncHandler | UnsafeHandler | GenericHandler | ForeignAbi | VariadicHandler
  | ArgumentCount | TakesReceiver | ContextByValue | ContextShared | WrongContext
  | WrongReturn | UnusableReturn | InternalDecode | InvalidTypeName string

section \<open>Arguments\<close>

record macro_args =
  arg_program_id :: string
  arg_compute_units :: u64

definition decode_program_id :: "(string \<Rightarrow> string + bytes) \<Rightarrow> string \<Rightarrow> string + bytes" where
  "decode_program_id b58_decode s =
     and_then (map_err ((@) ''`program_id` is not valid base58: '') (b58_decode s)) (\<lambda>bs.
       if length bs \<noteq> 32
       then Inl (''`program_id` must decode to 32 bytes, decoded to '' @ show_nat (length bs) @ '' bytes'')
       else Inr bs)"

fun parse_metas ::
    "(string \<Rightarrow> string + bytes) \<Rightarrow> (string \<Rightarrow> string + u64) \<Rightarrow> meta_item list
      \<Rightarrow> string option \<Rightarrow> u64 option \<Rightarrow> macro_error + string option \<times> u64 option" where
  "parse_metas D P [] program_id compute_units = Inr (program_id, compute_units)"
| "parse_metas D P (OtherMeta # ms) program_id compute_units = Inl ExpectedPairs"
| "parse_metas D P (NameValue key val # ms) program_id compute_units =
     (if key = Some ''program_id'' then
        if program_id \<noteq> None then Inl DuplicateProgramId
        else (case val of
          StrLit s \<Rightarrow>
            (case decode_program_id D s of
               Inl reason \<Rightarrow> Inl (InvalidProgramId reason)
             | Inr _ \<Rightarrow> parse_metas D P ms (Some s) compute_units)
        | _ \<Rightarrow> Inl ProgramIdNotString)
      else if key = Some ''compute_units'' then
        if compute_units \<noteq> None then Inl DuplicateComputeUnits
        else (case val of
          IntLit digits \<Rightarrow>
            (case P digits of
               Inl reason \<Rightarrow> Inl (InvalidComputeUnits reason)
             | Inr n \<Rightarrow> parse_metas D P ms program_id (Some n))
        | _ \<Rightarrow> Inl ComputeUnitsNotInteger)
      else Inl UnknownArgument)"

definition parse_macro_args ::
    "(string \<Rightarrow> string + bytes) \<Rightarrow> (string \<Rightarrow> string + u64) \<Rightarrow> meta_item list \<Rightarrow> macro_error + macro_args" where
  "parse_macro_args D P ms =
     and_then (parse_metas D P ms None None) (\<lambda>(program_id, compute_units).
     and_then (ok_or MissingProgramId program_id) (\<lambda>pid.
     and_then (ok_or MissingComputeUnits compute_units) (\<lambda>units.
       Inr \<lparr>arg_program_id = pid, arg_compute_units = units\<rparr>)))"

section \<open>The decorated function\<close>

fun last_segment :: "syn_type \<Rightarrow> string option" where
  "last_segment (TypePath segs) = (if segs = [] then None else Some (seg_ident (last segs)))"
| "last_segment _ = None"

fun is_hpsvm_instruction_ctx :: "syn_type \<Rightarrow> bool" where
  "is_hpsvm_instruction_ctx (TypePath segs) =
     (case map seg_ident segs of
        [] \<Rightarrow> False
      | [one] \<Rightarrow> one = ''SvmInstructionCtx''
      | root # rest \<Rightarrow> root = ''hpsvm'' \<and> last rest = ''SvmInstructionCtx'')"
| "is_hpsvm_instruction_ctx _ = False"

definition check_context :: "fn_arg \<Rightarrow> macro_error + unit" where
  "check_context arg =
     (case arg of
        Receiver \<Rightarrow> Inl TakesReceiver
      | Typed (TypeReference mutable elem) \<Rightarrow>
          if \<not> mutable then Inl ContextShared
          else if \<not> is_hpsvm_instruction_ctx elem then Inl WrongContext else Inr ()
      | Typed _ \<Rightarrow> Inl ContextByValue)"

definition check_result_arguments :: "generic_argument list \<Rightarrow> bool" where
  "check_result_arguments args =
     (case args of
        [ArgumentType (TypeTuple []), ArgumentType err] \<Rightarrow> last_segment err = Some ''InstructionError''
      | _ \<Rightarrow> False)"

definition check_output :: "return_type \<Rightarrow> macro_error + unit" where
  "check_output ret =
     (case ret of
        ReturnType (TypePath segs) \<Rightarrow>
          if segs = [] then Inl UnusableReturn
          else if seg_ident (last segs) \<noteq> ''Result'' then Inl WrongReturn
          else (case seg_arguments (last segs) of
                  AngleBracketed args \<Rightarrow> if check_result_arguments args then Inr () else Inl WrongReturn
                | _ \<Rightarrow> Inl WrongReturn)
      | _ \<Rightarrow> Inl WrongReturn)"

definition check_handler_shape :: "item_fn \<Rightarrow> macro_error + unit" where
  "check_handler_shape f =
     (if fn_async f then Inl AsyncHandler
      else if fn_unsafe f then Inl UnsafeHandler
      else if fn_generic f \<or> fn_where f then Inl GenericHandler
      else if fn_abi f then Inl ForeignAbi
      else if fn_variadic f then Inl VariadicHandler
      else (case fn_inputs f of
              [arg] \<Rightarrow> and_then (check_context arg) (\<lambda>_. check_output (fn_output f))
            | _ \<Rightarrow> Inl ArgumentCount))"

section \<open>Names\<close>

fun split_underscores :: "string \<Rightarrow> string \<Rightarrow> string list" where
  "split_underscores part [] = [part]"
| "split_underscores part (c # cs) =
     (if c = CHR ''_'' then part # split_underscores [] cs else split_underscores (part @ [c]) cs)"

definition ascii_upper :: "char \<Rightarrow> char" where
  "ascii_upper c = (let n = of_char c :: nat in if 97 \<le> n \<and> n \<le> 122 then char_of (n - 32) else c)"

definition capitalize :: "string \<Rightarrow> string" where
  "capitalize part = (case part of [] \<Rightarrow> [] | c # cs \<Rightarrow> ascii_upper c # cs)"

definition struct_name_for :: "string \<Rightarrow> string" where
  "struct_name_for name = concat (map capitalize (filter (\<lambda>p. p \<noteq> []) (split_underscores [] name)))"

definition parse_plain_ident :: "(string \<Rightarrow> string + unit) \<Rightarrow> string \<Rightarrow> string + string" where
  "parse_plain_ident parse_ident name =
     (if CHR ''#'' \<in> set name then Inl (name @ '' is a raw identifier'')
      else map_ok (\<lambda>_. name) (parse_ident name))"

section \<open>Expansion\<close>

record expansion =
  exp_struct :: string
  exp_entrypoint :: string
  exp_program_id :: bytes
  exp_compute_units :: u64
  exp_handler :: string

text \<open>The decorated item is absent when it does not parse as a function.\<close>

definition svm_instruction ::
    "(string \<Rightarrow> string + bytes) \<Rightarrow> (string \<Rightarrow> string + u64) \<Rightarrow> (string \<Rightarrow> string + unit)
      \<Rightarrow> meta_item list \<Rightarrow> item_fn option \<Rightarrow> macro_error + expansion" where
  "svm_instruction D P parse_ident attr item =
     and_then (parse_macro_args D P attr) (\<lambda>args.
     and_then (ok_or NotAFunction item) (\<lambda>f.
     and_then (check_handler_shape f) (\<lambda>_.
     and_then (map_err (\<lambda>_. InternalDecode) (decode_program_id D (arg_program_id args))) (\<lambda>bs.
     let struct_name = struct_name_for (fn_ident f)
     in and_then (map_err (\<lambda>_. InvalidTypeName struct_name) (parse_plain_ident parse_ident struct_name)) (\<lambda>name.
       Inr \<lparr>exp_struct = name, exp_entrypoint = struct_name @ ''Entrypoint'', exp_program_id = bs,
            exp_compute_units = arg_compute_units args, exp_handler = fn_ident f\<rparr>)))))"

text \<open>
  The generated entrypoint: charge, copy the accounts out, run the handler, write its copies back.
  Charging belongs to the runtime.
\<close>

datatype 'e entry_error = MeterError 'e | HandlerError instruction_error

definition entrypoint ::
    "'ic ictx_ext \<Rightarrow> (u64 \<Rightarrow> 'ic \<Rightarrow> 'ic \<times> ('e + unit)) \<Rightarrow> u64
      \<Rightarrow> (svm_instruction_ctx \<Rightarrow> instruction_error + svm_instruction_ctx)
      \<Rightarrow> 'ic \<Rightarrow> 'ic \<times> ('e entry_error + u64)" where
  "entrypoint R consume_checked units handler ic =
     (case (if 0 < units then consume_checked units ic else (ic, Inr ())) of
        (ic1, Inl e) \<Rightarrow> (ic1, Inl (MeterError e))
      | (ic1, Inr _) \<Rightarrow>
          (case from_invoke_context R ic1 of
             Inl e \<Rightarrow> (ic1, Inl (HandlerError e))
           | Inr ctx \<Rightarrow>
               (case handler ctx of
                  Inl e \<Rightarrow> (ic1, Inl (HandlerError e))
                | Inr ctx' \<Rightarrow>
                    (case write_back R ctx' ic1 of
                       (ic2, Inl e) \<Rightarrow> (ic2, Inl (HandlerError e))
                     | (ic2, Inr _) \<Rightarrow> (ic2, Inr 0)))))"

section \<open>What is accepted\<close>

lemma parse_metas_both:
  assumes "program_id \<noteq> None" and "compute_units \<noteq> None"
  shows "parse_metas D P ms program_id compute_units = Inr r \<longleftrightarrow> ms = [] \<and> r = (program_id, compute_units)"
  using assms by (cases "(D, P, ms, program_id, compute_units)" rule: parse_metas.cases) auto

lemma parse_metas_units:
  "parse_metas D P ms (Some p) None = Inr (program_id, Some n) \<longleftrightarrow>
     program_id = Some p \<and>
     (\<exists>digits. ms = [NameValue (Some ''compute_units'') (IntLit digits)] \<and> P digits = Inr n)"
  by (cases "(D, P, ms, Some p :: string option, None :: u64 option)" rule: parse_metas.cases)
    (auto simp: parse_metas_both split: meta_value.splits sum.splits)

lemma parse_metas_program:
  "parse_metas D P ms None (Some n) = Inr (Some p, compute_units) \<longleftrightarrow>
     compute_units = Some n \<and>
     (\<exists>bs. ms = [NameValue (Some ''program_id'') (StrLit p)] \<and> decode_program_id D p = Inr bs)"
  by (cases "(D, P, ms, None :: string option, Some n :: u64 option)" rule: parse_metas.cases)
    (auto simp: parse_metas_both split: meta_value.splits sum.splits)

text \<open>
  The attribute is accepted exactly when it gives a program id that decodes to 32 bytes and a
  64-bit number of compute units, each once, in either order, and nothing else.
\<close>

theorem parse_macro_args_exact:
  "parse_macro_args D P ms = Inr args \<longleftrightarrow>
     (\<exists>digits bs. decode_program_id D (arg_program_id args) = Inr bs \<and>
        P digits = Inr (arg_compute_units args) \<and>
        (let pid = NameValue (Some ''program_id'') (StrLit (arg_program_id args));
             cu = NameValue (Some ''compute_units'') (IntLit digits)
         in ms = [pid, cu] \<or> ms = [cu, pid]))"
proof -
  have "parse_macro_args D P ms = Inr args \<longleftrightarrow>
      parse_metas D P ms None None = Inr (Some (arg_program_id args), Some (arg_compute_units args))"
    by (cases args) (auto simp: parse_macro_args_def and_then_def ok_or_def split: sum.splits option.splits)
  also have "\<dots> \<longleftrightarrow> (\<exists>digits bs. decode_program_id D (arg_program_id args) = Inr bs \<and>
        P digits = Inr (arg_compute_units args) \<and>
        (let pid = NameValue (Some ''program_id'') (StrLit (arg_program_id args));
             cu = NameValue (Some ''compute_units'') (IntLit digits)
         in ms = [pid, cu] \<or> ms = [cu, pid]))"
    by (cases "(D, P, ms, None :: string option, None :: u64 option)" rule: parse_metas.cases)
      (auto simp: parse_metas_units parse_metas_program Let_def split: meta_value.splits sum.splits)
  finally show ?thesis .
qed

text \<open>
  A function is accepted exactly when it is a plain function of one mutable context reference
  that returns \<open>Result<(), InstructionError>\<close>, under any path for the two result types.
\<close>

theorem check_handler_shape_exact:
  "check_handler_shape f = Inr () \<longleftrightarrow>
     \<not> (fn_async f \<or> fn_unsafe f \<or> fn_generic f \<or> fn_where f \<or> fn_abi f \<or> fn_variadic f) \<and>
     (\<exists>elem. fn_inputs f = [Typed (TypeReference True elem)] \<and> is_hpsvm_instruction_ctx elem) \<and>
     (\<exists>segs err. fn_output f = ReturnType (TypePath (segs @
          [Segment ''Result'' (AngleBracketed [ArgumentType (TypeTuple []), ArgumentType err])])) \<and>
        last_segment err = Some ''InstructionError'')"
proof -
  have ctx: "check_context arg = Inr () \<longleftrightarrow>
      (\<exists>elem. arg = Typed (TypeReference True elem) \<and> is_hpsvm_instruction_ctx elem)" for arg
    by (auto simp: check_context_def split: fn_arg.splits syn_type.splits)
  have args: "check_result_arguments as \<longleftrightarrow>
      (\<exists>err. as = [ArgumentType (TypeTuple []), ArgumentType err] \<and> last_segment err = Some ''InstructionError'')" for as
    by (auto simp: check_result_arguments_def split: list.splits generic_argument.splits syn_type.splits)
      (metis list.exhaust)+
  have out: "check_output ret = Inr () \<longleftrightarrow>
      (\<exists>segs err. ret = ReturnType (TypePath (segs @
          [Segment ''Result'' (AngleBracketed [ArgumentType (TypeTuple []), ArgumentType err])])) \<and>
        last_segment err = Some ''InstructionError'')" for ret
  proof (cases "\<exists>segs s. ret = ReturnType (TypePath (segs @ [s]))")
    case True
    then obtain segs s where "ret = ReturnType (TypePath (segs @ [s]))" by blast
    then show ?thesis
      by (cases s) (auto simp: check_output_def args split: path_arguments.splits)
  next
    case False
    then show ?thesis
      by (auto simp: check_output_def split: return_type.splits syn_type.splits) (metis rev_exhaust)+
  qed
  have both: "and_then (check_context arg) (\<lambda>_. check_output ret) = Inr () \<longleftrightarrow>
      check_context arg = Inr () \<and> check_output ret = Inr ()" for arg ret
    by (cases "check_context arg") simp_all
  show ?thesis
    by (auto simp: check_handler_shape_def both ctx out split: list.splits)
qed

lemma split_underscores_parts: "CHR ''_'' \<notin> set part \<Longrightarrow> p \<in> set (split_underscores part cs) \<Longrightarrow> CHR ''_'' \<notin> set p"
  by (induction part cs rule: split_underscores.induct) (auto split: if_splits)

text \<open>The name of the generated type has no underscore left.\<close>

lemma struct_name_plain: "CHR ''_'' \<notin> set (struct_name_for name)"
proof -
  have "ascii_upper c \<noteq> CHR ''_''" if "c \<noteq> CHR ''_''" for c
  proof (cases "97 \<le> (of_char c :: nat) \<and> (of_char c :: nat) \<le> 122")
    case True
    then have le: "(of_char c - 32 :: nat) \<le> 90" by linarith
    then have "(of_char c - 32 :: nat) < 256" by linarith
    then have "(of_char c - 32 :: nat) mod 256 = of_char c - 32" by (rule mod_less)
    with le have "(of_char (ascii_upper c) :: nat) \<le> 90" using True by (simp add: ascii_upper_def Let_def)
    then show ?thesis by auto
  next
    case False
    then have "ascii_upper c = c" unfolding ascii_upper_def Let_def by (simp only: if_False)
    then show ?thesis using that by simp
  qed
  then have cap: "CHR ''_'' \<notin> set (capitalize p)" if "CHR ''_'' \<notin> set p" for p
    using that by (cases p) (auto simp: capitalize_def dest: sym)
  have "CHR ''_'' \<notin> set (capitalize p)" if "p \<in> set (split_underscores [] name)" for p
    by (rule cap, rule split_underscores_parts [of "[]"]) (simp, rule that)
  then show ?thesis by (auto simp: struct_name_for_def)
qed

section \<open>What the entrypoint does\<close>

text \<open>
  A builtin generated by the macro is atomic up to its write-back: when it is refused its units or
  its handler fails, no account of the transaction has changed; when it succeeds, every account of
  the instruction is the handler's last copy of it.
\<close>

theorem entrypoint_effect:
  assumes law: "store_law R at" and meter: "\<And>ic ic' r. consume_checked units ic = (ic', r) \<Longrightarrow> at ic' = at ic"
    and keeps: "\<And>ctx ctx'. handler ctx = Inr ctx' \<Longrightarrow>
      map sia_index_in_transaction (sic_accounts ctx') = map sia_index_in_transaction (sic_accounts ctx)"
    and run: "entrypoint R consume_checked units handler ic = (ic', r)"
  shows "(\<exists>n ctx ctx' ic1. r = Inr n \<and> from_invoke_context R ic1 = Inr ctx \<and> handler ctx = Inr ctx' \<and>
       (\<forall>j. at ic' j =
          (let copies = filter (\<lambda>acc. sia_index_in_transaction acc = j) (sic_accounts ctx')
           in if copies = [] then at ic j else working_copy (last copies)))) \<or>
     (\<exists>e. r = Inl (MeterError e) \<and> at ic' = at ic) \<or>
     (\<exists>e. r = Inl (HandlerError e) \<and>
        (at ic' = at ic \<or> (\<exists>ctx' ic1. write_back R ctx' ic1 = (ic', Inl e))))"
proof -
  obtain ic1 r1 where c: "(if 0 < units then consume_checked units ic else (ic, Inr ())) = (ic1, r1)"
    by (cases "if 0 < units then consume_checked units ic else (ic, Inr ())")
  have at1: "at ic1 = at ic" using c meter by (auto split: if_splits)
  show ?thesis
  proof (cases "\<exists>ctx ctx'. r1 = Inr () \<and> from_invoke_context R ic1 = Inr ctx \<and> handler ctx = Inr ctx'")
    case True
    then obtain ctx ctx' where ok: "r1 = Inr ()" "from_invoke_context R ic1 = Inr ctx" "handler ctx = Inr ctx'"
      by blast
    obtain r2 where w: "write_back R ctx' ic1 = (ic', r2)" and r: "r = (case r2 of Inl e \<Rightarrow> Inl (HandlerError e) | Inr _ \<Rightarrow> Inr 0)"
      using run by (auto simp: entrypoint_def c ok split: prod.splits sum.splits)
    show ?thesis
    proof (cases r2)
      case (Inl e)
      then show ?thesis using w r by auto
    next
      case (Inr u)
      then have "write_back R ctx' ic1 = (ic', Inr ())" using w by simp
      note written = write_back_stores [OF law ok(2) keeps [OF ok(3)] this]
      show ?thesis using ok Inr r by (auto simp: written at1 foldl_last_write)
    qed
  next
    case False
    then show ?thesis using run at1 by (auto simp: entrypoint_def c split: sum.splits)
  qed
qed

end
