(* ===== verification/Inspectors.thy ===== *)
theory Inspectors
  imports Execution_Props
begin

text \<open>
  The reusable inspectors (\<open>hpsvm-inspectors/src/lib.rs\<close>) as observers of executions. The VM
  consults an observer once per execution with its origin and fires the hooks of the execution
  if the observer accepts; the shared log or counter a test keeps is the observer's state.
\<close>

section \<open>Observers\<close>

record 's observer =
  consult :: "transaction_origin \<Rightarrow> 's \<Rightarrow> 's \<times> bool"
  hook :: "hook_event \<Rightarrow> 's \<Rightarrow> 's"

text \<open>The default of the trait: user traffic only, and no state.\<close>

definition consult_default :: "transaction_origin \<Rightarrow> 's \<Rightarrow> 's \<times> bool" where
  "consult_default org s = (s, origin_is_user org)"

definition noop_inspector :: "unit observer" where
  "noop_inspector = \<lparr>consult = consult_default, hook = (\<lambda>ev s. s)\<rparr>"

definition record_event :: "(address \<Rightarrow> string) \<Rightarrow> hook_event \<Rightarrow> string list" where
  "record_event show_key ev =
     (case ev of
        TransactionStart \<Rightarrow> [''start'']
      | InstructionStart i k \<Rightarrow> [''instruction_start '' @ show_nat i @ '' '' @ show_key k]
      | InstructionEnd i k \<Rightarrow> [''instruction_end '' @ show_nat i @ '' '' @ show_key k]
      | TransactionEnd r \<Rightarrow> [''end '' @ (case r of Inr _ \<Rightarrow> ''true'' | Inl e \<Rightarrow> ''false'')]
      | _ \<Rightarrow> [])"

definition recording_inspector :: "(address \<Rightarrow> string) \<Rightarrow> string list observer" where
  "recording_inspector show_key =
     \<lparr>consult = consult_default, hook = (\<lambda>ev events. events @ record_event show_key ev)\<rparr>"

definition origin_recording_inspector :: "transaction_origin list observer" where
  "origin_recording_inspector =
     \<lparr>consult = (\<lambda>org log. (log @ [org], True)), hook = (\<lambda>ev log. log)\<rparr>"

text \<open>\<open>fetch_add\<close> wraps at the width of the counter.\<close>

definition counting_inspector :: "u64 observer" where
  "counting_inspector =
     \<lparr>consult = consult_default,
      hook = (\<lambda>ev n. case ev of InstructionStart i k \<Rightarrow> n + 1 | _ \<Rightarrow> n)\<rparr>"

record origin_counts =
  user_instructions :: u64
  internal_airdrops :: u64
  last_origin :: "transaction_origin option"

definition origin_counting_inspector :: "origin_counts observer" where
  "origin_counting_inspector =
     \<lparr>consult = (\<lambda>org c. (c\<lparr>last_origin := Some org\<rparr>,
        case org of User \<Rightarrow> True | InternalAirdropOrigin \<Rightarrow> True | _ \<Rightarrow> False)),
      hook = (\<lambda>ev c. case ev of
        InstructionStart i k \<Rightarrow>
          (case last_origin c of
             Some User \<Rightarrow> c\<lparr>user_instructions := user_instructions c + 1\<rparr>
           | Some InternalAirdropOrigin \<Rightarrow> c\<lparr>internal_airdrops := internal_airdrops c + 1\<rparr>
           | _ \<Rightarrow> c)
      | _ \<Rightarrow> c)\<rparr>"

section \<open>Executions\<close>

type_synonym execution_trace = "transaction_origin \<times> hook_event list"

definition observe_execution :: "'s observer \<Rightarrow> execution_trace \<Rightarrow> 's \<Rightarrow> 's" where
  "observe_execution ob x s =
     (let (s', live) = consult ob (fst x) s in if live then fold (hook ob) (snd x) s' else s')"

definition user_events :: "execution_trace list \<Rightarrow> hook_event list" where
  "user_events xs = concat (map snd (filter (\<lambda>x. origin_is_user (fst x)) xs))"

definition instruction_starts :: "hook_event list \<Rightarrow> nat" where
  "instruction_starts evs = length (filter (\<lambda>ev. case ev of InstructionStart i k \<Rightarrow> True | _ \<Rightarrow> False) evs)"

lemma instruction_starts_simps [simp]:
  "instruction_starts [] = 0"
  "instruction_starts (ev # evs) =
     (case ev of InstructionStart i k \<Rightarrow> 1 | _ \<Rightarrow> 0) + instruction_starts evs"
  "instruction_starts (evs @ evs') = instruction_starts evs + instruction_starts evs'"
  by (simp_all add: instruction_starts_def split: hook_event.split)

text \<open>An observer that keeps the default filter sees the hooks of user executions alone.\<close>

locale user_observer =
  fixes ob :: "'s observer"
  assumes consults: "consult ob org s = (s, origin_is_user org)"
begin

lemma observes_users: "fold (observe_execution ob) xs s = fold (hook ob) (user_events xs) s"
  by (induction xs arbitrary: s) (simp_all add: observe_execution_def user_events_def consults)

end

interpretation noop: user_observer noop_inspector
  by unfold_locales (simp add: noop_inspector_def consult_default_def)

interpretation recording: user_observer "recording_inspector show_key"
  by unfold_locales (simp add: recording_inspector_def consult_default_def)

interpretation counting: user_observer counting_inspector
  by unfold_locales (simp add: counting_inspector_def consult_default_def)

section \<open>What they observe\<close>

lemma recording_hooks:
  "fold (hook (recording_inspector show_key)) evs log = log @ concat (map (record_event show_key) evs)"
  by (induction evs arbitrary: log) (simp_all add: recording_inspector_def)

lemma counting_hooks: "fold (hook counting_inspector) evs n = n + of_nat (instruction_starts evs)"
  by (induction evs arbitrary: n) (simp_all add: counting_inspector_def split: hook_event.split)

text \<open>
  The log of a recorder is exactly what the hooks of the user executions render to, in order.
\<close>

lemma recording_log:
  "fold (observe_execution (recording_inspector show_key)) xs log =
     log @ concat (map (record_event show_key) (user_events xs))"
  by (simp add: recording.observes_users recording_hooks)

lemma consult_recording_origins:
  "consult origin_recording_inspector org log = (log @ [org], True)"
  by (simp add: origin_recording_inspector_def)

lemma consult_counting_origins:
  "consult origin_counting_inspector org c =
     (c\<lparr>last_origin := Some org\<rparr>, case org of Batch i j \<Rightarrow> False | _ \<Rightarrow> True)"
  by (simp add: origin_counting_inspector_def split: transaction_origin.split)

lemma origin_log:
  "fold (observe_execution origin_recording_inspector) xs log = log @ map fst xs"
proof -
  have h: "fold (hook origin_recording_inspector) evs l = l" for evs l
    by (induction evs) (simp_all add: origin_recording_inspector_def)
  show ?thesis
    by (induction xs arbitrary: log) (simp_all add: observe_execution_def h consult_recording_origins)
qed

lemma origin_counting_hooks:
  "fold (hook origin_counting_inspector) evs c =
     (case last_origin c of
        Some User \<Rightarrow> c\<lparr>user_instructions := user_instructions c + of_nat (instruction_starts evs)\<rparr>
      | Some InternalAirdropOrigin \<Rightarrow>
          c\<lparr>internal_airdrops := internal_airdrops c + of_nat (instruction_starts evs)\<rparr>
      | _ \<Rightarrow> c)"
  by (induction evs arbitrary: c)
    (simp_all add: origin_counting_inspector_def split: hook_event.split option.split transaction_origin.split)

definition starts_from :: "(transaction_origin \<Rightarrow> bool) \<Rightarrow> execution_trace list \<Rightarrow> nat" where
  "starts_from P xs = sum_list (map (\<lambda>x. instruction_starts (snd x)) (filter (\<lambda>x. P (fst x)) xs))"

text \<open>
  C37. Attributing instructions to the origin consulted last is exact: after any sequence of
  executions the two counters have advanced by the top-level instructions started in user
  executions and in airdrops, whatever other executions came between, modulo the width of the
  counters, and so has the counter of the plain counting inspector by the former.
\<close>

theorem origin_counts_exact:
  "user_instructions (fold (observe_execution origin_counting_inspector) xs c) =
     user_instructions c + of_nat (starts_from (\<lambda>org. org = User) xs) \<and>
   internal_airdrops (fold (observe_execution origin_counting_inspector) xs c) =
     internal_airdrops c + of_nat (starts_from (\<lambda>org. org = InternalAirdropOrigin) xs) \<and>
   fold (observe_execution counting_inspector) xs n = n + of_nat (starts_from (\<lambda>org. org = User) xs)"
proof -
  have "observe_execution origin_counting_inspector x c =
      (case fst x of
         User \<Rightarrow> c\<lparr>last_origin := Some User, user_instructions := user_instructions c + of_nat (instruction_starts (snd x))\<rparr>
       | InternalAirdropOrigin \<Rightarrow> c\<lparr>last_origin := Some InternalAirdropOrigin,
           internal_airdrops := internal_airdrops c + of_nat (instruction_starts (snd x))\<rparr>
       | _ \<Rightarrow> c\<lparr>last_origin := Some (fst x)\<rparr>)" for x c
    by (cases "fst x") (simp_all add: observe_execution_def origin_counting_hooks consult_counting_origins)
  then have "user_instructions (fold (observe_execution origin_counting_inspector) xs c) =
     user_instructions c + of_nat (starts_from (\<lambda>org. org = User) xs)"
    "internal_airdrops (fold (observe_execution origin_counting_inspector) xs c) =
     internal_airdrops c + of_nat (starts_from (\<lambda>org. org = InternalAirdropOrigin) xs)"
    by (induction xs arbitrary: c) (simp_all add: starts_from_def split: transaction_origin.split)
  moreover have "instruction_starts (user_events xs) = starts_from (\<lambda>org. org = User) xs"
    by (induction xs) (auto simp: user_events_def starts_from_def origin_is_user_def split: transaction_origin.splits)
  ultimately show ?thesis by (simp add: counting.observes_users counting_hooks)
qed

text \<open>An inspector that counts is called once per executed top-level instruction.\<close>

lemma counted_instructions:
  assumes "process_message E DynInspector s stx ixs ic = (ic', units, evs, r)" and "vm_inspector s \<noteq> None"
  shows "instruction_starts evs \<le> length (zip (program_instructions stx) ixs) \<and>
     (r = Inr u \<longrightarrow> instruction_starts evs = length (zip (program_instructions stx) ixs))"
proof -
  have none: "instruction_hooks DynInspector s pis i 0 = []" for pis i by (simp add: instruction_hooks_def)
  have hooks: "instruction_starts (instruction_hooks DynInspector s pis i n) = n"
    if "n \<le> length pis" for pis i n
    using that
  proof (induction pis arbitrary: i n)
    case (Cons p pis)
    then show ?case
      using assms(2) by (cases n) (auto simp: none instruction_hooks_Suc fire_def split: option.splits)
  qed (simp add: none)
  show ?thesis
  proof (cases "snd (prepare_top_level E ic stx)")
    case (Inl e)
    then show ?thesis using assms(1) by (cases "prepare_top_level E ic stx"; cases e) (auto simp: process_message_def)
  next
    case (Inr v)
    then obtain ic1 where "process_instructions E DynInspector s (map ci_data (tx_instructions stx)) 0
        (zip (program_instructions stx) ixs) ic1 0 = (ic', units, evs, r)"
      using assms(1) by (cases "prepare_top_level E ic stx") (auto simp: process_message_def)
    from process_instructions_shape [OF this] hooks show ?thesis by (cases r) auto
  qed
qed

end
