(* ===== verification/Log_Format.thy ===== *)
theory Log_Format
  imports Svm_Prelude "HOL-Library.Sublist"
begin

text \<open>
  The rendering of transaction logs (\<open>format_logs.rs\<close>). A style is what the terminal crate
  paints with; the crate's \<open>paint\<close> is an argument. Log text is ASCII here; none of the searched words has a
  letter that a character outside ASCII lower-cases to.
\<close>

section \<open>Importance\<close>

definition program_log :: string where
  "program_log = ''Program log:''"

datatype importance = Low | High | VeryHigh | ErrorLine

definition ascii_lower :: "char \<Rightarrow> char" where
  "ascii_lower c =
     (let n = of_char c :: nat in if 65 \<le> n \<and> n \<le> 90 then char_of (n + 32) else c)"

definition error_markers :: "string list" where
  "error_markers =
     [''error: '', ''error '', ''err: '', ''err '', ''failure: '', ''failure '', ''failed: '',
      ''failed '', ''fail: '', ''fail '']"

definition get_importance :: "string \<Rightarrow> string \<Rightarrow> importance" where
  "get_importance program_source log_text =
     (let log = map ascii_lower log_text
      in if list_ex (\<lambda>m. sublist m log) error_markers then ErrorLine
         else if sublist ''signer privilege escalated'' log then High
         else if program_source = program_log then VeryHigh
         else Low)"

section \<open>Styles\<close>

datatype colour = Green | Fixed nat

record style =
  bold :: bool
  fg :: colour

primrec style_for :: "importance \<Rightarrow> style" where
  "style_for ErrorLine = \<lparr>bold = True, fg = Fixed 9\<rparr>"
| "style_for VeryHigh = \<lparr>bold = False, fg = Green\<rparr>"
| "style_for High = \<lparr>bold = True, fg = Fixed 243\<rparr>"
| "style_for Low = \<lparr>bold = False, fg = Fixed 239\<rparr>"

section \<open>Lines\<close>

definition is_space :: "char \<Rightarrow> bool" where
  "is_space c \<longleftrightarrow> (of_char c :: nat) \<in> {9, 10, 11, 12, 13, 32}"

definition trim_start :: "string \<Rightarrow> string" where
  "trim_start = dropWhile is_space"

fun split_source :: "string list \<Rightarrow> string \<Rightarrow> string \<times> string" where
  "split_source [] line = ([], line)"
| "split_source (p # ps) line =
     (if prefix p line then (p, trim_start (drop (length p) line)) else split_source ps line)"

definition log_prefixes :: "string list" where
  "log_prefixes = [program_log, ''Program'', ''process_instruction:'', ''solana_runtime:'']"

definition format_line :: "(style \<Rightarrow> string \<Rightarrow> string) \<Rightarrow> string \<Rightarrow> string" where
  "format_line paint line =
     (let (src, log_text) = split_source log_prefixes line;
          log = (if src \<in> {[], program_log} then log_text else src @ '' '' @ log_text)
      in paint (style_for (get_importance src log_text)) log)"

definition format_logs :: "(style \<Rightarrow> string \<Rightarrow> string) \<Rightarrow> string list \<Rightarrow> string" where
  "format_logs paint logs =
     concat (map (\<lambda>line. format_line paint line @ [char_of (10 :: nat)]) (filter (\<lambda>line. line \<noteq> []) logs))"

section \<open>Nothing but white space and the log prefix is lost\<close>

definition visible :: "string \<Rightarrow> string" where
  "visible = filter (\<lambda>c. \<not> is_space c)"

lemma visible_trim: "visible (trim_start s) = visible s"
  by (induction s) (simp_all add: visible_def trim_start_def)

lemma visible_append: "visible (s @ t) = visible s @ visible t"
  by (simp add: visible_def)

lemma visible_split:
  "split_source ps line = (src, rest) \<Longrightarrow> visible src @ visible rest = visible line"
proof (induction ps)
  case (Cons p ps)
  show ?case
  proof (cases "prefix p line")
    case True
    then obtain t where "line = p @ t" by (auto elim: prefixE)
    then show ?thesis using Cons.prems by (auto simp: visible_trim visible_append)
  next
    case False
    then show ?thesis using Cons by simp
  qed
qed (simp add: visible_def)

text \<open>
  The painted text of a line has the visible characters of the line, in order, without the
  prefix that marks a program's own log; only white space changes.
\<close>

lemma format_line_text:
  "\<exists>sty txt'. format_line paint line = paint sty txt' \<and>
     visible txt' = (if prefix program_log line then drop (length (visible program_log)) (visible line)
                     else visible line)"
proof -
  obtain src rest where s: "split_source log_prefixes line = (src, rest)"
    by (cases "split_source log_prefixes line")
  have v: "visible src @ visible rest = visible line" by (rule visible_split [OF s])
  have sp: "visible '' '' = []" by (simp add: visible_def is_space_def)
  show ?thesis
  proof (cases "prefix program_log line")
    case True
    then have "src = program_log" using s by (simp add: log_prefixes_def)
    then have "visible rest = drop (length (visible program_log)) (visible line)" using v by (metis append_eq_conv_conj)
    then show ?thesis using True s \<open>src = program_log\<close> by (auto simp: format_line_def)
  next
    case False
    then have "src \<noteq> program_log"
      using s by (auto simp: log_prefixes_def program_log_def split: if_splits)
    then have "format_line paint line = paint (style_for (get_importance src rest))
        (if src = [] then rest else src @ '' '' @ rest)" using s by (simp add: format_line_def)
    moreover have "visible (if src = [] then rest else src @ '' '' @ rest) = visible line"
      using v by (cases "src = []") (simp_all add: visible_append sp, simp_all add: visible_def is_space_def)
    ultimately show ?thesis using False by (metis (no_types))
  qed
qed

end
