(* ===== verification/Trace_Metrics.thy ===== *)
theory Trace_Metrics
  imports Svm_Base "HOL-Library.Product_Lexorder"
begin

text \<open>
  The per-program metrics of the register tracer (\<open>register_tracing.rs\<close>): recording an invocation
  and the ranked snapshot. The order in which the hash map hands out its values is an argument.
  Trace files and disassembly are output only.
\<close>

section \<open>Metrics\<close>

record program_trace_metrics =
  ptm_program_id :: address
  ptm_invocations :: u64
  ptm_cpi_invocations :: u64
  ptm_total_register_frames :: u64
  ptm_max_register_frames :: u64
  ptm_max_stack_height :: u64
  ptm_total_instruction_accounts :: u64
  ptm_max_instruction_accounts :: u64

definition metrics_new :: "address \<Rightarrow> program_trace_metrics" where
  "metrics_new p =
     \<lparr>ptm_program_id = p, ptm_invocations = 0, ptm_cpi_invocations = 0,
      ptm_total_register_frames = 0, ptm_max_register_frames = 0, ptm_max_stack_height = 0,
      ptm_total_instruction_accounts = 0, ptm_max_instruction_accounts = 0\<rparr>"

type_synonym trace_metrics = "address \<Rightarrow> program_trace_metrics option"

text \<open>An invocation: the program (the lookup may fail), its stack height, accounts and frames.\<close>

record invocation =
  inv_program :: "instruction_error + address"
  inv_stack_height :: u64
  inv_accounts :: u16
  inv_frames :: u64

definition bump :: "invocation \<Rightarrow> program_trace_metrics \<Rightarrow> program_trace_metrics" where
  "bump i m =
     m\<lparr>ptm_invocations := saturating_add (ptm_invocations m) 1,
       ptm_cpi_invocations :=
         (if 1 < inv_stack_height i then saturating_add (ptm_cpi_invocations m) 1
          else ptm_cpi_invocations m),
       ptm_total_register_frames := saturating_add (ptm_total_register_frames m) (inv_frames i),
       ptm_max_register_frames := max (ptm_max_register_frames m) (inv_frames i),
       ptm_max_stack_height := max (ptm_max_stack_height m) (inv_stack_height i),
       ptm_total_instruction_accounts :=
         saturating_add (ptm_total_instruction_accounts m) (ucast (inv_accounts i)),
       ptm_max_instruction_accounts := max (ptm_max_instruction_accounts m) (ucast (inv_accounts i))\<rparr>"

definition record_trace :: "invocation \<Rightarrow> trace_metrics \<Rightarrow> trace_metrics \<times> (instruction_error + unit)" where
  "record_trace i ms =
     (if inv_frames i = 0 then (ms, Inr ())
      else case inv_program i of
        Inl e \<Rightarrow> (ms, Inl e)
      | Inr p \<Rightarrow> (ms(p \<mapsto> bump i (unwrap_or (metrics_new p) (ms p))), Inr ()))"

definition ranks_before :: "program_trace_metrics \<Rightarrow> program_trace_metrics \<Rightarrow> bool" where
  "ranks_before l r =
     (if ptm_total_register_frames l \<noteq> ptm_total_register_frames r
      then ptm_total_register_frames r < ptm_total_register_frames l
      else if ptm_invocations l \<noteq> ptm_invocations r then ptm_invocations r < ptm_invocations l
      else ptm_program_id l \<le> ptm_program_id r)"

definition rank_key :: "program_trace_metrics \<Rightarrow> int \<times> int \<times> address" where
  "rank_key m = (- uint (ptm_total_register_frames m), - uint (ptm_invocations m), ptm_program_id m)"

definition snapshot :: "program_trace_metrics list \<Rightarrow> program_trace_metrics list" where
  "snapshot vals = sort_key rank_key vals"

section \<open>What a snapshot shows\<close>

lemma ranks_before_key: "ranks_before l r \<longleftrightarrow> rank_key l \<le> rank_key r"
  by (auto simp: ranks_before_def rank_key_def less_eq_prod_def word_less_def word_uint_eq_iff)

definition recorded :: "address \<Rightarrow> invocation list \<Rightarrow> invocation list" where
  "recorded p is = filter (\<lambda>i. inv_frames i \<noteq> 0 \<and> inv_program i = Inr p) is"

definition record_invocations :: "invocation list \<Rightarrow> trace_metrics" where
  "record_invocations is = fold (\<lambda>i ms. fst (record_trace i ms)) is Map.empty"

lemma record_invocations_bump:
  "record_invocations is p = (if recorded p is = [] then None else Some (fold bump (recorded p is) (metrics_new p)))"
proof -
  have "fold (\<lambda>i ms. fst (record_trace i ms)) is ms p =
      (if recorded p is = [] then ms p
       else Some (fold bump (recorded p is) (unwrap_or (metrics_new p) (ms p))))" for ms
    by (induction "is" arbitrary: ms)
      (auto simp: recorded_def record_trace_def split: sum.splits)
  then show ?thesis by (simp add: record_invocations_def)
qed

lemma saturating_fold:
  fixes f :: "'i \<Rightarrow> u64"
  shows "unat (fold (\<lambda>i n. saturating_add n (f i)) is n) =
     min (2 ^ 64 - 1) (unat n + sum_list (map (\<lambda>i. unat (f i)) is))"
proof (induction "is" arbitrary: n)
  case Nil
  then show ?case using unsigned_less [of n, where ?'a = nat] by (simp add: min_def)
next
  case (Cons i "is")
  have "unat (saturating_add n (f i)) = min (2 ^ 64 - 1) (unat n + unat (f i))"
    by (simp add: unat_saturating_add)
  then show ?case using Cons.IH [of "saturating_add n (f i)"] by (simp add: min_def)
qed

lemma fold_bump_fields:
  "ptm_program_id (fold bump is m) = ptm_program_id m"
  "ptm_invocations (fold bump is m) = fold (\<lambda>i n. saturating_add n 1) is (ptm_invocations m)"
  "ptm_total_register_frames (fold bump is m) =
     fold (\<lambda>i n. saturating_add n (inv_frames i)) is (ptm_total_register_frames m)"
  "ptm_max_register_frames (fold bump is m) = fold (\<lambda>i n. max n (inv_frames i)) is (ptm_max_register_frames m)"
  by (induction "is" arbitrary: m) (simp_all add: bump_def)

text \<open>
  After any sequence of invocations a program has an entry exactly when one of its invocations had
  frames; its counters are the exact totals, held at the largest 64-bit number instead of wrapping.
\<close>

theorem record_invocations_exact:
  "record_invocations is p = None \<longleftrightarrow> recorded p is = []"
  "record_invocations is p = Some m \<Longrightarrow>
     ptm_program_id m = p \<and>
     unat (ptm_invocations m) = min (2 ^ 64 - 1) (length (recorded p is)) \<and>
     unat (ptm_total_register_frames m) =
       min (2 ^ 64 - 1) (sum_list (map (\<lambda>i. unat (inv_frames i)) (recorded p is)))"
  by (auto simp: record_invocations_bump fold_bump_fields saturating_fold metrics_new_def sum_list_triv
      split: if_splits)

text \<open>
  The snapshot is ranked and does not depend on the order in which the map hands out its values.
\<close>

lemma snapshot_ranked: "sorted_wrt ranks_before (snapshot vals)"
proof -
  have "sorted (map rank_key (snapshot vals))" by (simp add: snapshot_def)
  then have "sorted_wrt (\<lambda>l r. rank_key l \<le> rank_key r) (snapshot vals)" by (simp add: sorted_map)
  then show ?thesis by (simp add: ranks_before_key [abs_def])
qed

theorem snapshot_order_irrelevant:
  assumes "mset vals = mset vals'" and "distinct (map ptm_program_id vals)"
  shows "snapshot vals = snapshot vals'"
proof -
  have "inj_on rank_key (set vals)"
    using assms(2) by (auto simp: inj_on_def rank_key_def distinct_map)
  then show ?thesis unfolding snapshot_def using assms(1)
    by (metis sort_key_eq_sort_key properties_for_sort_key)
qed

end
