(* ===== verification/Spec2Isabelle.thy ===== *)
theory Spec2Isabelle
  imports Fork_Source Example_Batch Tiering Example_Deploy Example_Cli Example_Firedancer Example_Token Svm_Macro Inspectors Log_Format
    Trace_Metrics
begin

text \<open>
  A verification library for hpsvm, an in-process Solana virtual machine: a VM that executes
  transactions against an in-memory account database, with staging, batches, fixtures and a
  command-line tool around it. File names below are relative to \<^verbatim>\<open>src/crates/hpsvm/src\<close> unless a
  crate is named.

  \<^bold>\<open>Conventions.\<close> A struct is a \<open>record\<close>, an enum a \<open>datatype\<close>, a machine integer a word of its
  width, \<open>Result\<close> a sum with \<open>Inl\<close> for the error, and a method with \<open>&mut self\<close> returns the updated
  state. A panic (\<open>expect\<close>, an index out of range) is \<open>None\<close>. Shared handles (\<open>Arc\<close> of the program
  cache, the process-wide program store) are addresses into a heap, the record \<open>world\<close>; a VM value is
  a pair of that heap and its own state, \<open>('pc, 'st, 'c) vm\<close>, so that what a clone shares and what it
  owns is visible in the types. Hooks of an inspector are the list of events a step fires. Code that
  is not part of the repository is a record of functions passed as an argument: \<open>db_ext\<close> (program
  cache, loader, sysvar decoding), \<open>exec_ext\<close> (sanitizing, invoke context, precompiles, fees),
  \<open>lru_ops\<close>, \<open>vm_ext\<close>, \<open>msg_ext\<close>, \<open>tier_ext\<close>, \<open>build_ext\<close>, \<open>fixture_ext\<close>, \<open>text_ext\<close>, \<open>bench_ext\<close>, \<open>cli_ext\<close>,
  \<open>fd_ext\<close>, \<open>token_ext\<close> with \<open>token_ixs\<close>, and \<open>ictx_ext\<close>. What a property relies on of such code is a
  named hypothesis (\<open>db_crates\<close>, \<open>lru\<close>, \<open>codec_law\<close>, \<open>file_law\<close>, \<open>report_codec\<close>, \<open>signing_law\<close>,
  \<open>spl_law\<close>, \<open>store_law\<close>, \<open>address_law\<close>, \<open>feature_law\<close>), and the theories named \<open>Example\<close> instantiate it
  by concrete functions and evaluate the properties there.

  \<^bold>\<open>Foundations.\<close> \<open>Svm_Prelude\<close> has the word types, the combinators on results, checked and saturating
  arithmetic, little-endian and decimal numbers and the shared lemmas. \<open>Svm_Base\<close> has addresses, accounts
  and the account source trait (\<^verbatim>\<open>account_source.rs\<close>) with its batching contract, the locale
  \<open>batched_source\<close>. \<open>Svm_Errors\<close> is \<^verbatim>\<open>error.rs\<close>: all error layers and the conversions between them.
  \<open>Lru_Cache\<close> is the contract of the LRU crate, a locale interpreted on a list model; \<open>Btree\<close> is the
  ordered map of the standard library.

  \<^bold>\<open>Account database\<close> (\<^verbatim>\<open>accounts_db.rs\<close>, \<^verbatim>\<open>fork.rs\<close>). \<open>Accounts_Types\<close> and \<open>Accounts_Db\<close> have the overlay
  with tombstones, the undo journal, the derived program and sysvar caches, program loading, lookup
  tables, prewarming, clones and worker copies. \<open>Accounts_Journal\<close> shows that rolling back restores
  the state of a checkpoint after any sequence of operations (a step relation) and that no address is
  present and tombstoned at once; \<open>Accounts_Props\<close> and \<open>Accounts_Bulk\<close> show what reads see after
  each mutation, which failures leave no trace, that a rebuilt program cache is exactly the programs
  of the overlay, that prewarming is invisible, and that workers are isolated while clones are not.
  \<open>Fork_Source\<close> is the caching source over an RPC client.

  \<^bold>\<open>Rules and history.\<close> \<open>Rent_State\<close> is \<^verbatim>\<open>utils/rent.rs\<close> and the fee payer check of \<^verbatim>\<open>helpers.rs\<close>;
  \<open>Tx_History\<close> is \<^verbatim>\<open>history.rs\<close>; \<open>Precompiles\<close> is \<^verbatim>\<open>precompile_registry.rs\<close> and \<^verbatim>\<open>precompiles.rs\<close>.

  \<^bold>\<open>Programs.\<close> \<open>Entry_Store\<close> is \<^verbatim>\<open>programs/entry_store.rs\<close>. \<open>Tiering\<close> is \<^verbatim>\<open>programs/tiering.rs\<close> and
  \<^verbatim>\<open>programs/tier_stats.rs\<close>: the promotion protocol is an \<open>inductive\<close> step relation whose steps are the
  atomic operations of callers and background jobs. Its theorems hold for every interleaving: the
  number of admitted promotions stays within the pool, and every run without new callers drains.

  \<^bold>\<open>Execution\<close> (\<^verbatim>\<open>execution.rs\<close>, \<^verbatim>\<open>message_processor.rs\<close>, \<^verbatim>\<open>helpers.rs\<close>, \<^verbatim>\<open>types.rs\<close>). \<open>Exec_Types\<close> has the
  results and the extraction of instruction traces, with its termination; \<open>Svm_State\<close> the VM record
  (\<^verbatim>\<open>lib.rs\<close>, \<^verbatim>\<open>version.rs\<close>, \<^verbatim>\<open>inspector.rs\<close>, \<^verbatim>\<open>tx_registry.rs\<close>); \<open>Execution\<close> sanitizing, loading, fee
  charging, message processing and the assembly of results. \<open>Execution_Props\<close> shows that a rejected
  transaction has no effect, that the fee is charged to exactly one account, that only source
  failures are fatal, and how hooks line up with instructions. \<open>Replay_Props\<close> adds replay protection
  and that simulation is invisible.

  \<^bold>\<open>Staging and commit\<close> (\<^verbatim>\<open>executed.rs\<close>, \<^verbatim>\<open>commit.rs\<close>, \<^verbatim>\<open>state_change_set.rs\<close>, \<^verbatim>\<open>state_change_sink.rs\<close>).
  \<open>Staged_Tx\<close> has staging, \<open>commit\<close>, \<open>commit_with\<close>, \<open>discard\<close> and the dispatch of envelopes;
  \<open>Staged_Props\<close> shows that discarding restores the VM, that committing equals applying the delta,
  and that a failing sink or stage leaves no account change.

  \<^bold>\<open>Batches\<close> (\<^verbatim>\<open>batch.rs\<close>). \<open>Tx_Batch\<close> has lock sets, the best-fit planner, stages and workers; how the
  pool distributes a stage over threads is an argument. \<open>Batch_Plan_Props\<close> shows that a plan schedules
  each transaction once and that stages are free of conflicts; \<open>Batch_Run_Props\<close> that a parallel
  stage has one outcome whatever the distribution, and that every transaction is answered.

  \<^bold>\<open>VM operations\<close> (\<^verbatim>\<open>vm.rs\<close>, \<^verbatim>\<open>builder.rs\<close>, \<^verbatim>\<open>runtime_env.rs\<close>, \<^verbatim>\<open>loader.rs\<close>, \<^verbatim>\<open>instruction.rs\<close>, \<^verbatim>\<open>host.rs\<close>).
  \<open>Vm_Config\<close> has the setters, sysvars and slots, feature sets, builtins and programs; \<open>Vm_Run\<close> the
  instruction helpers, the airdrop and deployment; \<open>Vm_Builder\<close> the builder with its typestate and the
  constructors; \<open>Vm_Host\<close> the host boundary. \<open>Vm_Props\<close> and \<open>Deploy_Props\<close> show that scoped changes
  are restored, that a failing reconfiguration restores the VM, that a warp is visible everywhere,
  and that chunked uploads refine one assignment of the whole buffer. \<open>Instr_Ctx\<close> is
  \<^verbatim>\<open>svm_instruction.rs\<close>, with what a handler's write-back does to the accounts of a transaction, and
  \<open>Svm_Macro\<close> the crate \<open>hpsvm-macros\<close>: which attributes and functions it accepts, and the entrypoint
  it generates. \<open>Log_Format\<close> is \<^verbatim>\<open>format_logs.rs\<close> and \<open>Trace_Metrics\<close> the metrics of
  \<^verbatim>\<open>register_tracing.rs\<close>; \<open>Inspectors\<close> is the crate \<open>hpsvm-inspectors\<close>.

  \<^bold>\<open>Token helpers\<close> (\<^verbatim>\<open>token/\<close>). \<open>Token_Ops\<close> has the helpers and the account snapshots, \<open>Token_Builders\<close> all
  instruction builders, \<open>Token_Props\<close> what they sign and that installed snapshots read back.

  \<^bold>\<open>Fixtures\<close> (crates \<open>hpsvm-fixture\<close>, \<open>hpsvm-fixture-bench\<close>, \<open>hpsvm-fixture-firedancer\<close>, the vendored
  \<open>hpsvm-fd-fixture\<close>, and \<open>bin/hpsvm-cli\<close>). \<open>Fixture_Snapshot\<close>, \<open>Fixture_Compare\<close> and \<open>Fixture_Runner\<close>
  are the format, comparing and checking, and recording, storing and replaying; \<open>Fixture_Bench\<close> and
  \<open>Bench_Props\<close> the compute-unit benchmarks; \<open>Fd_Fixture\<close> and \<open>Firedancer\<close> the foreign format and its
  adapter; \<open>Cli\<close> every command of the tool over parsed arguments. The main theorems are round trips:
  what is saved loads back, what \<open>fixture record\<close> writes \<open>fixture run\<close> passes, a written report is a
  readable baseline exactly when its rows have distinct names, and importing a foreign fixture is
  stable under export.

  \<^bold>\<open>Interfaces.\<close> The locales are \<open>lru\<close> (extended by \<open>program_store\<close> and \<open>fork_client\<close>), \<open>db_crates\<close>,
  \<open>batched_source\<close>, \<open>provider\<close>, \<open>first_failure\<close> and \<open>user_observer\<close>. Each is interpreted: on the list
  cache, on the empty source, on the absent and the native precompile table, on comparing and on
  checking, and on the inspectors that keep the default filter; \<open>db_crates\<close> describes other crates
  and is interpreted on the example crates.

  \<^bold>\<open>Bounds and fuel.\<close> Loops of the sources are structural recursion, folds, or recursion with a measure.
  The chunking of a list recurses with its length as fuel, which suffices because every chunk is
  non-empty. At most \<open>2 ^ 32\<close> threads are inside a promotion
  at once, far below the width of its counter. Counters, balances, slots and indices keep
  their width, and the places where the code truncates or saturates are written out.

  \<^bold>\<open>Build.\<close> The features \<open>precompiles\<close>, \<open>token\<close>, \<open>report-io\<close>, \<open>markdown\<close>, \<open>bin-codec\<close>, \<open>json-codec\<close> and
  \<open>instruction-fixture\<close> are on; \<open>token-2022\<close>, \<open>register-tracing\<close> and the foreign fixture format of the
  command-line tool are off.

  \<^bold>\<open>Not modelled.\<close> Messages of errors (\<open>Display\<close>, \<open>Debug\<close>); parsing of command lines and of account files;
  trace files, disassembly and floating-point averages of the register tracer; the callback around
  invocations, which only serves it; the memo in front of the store of default programs, which
  returns what the store returned; the traits that abstract over type families, which have no
  behaviour at run time; helpers of the test suite; and plain getters.
\<close>

end
